(* ===== verification/Evl_Prelude.thy ===== *)
theory Evl_Prelude
  imports Main "HOL-Library.Word"
begin

text \<open>
  Shared vocabulary of the development: the machine types of the riscv64 kernel (LP64), the
  few primitives of the kernel's own library the EVL headers call (linked lists, atomic counters,
  \<open>ktime_t\<close> arithmetic), and the generic lemmas the component theories share.

  \<^item> A C \<open>unsigned\<close> integer that is used as a bit set or that may wrap is a word of its width.
    A signed \<open>int\<close> that only counts or compares is an Isabelle \<open>int\<close>.
  \<^item> A \<open>struct list_head\<close> queue is the HOL list of the elements linked on it, first one first.
  \<^item> \<open>ktime_t\<close> is a signed 64 bit scalar (\<open>evl/timeout.h\<close>): a 64 bit word read with \<open>sint\<close>.
\<close>

unbundle bit_operations_syntax

named_theorems flag_defs "constants that are bit masks"
named_theorems const_defs "numeric constants of the headers"
named_theorems evl_defs "operations unfolded by the component proofs"

type_synonym u8 = "8 word"
type_synonym u16 = "16 word"
type_synonym u32 = "32 word"
type_synonym u64 = "64 word"
type_synonym ktime = "64 word"

text \<open>A pointer to an object the model keeps in a store is the object's address.\<close>

type_synonym ptr = nat

section \<open>Error numbers\<close>

definition ENXIO :: int where [const_defs]: "ENXIO = 6"
definition EAGAIN :: int where [const_defs]: "EAGAIN = 11"
definition ENOMEM :: int where [const_defs]: "ENOMEM = 12"
definition EINVAL :: int where [const_defs]: "EINVAL = 22"
definition EOPNOTSUPP :: int where [const_defs]: "EOPNOTSUPP = 95"

section \<open>Linked lists (linux/list.h)\<close>

text \<open>
  \<open>list_add (new, head)\<close> links right after the head, \<open>list_add_tail\<close> right before it,
  \<open>list_del\<close> unlinks one entry, and \<open>list_first_entry_or_null\<close> reads the first one.
\<close>

definition list_add :: "'a \<Rightarrow> 'a list \<Rightarrow> 'a list" where
  "list_add x xs = x # xs"

definition list_add_tail :: "'a \<Rightarrow> 'a list \<Rightarrow> 'a list" where
  "list_add_tail x xs = xs @ [x]"

definition list_del :: "'a \<Rightarrow> 'a list \<Rightarrow> 'a list" where
  "list_del x xs = remove1 x xs"

definition list_empty :: "'a list \<Rightarrow> bool" where
  "list_empty xs \<longleftrightarrow> xs = []"

fun list_first_entry_or_null :: "'a list \<Rightarrow> 'a option" where
  "list_first_entry_or_null [] = None"
| "list_first_entry_or_null (x # xs) = Some x"

text \<open>The entry linked after \<open>x\<close>; \<open>None\<close> when \<open>x\<close> is the last one (or not on the list).\<close>

fun list_next :: "'a \<Rightarrow> 'a list \<Rightarrow> 'a option" where
  "list_next x [] = None"
| "list_next x (y # ys) = (if x = y then list_first_entry_or_null ys else list_next x ys)"

lemmas list_prims = list_add_def list_add_tail_def list_del_def list_empty_def

lemma list_first_entry_None_iff [simp]: "list_first_entry_or_null xs = None \<longleftrightarrow> xs = []"
  by (cases xs) simp_all

lemma list_first_entry_hd: "xs \<noteq> [] \<Longrightarrow> list_first_entry_or_null xs = Some (hd xs)"
  by (cases xs) simp_all

lemma list_next_nth:
  "distinct xs \<Longrightarrow> Suc i < length xs \<Longrightarrow> list_next (xs ! i) xs = Some (xs ! Suc i)"
proof (induction xs arbitrary: i)
  case Nil
  then show ?case by simp
next
  case (Cons y ys)
  then show ?case
    by (cases i) (auto simp: list_first_entry_hd hd_conv_nth)
qed

lemma list_next_last: "distinct xs \<Longrightarrow> xs \<noteq> [] \<Longrightarrow> list_next (last xs) xs = None"
  by (induction xs) auto

section \<open>Lists ordered by a key, highest first\<close>

definition desc :: "('a \<Rightarrow> int) \<Rightarrow> 'a list \<Rightarrow> bool" where
  "desc k xs \<longleftrightarrow> sorted_wrt (\<lambda>a b. k b \<le> k a) xs"

lemma desc_Nil [simp]: "desc k []"
  by (simp add: desc_def)

lemma desc_Cons [simp]: "desc k (x # xs) \<longleftrightarrow> (\<forall>y \<in> set xs. k y \<le> k x) \<and> desc k xs"
  by (simp add: desc_def)

lemma desc_append [simp]:
  "desc k (xs @ ys) \<longleftrightarrow> desc k xs \<and> desc k ys \<and> (\<forall>x \<in> set xs. \<forall>y \<in> set ys. k y \<le> k x)"
  by (auto simp: desc_def sorted_wrt_append)

lemma desc_remove1: "desc k xs \<Longrightarrow> desc k (remove1 x xs)"
  by (induction xs) (auto dest: notin_set_remove1 intro: set_remove1_subset [THEN subsetD])

lemma desc_hd_max: "desc k xs \<Longrightarrow> y \<in> set xs \<Longrightarrow> k y \<le> k (hd xs)"
  by (cases xs) auto

lemma filter_remove1_neq: "\<not> P x \<Longrightarrow> filter P (remove1 x xs) = filter P xs"
  by (induction xs) auto

section \<open>Single-bit words\<close>

lemma and_not_cancel: "((x :: 'a::len word) AND NOT m) AND m = 0"
  by (auto intro!: bit_word_eqI simp: bit_simps)

lemma or_and_absorb: "((x :: 'a::len word) OR m) AND m = m"
  by (auto intro!: bit_word_eqI simp: bit_simps)

lemma and_exp:
  "(x :: 'a::len word) AND 2 ^ n = (if bit x n then 2 ^ n else 0)"
  by (rule bit_word_eqI) (auto simp: bit_and_iff bit_exp_iff)

lemma exp_neq_0: "n < LENGTH('a) \<Longrightarrow> (2 :: 'a::len word) ^ n \<noteq> 0"
  by simp

lemma single_bit_test:
  assumes "m = (2 :: 'a::len word) ^ n" and "n < LENGTH('a)"
  shows "x AND m \<noteq> 0 \<longleftrightarrow> bit x n" and "x AND m = m \<longleftrightarrow> bit x n" and "x AND m = 0 \<longleftrightarrow> \<not> bit x n"
  using exp_neq_0 [OF assms(2)] by (simp_all only: assms(1) and_exp) auto

end
