(* ===== verification/Evl_List.thy ===== *)
theory Evl_List
  imports Evl_Prelude
begin

text \<open>
  \<open>include/evl/list.h\<close>: ordered insertion into a linked list. The macro \<open>__list_add_pri\<close>
  walks the list backwards and links the new element after the first entry it meets for which
  \<open>new->pri relop pos->pri\<close> holds, or at the head when it meets none. The two
  instances differ by the relation only: \<open>list_add_priff\<close> (FIFO among equals) and
  \<open>list_add_prilf\<close> (LIFO among equals).
\<close>

text \<open>The reverse walk, over the reversed list; the end of it is the list head itself.\<close>

fun add_pri_walk :: "('a \<Rightarrow> 'a \<Rightarrow> bool) \<Rightarrow> 'a \<Rightarrow> 'a list \<Rightarrow> 'a list" where
  "add_pri_walk relop new [] = [new]"
| "add_pri_walk relop new (pos # rest) =
     (if relop new pos then new # pos # rest else pos # add_pri_walk relop new rest)"

definition list_add_pri :: "('a \<Rightarrow> 'a \<Rightarrow> bool) \<Rightarrow> 'a \<Rightarrow> 'a list \<Rightarrow> 'a list" where
  "list_add_pri relop new head =
     (if list_empty head then list_add new head
      else rev (add_pri_walk relop new (rev head)))"

definition list_add_priff :: "('a \<Rightarrow> int) \<Rightarrow> 'a \<Rightarrow> 'a list \<Rightarrow> 'a list" where
  "list_add_priff pri new head = list_add_pri (\<lambda>n p. pri n \<le> pri p) new head"

definition list_add_prilf :: "('a \<Rightarrow> int) \<Rightarrow> 'a \<Rightarrow> 'a list \<Rightarrow> 'a list" where
  "list_add_prilf pri new head = list_add_pri (\<lambda>n p. pri n < pri p) new head"

text \<open>
  \<open>list_get_entry\<close> unlinks and returns the first entry. The macro must not be used on an
  empty list (\<open>list_first_entry\<close> would return the head itself): \<open>None\<close>.
\<close>

fun list_get_entry :: "'a list \<Rightarrow> ('a \<times> 'a list) option" where
  "list_get_entry [] = None"
| "list_get_entry (x # xs) = Some (x, list_del x (x # xs))"

text \<open>
  \<open>list_get_entry_init\<close> does the same with \<open>list_del_init\<close>, which also makes the entry's own
  link an empty list; the list it leaves behind is the same.
\<close>

fun list_get_entry_init :: "'a list \<Rightarrow> ('a \<times> 'a list \<times> 'b list) option" where
  "list_get_entry_init [] = None"
| "list_get_entry_init (x # xs) = Some (x, list_del x (x # xs), [])"

section \<open>The walk as a split of an ordered list\<close>

lemma add_pri_walk_split:
  "add_pri_walk r x ys = takeWhile (\<lambda>p. \<not> r x p) ys @ x # dropWhile (\<lambda>p. \<not> r x p) ys"
  by (induction ys) auto

lemma list_add_pri_split:
  "list_add_pri r x xs =
     rev (dropWhile (\<lambda>p. \<not> r x p) (rev xs)) @ x # rev (takeWhile (\<lambda>p. \<not> r x p) (rev xs))"
  by (auto simp: list_add_pri_def add_pri_walk_split list_prims)

lemma set_list_add_pri [simp]: "set (list_add_pri r x xs) = insert x (set xs)"
proof -
  have "set xs = set (takeWhile (\<lambda>p. \<not> r x p) (rev xs) @ dropWhile (\<lambda>p. \<not> r x p) (rev xs))"
    by simp
  then show ?thesis
    by (auto simp: list_add_pri_split simp del: takeWhile_dropWhile_id)
qed

lemma length_list_add_pri [simp]: "length (list_add_pri r x xs) = Suc (length xs)"
proof -
  have "length xs = length (takeWhile (\<lambda>p. \<not> r x p) (rev xs) @ dropWhile (\<lambda>p. \<not> r x p) (rev xs))"
    by simp
  then show ?thesis
    by (simp add: list_add_pri_split del: takeWhile_dropWhile_id)
qed

lemma add_pri_walk_filter:
  assumes "sorted_wrt (\<lambda>a b. r x a \<longrightarrow> r x b) ys"
  shows "add_pri_walk r x ys = filter (\<lambda>p. \<not> r x p) ys @ x # filter (r x) ys"
  using assms
proof (induction ys)
  case Nil
  then show ?case by simp
next
  case (Cons y ys)
  show ?case
  proof (cases "r x y")
    case True
    with Cons.prems have "\<forall>b \<in> set ys. r x b" by auto
    with True show ?thesis by (auto simp: filter_empty_conv filter_id_conv)
  next
    case False
    with Cons show ?thesis by simp
  qed
qed

lemma list_add_pri_filter:
  assumes "sorted_wrt (\<lambda>a b. r x b \<longrightarrow> r x a) xs"
  shows "list_add_pri r x xs = filter (r x) xs @ x # filter (\<lambda>p. \<not> r x p) xs"
proof -
  have "sorted_wrt (\<lambda>a b. r x a \<longrightarrow> r x b) (rev xs)"
    using assms by (simp add: sorted_wrt_rev)
  then show ?thesis
    by (auto simp: list_add_pri_def add_pri_walk_filter list_prims rev_filter)
qed

text \<open>On a list ordered by decreasing priority both insertions split it at the new priority.\<close>

lemma list_add_priff_desc:
  assumes "desc pri xs"
  shows "list_add_priff pri x xs =
     filter (\<lambda>p. pri x \<le> pri p) xs @ x # filter (\<lambda>p. pri p < pri x) xs"
proof -
  have "sorted_wrt (\<lambda>a b. pri x \<le> pri b \<longrightarrow> pri x \<le> pri a) xs"
    using assms unfolding desc_def by (rule sorted_wrt_mono_rel [rotated]) auto
  then show ?thesis
    by (simp add: list_add_priff_def list_add_pri_filter not_le)
qed

lemma list_add_prilf_desc:
  assumes "desc pri xs"
  shows "list_add_prilf pri x xs =
     filter (\<lambda>p. pri x < pri p) xs @ x # filter (\<lambda>p. pri p \<le> pri x) xs"
proof -
  have "sorted_wrt (\<lambda>a b. pri x < pri b \<longrightarrow> pri x < pri a) xs"
    using assms unfolding desc_def by (rule sorted_wrt_mono_rel [rotated]) auto
  then show ?thesis
    by (simp add: list_add_prilf_def list_add_pri_filter not_less)
qed

lemma desc_filter: "desc k xs \<Longrightarrow> desc k (filter P xs)"
  by (induction xs) auto

lemma set_list_add_priff [simp]: "set (list_add_priff k x xs) = insert x (set xs)"
  by (simp add: list_add_priff_def)

lemma set_list_add_prilf [simp]: "set (list_add_prilf k x xs) = insert x (set xs)"
  by (simp add: list_add_prilf_def)

lemma desc_list_add_priff: "desc pri xs \<Longrightarrow> desc pri (list_add_priff pri x xs)"
  by (auto simp: list_add_priff_desc desc_filter)

lemma desc_list_add_prilf: "desc pri xs \<Longrightarrow> desc pri (list_add_prilf pri x xs)"
  by (auto simp: list_add_prilf_desc desc_filter)

lemma distinct_list_add_pri: "distinct xs \<Longrightarrow> x \<notin> set xs \<Longrightarrow> distinct (list_add_pri r x xs)"
  by (metis card_insert_disjoint card_distinct distinct_card length_list_add_pri
      List.finite_set set_list_add_pri)

lemma distinct_list_add_priff: "distinct xs \<Longrightarrow> x \<notin> set xs \<Longrightarrow> distinct (list_add_priff k x xs)"
  by (simp add: list_add_priff_def distinct_list_add_pri)

lemma distinct_list_add_prilf: "distinct xs \<Longrightarrow> x \<notin> set xs \<Longrightarrow> distinct (list_add_prilf k x xs)"
  by (simp add: list_add_prilf_def distinct_list_add_pri)

text \<open>Order of the elements of one level: last for the FIFO variant, first for the LIFO one.\<close>

lemma filter_level_priff:
  assumes "desc pri xs"
  shows "filter (\<lambda>p. pri p = l) (list_add_priff pri x xs) =
     filter (\<lambda>p. pri p = l) xs @ (if pri x = l then [x] else [])"
proof -
  have *: "filter (\<lambda>p. pri x \<le> pri p \<and> pri p = l) xs @ filter (\<lambda>p. pri p < pri x \<and> pri p = l) xs
      = filter (\<lambda>p. pri p = l) xs"
    by (cases "pri x \<le> l") (auto simp: filter_empty_conv intro!: filter_cong)
  have "pri x = l \<Longrightarrow> filter (\<lambda>p. pri p < pri x \<and> pri p = l) xs = []"
    by (auto simp: filter_empty_conv)
  with * show ?thesis
    by (auto simp: list_add_priff_desc [OF assms])
qed

lemma filter_level_prilf:
  assumes "desc pri xs"
  shows "filter (\<lambda>p. pri p = l) (list_add_prilf pri x xs) =
     (if pri x = l then [x] else []) @ filter (\<lambda>p. pri p = l) xs"
proof -
  have *: "filter (\<lambda>p. pri x < pri p \<and> pri p = l) xs @ filter (\<lambda>p. pri p \<le> pri x \<and> pri p = l) xs
      = filter (\<lambda>p. pri p = l) xs"
    by (cases "pri x < l") (auto simp: filter_empty_conv intro!: filter_cong)
  have "pri x = l \<Longrightarrow> filter (\<lambda>p. pri x < pri p \<and> pri p = l) xs = []"
    by (auto simp: filter_empty_conv)
  with * show ?thesis
    by (auto simp: list_add_prilf_desc [OF assms])
qed

end
