(* ===== verification/Sched_Queue.thy ===== *)
theory Sched_Queue
  imports Evl_List
begin

text \<open>
  \<open>include/evl/sched/queue.h\<close>: the runnable queue of a scheduling class, in the two builds the
  header offers. Without \<open>CONFIG_EVL_SCHED_SCALABLE\<close> it is one list ordered by priority; with
  it, it is a multi-level queue: one list per priority level and a bitmap of the busy levels,
  level 0 being the highest priority. The interface \<open>sched_queue\<close> states what both promise:
  seen as one list, they perform the ordered insertions of \<open>evl/list.h\<close>.

  \<open>MAX_RT_PRIO\<close> belongs to the in-band kernel; it is the parameter \<open>mrp\<close>. An access outside
  the arrays \<open>heads\<close> and \<open>prio_map\<close> is undefined in C: the operations return \<open>None\<close> for it.
\<close>

section \<open>The core priority scale\<close>

definition EVL_CORE_MIN_PRIO :: int where [const_defs]: "EVL_CORE_MIN_PRIO = 0"
definition EVL_CORE_MAX_PRIO :: "int \<Rightarrow> int" where [const_defs]: "EVL_CORE_MAX_PRIO mrp = mrp + 1"
definition EVL_CORE_NR_PRIO :: "int \<Rightarrow> int" where [const_defs]:
  "EVL_CORE_NR_PRIO mrp = EVL_CORE_MAX_PRIO mrp - EVL_CORE_MIN_PRIO + 1"
definition EVL_CLASS_WEIGHT_FACTOR :: int where [const_defs]: "EVL_CLASS_WEIGHT_FACTOR = 1024"
definition EVL_MLQ_LEVELS :: "int \<Rightarrow> int" where [const_defs]: "EVL_MLQ_LEVELS mrp = EVL_CORE_NR_PRIO mrp"

text \<open>The build-time check of the header: the build fails when this is false.\<close>

definition mlq_levels_check :: "int \<Rightarrow> bool" where
  "mlq_levels_check mrp \<longleftrightarrow>
     \<not> (EVL_CORE_NR_PRIO mrp > EVL_CLASS_WEIGHT_FACTOR \<or> EVL_CORE_NR_PRIO mrp > EVL_MLQ_LEVELS mrp)"

section \<open>Multi-level queue (CONFIG_EVL_SCHED_SCALABLE)\<close>

record 'a mlq =
  q_elems :: int
  q_prio_map :: "bool list"
  q_heads :: "'a list list"

text \<open>Bitmap and array accesses: the index must lie inside the array.\<close>

definition in_range :: "int \<Rightarrow> 'b list \<Rightarrow> bool" where
  "in_range i xs \<longleftrightarrow> 0 \<le> i \<and> i < int (length xs)"

fun find_first_bit :: "bool list \<Rightarrow> nat" where
  "find_first_bit [] = 0"
| "find_first_bit (b # bs) = (if b then 0 else Suc (find_first_bit bs))"

definition evl_get_schedq :: "('a mlq \<Rightarrow> 'a option \<times> 'a mlq) \<Rightarrow> 'a mlq \<Rightarrow> 'a option \<times> 'a mlq" where
  "evl_get_schedq get_nonempty q = (if q_elems q = 0 then (None, q) else get_nonempty q)"

definition evl_get_schedq_weight :: "'a mlq \<Rightarrow> nat" where
  "evl_get_schedq_weight q = find_first_bit (q_prio_map q)"

definition get_qindex :: "int \<Rightarrow> int \<Rightarrow> int" where
  "get_qindex mrp prio = EVL_MLQ_LEVELS mrp - prio - 1"

text \<open>\<open>add_q\<close> returns the level whose list the caller links the thread on.\<close>

definition add_q :: "int \<Rightarrow> 'a mlq \<Rightarrow> int \<Rightarrow> (nat \<times> 'a mlq) option" where
  "add_q mrp q prio =
     (let idx = get_qindex mrp prio in
      if \<not> (in_range idx (q_heads q) \<and> in_range idx (q_prio_map q)) then None
      else
        let q1 = q\<lparr>q_elems := q_elems q + 1\<rparr>;
            q2 = (if list_empty (q_heads q1 ! nat idx)
                  then q1\<lparr>q_prio_map := (q_prio_map q1)[nat idx := True]\<rparr> else q1)
        in Some (nat idx, q2))"

definition evl_add_schedq :: "int \<Rightarrow> ('a \<Rightarrow> int) \<Rightarrow> 'a \<Rightarrow> 'a mlq \<Rightarrow> 'a mlq option" where
  "evl_add_schedq mrp cprio thread q =
     map_option (\<lambda>(idx, q'). q'\<lparr>q_heads := (q_heads q')[idx := list_add thread (q_heads q' ! idx)]\<rparr>)
       (add_q mrp q (cprio thread))"

definition evl_add_schedq_tail :: "int \<Rightarrow> ('a \<Rightarrow> int) \<Rightarrow> 'a \<Rightarrow> 'a mlq \<Rightarrow> 'a mlq option" where
  "evl_add_schedq_tail mrp cprio thread q =
     map_option (\<lambda>(idx, q'). q'\<lparr>q_heads := (q_heads q')[idx := list_add_tail thread (q_heads q' ! idx)]\<rparr>)
       (add_q mrp q (cprio thread))"

text \<open>\<open>list_del\<close> unlinks the entry from whichever list it is on.\<close>

definition raw_evl_del_schedq :: "'a mlq \<Rightarrow> 'a \<Rightarrow> int \<Rightarrow> 'a mlq option" where
  "raw_evl_del_schedq q entry idx =
     (if \<not> (in_range idx (q_heads q) \<and> in_range idx (q_prio_map q)) then None
      else
        let q1 = q\<lparr>q_heads := List.map (list_del entry) (q_heads q), q_elems := q_elems q - 1\<rparr>
        in Some (if list_empty (q_heads q1 ! nat idx)
                 then q1\<lparr>q_prio_map := (q_prio_map q1)[nat idx := False]\<rparr> else q1))"

definition evl_del_schedq :: "int \<Rightarrow> ('a \<Rightarrow> int) \<Rightarrow> 'a \<Rightarrow> 'a mlq \<Rightarrow> 'a mlq option" where
  "evl_del_schedq mrp cprio thread q = raw_evl_del_schedq q thread (get_qindex mrp (cprio thread))"

section \<open>Linear queue (without CONFIG_EVL_SCHED_SCALABLE)\<close>

record 'a linq =
  lq_head :: "'a list"

definition lin_init_schedq :: "'a linq" where
  "lin_init_schedq = \<lparr>lq_head = []\<rparr>"

definition lin_get_schedq :: "'a linq \<Rightarrow> 'a option \<times> 'a linq" where
  "lin_get_schedq q =
     (case list_get_entry (lq_head q) of
        None \<Rightarrow> (None, q)
      | Some (t, rest) \<Rightarrow> (Some t, q\<lparr>lq_head := rest\<rparr>))"

definition lin_add_schedq :: "('a \<Rightarrow> int) \<Rightarrow> 'a \<Rightarrow> 'a linq \<Rightarrow> 'a linq" where
  "lin_add_schedq cprio thread q = q\<lparr>lq_head := list_add_prilf cprio thread (lq_head q)\<rparr>"

definition lin_add_schedq_tail :: "('a \<Rightarrow> int) \<Rightarrow> 'a \<Rightarrow> 'a linq \<Rightarrow> 'a linq" where
  "lin_add_schedq_tail cprio thread q = q\<lparr>lq_head := list_add_priff cprio thread (lq_head q)\<rparr>"

definition lin_del_schedq :: "'a \<Rightarrow> 'a linq \<Rightarrow> 'a linq" where
  "lin_del_schedq thread q = q\<lparr>lq_head := list_del thread (lq_head q)\<rparr>"

section \<open>The interface both builds implement\<close>

datatype 'a qop = Requeue 'a | Enqueue 'a | Dequeue 'a

text \<open>The specification: ordered insertions and removals on one list.\<close>

fun spec_qop :: "('a \<Rightarrow> int) \<Rightarrow> 'a qop \<Rightarrow> 'a list \<Rightarrow> 'a list" where
  "spec_qop pri (Requeue x) xs = list_add_prilf pri x xs"
| "spec_qop pri (Enqueue x) xs = list_add_priff pri x xs"
| "spec_qop pri (Dequeue x) xs = list_del x xs"

text \<open>A caller queues a thread that is not queued, of a valid priority, and unqueues a queued one.\<close>

fun qop_ok :: "('a \<Rightarrow> bool) \<Rightarrow> 'a qop \<Rightarrow> 'a list \<Rightarrow> bool" where
  "qop_ok ok (Requeue x) xs \<longleftrightarrow> ok x \<and> x \<notin> set xs"
| "qop_ok ok (Enqueue x) xs \<longleftrightarrow> ok x \<and> x \<notin> set xs"
| "qop_ok ok (Dequeue x) xs \<longleftrightarrow> x \<in> set xs"

fun qops_ok :: "('a \<Rightarrow> int) \<Rightarrow> ('a \<Rightarrow> bool) \<Rightarrow> 'a qop list \<Rightarrow> 'a list \<Rightarrow> bool" where
  "qops_ok pri ok [] xs \<longleftrightarrow> True"
| "qops_ok pri ok (p # ps) xs \<longleftrightarrow> qop_ok ok p xs \<and> qops_ok pri ok ps (spec_qop pri p xs)"

fun run_qops :: "('a qop \<Rightarrow> 'q \<Rightarrow> 'q option) \<Rightarrow> 'a qop list \<Rightarrow> 'q \<Rightarrow> 'q option" where
  "run_qops step [] q = Some q"
| "run_qops step (p # ps) q = Option.bind (step p q) (run_qops step ps)"

fun mlq_step :: "int \<Rightarrow> ('a \<Rightarrow> int) \<Rightarrow> 'a qop \<Rightarrow> 'a mlq \<Rightarrow> 'a mlq option" where
  "mlq_step mrp pri (Requeue x) q = evl_add_schedq mrp pri x q"
| "mlq_step mrp pri (Enqueue x) q = evl_add_schedq_tail mrp pri x q"
| "mlq_step mrp pri (Dequeue x) q = evl_del_schedq mrp pri x q"

fun lin_step :: "('a \<Rightarrow> int) \<Rightarrow> 'a qop \<Rightarrow> 'a linq \<Rightarrow> 'a linq option" where
  "lin_step pri (Requeue x) q = Some (lin_add_schedq pri x q)"
| "lin_step pri (Enqueue x) q = Some (lin_add_schedq_tail pri x q)"
| "lin_step pri (Dequeue x) q = Some (lin_del_schedq x q)"

locale sched_queue =
  fixes pri :: "'a \<Rightarrow> int"
    and ok :: "'a \<Rightarrow> bool"
    and inv :: "'q \<Rightarrow> bool"
    and abs :: "'q \<Rightarrow> 'a list"
    and step :: "'a qop \<Rightarrow> 'q \<Rightarrow> 'q option"
  assumes inv_desc: "inv q \<Longrightarrow> desc pri (abs q)"
    and inv_distinct: "inv q \<Longrightarrow> distinct (abs q)"
    and step_ok: "inv q \<Longrightarrow> qop_ok ok p (abs q) \<Longrightarrow>
       \<exists>q'. step p q = Some q' \<and> inv q' \<and> abs q' = spec_qop pri p (abs q)"
begin

lemma run_refines:
  "inv q \<Longrightarrow> qops_ok pri ok ps (abs q) \<Longrightarrow>
     \<exists>q'. run_qops step ps q = Some q' \<and> inv q' \<and> abs q' = fold (spec_qop pri) ps (abs q)"
proof (induction ps arbitrary: q)
  case Nil
  then show ?case by simp
next
  case (Cons p ps)
  then obtain q1 where q1: "step p q = Some q1" "inv q1" "abs q1 = spec_qop pri p (abs q)"
    using step_ok [of q p] by auto
  with Cons.prems have "qops_ok pri ok ps (abs q1)" by simp
  with Cons.IH [of q1] q1 show ?case by auto
qed

lemma head_is_top: "inv q \<Longrightarrow> y \<in> set (abs q) \<Longrightarrow> pri y \<le> pri (hd (abs q))"
  by (rule desc_hd_max [OF inv_desc])

lemma enqueue_last_of_level:
  assumes "inv q" and "qop_ok ok (Enqueue x) (abs q)"
  shows "\<exists>q'. step (Enqueue x) q = Some q' \<and> inv q' \<and>
     filter (\<lambda>p. pri p = pri x) (abs q') = filter (\<lambda>p. pri p = pri x) (abs q) @ [x]"
  using step_ok [OF assms] filter_level_priff [OF inv_desc [OF assms(1)], of "pri x" x] by auto

lemma requeue_first_of_level:
  assumes "inv q" and "qop_ok ok (Requeue x) (abs q)"
  shows "\<exists>q'. step (Requeue x) q = Some q' \<and> inv q' \<and>
     filter (\<lambda>p. pri p = pri x) (abs q') = x # filter (\<lambda>p. pri p = pri x) (abs q)"
  using step_ok [OF assms] filter_level_prilf [OF inv_desc [OF assms(1)], of "pri x" x] by auto

end

text \<open>A queue that also picks: the next thread to run is unlinked and returned.\<close>

locale sched_queue_pick = sched_queue pri ok inv abs step
  for pri :: "'a \<Rightarrow> int" and ok and inv :: "'q \<Rightarrow> bool" and abs and step +
  fixes get :: "'q \<Rightarrow> 'a option \<times> 'q"
  assumes get_empty: "inv q \<Longrightarrow> abs q = [] \<Longrightarrow> get q = (None, q)"
    and get_first: "inv q \<Longrightarrow> abs q = x # xs \<Longrightarrow>
       \<exists>q'. get q = (Some x, q') \<and> inv q' \<and> abs q' = xs"
begin

lemma get_top:
  assumes "inv q" and "get q = (Some x, q')"
  shows "x \<in> set (abs q) \<and> (\<forall>y \<in> set (abs q). pri y \<le> pri x) \<and> inv q' \<and> abs q = x # abs q'"
proof (cases "abs q")
  case Nil
  with assms get_empty [of q] show ?thesis by simp
next
  case (Cons y ys)
  with get_first [OF assms(1) Cons] assms(2) have "x = y" "inv q'" "abs q' = ys" by auto
  with Cons head_is_top [OF assms(1)] show ?thesis by auto
qed

text \<open>Enqueueing on an empty level and picking: nobody of that priority overtakes the thread.\<close>

lemma get_None_iff: "inv q \<Longrightarrow> fst (get q) = None \<longleftrightarrow> abs q = []"
  using get_empty [of q] get_first [of q] by (cases "abs q") fastforce+

end

section \<open>The linear queue implements the interface\<close>

definition linq_inv :: "('a \<Rightarrow> int) \<Rightarrow> 'a linq \<Rightarrow> bool" where
  "linq_inv pri q \<longleftrightarrow> desc pri (lq_head q) \<and> distinct (lq_head q)"

lemma linq_step_ok:
  assumes "linq_inv pri q" and "qop_ok (\<lambda>_. True) p (lq_head q)"
  shows "\<exists>q'. lin_step pri p q = Some q' \<and> linq_inv pri q' \<and>
     lq_head q' = spec_qop pri p (lq_head q)"
  using assms
  by (cases p)
    (auto simp: linq_inv_def lin_add_schedq_def lin_add_schedq_tail_def lin_del_schedq_def
      list_del_def desc_list_add_priff desc_list_add_prilf desc_remove1
      list_add_priff_def list_add_prilf_def distinct_list_add_pri
      desc_list_add_priff [unfolded list_add_priff_def]
      desc_list_add_prilf [unfolded list_add_prilf_def])

interpretation linq: sched_queue_pick pri "\<lambda>_. True" "linq_inv pri" lq_head "lin_step pri" lin_get_schedq
  for pri :: "'a \<Rightarrow> int"
proof (unfold_locales, goal_cases)
  case (3 q p)
  then show ?case by (rule linq_step_ok)
qed (auto simp: linq_inv_def lin_get_schedq_def list_del_def)

end
