(* ===== verification/Sched_Mlq.thy ===== *)
theory Sched_Mlq
  imports Sched_Queue
begin

text \<open>
  Correctness of the multi-level queue of \<open>include/evl/sched/queue.h\<close>: its invariant, the proof
  that it implements the interface \<open>sched_queue\<close> (the concatenation of its levels is the ordered
  list of the linear build), and the properties of both builds.
\<close>

section \<open>Invariant and abstraction\<close>

definition mlq_list :: "'a mlq \<Rightarrow> 'a list" where
  "mlq_list q = concat (q_heads q)"

definition prio_ok :: "int \<Rightarrow> int \<Rightarrow> bool" where
  "prio_ok mrp p \<longleftrightarrow> EVL_CORE_MIN_PRIO \<le> p \<and> p \<le> EVL_CORE_MAX_PRIO mrp"

definition mlq_inv :: "int \<Rightarrow> ('a \<Rightarrow> int) \<Rightarrow> 'a mlq \<Rightarrow> bool" where
  "mlq_inv mrp pri q \<longleftrightarrow>
     int (length (q_heads q)) = EVL_MLQ_LEVELS mrp \<and>
     length (q_prio_map q) = length (q_heads q) \<and>
     q_elems q = int (length (mlq_list q)) \<and>
     (\<forall>i < length (q_heads q). q_prio_map q ! i = (q_heads q ! i \<noteq> [])) \<and>
     (\<forall>i < length (q_heads q). \<forall>x \<in> set (q_heads q ! i). get_qindex mrp (pri x) = int i) \<and>
     distinct (mlq_list q)"

text \<open>The state an initialised queue is in: every level empty, every bit clear.\<close>

definition mlq_empty :: "int \<Rightarrow> 'a mlq" where
  "mlq_empty mrp = \<lparr>q_elems = 0, q_prio_map = replicate (nat (EVL_MLQ_LEVELS mrp)) False,
     q_heads = replicate (nat (EVL_MLQ_LEVELS mrp)) []\<rparr>"

lemma mlq_list_empty [simp]: "mlq_list (mlq_empty mrp) = []"
  by (simp add: mlq_list_def mlq_empty_def)

lemma mlq_inv_empty: "-2 \<le> mrp \<Longrightarrow> mlq_inv mrp pri (mlq_empty mrp)"
  by (simp add: mlq_inv_def mlq_list_def) (simp add: mlq_empty_def const_defs)

lemma qindex_range:
  "prio_ok mrp p \<Longrightarrow> 0 \<le> get_qindex mrp p \<and> get_qindex mrp p < EVL_MLQ_LEVELS mrp"
  by (simp add: prio_ok_def get_qindex_def const_defs)

lemma qindex_inj: "get_qindex mrp p = get_qindex mrp p' \<longleftrightarrow> p = p'"
  by (auto simp: get_qindex_def)

section \<open>Levels and the concatenated list\<close>

lemma in_concat_level: "x \<in> set (concat hs) \<Longrightarrow> \<exists>i < length hs. x \<in> set (hs ! i)"
  by (simp add: in_set_conv_nth) (metis in_set_conv_nth)

lemma desc_concat_levels:
  "(\<forall>i < length hs. \<forall>x \<in> set (hs ! i). k x = c - int i) \<Longrightarrow> desc k (concat hs)"
proof (induction hs arbitrary: c)
  case Nil
  then show ?case by simp
next
  case (Cons h hs)
  have h: "\<forall>x \<in> set h. k x = c" using Cons.prems by auto
  have tl: "\<forall>i < length hs. \<forall>x \<in> set (hs ! i). k x = (c - 1) - int i"
    using Cons.prems by (auto dest: spec [where x = "Suc i" for i])
  then have le: "k y \<le> c" if "y \<in> set (concat hs)" for y
  proof -
    from in_concat_level [OF that] tl obtain i where "k y = (c - 1) - int i" by blast
    then show ?thesis by simp
  qed
  have "desc k h"
    unfolding desc_def sorted_wrt_iff_nth_less using h by (auto dest: nth_mem)
  with h le Cons.IH [OF tl] show ?case by fastforce
qed

lemma concat_update:
  "i < length hs \<Longrightarrow> concat (hs[i := l]) = concat (take i hs) @ l @ concat (drop (Suc i) hs)"
  by (simp add: upd_conv_take_nth_drop)

lemma concat_split:
  "i < length hs \<Longrightarrow> concat hs = concat (take i hs) @ hs ! i @ concat (drop (Suc i) hs)"
  by (subst id_take_nth_drop [of i hs]) simp_all

lemma concat_remove1:
  "distinct (concat hs) \<Longrightarrow> concat (List.map (remove1 x) hs) = remove1 x (concat hs)"
proof (induction hs)
  case Nil
  then show ?case by simp
next
  case (Cons h hs)
  have "x \<in> set h \<Longrightarrow> List.map (remove1 x) hs = hs"
    using Cons.prems by (auto intro!: map_idI remove1_idem)
  with Cons show ?case by (auto simp: remove1_append remove1_idem)
qed

lemma mlq_level_prio:
  assumes "mlq_inv mrp pri q" and "i < length (q_heads q)" and "x \<in> set (q_heads q ! i)"
  shows "pri x = (EVL_MLQ_LEVELS mrp - 1) - int i"
proof -
  from assms have "get_qindex mrp (pri x) = int i" unfolding mlq_inv_def by blast
  then show ?thesis unfolding get_qindex_def by linarith
qed

lemma mlq_desc: "mlq_inv mrp pri q \<Longrightarrow> desc pri (mlq_list q)"
  unfolding mlq_list_def by (rule desc_concat_levels) (blast intro: mlq_level_prio)

lemma mlq_take_prio:
  assumes "mlq_inv mrp pri q" and "x \<in> set (concat (take n (q_heads q)))"
  shows "(EVL_MLQ_LEVELS mrp - 1) - int n < pri x"
proof -
  from in_concat_level [OF assms(2)] obtain i where "i < n" "i < length (q_heads q)"
    "x \<in> set (q_heads q ! i)" by auto
  with mlq_level_prio [OF assms(1)] show ?thesis by fastforce
qed

lemma mlq_drop_prio:
  assumes "mlq_inv mrp pri q" and "x \<in> set (concat (drop n (q_heads q)))"
  shows "pri x \<le> (EVL_MLQ_LEVELS mrp - 1) - int n"
proof -
  from in_concat_level [OF assms(2)] obtain i where "n + i < length (q_heads q)"
    "x \<in> set (q_heads q ! (n + i))"
    by (auto simp: less_diff_conv add.commute)
  with mlq_level_prio [OF assms(1)] show ?thesis by fastforce
qed

text \<open>Splitting the concatenated list at the level of a priority.\<close>

lemma filter_three:
  assumes "\<forall>x \<in> set t. p < k x" and "\<forall>x \<in> set m. k x = (p :: int)" and "\<forall>x \<in> set d. k x < p"
  shows "filter (\<lambda>x. p < k x) (t @ m @ d) = t"
    and "filter (\<lambda>x. k x \<le> p) (t @ m @ d) = m @ d"
    and "filter (\<lambda>x. p \<le> k x) (t @ m @ d) = t @ m"
    and "filter (\<lambda>x. k x < p) (t @ m @ d) = d"
proof -
  have t: "filter (\<lambda>x. p < k x) t = t" "filter (\<lambda>x. k x \<le> p) t = []"
    "filter (\<lambda>x. p \<le> k x) t = t" "filter (\<lambda>x. k x < p) t = []"
    using assms(1) by (force intro!: filter_True filter_False)+
  have m: "filter (\<lambda>x. p < k x) m = []" "filter (\<lambda>x. k x \<le> p) m = m"
    "filter (\<lambda>x. p \<le> k x) m = m" "filter (\<lambda>x. k x < p) m = []"
    using assms(2) by (force intro!: filter_True filter_False)+
  have d: "filter (\<lambda>x. p < k x) d = []" "filter (\<lambda>x. k x \<le> p) d = d"
    "filter (\<lambda>x. p \<le> k x) d = []" "filter (\<lambda>x. k x < p) d = d"
    using assms(3) by (force intro!: filter_True filter_False)+
  show "filter (\<lambda>x. p < k x) (t @ m @ d) = t" "filter (\<lambda>x. k x \<le> p) (t @ m @ d) = m @ d"
    "filter (\<lambda>x. p \<le> k x) (t @ m @ d) = t @ m" "filter (\<lambda>x. k x < p) (t @ m @ d) = d"
    by (simp_all add: t m d)
qed

lemma mlq_split:
  assumes inv: "mlq_inv mrp pri q" and idx: "int i = get_qindex mrp p" and i: "i < length (q_heads q)"
  shows "\<forall>x \<in> set (concat (take i (q_heads q))). p < pri x"
    and "\<forall>x \<in> set (q_heads q ! i). pri x = p"
    and "\<forall>x \<in> set (concat (drop (Suc i) (q_heads q))). pri x < p"
    and "mlq_list q = concat (take i (q_heads q)) @ q_heads q ! i @ concat (drop (Suc i) (q_heads q))"
proof -
  have p: "p = (EVL_MLQ_LEVELS mrp - 1) - int i"
    using idx by (simp add: get_qindex_def)
  show "\<forall>x \<in> set (concat (take i (q_heads q))). p < pri x"
    using mlq_take_prio [OF inv] p by blast
  show "\<forall>x \<in> set (q_heads q ! i). pri x = p"
    using mlq_level_prio [OF inv i] p by blast
  show "\<forall>x \<in> set (concat (drop (Suc i) (q_heads q))). pri x < p"
    using mlq_drop_prio [OF inv] p by fastforce
  show "mlq_list q = concat (take i (q_heads q)) @ q_heads q ! i @ concat (drop (Suc i) (q_heads q))"
    unfolding mlq_list_def by (rule concat_split [OF i])
qed

lemma mlq_add_list:
  assumes inv: "mlq_inv mrp pri q" and idx: "int i = get_qindex mrp (pri x)" and i: "i < length (q_heads q)"
  shows "concat ((q_heads q)[i := list_add x (q_heads q ! i)]) = list_add_prilf pri x (mlq_list q)"
    and "concat ((q_heads q)[i := list_add_tail x (q_heads q ! i)]) = list_add_priff pri x (mlq_list q)"
  unfolding list_add_prilf_desc [OF mlq_desc [OF inv]] list_add_priff_desc [OF mlq_desc [OF inv]]
  unfolding mlq_split(4) [OF assms] filter_three [OF mlq_split(1-3) [OF assms]] concat_update [OF i]
  by (simp_all add: list_prims)

section \<open>The multi-level queue implements the interface\<close>

lemma mlq_index:
  assumes inv: "mlq_inv mrp pri q" and p: "prio_ok mrp p"
  obtains i where "get_qindex mrp p = int i" "i < length (q_heads q)" "i < length (q_prio_map q)"
    "in_range (int i) (q_heads q)" "in_range (int i) (q_prio_map q)"
proof -
  from qindex_range [OF p] obtain i where i: "get_qindex mrp p = int i"
    using zero_le_imp_eq_int by blast
  with qindex_range [OF p] inv have "i < length (q_heads q)" "i < length (q_prio_map q)"
    by (auto simp: mlq_inv_def)
  with i show ?thesis by (intro that) (auto simp: in_range_def)
qed

lemma mlq_link_inv:
  assumes inv: "mlq_inv mrp pri q" and i: "i < length (q_heads q)" "get_qindex mrp (pri x) = int i"
    and l: "l \<noteq> []" "set l = insert x (set (q_heads q ! i))"
    and new: "distinct (concat ((q_heads q)[i := l]))"
      "int (length (concat ((q_heads q)[i := l]))) = q_elems q + 1"
  shows "mlq_inv mrp pri \<lparr>q_elems = q_elems q + 1, q_prio_map = (q_prio_map q)[i := True],
     q_heads = (q_heads q)[i := l]\<rparr>"
  using inv i l new
  by (auto simp: mlq_inv_def mlq_list_def nth_list_update split: if_splits)

lemma list_update_same_True: "i < length bs \<Longrightarrow> bs ! i \<Longrightarrow> bs[i := True] = bs"
  by (metis (full_types) list_update_id)

lemma mlq_add_q:
  assumes inv: "mlq_inv mrp pri q" and i: "get_qindex mrp p = int i" "i < length (q_heads q)"
  shows "add_q mrp q p =
     Some (i, \<lparr>q_elems = q_elems q + 1, q_prio_map = (q_prio_map q)[i := True], q_heads = q_heads q\<rparr>)"
  using assms
  by (auto simp: add_q_def in_range_def mlq_inv_def list_empty_def Let_def list_update_same_True)

lemma mlq_add_ok:
  assumes inv: "mlq_inv mrp pri q" and ok: "prio_ok mrp (pri x)" and new: "x \<notin> set (mlq_list q)"
  shows "\<exists>q'. evl_add_schedq mrp pri x q = Some q' \<and> mlq_inv mrp pri q' \<and>
           mlq_list q' = list_add_prilf pri x (mlq_list q)"
    and "\<exists>q'. evl_add_schedq_tail mrp pri x q = Some q' \<and> mlq_inv mrp pri q' \<and>
           mlq_list q' = list_add_priff pri x (mlq_list q)"
proof -
  obtain i where i: "get_qindex mrp (pri x) = int i" "i < length (q_heads q)"
    using mlq_index [OF inv ok] by blast
  have len: "q_elems q = int (length (mlq_list q))" and dist: "distinct (mlq_list q)"
    using inv by (auto simp: mlq_inv_def)
  note eq = mlq_add_list [OF inv i(1) [symmetric] i(2)]
  let ?h = "(q_heads q)[i := list_add x (q_heads q ! i)]"
  let ?t = "(q_heads q)[i := list_add_tail x (q_heads q ! i)]"
  have h: "distinct (concat ?h)" "int (length (concat ?h)) = q_elems q + 1"
    unfolding eq using len dist new by (auto simp: list_add_prilf_def distinct_list_add_pri)
  have t: "distinct (concat ?t)" "int (length (concat ?t)) = q_elems q + 1"
    unfolding eq using len dist new by (auto simp: list_add_priff_def distinct_list_add_pri)
  show "\<exists>q'. evl_add_schedq mrp pri x q = Some q' \<and> mlq_inv mrp pri q' \<and>
           mlq_list q' = list_add_prilf pri x (mlq_list q)"
    using mlq_link_inv [OF inv i(2,1) _ _ h] eq(1)
    by (simp add: evl_add_schedq_def mlq_add_q [OF inv i] mlq_list_def list_add_def)
  show "\<exists>q'. evl_add_schedq_tail mrp pri x q = Some q' \<and> mlq_inv mrp pri q' \<and>
           mlq_list q' = list_add_priff pri x (mlq_list q)"
    using mlq_link_inv [OF inv i(2,1) _ _ t] eq(2)
    by (simp add: evl_add_schedq_tail_def mlq_add_q [OF inv i] mlq_list_def list_add_tail_def)
qed

lemma mlq_del_ok:
  assumes inv: "mlq_inv mrp pri q" and mem: "x \<in> set (mlq_list q)"
  shows "\<exists>q'. evl_del_schedq mrp pri x q = Some q' \<and> mlq_inv mrp pri q' \<and>
           mlq_list q' = list_del x (mlq_list q)"
proof -
  from in_concat_level [OF mem [unfolded mlq_list_def]]
  obtain i where i: "i < length (q_heads q)" "x \<in> set (q_heads q ! i)" by blast
  with inv have idx: "get_qindex mrp (pri x) = int i" by (auto simp: mlq_inv_def)
  have dist: "distinct (concat (q_heads q))" using inv by (simp add: mlq_inv_def mlq_list_def)
  let ?hs = "List.map (list_del x) (q_heads q)"
  have hs: "concat ?hs = list_del x (mlq_list q)"
    using concat_remove1 [OF dist] by (simp add: mlq_list_def list_del_def [abs_def])
  have other: "list_del x (q_heads q ! j) = q_heads q ! j" if j: "j < length (q_heads q)" "j \<noteq> i" for j
  proof -
    have "x \<notin> set (q_heads q ! j)"
    proof
      assume "x \<in> set (q_heads q ! j)"
      with inv j have "get_qindex mrp (pri x) = int j" by (auto simp: mlq_inv_def)
      with idx j show False by simp
    qed
    then show ?thesis by (simp add: list_del_def remove1_idem)
  qed
  define q' where "q' = \<lparr>q_elems = q_elems q - 1,
     q_prio_map = (q_prio_map q)[i := list_del x (q_heads q ! i) \<noteq> []], q_heads = ?hs\<rparr>"
  have bit: "q_prio_map q ! i" and len: "length (q_prio_map q) = length (q_heads q)"
    using inv i by (auto simp: mlq_inv_def)
  then have step: "evl_del_schedq mrp pri x q = Some q'"
    using i idx
    by (auto simp: evl_del_schedq_def raw_evl_del_schedq_def in_range_def list_empty_def q'_def
        Let_def list_update_same_True)
  have "mlq_inv mrp pri q'"
    unfolding mlq_inv_def
  proof (intro conjI)
    have "length (concat ?hs) = length (mlq_list q) - 1"
      by (simp only: hs) (simp add: list_del_def length_remove1 mem)
    moreover have "1 \<le> length (mlq_list q)"
      using mem by (cases "mlq_list q") auto
    moreover have "q_elems q = int (length (mlq_list q))"
      using inv by (simp add: mlq_inv_def)
    ultimately show "q_elems q' = int (length (mlq_list q'))"
      by (simp add: q'_def mlq_list_def of_nat_diff del: length_concat)
    show "distinct (mlq_list q')"
      using dist hs by (simp add: q'_def mlq_list_def list_del_def)
    show "\<forall>j < length (q_heads q'). q_prio_map q' ! j = (q_heads q' ! j \<noteq> [])"
    proof (intro allI impI)
      fix j assume "j < length (q_heads q')"
      then have "j < length (q_heads q)" by (simp add: q'_def)
      with inv len other [of j] i show "q_prio_map q' ! j = (q_heads q' ! j \<noteq> [])"
        by (cases "j = i") (auto simp: q'_def mlq_inv_def)
    qed
    show "\<forall>j < length (q_heads q'). \<forall>y \<in> set (q_heads q' ! j). get_qindex mrp (pri y) = int j"
      using inv by (auto simp: q'_def mlq_inv_def list_del_def dest: set_remove1_subset [THEN subsetD])
  qed (use inv in \<open>auto simp: q'_def mlq_inv_def\<close>)
  with step hs show ?thesis by (auto simp: q'_def mlq_list_def)
qed

lemma mlq_step_ok:
  assumes "mlq_inv mrp pri q" and "qop_ok (\<lambda>x. prio_ok mrp (pri x)) p (mlq_list q)"
  shows "\<exists>q'. mlq_step mrp pri p q = Some q' \<and> mlq_inv mrp pri q' \<and>
     mlq_list q' = spec_qop pri p (mlq_list q)"
  using assms mlq_add_ok [OF assms(1)] mlq_del_ok [OF assms(1)] by (cases p) auto

interpretation mlq: sched_queue pri "\<lambda>x. prio_ok mrp (pri x)" "mlq_inv mrp pri" mlq_list "mlq_step mrp pri"
  for pri :: "'a \<Rightarrow> int" and mrp :: int
  by unfold_locales (auto simp: mlq_desc mlq_step_ok, simp add: mlq_inv_def)

section \<open>Picking from the multi-level queue\<close>

lemma find_first_bit_eq: "find_first_bit bs = length (takeWhile Not bs)"
  by (induction bs) auto

lemma takeWhile_levels_empty:
  "length bs = length hs \<Longrightarrow> \<forall>i < length hs. bs ! i = (hs ! i \<noteq> []) \<Longrightarrow>
     length (takeWhile Not bs) = length (takeWhile (\<lambda>h. h = []) hs)"
proof (induction bs hs rule: list_induct2')
  case (4 b bs h hs)
  then have "b = (h \<noteq> [])" and "\<forall>i < length hs. bs ! i = (hs ! i \<noteq> [])" by fastforce+
  with 4 show ?case by simp
qed auto

lemma concat_first_busy:
  "concat hs \<noteq> [] \<Longrightarrow> let w = length (takeWhile (\<lambda>h. h = []) hs) in
     w < length hs \<and> hs ! w \<noteq> [] \<and> hd (hs ! w) = hd (concat hs)"
  by (induction hs) (auto simp: Let_def)

lemma mlq_weight:
  assumes inv: "mlq_inv mrp pri q"
  shows "evl_get_schedq_weight q = length (takeWhile (\<lambda>h. h = []) (q_heads q))"
  using inv takeWhile_levels_empty [of "q_prio_map q" "q_heads q"]
  by (simp add: evl_get_schedq_weight_def find_first_bit_eq mlq_inv_def)

lemma mlq_first_busy:
  assumes inv: "mlq_inv mrp pri q" and ne: "mlq_list q \<noteq> []"
  shows "evl_get_schedq_weight q < length (q_heads q)"
    and "q_heads q ! evl_get_schedq_weight q \<noteq> []"
    and "hd (q_heads q ! evl_get_schedq_weight q) = hd (mlq_list q)"
  using concat_first_busy [OF ne [unfolded mlq_list_def]]
  by (simp_all add: mlq_weight [OF inv] mlq_list_def Let_def)

text \<open>
  \<open>__evl_get_schedq\<close> is not in the overlay. Its documented job, on a queue that is not empty, is
  to unlink and return the first thread of the level \<open>evl_get_schedq_weight\<close> designates.
\<close>

definition picks_first_level :: "('a mlq \<Rightarrow> 'a option \<times> 'a mlq) \<Rightarrow> 'a mlq \<Rightarrow> bool" where
  "picks_first_level get q \<longleftrightarrow>
     (let w = evl_get_schedq_weight q; t = hd (q_heads q ! w) in
      case raw_evl_del_schedq q t (int w) of
        None \<Rightarrow> False | Some q' \<Rightarrow> get q = (Some t, q'))"

text \<open>A pick made of the header's own operations.\<close>

definition pick_by_weight :: "'a mlq \<Rightarrow> 'a option \<times> 'a mlq" where
  "pick_by_weight q =
     (let w = evl_get_schedq_weight q in
      case q_heads q ! w of
        [] \<Rightarrow> (None, q)
      | t # _ \<Rightarrow> (case raw_evl_del_schedq q t (int w) of None \<Rightarrow> (None, q) | Some q' \<Rightarrow> (Some t, q')))"

lemma mlq_pick_del:
  assumes inv: "mlq_inv mrp pri q" and ne: "mlq_list q \<noteq> []"
  shows "\<exists>q'. raw_evl_del_schedq q (hd (mlq_list q)) (int (evl_get_schedq_weight q)) = Some q' \<and>
     mlq_inv mrp pri q' \<and> mlq_list q' = tl (mlq_list q)"
proof -
  let ?w = "evl_get_schedq_weight q"
  have "hd (mlq_list q) \<in> set (q_heads q ! ?w)"
    using mlq_first_busy [OF inv ne] by (metis hd_in_set)
  then have "get_qindex mrp (pri (hd (mlq_list q))) = int ?w"
    using inv mlq_first_busy(1) [OF inv ne] by (auto simp: mlq_inv_def)
  with mlq_del_ok [OF inv hd_in_set [OF ne]] ne show ?thesis
    by (cases "mlq_list q") (auto simp: evl_del_schedq_def list_del_def)
qed

lemma mlq_get_first:
  assumes inv: "mlq_inv mrp pri q" and ne: "mlq_list q \<noteq> []" and get: "picks_first_level get q"
  shows "\<exists>q'. evl_get_schedq get q = (Some (hd (mlq_list q)), q') \<and> mlq_inv mrp pri q' \<and>
     mlq_list q' = tl (mlq_list q)"
proof -
  have "q_elems q \<noteq> 0" using inv ne by (auto simp: mlq_inv_def)
  with mlq_pick_del [OF inv ne] get mlq_first_busy [OF inv ne] show ?thesis
    by (auto simp: evl_get_schedq_def picks_first_level_def Let_def)
qed

lemma pick_by_weight_picks:
  assumes inv: "mlq_inv mrp pri q" and ne: "mlq_list q \<noteq> []"
  shows "picks_first_level pick_by_weight q"
  using mlq_pick_del [OF inv ne] mlq_first_busy [OF inv ne]
  by (auto simp: picks_first_level_def pick_by_weight_def Let_def split: list.splits option.splits)

lemma mlq_get_empty: "mlq_inv mrp pri q \<Longrightarrow> mlq_list q = [] \<Longrightarrow> evl_get_schedq get q = (None, q)"
  by (simp add: mlq_inv_def evl_get_schedq_def)

interpretation mlq_pick: sched_queue_pick pri "\<lambda>x. prio_ok mrp (pri x)" "mlq_inv mrp pri" mlq_list
    "mlq_step mrp pri" "evl_get_schedq pick_by_weight"
  for pri :: "'a \<Rightarrow> int" and mrp :: int
proof (unfold_locales, goal_cases)
  case (1 q)
  then show ?case by (rule mlq_get_empty)
next
  case (2 q x xs)
  then show ?case
    using mlq_get_first [OF 2(1) _ pick_by_weight_picks [OF 2(1)]] by auto
qed

section \<open>Properties\<close>

lemma qops_ok_weaken: "qops_ok pri ok ps xs \<Longrightarrow> qops_ok pri (\<lambda>_. True) ps xs"
proof (induction ps arbitrary: xs)
  case (Cons p ps)
  then show ?case by (cases p) auto
qed simp

text \<open>C1. The two builds of the runnable queue are equivalent: any sequence of enqueue, requeue and
  dequeue operations the core may issue on an empty queue succeeds in both builds (no access of the
  multi-level queue leaves its arrays), keeps the invariant of the multi-level queue (element count
  and bitmap in step with the lists), and leaves the two builds with the threads in the same order.\<close>

theorem schedq_builds_agree:
  assumes "1 \<le> mrp"
    and "qops_ok pri (\<lambda>x. prio_ok mrp (pri x)) ops []"
  shows "\<exists>m l. run_qops (mlq_step mrp pri) ops (mlq_empty mrp) = Some m \<and>
     run_qops (lin_step pri) ops lin_init_schedq = Some l \<and>
     mlq_inv mrp pri m \<and> mlq_list m = lq_head l"
  using mlq.run_refines [OF mlq_inv_empty, of mrp pri ops]
    linq.run_refines [of pri lin_init_schedq ops] qops_ok_weaken [OF assms(2)] assms
  by (auto simp: linq_inv_def lin_init_schedq_def)

theorem schedq_builds_agree_witness:
  "\<exists>m l. run_qops (mlq_step 5 (\<lambda>x. x)) [Enqueue 3, Enqueue 6, Requeue 4, Dequeue 3] (mlq_empty 5) = Some m \<and>
     run_qops (lin_step (\<lambda>x. x)) [Enqueue 3, Enqueue 6, Requeue 4, Dequeue 3] lin_init_schedq = Some l \<and>
     mlq_inv 5 (\<lambda>x. x) m \<and> mlq_list m = lq_head l"
  by (rule schedq_builds_agree)
    (simp_all add: prio_ok_def const_defs list_add_priff_def list_add_prilf_def list_add_pri_def list_prims)

text \<open>Whatever the core queued, picking from the linear queue returns NULL exactly when the queue
  is empty, and otherwise the thread at the head of the highest busy priority level: no queued
  thread has a higher priority, and no thread of the same priority was ahead of it.\<close>

lemma lin_pick_is_head_of_top_level:
  assumes "linq_inv pri q" and "lin_get_schedq q = (r, q')"
  shows "case r of
      None \<Rightarrow> lq_head q = [] \<and> q' = q
    | Some t \<Rightarrow> (\<forall>u \<in> set (lq_head q). pri u \<le> pri t) \<and>
        hd (filter (\<lambda>u. pri u = pri t) (lq_head q)) = t \<and>
        linq_inv pri q' \<and> lq_head q = t # lq_head q'"
proof (cases r)
  case None
  with assms linq.get_None_iff [OF assms(1)] linq.get_empty [OF assms(1)] show ?thesis by simp
next
  case (Some t)
  with assms(2) linq.get_top [OF assms(1)] show ?thesis by fastforce
qed

lemma lin_pick_is_head_of_top_level_witness:
  "lin_get_schedq \<lparr>lq_head = [7, 6, 3 :: int]\<rparr> = (Some 7, \<lparr>lq_head = [6, 3]\<rparr>) \<and>
   list_all (\<lambda>u. u \<le> (7 :: int)) [7, 6, 3] \<and> linq_inv (\<lambda>x. x) \<lparr>lq_head = [6, 3 :: int]\<rparr>"
  using lin_pick_is_head_of_top_level [of "\<lambda>x. x" "\<lparr>lq_head = [7, 6, 3 :: int]\<rparr>" "Some 7" "\<lparr>lq_head = [6, 3]\<rparr>"]
  by (simp add: linq_inv_def lin_get_schedq_def list_del_def)

text \<open>C17. In the scalable build the bitmap scan finds the right level: on a busy queue
  \<open>evl_get_schedq_weight\<close> is the array index of the highest queued priority, and with a picker that
  unlinks the first thread of that level \<open>evl_get_schedq\<close> returns the thread the linear build would
  pick and leaves the others in order, the invariant kept.\<close>

theorem mlq_pick_is_top:
  assumes "mlq_inv mrp pri q" and "q_elems q \<noteq> 0" and "picks_first_level get q"
  shows "\<exists>t q'. evl_get_schedq get q = (Some t, q') \<and>
     lin_get_schedq \<lparr>lq_head = mlq_list q\<rparr> = (Some t, \<lparr>lq_head = mlq_list q'\<rparr>) \<and>
     get_qindex mrp (pri t) = int (evl_get_schedq_weight q) \<and>
     (\<forall>u \<in> set (mlq_list q). pri u \<le> pri t) \<and> mlq_inv mrp pri q'"
proof -
  have ne: "mlq_list q \<noteq> []" using assms(1,2) by (auto simp: mlq_inv_def)
  have "hd (mlq_list q) \<in> set (q_heads q ! evl_get_schedq_weight q)"
    using mlq_first_busy [OF assms(1) ne] by (metis hd_in_set)
  then have "get_qindex mrp (pri (hd (mlq_list q))) = int (evl_get_schedq_weight q)"
    using assms(1) mlq_first_busy(1) [OF assms(1) ne] by (auto simp: mlq_inv_def)
  with mlq_get_first [OF assms(1) ne assms(3)] mlq.head_is_top [OF assms(1)] ne show ?thesis
    by (cases "mlq_list q") (auto simp: lin_get_schedq_def list_del_def)
qed

definition mlq_sample :: "int mlq" where
  "mlq_sample = \<lparr>q_elems = 2, q_prio_map = [False, True, False, True], q_heads = [[], [2], [], [0]]\<rparr>"

theorem mlq_pick_is_top_witness:
  "\<exists>t q'. evl_get_schedq pick_by_weight mlq_sample = (Some t, q') \<and>
     lin_get_schedq \<lparr>lq_head = mlq_list mlq_sample\<rparr> = (Some t, \<lparr>lq_head = mlq_list q'\<rparr>) \<and>
     get_qindex 2 t = int (evl_get_schedq_weight mlq_sample) \<and>
     (\<forall>u \<in> set (mlq_list mlq_sample). u \<le> t) \<and> mlq_inv 2 (\<lambda>x. x) q'"
proof -
  have inv: "mlq_inv 2 (\<lambda>x. x) mlq_sample"
    by (auto simp: mlq_inv_def mlq_sample_def mlq_list_def const_defs get_qindex_def less_Suc_eq nth_Cons'
        numeral_eq_Suc)
  have ne: "mlq_list mlq_sample \<noteq> []" by (simp add: mlq_list_def mlq_sample_def)
  show ?thesis
    using mlq_pick_is_top [OF inv _ pick_by_weight_picks [OF inv ne]] by (simp add: mlq_sample_def)
qed

end
