(* ===== verification/Evl_Clock.thy ===== *)
theory Evl_Clock
  imports Evl_Prelude
begin

text \<open>
  \<open>include/evl/timeout.h\<close>, \<open>include/evl/clock.h\<close>, \<open>include/evl/tick.h\<close> and the time types of
  \<open>include/uapi/evl/types.h\<close>: timeouts, clocks with their operation table, and the programming of
  the next clock tick through the master clock. A clock handler works on a state \<open>'s\<close> of its own;
  clocks live in a store indexed by address. \<open>ktime_get_mono_fast_ns\<close> belongs to the in-band
  kernel: it is the argument \<open>mono_ns\<close>.
\<close>

section \<open>Timeouts\<close>

definition KTIME_MAX :: ktime where [const_defs]: "KTIME_MAX = 0x7FFFFFFFFFFFFFFF"
definition EVL_INFINITE :: ktime where [const_defs]: "EVL_INFINITE = 0"
definition EVL_NONBLOCK :: ktime where [const_defs]: "EVL_NONBLOCK = KTIME_MAX"

definition timeout_infinite :: "ktime \<Rightarrow> bool" where
  "timeout_infinite kt \<longleftrightarrow> kt = EVL_INFINITE"

definition timeout_nonblock :: "ktime \<Rightarrow> bool" where
  "timeout_nonblock kt \<longleftrightarrow> kt = EVL_NONBLOCK"

datatype evl_tmode = EVL_REL | EVL_ABS

section \<open>Clocks\<close>

record evl_clock_gravity =
  gv_irq :: ktime
  gv_kernel :: ktime
  gv_user :: ktime

record 's evl_clock_ops =
  op_read :: "ptr \<Rightarrow> 's \<Rightarrow> ktime"
  op_read_cycles :: "ptr \<Rightarrow> 's \<Rightarrow> u64"
  op_set :: "(ptr \<Rightarrow> ktime \<Rightarrow> 's \<Rightarrow> int \<times> 's) option"
  op_program_local_shot :: "(ptr \<Rightarrow> 's \<Rightarrow> 's) option"
  op_program_remote_shot :: "(ptr \<Rightarrow> nat \<Rightarrow> 's \<Rightarrow> 's) option"
  op_set_gravity :: "(ptr \<Rightarrow> evl_clock_gravity \<Rightarrow> 's \<Rightarrow> int \<times> 's) option"
  op_reset_gravity :: "(ptr \<Rightarrow> 's \<Rightarrow> 's) option"
  op_adjust :: "(ptr \<Rightarrow> 's \<Rightarrow> 's) option"

record 's evl_clock =
  ck_resolution :: ktime
  ck_gravity :: evl_clock_gravity
  ck_name :: string
  ck_flags :: int
  ck_ops :: "'s evl_clock_ops"
  ck_timerdata :: "nat \<Rightarrow> ptr"
  ck_master :: ptr
  ck_offset :: ktime
  ck_affinity :: "nat set"
  ck_element :: ptr
  ck_dispose :: "(ptr \<Rightarrow> 's \<Rightarrow> 's) option"

type_synonym 's clocks = "ptr \<Rightarrow> 's evl_clock"

definition evl_read_clock_cycles :: "'s clocks \<Rightarrow> ptr \<Rightarrow> 's \<Rightarrow> u64" where
  "evl_read_clock_cycles clocks c s = op_read_cycles (ck_ops (clocks c)) c s"

definition ONE_BILLION :: int where [const_defs]: "ONE_BILLION = 1000000000"

definition evl_ktime_monotonic :: "('s \<Rightarrow> ktime) \<Rightarrow> 's \<Rightarrow> ktime" where
  "evl_ktime_monotonic mono_ns s = mono_ns s"

text \<open>The built-in monotonic clock, at address \<open>mono_clk\<close>, is read without the handler table.\<close>

definition evl_read_clock :: "ptr \<Rightarrow> ('s \<Rightarrow> ktime) \<Rightarrow> 's clocks \<Rightarrow> ptr \<Rightarrow> 's \<Rightarrow> ktime" where
  "evl_read_clock mono_clk mono_ns clocks c s =
     (if c = mono_clk then mono_ns s else op_read (ck_ops (clocks c)) c s)"

definition evl_set_clock_time :: "'s clocks \<Rightarrow> ptr \<Rightarrow> ktime \<Rightarrow> 's \<Rightarrow> int \<times> 's" where
  "evl_set_clock_time clocks c date s =
     (case op_set (ck_ops (clocks c)) of
        Some set_op \<Rightarrow> set_op c date s
      | None \<Rightarrow> (- EOPNOTSUPP, s))"

definition evl_get_clock_resolution :: "'s evl_clock \<Rightarrow> ktime" where
  "evl_get_clock_resolution c = ck_resolution c"

definition evl_set_clock_resolution :: "'s evl_clock \<Rightarrow> ktime \<Rightarrow> 's evl_clock" where
  "evl_set_clock_resolution c r = c\<lparr>ck_resolution := r\<rparr>"

definition evl_set_clock_gravity :: "'s clocks \<Rightarrow> ptr \<Rightarrow> evl_clock_gravity \<Rightarrow> 's \<Rightarrow> int \<times> 's" where
  "evl_set_clock_gravity clocks c g s =
     (case op_set_gravity (ck_ops (clocks c)) of
        Some set_op \<Rightarrow> set_op c g s
      | None \<Rightarrow> (- EOPNOTSUPP, s))"

definition evl_reset_clock_gravity :: "'s clocks \<Rightarrow> ptr \<Rightarrow> 's \<Rightarrow> 's" where
  "evl_reset_clock_gravity clocks c s =
     (case op_reset_gravity (ck_ops (clocks c)) of Some reset \<Rightarrow> reset c s | None \<Rightarrow> s)"

text \<open>The macro takes the name of the member: one of \<open>gv_irq\<close>, \<open>gv_kernel\<close> and \<open>gv_user\<close>.\<close>

definition evl_get_clock_gravity :: "'s evl_clock \<Rightarrow> (evl_clock_gravity \<Rightarrow> ktime) \<Rightarrow> ktime" where
  "evl_get_clock_gravity c type = type (ck_gravity c)"

section \<open>Ticks\<close>

definition evl_program_local_tick :: "'s clocks \<Rightarrow> ptr \<Rightarrow> 's \<Rightarrow> 's" where
  "evl_program_local_tick clocks c s =
     (let master = ck_master (clocks c) in
      case op_program_local_shot (ck_ops (clocks master)) of Some shot \<Rightarrow> shot master s | None \<Rightarrow> s)"

definition evl_program_remote_tick :: "'s clocks \<Rightarrow> ptr \<Rightarrow> nat \<Rightarrow> 's \<Rightarrow> 's" where
  "evl_program_remote_tick clocks c rq s =
     (let master = ck_master (clocks c) in
      case op_program_remote_shot (ck_ops (clocks master)) of Some shot \<Rightarrow> shot master rq s | None \<Rightarrow> s)"

section \<open>Time values exchanged with user space\<close>

record evl_timespec =
  ts_sec :: u64
  ts_nsec :: u64

record evl_itimerspec =
  its_interval :: evl_timespec
  its_value :: evl_timespec

text \<open>The in-band kernel's \<open>struct timespec64\<close> and \<open>struct itimerspec64\<close>.\<close>

record timespec64 =
  ts64_sec :: u64
  ts64_nsec :: u64

record itimerspec64 =
  it64_interval :: timespec64
  it64_value :: timespec64

definition u_timespec_to_timespec64 :: "evl_timespec \<Rightarrow> timespec64" where
  "u_timespec_to_timespec64 u = \<lparr>ts64_sec = ts_sec u, ts64_nsec = ts_nsec u\<rparr>"

definition timespec64_to_u_timespec :: "timespec64 \<Rightarrow> evl_timespec" where
  "timespec64_to_u_timespec t = \<lparr>ts_sec = ts64_sec t, ts_nsec = ts64_nsec t\<rparr>"

definition u_timespec_to_ktime :: "(timespec64 \<Rightarrow> ktime) \<Rightarrow> evl_timespec \<Rightarrow> ktime" where
  "u_timespec_to_ktime timespec64_to_ktime u =
     timespec64_to_ktime \<lparr>ts64_sec = ts_sec u, ts64_nsec = ts_nsec u\<rparr>"

definition ktime_to_u_timespec :: "(ktime \<Rightarrow> timespec64) \<Rightarrow> ktime \<Rightarrow> evl_timespec" where
  "ktime_to_u_timespec ktime_to_timespec64 t =
     (let ts64 = ktime_to_timespec64 t in \<lparr>ts_sec = ts64_sec ts64, ts_nsec = ts64_nsec ts64\<rparr>)"

definition u_itimerspec_to_itimerspec64 :: "evl_itimerspec \<Rightarrow> itimerspec64" where
  "u_itimerspec_to_itimerspec64 u =
     \<lparr>it64_interval = u_timespec_to_timespec64 (its_interval u),
      it64_value = u_timespec_to_timespec64 (its_value u)\<rparr>"

definition itimerspec64_to_u_itimerspec :: "itimerspec64 \<Rightarrow> evl_itimerspec" where
  "itimerspec64_to_u_itimerspec i =
     \<lparr>its_interval = timespec64_to_u_timespec (it64_interval i),
      its_value = timespec64_to_u_timespec (it64_value i)\<rparr>"

lemmas timespec_defs [evl_defs] = u_timespec_to_timespec64_def timespec64_to_u_timespec_def
  u_itimerspec_to_itimerspec64_def itimerspec64_to_u_itimerspec_def

lemma timespec_roundtrip [simp]:
  "timespec64_to_u_timespec (u_timespec_to_timespec64 u) = u"
  "u_timespec_to_timespec64 (timespec64_to_u_timespec t) = t"
  by (simp_all add: timespec_defs)

lemma itimerspec_roundtrip [simp]:
  "itimerspec64_to_u_itimerspec (u_itimerspec_to_itimerspec64 u) = u"
  "u_itimerspec_to_itimerspec64 (itimerspec64_to_u_itimerspec i) = i"
  by (simp_all add: timespec_defs)

lemma infinite_is_not_nonblock: "timeout_infinite kt \<Longrightarrow> \<not> timeout_nonblock kt"
  by (simp add: timeout_infinite_def timeout_nonblock_def const_defs)

end
