(* ===== verification/Evl_Stat.thy ===== *)
theory Evl_Stat
  imports Evl_Prelude
begin

text \<open>
  \<open>include/evl/stat.h\<close>: event counters and execution time accounting. A runqueue charges the time
  that passes to its current account; switching accounts charges the old one up to now first.
  The build modelled has \<open>CONFIG_EVL_RUNSTATS\<close>. The monotonic clock the accounts read is the
  argument \<open>now\<close>; the accounts the runqueue points to live in a store.
\<close>

record evl_account =
  ac_start :: ktime
  ac_total :: ktime

record evl_counter =
  cnt_counter :: u64

text \<open>The accounting fields of \<open>struct evl_rq\<close>.\<close>

record acct_rq =
  last_account_switch :: ktime
  current_account :: ptr

type_synonym accounts = "ptr \<Rightarrow> evl_account"

section \<open>Counters\<close>

definition evl_inc_counter :: "evl_counter \<Rightarrow> u64 \<times> evl_counter" where
  "evl_inc_counter c = (cnt_counter c, c\<lparr>cnt_counter := cnt_counter c + 1\<rparr>)"

definition evl_get_counter :: "evl_counter \<Rightarrow> u64" where
  "evl_get_counter c = cnt_counter c"

definition evl_set_counter :: "evl_counter \<Rightarrow> u64 \<Rightarrow> evl_counter" where
  "evl_set_counter c v = c\<lparr>cnt_counter := v\<rparr>"

section \<open>Accounts\<close>

definition evl_get_account_total :: "evl_account \<Rightarrow> ktime" where
  "evl_get_account_total a = ac_total a"

definition evl_reset_account :: "ktime \<Rightarrow> evl_account \<Rightarrow> evl_account" where
  "evl_reset_account now a = a\<lparr>ac_total := 0, ac_start := now\<rparr>"

definition evl_update_account :: "ktime \<Rightarrow> acct_rq \<times> accounts \<Rightarrow> acct_rq \<times> accounts" where
  "evl_update_account now = (\<lambda>(rq, acs).
     let cur = current_account rq;
         acs' = acs(cur := (acs cur)\<lparr>ac_total := ac_total (acs cur) + (now - last_account_switch rq)\<rparr>)
     in (rq\<lparr>last_account_switch := now\<rparr>, acs'))"

definition evl_get_last_account_switch :: "acct_rq \<Rightarrow> ktime" where
  "evl_get_last_account_switch rq = last_account_switch rq"

definition evl_set_current_account :: "ptr \<Rightarrow> acct_rq \<Rightarrow> ptr \<times> acct_rq" where
  "evl_set_current_account new rq = (current_account rq, rq\<lparr>current_account := new\<rparr>)"

definition evl_close_account :: "ktime \<Rightarrow> ptr \<Rightarrow> acct_rq \<Rightarrow> acct_rq" where
  "evl_close_account now new rq = rq\<lparr>last_account_switch := now, current_account := new\<rparr>"

definition evl_switch_account :: "ktime \<Rightarrow> ptr \<Rightarrow> acct_rq \<times> accounts \<Rightarrow> ptr \<times> acct_rq \<times> accounts" where
  "evl_switch_account now new s =
     (let (rq, acs) = evl_update_account now s;
          (prev, rq') = evl_set_current_account new rq
      in (prev, rq', acs))"

lemmas stat_defs [evl_defs] = evl_update_account_def evl_set_current_account_def
  evl_switch_account_def evl_close_account_def evl_reset_account_def

section \<open>A run of account switches\<close>

text \<open>A history is a list of switches: the date and the account switched to.\<close>

fun switch_run :: "(ktime \<times> ptr) list \<Rightarrow> acct_rq \<times> accounts \<Rightarrow> acct_rq \<times> accounts" where
  "switch_run [] s = s"
| "switch_run ((now, new) # h) s = switch_run h (snd (evl_switch_account now new s))"

text \<open>The time account \<open>a\<close> was current in a history, \<open>cur\<close> being current from date \<open>since\<close> on.\<close>

fun charged :: "ptr \<Rightarrow> ktime \<Rightarrow> ptr \<Rightarrow> (ktime \<times> ptr) list \<Rightarrow> ktime" where
  "charged a since cur [] = 0"
| "charged a since cur ((now, new) # h) = (if a = cur then now - since else 0) + charged a now new h"

text \<open>The date of the last switch of a history.\<close>

fun end_date :: "ktime \<Rightarrow> (ktime \<times> ptr) list \<Rightarrow> ktime" where
  "end_date since [] = since"
| "end_date since ((now, new) # h) = end_date now h"

lemma switch_run_total:
  "ac_total (snd (switch_run h (rq, acs)) a) =
     ac_total (acs a) + charged a (last_account_switch rq) (current_account rq) h"
proof (induction h arbitrary: rq acs)
  case (Cons e h)
  obtain now new where e: "e = (now, new)" by fastforce
  show ?case by (simp add: e Cons.IH stat_defs Let_def)
qed simp

lemma switch_run_last:
  "last_account_switch (fst (switch_run h (rq, acs))) = end_date (last_account_switch rq) h"
proof (induction h arbitrary: rq acs)
  case (Cons e h)
  obtain now new where e: "e = (now, new)" by fastforce
  show ?case by (simp add: e Cons.IH stat_defs Let_def)
qed simp

lemma sum_charged:
  assumes "finite A" and "cur \<in> A" and "\<forall>(now, new) \<in> set h. new \<in> A"
  shows "(\<Sum>a\<in>A. charged a since cur h) = end_date since h - since"
  using assms(2,3)
proof (induction h arbitrary: since cur)
  case (Cons e h)
  obtain now new where e: "e = (now, new)" by fastforce
  have "(\<Sum>a\<in>A. if a = cur then now - since else 0) = now - since"
    using assms(1) Cons.prems(1) by (simp add: sum.delta')
  with Cons.IH [of new now] Cons.prems(2) show ?case
    by (simp add: e sum.distrib)
qed simp

text \<open>C18. Execution time is accounted exactly once: over any history of account switches every
  account's total grows by the time it was the current account of the runqueue, and over a set of
  accounts closed under the history the totals together grow by the whole elapsed time, from the
  last switch before the history to its end (in 64 bit arithmetic, as the code computes).\<close>

theorem accounting_conserves_time:
  assumes "finite A" and "current_account rq \<in> A" and "\<forall>(now, new) \<in> set h. new \<in> A"
  shows "(\<forall>a. ac_total (snd (switch_run h (rq, acs)) a) - ac_total (acs a) =
            charged a (last_account_switch rq) (current_account rq) h) \<and>
     (\<Sum>a\<in>A. ac_total (snd (switch_run h (rq, acs)) a) - ac_total (acs a)) =
       last_account_switch (fst (switch_run h (rq, acs))) - last_account_switch rq"
  by (simp add: switch_run_total switch_run_last sum_charged [OF assms])

theorem accounting_conserves_time_witness:
  "(\<Sum>a\<in>{1, 2 :: nat}. ac_total (snd (switch_run [(15, 2), (40, 1)]
       (\<lparr>last_account_switch = 10, current_account = 1\<rparr>, \<lambda>_. \<lparr>ac_start = 0, ac_total = 0\<rparr>)) a) - 0) = 30"
  using accounting_conserves_time [of "{1, 2}" "\<lparr>last_account_switch = 10, current_account = 1\<rparr>"
      "[(15, 2), (40, 1)]" "\<lambda>_. \<lparr>ac_start = 0, ac_total = 0\<rparr>"]
  by (simp add: switch_run_last)

end
