(* ===== verification/Evl_Timer.thy ===== *)
theory Evl_Timer
  imports Evl_List Evl_Clock Evl_Stat
begin

text \<open>
  \<open>include/evl/timer.h\<close>: timers, and the per-CPU queue of armed timers ordered by date, in the two
  builds of the header: a linked list, and (\<open>CONFIG_EVL_TIMER_SCALABLE\<close>) a red-black tree with a
  cached first node. Timers live in a store indexed by address; a queue holds addresses. The
  red-black tree is the in-band kernel's: it is represented by its in-order sequence, on which
  \<open>rb_next\<close> is the successor and \<open>rb_erase\<close> removes one node. The insertion into the tree, the
  functions of \<open>timer.c\<close> and \<open>rq\<close> structures are outside of the sources: arguments.
\<close>

section \<open>Timer status\<close>

definition EVL_TIMER_DEQUEUED :: u32 where [flag_defs]: "EVL_TIMER_DEQUEUED = 0x00000001"
definition EVL_TIMER_KILLED :: u32 where [flag_defs]: "EVL_TIMER_KILLED = 0x00000002"
definition EVL_TIMER_PERIODIC :: u32 where [flag_defs]: "EVL_TIMER_PERIODIC = 0x00000004"
definition EVL_TIMER_FIRED :: u32 where [flag_defs]: "EVL_TIMER_FIRED = 0x00000010"
definition EVL_TIMER_RUNNING :: u32 where [flag_defs]: "EVL_TIMER_RUNNING = 0x00000020"
definition EVL_TIMER_KGRAVITY :: u32 where [flag_defs]: "EVL_TIMER_KGRAVITY = 0x00000040"
definition EVL_TIMER_UGRAVITY :: u32 where [flag_defs]: "EVL_TIMER_UGRAVITY = 0x00000080"
definition EVL_TIMER_IGRAVITY :: u32 where [flag_defs]: "EVL_TIMER_IGRAVITY = 0"
definition EVL_TIMER_GRAVITY_MASK :: u32 where [flag_defs]:
  "EVL_TIMER_GRAVITY_MASK = EVL_TIMER_KGRAVITY OR EVL_TIMER_UGRAVITY"
definition EVL_TIMER_INIT_MASK :: u32 where [flag_defs]: "EVL_TIMER_INIT_MASK = EVL_TIMER_GRAVITY_MASK"

record evl_timer =
  tm_clock :: ptr
  tm_date :: ktime
  tm_status :: u32
  tm_interval :: ktime
  tm_start_date :: ktime
  tm_consumed_ticks :: u64
  tm_periodic_ticks :: u64
  tm_rq :: ptr
  tm_base :: ptr
  tm_handler :: ptr
  tm_name :: string
  tm_scheduled :: evl_counter
  tm_fired :: evl_counter

type_synonym timers = "ptr \<Rightarrow> evl_timer"

definition evl_tdate :: "timers \<Rightarrow> ptr \<Rightarrow> ktime" where
  "evl_tdate tms t = tm_date (tms t)"

section \<open>The queue as a linked list\<close>

text \<open>The open-coded backward walk of the header is the one of \<open>__list_add_pri\<close>.\<close>

record 'a evl_tqueue =
  tq_q :: "'a list"

definition evl_init_tqueue :: "'a evl_tqueue" where
  "evl_init_tqueue = \<lparr>tq_q = []\<rparr>"

definition evl_destroy_tqueue :: "'a evl_tqueue \<Rightarrow> 'a evl_tqueue" where
  "evl_destroy_tqueue tq = tq"

definition evl_tqueue_is_empty :: "'a evl_tqueue \<Rightarrow> bool" where
  "evl_tqueue_is_empty tq \<longleftrightarrow> list_empty (tq_q tq)"

definition evl_get_tqueue_head :: "'a evl_tqueue \<Rightarrow> 'a option" where
  "evl_get_tqueue_head tq = (if list_empty (tq_q tq) then None else list_first_entry_or_null (tq_q tq))"

definition evl_get_tqueue_next :: "'a evl_tqueue \<Rightarrow> 'a \<Rightarrow> 'a option" where
  "evl_get_tqueue_next tq node = list_next node (tq_q tq)"

definition evl_insert_tnode :: "('a \<Rightarrow> ktime) \<Rightarrow> 'a \<Rightarrow> 'a evl_tqueue \<Rightarrow> 'a evl_tqueue" where
  "evl_insert_tnode date node tq =
     tq\<lparr>tq_q := list_add_pri (\<lambda>node n. sint (date n) \<le> sint (date node)) node (tq_q tq)\<rparr>"

definition evl_remove_tnode :: "'a \<Rightarrow> 'a evl_tqueue \<Rightarrow> 'a evl_tqueue" where
  "evl_remove_tnode node tq = tq\<lparr>tq_q := list_del node (tq_q tq)\<rparr>"

text \<open>\<open>for_each_evl_tnode\<close>: from the head, node by node, until there is no next one.\<close>

partial_function (option) for_each_from :: "('a \<Rightarrow> 'a option) \<Rightarrow> 'a option \<Rightarrow> 'a list option" where
  [code]: "for_each_from nxt node =
     (case node of None \<Rightarrow> Some []
      | Some n \<Rightarrow> Option.bind (for_each_from nxt (nxt n)) (\<lambda>ns. Some (n # ns)))"

definition for_each_evl_tnode :: "'a evl_tqueue \<Rightarrow> 'a list option" where
  "for_each_evl_tnode tq = for_each_from (\<lambda>n. list_next n (tq_q tq)) (list_first_entry_or_null (tq_q tq))"

section \<open>The queue as a tree with a cached head (CONFIG_EVL_TIMER_SCALABLE)\<close>

record 'a rb_tqueue =
  rbq_root :: "'a list"
  rbq_head :: "'a option"

definition rb_init_tqueue :: "'a rb_tqueue" where
  "rb_init_tqueue = \<lparr>rbq_root = [], rbq_head = None\<rparr>"

definition rb_tqueue_is_empty :: "'a rb_tqueue \<Rightarrow> bool" where
  "rb_tqueue_is_empty tq \<longleftrightarrow> rbq_head tq = None"

definition rb_get_tqueue_head :: "'a rb_tqueue \<Rightarrow> 'a option" where
  "rb_get_tqueue_head tq = rbq_head tq"

definition rb_get_tqueue_next :: "'a rb_tqueue \<Rightarrow> 'a \<Rightarrow> 'a option" where
  "rb_get_tqueue_next tq node = list_next node (rbq_root tq)"

definition rb_remove_tnode :: "'a \<Rightarrow> 'a rb_tqueue \<Rightarrow> 'a rb_tqueue" where
  "rb_remove_tnode node tq =
     (let tq1 = (if Some node = rbq_head tq then tq\<lparr>rbq_head := rb_get_tqueue_next tq node\<rparr> else tq)
      in tq1\<lparr>rbq_root := remove1 node (rbq_root tq1)\<rparr>)"

definition rb_for_each_evl_tnode :: "'a rb_tqueue \<Rightarrow> 'a list option" where
  "rb_for_each_evl_tnode tq = for_each_from (rb_get_tqueue_next tq) (rb_get_tqueue_head tq)"

lemmas lin_tq_defs [evl_defs] = evl_init_tqueue_def evl_tqueue_is_empty_def evl_get_tqueue_head_def
  evl_get_tqueue_next_def evl_insert_tnode_def evl_remove_tnode_def for_each_evl_tnode_def
lemmas rb_tq_defs [evl_defs] = rb_init_tqueue_def rb_tqueue_is_empty_def rb_get_tqueue_head_def
  rb_get_tqueue_next_def rb_remove_tnode_def rb_for_each_evl_tnode_def

section \<open>The interface of a timer queue\<close>

text \<open>
  What the two builds promise to the timer code: seen as the list \<open>abs q\<close> of its nodes, the head is
  the first one, \<open>next\<close> is the successor, and a removal takes one node out.
\<close>

locale timer_queue =
  fixes inv :: "'q \<Rightarrow> bool" and abs :: "'q \<Rightarrow> 'a list"
    and init :: 'q and is_empty :: "'q \<Rightarrow> bool" and head :: "'q \<Rightarrow> 'a option"
    and nxt :: "'q \<Rightarrow> 'a \<Rightarrow> 'a option" and remove :: "'a \<Rightarrow> 'q \<Rightarrow> 'q"
  assumes inv_init: "inv init" and abs_init: "abs init = []"
    and inv_distinct: "inv q \<Longrightarrow> distinct (abs q)"
    and is_empty_abs: "inv q \<Longrightarrow> is_empty q \<longleftrightarrow> abs q = []"
    and head_abs: "inv q \<Longrightarrow> head q = list_first_entry_or_null (abs q)"
    and nxt_abs: "inv q \<Longrightarrow> nxt q n = list_next n (abs q)"
    and inv_remove: "inv q \<Longrightarrow> n \<in> set (abs q) \<Longrightarrow> inv (remove n q)"
    and abs_remove: "inv q \<Longrightarrow> n \<in> set (abs q) \<Longrightarrow> abs (remove n q) = remove1 n (abs q)"
begin

lemma walk_suffix:
  assumes "inv q" and "abs q = us @ vs"
  shows "for_each_from (nxt q) (list_first_entry_or_null vs) = Some vs"
  using assms(2)
proof (induction vs arbitrary: us)
  case Nil
  then show ?case by (simp add: for_each_from.simps)
next
  case (Cons v vs)
  have d: "distinct (us @ v # vs)" using inv_distinct [OF assms(1)] Cons.prems by simp
  then have "list_next v (us @ v # vs) = list_first_entry_or_null vs"
    by (induction us) auto
  then have "nxt q v = list_first_entry_or_null vs"
    using Cons.prems nxt_abs [OF assms(1)] by simp
  with Cons.IH [of "us @ [v]"] Cons.prems show ?case
    by (simp add: for_each_from.simps [of _ "Some v"])
qed

lemma walk_enumerates: "inv q \<Longrightarrow> for_each_from (nxt q) (head q) = Some (abs q)"
  using walk_suffix [of q "[]" "abs q"] by (simp add: head_abs)

text \<open>Serving the queue from its head takes its nodes out in order.\<close>

lemma remove_head:
  "inv q \<Longrightarrow> head q = Some n \<Longrightarrow> abs q = n # abs (remove n q)"
  by (cases "abs q") (auto simp: head_abs abs_remove)

end

definition lin_tq_inv :: "'a evl_tqueue \<Rightarrow> bool" where
  "lin_tq_inv tq \<longleftrightarrow> distinct (tq_q tq)"

definition rb_tq_inv :: "'a rb_tqueue \<Rightarrow> bool" where
  "rb_tq_inv tq \<longleftrightarrow> distinct (rbq_root tq) \<and> rbq_head tq = list_first_entry_or_null (rbq_root tq)"

interpretation lin_tq: timer_queue lin_tq_inv tq_q evl_init_tqueue evl_tqueue_is_empty
  evl_get_tqueue_head evl_get_tqueue_next evl_remove_tnode
  by unfold_locales (auto simp: lin_tq_inv_def lin_tq_defs list_prims)

lemma rb_remove_head:
  assumes "rb_tq_inv tq" and "n \<in> set (rbq_root tq)"
  shows "rbq_head (rb_remove_tnode n tq) = list_first_entry_or_null (remove1 n (rbq_root tq))"
proof (cases "rbq_root tq")
  case (Cons x xs)
  with assms show ?thesis
    by (auto simp: rb_tq_inv_def rb_tq_defs Let_def)
qed (use assms in simp)

interpretation rb_tq: timer_queue rb_tq_inv rbq_root rb_init_tqueue rb_tqueue_is_empty
  rb_get_tqueue_head rb_get_tqueue_next rb_remove_tnode
proof unfold_locales
  fix q :: "'a rb_tqueue" and n
  assume *: "rb_tq_inv q" "n \<in> set (rbq_root q)"
  show "rbq_root (rb_remove_tnode n q) = remove1 n (rbq_root q)"
    by (simp add: rb_remove_tnode_def Let_def)
  with * rb_remove_head [OF *] show "rb_tq_inv (rb_remove_tnode n q)"
    by (simp add: rb_tq_inv_def)
qed (auto simp: rb_tq_inv_def rb_tq_defs)

end
