(* ===== verification/Timer_Ops.thy ===== *)
theory Timer_Ops
  imports Evl_Timer
begin

text \<open>
  The operations of \<open>include/evl/timer.h\<close> on timers: dates and gravity, enqueueing and dequeueing,
  timed waits. The functions of \<open>timer.c\<close> they call (\<open>__evl_stop_timer\<close>, \<open>__evl_get_timer_delta\<close>,
  \<open>evl_move_timer\<close>, the tree insertion) are arguments.
\<close>

section \<open>Operations\<close>

definition evl_timer_is_running :: "evl_timer \<Rightarrow> bool" where
  "evl_timer_is_running timer \<longleftrightarrow> tm_status timer AND EVL_TIMER_RUNNING \<noteq> 0"

definition evl_timer_is_periodic :: "evl_timer \<Rightarrow> bool" where
  "evl_timer_is_periodic timer \<longleftrightarrow> tm_status timer AND EVL_TIMER_PERIODIC \<noteq> 0"

definition evl_stop_timer :: "(evl_timer \<Rightarrow> evl_timer) \<Rightarrow> evl_timer \<Rightarrow> evl_timer" where
  "evl_stop_timer raw_stop timer = (if evl_timer_is_running timer then raw_stop timer else timer)"

definition evl_abs_timeout :: "(ptr \<Rightarrow> ktime) \<Rightarrow> evl_timer \<Rightarrow> ktime \<Rightarrow> ktime" where
  "evl_abs_timeout read_clock timer delta = read_clock (tm_clock timer) + delta"

definition evl_get_timer_rq :: "evl_timer \<Rightarrow> ptr" where
  "evl_get_timer_rq timer = tm_rq timer"

definition evl_get_timer_gravity :: "'s clocks \<Rightarrow> evl_timer \<Rightarrow> u64" where
  "evl_get_timer_gravity clocks timer =
     (let clock = clocks (tm_clock timer) in
      if tm_status timer AND EVL_TIMER_KGRAVITY \<noteq> 0 then gv_kernel (ck_gravity clock)
      else if tm_status timer AND EVL_TIMER_UGRAVITY \<noteq> 0 then gv_user (ck_gravity clock)
      else gv_irq (ck_gravity clock))"

definition evl_update_timer_date :: "'s clocks \<Rightarrow> evl_timer \<Rightarrow> evl_timer" where
  "evl_update_timer_date clocks timer =
     timer\<lparr>tm_date := tm_start_date timer +
       (tm_periodic_ticks timer * tm_interval timer - evl_get_timer_gravity clocks timer)\<rparr>"

definition evl_get_timer_next_date :: "evl_timer \<Rightarrow> ktime" where
  "evl_get_timer_next_date timer = tm_start_date timer + tm_consumed_ticks timer * tm_interval timer"

definition evl_get_timer_expiry :: "'s clocks \<Rightarrow> evl_timer \<Rightarrow> ktime" where
  "evl_get_timer_expiry clocks timer = tm_date timer + evl_get_timer_gravity clocks timer"

definition evl_get_timer_delta :: "(evl_timer \<Rightarrow> ktime) \<Rightarrow> evl_timer \<Rightarrow> ktime" where
  "evl_get_timer_delta raw_delta timer =
     (if \<not> evl_timer_is_running timer then EVL_INFINITE else raw_delta timer)"

definition raw_evl_get_stopped_timer_delta :: "(evl_timer \<Rightarrow> ktime) \<Rightarrow> evl_timer \<Rightarrow> ktime" where
  "raw_evl_get_stopped_timer_delta raw_delta timer = raw_delta timer"

definition evl_get_stopped_timer_delta :: "(evl_timer \<Rightarrow> ktime) \<Rightarrow> evl_timer \<Rightarrow> ktime" where
  "evl_get_stopped_timer_delta raw_delta timer =
     (let t = raw_evl_get_stopped_timer_delta raw_delta timer in
      if sint t \<le> 1 then EVL_INFINITE else t)"

definition evl_reset_timer_stats :: "evl_timer \<Rightarrow> evl_timer" where
  "evl_reset_timer_stats timer =
     timer\<lparr>tm_scheduled := evl_set_counter (tm_scheduled timer) 0,
           tm_fired := evl_set_counter (tm_fired timer) 0\<rparr>"

definition evl_account_timer_scheduled :: "evl_timer \<Rightarrow> evl_timer" where
  "evl_account_timer_scheduled timer =
     timer\<lparr>tm_scheduled := snd (evl_inc_counter (tm_scheduled timer))\<rparr>"

definition evl_account_timer_fired :: "evl_timer \<Rightarrow> evl_timer" where
  "evl_account_timer_fired timer = timer\<lparr>tm_fired := snd (evl_inc_counter (tm_fired timer))\<rparr>"

definition evl_set_timer_name :: "evl_timer \<Rightarrow> string \<Rightarrow> evl_timer" where
  "evl_set_timer_name timer name = timer\<lparr>tm_name := name\<rparr>"

definition evl_get_timer_name :: "evl_timer \<Rightarrow> string" where
  "evl_get_timer_name timer = tm_name timer"

text \<open>Both queue builds: \<open>rem\<close> is the build's \<open>evl_remove_tnode\<close>, \<open>ins\<close> its \<open>evl_insert_tnode\<close>.\<close>

definition evl_dequeue_timer :: "(ptr \<Rightarrow> 'q \<Rightarrow> 'q) \<Rightarrow> ptr \<Rightarrow> timers \<times> 'q \<Rightarrow> timers \<times> 'q" where
  "evl_dequeue_timer rem t = (\<lambda>(tms, tq).
     let tq' = rem t tq
     in (tms(t := (tms t)\<lparr>tm_status := tm_status (tms t) OR EVL_TIMER_DEQUEUED\<rparr>), tq'))"

definition evl_enqueue_timer ::
    "((ptr \<Rightarrow> ktime) \<Rightarrow> ptr \<Rightarrow> 'q \<Rightarrow> 'q) \<Rightarrow> ptr \<Rightarrow> timers \<times> 'q \<Rightarrow> timers \<times> 'q" where
  "evl_enqueue_timer ins t = (\<lambda>(tms, tq).
     let tq' = ins (evl_tdate tms) t tq;
         tm1 = (tms t)\<lparr>tm_status := tm_status (tms t) AND NOT EVL_TIMER_DEQUEUED\<rparr>
     in (tms(t := evl_account_timer_scheduled tm1), tq'))"

text \<open>\<open>evl_prepare_timed_wait\<close> and \<open>evl_timer_on_rq\<close>, with and without \<open>CONFIG_SMP\<close>.\<close>

definition evl_prepare_timed_wait ::
    "(evl_timer \<Rightarrow> ptr \<Rightarrow> ptr \<Rightarrow> evl_timer) \<Rightarrow> evl_timer \<Rightarrow> ptr \<Rightarrow> ptr \<Rightarrow> evl_timer" where
  "evl_prepare_timed_wait move_timer timer clock rq =
     (if rq \<noteq> tm_rq timer \<or> clock \<noteq> tm_clock timer then move_timer timer clock rq else timer)"

definition evl_timer_on_rq :: "evl_timer \<Rightarrow> ptr \<Rightarrow> bool" where
  "evl_timer_on_rq timer rq \<longleftrightarrow> tm_rq timer = rq"

definition up_evl_prepare_timed_wait ::
    "(evl_timer \<Rightarrow> ptr \<Rightarrow> ptr \<Rightarrow> evl_timer) \<Rightarrow> evl_timer \<Rightarrow> ptr \<Rightarrow> ptr \<Rightarrow> evl_timer" where
  "up_evl_prepare_timed_wait move_timer timer clock rq =
     (if clock \<noteq> tm_clock timer then move_timer timer clock rq else timer)"

definition up_evl_timer_on_rq :: "evl_timer \<Rightarrow> ptr \<Rightarrow> bool" where
  "up_evl_timer_on_rq timer rq \<longleftrightarrow> True"

lemmas timer_ops [evl_defs] = evl_account_timer_scheduled_def evl_inc_counter_def
  evl_dequeue_timer_def evl_enqueue_timer_def evl_tdate_def

section \<open>Dates\<close>

lemma gravity_update_date [simp]:
  "evl_get_timer_gravity clocks (timer\<lparr>tm_date := d\<rparr>) = evl_get_timer_gravity clocks timer"
  by (simp add: evl_get_timer_gravity_def cong: if_cong)

text \<open>Anticipation by the clock gravity never shifts the ideal expiry dates of a periodic timer:
  whatever the gravity selected by the timer's status, after \<open>evl_update_timer_date\<close> the ideal expiry
  is \<open>start_date + periodic_ticks * interval\<close>, it is the date the user is told as the next one once
  all the elapsed ticks are consumed, and the date the timer is queued at precedes it by exactly that
  gravity. The status, the period and the tick counts are kept.\<close>

lemma timer_expiry_ignores_gravity:
  "let timer' = evl_update_timer_date clocks timer in
     evl_get_timer_expiry clocks timer' = tm_start_date timer + tm_periodic_ticks timer * tm_interval timer \<and>
     evl_get_timer_next_date (timer'\<lparr>tm_consumed_ticks := tm_periodic_ticks timer\<rparr>) =
       evl_get_timer_expiry clocks timer' \<and>
     evl_get_timer_expiry clocks timer' - tm_date timer' = evl_get_timer_gravity clocks timer \<and>
     timer' = timer\<lparr>tm_date := tm_date timer'\<rparr>"
  by (simp add: Let_def evl_update_timer_date_def evl_get_timer_expiry_def evl_get_timer_next_date_def)

lemma stopped_timer_has_no_delta:
  "tm_status timer AND EVL_TIMER_RUNNING = 0 \<Longrightarrow> timeout_infinite (evl_get_timer_delta d timer)"
  by (simp add: evl_get_timer_delta_def evl_timer_is_running_def timeout_infinite_def)

lemma stopped_delta_is_positive_or_infinite:
  "timeout_infinite (evl_get_stopped_timer_delta d timer) \<or>
   1 < sint (evl_get_stopped_timer_delta d timer)"
  by (simp add: evl_get_stopped_timer_delta_def Let_def timeout_infinite_def)

lemma prepared_timer_is_local:
  assumes "\<And>t c r. tm_clock (mv t c r) = c \<and> tm_rq (mv t c r) = r"
  shows "tm_clock (evl_prepare_timed_wait mv timer clock rq) = clock \<and>
    evl_timer_on_rq (evl_prepare_timed_wait mv timer clock rq) rq"
  by (simp add: evl_prepare_timed_wait_def evl_timer_on_rq_def assms)

section \<open>The invariant of a timer base\<close>

abbreviation date_key :: "timers \<Rightarrow> ptr \<Rightarrow> int" where
  "date_key tms t \<equiv> - sint (evl_tdate tms t)"

text \<open>
  The timers of a base are \<open>T\<close>. A timer is linked on the queue exactly when its status does not have
  \<open>EVL_TIMER_DEQUEUED\<close>, and the queue is in the order of the dates, earliest first.
\<close>

definition base_inv :: "ptr set \<Rightarrow> timers \<Rightarrow> ptr list \<Rightarrow> bool" where
  "base_inv T tms ts \<longleftrightarrow> distinct ts \<and> set ts = {t \<in> T. tm_status (tms t) AND EVL_TIMER_DEQUEUED = 0} \<and>
     desc (date_key tms) ts"

text \<open>What the core does with the timers of a base: queueing a dequeued timer, dequeueing a queued
  one, and updating the date of a dequeued timer.\<close>

datatype timer_op = Enq ptr | Deq ptr | Update ptr

fun timer_op_ok :: "ptr set \<Rightarrow> timers \<Rightarrow> timer_op \<Rightarrow> bool" where
  "timer_op_ok T tms (Enq t) \<longleftrightarrow> t \<in> T \<and> tm_status (tms t) AND EVL_TIMER_DEQUEUED \<noteq> 0"
| "timer_op_ok T tms (Deq t) \<longleftrightarrow> t \<in> T \<and> tm_status (tms t) AND EVL_TIMER_DEQUEUED = 0"
| "timer_op_ok T tms (Update t) \<longleftrightarrow> t \<in> T \<and> tm_status (tms t) AND EVL_TIMER_DEQUEUED \<noteq> 0"

fun timer_step :: "((ptr \<Rightarrow> ktime) \<Rightarrow> ptr \<Rightarrow> 'q \<Rightarrow> 'q) \<Rightarrow> (ptr \<Rightarrow> 'q \<Rightarrow> 'q) \<Rightarrow> 's clocks \<Rightarrow>
    timer_op \<Rightarrow> timers \<times> 'q \<Rightarrow> timers \<times> 'q" where
  "timer_step ins rem clocks (Enq t) s = evl_enqueue_timer ins t s"
| "timer_step ins rem clocks (Deq t) s = evl_dequeue_timer rem t s"
| "timer_step ins rem clocks (Update t) (tms, tq) = (tms(t := evl_update_timer_date clocks (tms t)), tq)"

fun timer_run :: "((ptr \<Rightarrow> ktime) \<Rightarrow> ptr \<Rightarrow> 'q \<Rightarrow> 'q) \<Rightarrow> (ptr \<Rightarrow> 'q \<Rightarrow> 'q) \<Rightarrow> 's clocks \<Rightarrow> ptr set \<Rightarrow>
    timer_op list \<Rightarrow> timers \<times> 'q \<Rightarrow> (timers \<times> 'q) option" where
  "timer_run ins rem clocks T [] s = Some s"
| "timer_run ins rem clocks T (p # ps) s =
     (if timer_op_ok T (fst s) p then timer_run ins rem clocks T ps (timer_step ins rem clocks p s)
      else None)"

lemma desc_cong: "(\<And>x. x \<in> set xs \<Longrightarrow> k x = k' x) \<Longrightarrow> desc k xs \<longleftrightarrow> desc k' xs"
  by (induction xs) auto

lemma base_inv_cong:
  assumes "base_inv T tms ts" and "t \<notin> set ts"
    and "tm_status tm AND EVL_TIMER_DEQUEUED \<noteq> 0 \<or> t \<notin> T"
  shows "base_inv T (tms(t := tm)) ts"
proof -
  have "desc (date_key (tms(t := tm))) ts \<longleftrightarrow> desc (date_key tms) ts"
    using assms(2) by (intro desc_cong) (auto simp: evl_tdate_def)
  with assms show ?thesis by (auto simp: base_inv_def)
qed

lemma dequeued_flag [simp]:
  "(s AND NOT EVL_TIMER_DEQUEUED) AND EVL_TIMER_DEQUEUED = 0"
  "(s OR EVL_TIMER_DEQUEUED) AND EVL_TIMER_DEQUEUED = EVL_TIMER_DEQUEUED"
  "EVL_TIMER_DEQUEUED \<noteq> 0"
  by (simp_all only: and_not_cancel or_and_absorb) (simp add: EVL_TIMER_DEQUEUED_def)

lemma base_inv_enqueue:
  assumes inv: "base_inv T tms ts" and t: "t \<in> T" "t \<notin> set ts"
    and tm: "tm_date tm = tm_date (tms t)" "tm_status tm AND EVL_TIMER_DEQUEUED = 0"
  shows "base_inv T (tms(t := tm)) (list_add_priff (date_key tms) t ts)"
proof -
  have "date_key (tms(t := tm)) = date_key tms"
    using tm(1) by (auto simp: evl_tdate_def)
  then show ?thesis
    using assms desc_list_add_priff [of "date_key tms" ts t]
    by (auto simp: base_inv_def distinct_list_add_pri list_add_priff_def [symmetric]
        distinct_list_add_pri [of ts t "\<lambda>n p. date_key tms n \<le> date_key tms p", folded list_add_priff_def])
qed

lemma base_inv_dequeue:
  assumes inv: "base_inv T tms ts" and tm: "tm_date tm = tm_date (tms t)"
    "tm_status tm AND EVL_TIMER_DEQUEUED \<noteq> 0"
  shows "base_inv T (tms(t := tm)) (remove1 t ts)"
proof -
  have "date_key (tms(t := tm)) = date_key tms"
    using tm(1) by (auto simp: evl_tdate_def)
  with assms show ?thesis
    by (auto simp: base_inv_def desc_remove1)
qed

text \<open>A timer queue with its insertion: the ordered insertion, after the timers of the same date.\<close>

locale timer_base = timer_queue inv abs init is_empty head nxt remove
  for inv :: "'q \<Rightarrow> bool" and abs :: "'q \<Rightarrow> ptr list" and init is_empty head nxt remove +
  fixes ins :: "(ptr \<Rightarrow> ktime) \<Rightarrow> ptr \<Rightarrow> 'q \<Rightarrow> 'q"
  assumes inv_insert: "inv q \<Longrightarrow> n \<notin> set (abs q) \<Longrightarrow> desc (\<lambda>t. - sint (d t)) (abs q) \<Longrightarrow> inv (ins d n q)"
    and abs_insert: "inv q \<Longrightarrow> n \<notin> set (abs q) \<Longrightarrow> desc (\<lambda>t. - sint (d t)) (abs q) \<Longrightarrow>
      abs (ins d n q) = list_add_priff (\<lambda>t. - sint (d t)) n (abs q)"
begin

lemma step_inv:
  assumes "inv q" and "base_inv T tms (abs q)" and "timer_op_ok T tms p"
    and "timer_step ins remove clocks p (tms, q) = (tms', q')"
  shows "inv q' \<and> base_inv T tms' (abs q')"
proof (cases p)
  case (Enq t)
  with assms have "t \<notin> set (abs q)" and "desc (date_key tms) (abs q)" and "t \<in> T"
    by (auto simp: base_inv_def)
  with Enq assms show ?thesis
    by (auto simp: evl_enqueue_timer_def evl_account_timer_scheduled_def Let_def inv_insert abs_insert
        intro!: base_inv_enqueue)
next
  case (Deq t)
  with assms have "t \<in> set (abs q)" by (auto simp: base_inv_def)
  with Deq assms show ?thesis
    by (auto simp: timer_ops Let_def inv_remove abs_remove intro!: base_inv_dequeue)
next
  case (Update t)
  with assms have "t \<notin> set (abs q)" by (auto simp: base_inv_def)
  with Update assms show ?thesis
    by (auto simp: evl_update_timer_date_def intro!: base_inv_cong)
qed

lemma run_inv:
  assumes "inv q" and "base_inv T tms (abs q)" and "timer_run ins remove clocks T ps (tms, q) = Some (tms', q')"
  shows "inv q' \<and> base_inv T tms' (abs q')"
  using assms
proof (induction ps arbitrary: tms q)
  case (Cons p ps)
  obtain tms1 q1 where s: "timer_step ins remove clocks p (tms, q) = (tms1, q1)" by fastforce
  with Cons.prems have "inv q1 \<and> base_inv T tms1 (abs q1)"
    by (intro step_inv) (auto split: if_splits)
  with Cons s show ?case by (auto split: if_splits)
qed simp

lemma run_ordered:
  assumes "\<forall>t \<in> T. tm_status (tms t) AND EVL_TIMER_DEQUEUED \<noteq> 0"
    and "timer_run ins remove clocks T ps (tms, init) = Some (tms', q')"
  shows "\<exists>ts. for_each_from (nxt q') (head q') = Some ts \<and> base_inv T tms' ts \<and>
    head q' = list_first_entry_or_null ts"
proof -
  have "base_inv T tms (abs init)" using assms(1) by (auto simp: base_inv_def abs_init)
  from run_inv [OF inv_init this assms(2)] show ?thesis
    using walk_enumerates head_abs by blast
qed

end

interpretation lin_base: timer_base lin_tq_inv tq_q evl_init_tqueue evl_tqueue_is_empty
  evl_get_tqueue_head evl_get_tqueue_next evl_remove_tnode evl_insert_tnode
  by unfold_locales
    (auto simp: lin_tq_inv_def lin_tq_defs list_prims list_add_priff_def intro: distinct_list_add_pri)


section \<open>Both builds of the queue\<close>

text \<open>C5. The timer queue of the default build: starting from the empty queue, with all the timers of
  the base dequeued, any sequence of enqueueings of dequeued timers, dequeueings of queued timers and
  date updates of dequeued timers leads to a queue \<open>for_each_evl_tnode\<close> enumerates to its end, whose
  nodes are exactly the timers of the base without \<open>EVL_TIMER_DEQUEUED\<close>, each one once and in the order
  of their dates; \<open>evl_get_tqueue_head\<close> gives the first of them, a timer with the earliest date of all,
  and no timer exactly when none is queued, which is when \<open>evl_tqueue_is_empty\<close> holds.\<close>

theorem timer_queue_is_ordered:
  assumes "\<forall>t \<in> T. tm_status (tms t) AND EVL_TIMER_DEQUEUED \<noteq> 0"
    and "timer_run evl_insert_tnode evl_remove_tnode clocks T ps (tms, evl_init_tqueue) = Some (tms', tq)"
  shows "\<exists>ts. for_each_evl_tnode tq = Some ts \<and> distinct ts \<and>
    set ts = {t \<in> T. tm_status (tms' t) AND EVL_TIMER_DEQUEUED = 0} \<and>
    sorted_wrt (\<lambda>a b. sint (evl_tdate tms' a) \<le> sint (evl_tdate tms' b)) ts \<and>
    (evl_tqueue_is_empty tq \<longleftrightarrow> ts = []) \<and>
    (case evl_get_tqueue_head tq of
       None \<Rightarrow> ts = []
     | Some h \<Rightarrow> ts \<noteq> [] \<and> h = hd ts \<and> (\<forall>t \<in> set ts. sint (evl_tdate tms' h) \<le> sint (evl_tdate tms' t)))"
proof -
  obtain ts where w: "for_each_from (evl_get_tqueue_next tq) (evl_get_tqueue_head tq) = Some ts"
    and inv: "base_inv T tms' ts" and h: "evl_get_tqueue_head tq = list_first_entry_or_null ts"
    using lin_base.run_ordered [OF assms] by blast
  have f: "for_each_evl_tnode tq = Some ts"
    using w by (auto simp: lin_tq_defs [abs_def] list_prims split: if_splits)
  have "evl_tqueue_is_empty tq \<longleftrightarrow> evl_get_tqueue_head tq = None"
    by (cases "tq_q tq") (simp_all add: lin_tq_defs list_prims)
  with h have e: "evl_tqueue_is_empty tq \<longleftrightarrow> ts = []" by simp
  have d: "distinct ts" "desc (date_key tms') ts"
    "set ts = {t \<in> T. tm_status (tms' t) AND EVL_TIMER_DEQUEUED = 0}"
    using inv by (simp_all add: base_inv_def)
  have "case evl_get_tqueue_head tq of None \<Rightarrow> ts = []
     | Some h \<Rightarrow> ts \<noteq> [] \<and> h = hd ts \<and> (\<forall>t \<in> set ts. sint (evl_tdate tms' h) \<le> sint (evl_tdate tms' t))"
    unfolding h using d(2) by (cases ts) auto
  with d f e show ?thesis
    by (intro exI [of _ ts] conjI) (simp_all add: desc_def)
qed

definition sample_clock :: "unit evl_clock" where
  "sample_clock = \<lparr>ck_resolution = 1, ck_gravity = \<lparr>gv_irq = 100, gv_kernel = 200, gv_user = 300\<rparr>,
     ck_name = ''monotonic'', ck_flags = 0,
     ck_ops = \<lparr>op_read = \<lambda>_ _. 0, op_read_cycles = \<lambda>_ _. 0, op_set = None, op_program_local_shot = None,
       op_program_remote_shot = None, op_set_gravity = None, op_reset_gravity = None, op_adjust = None\<rparr>,
     ck_timerdata = \<lambda>_. 0, ck_master = 1, ck_offset = 0, ck_affinity = {0}, ck_element = 0,
     ck_dispose = None\<rparr>"

definition sample_clocks :: "unit clocks" where
  "sample_clocks = (\<lambda>_. sample_clock)"

definition sample_timer :: evl_timer where
  "sample_timer = \<lparr>tm_clock = 1, tm_date = 0, tm_status = EVL_TIMER_DEQUEUED, tm_interval = 0,
     tm_start_date = 50, tm_consumed_ticks = 0, tm_periodic_ticks = 0, tm_rq = 0, tm_base = 0,
     tm_handler = 0, tm_name = ''t'', tm_scheduled = \<lparr>cnt_counter = 0\<rparr>, tm_fired = \<lparr>cnt_counter = 0\<rparr>\<rparr>"

definition sample_timers :: timers where
  "sample_timers = (\<lambda>_. sample_timer)(7 := sample_timer\<lparr>tm_date := 20\<rparr>, 8 := sample_timer\<lparr>tm_date := 10\<rparr>)"

lemma sample_timers_dequeued: "\<forall>t \<in> {7, 8}. tm_status (sample_timers t) AND EVL_TIMER_DEQUEUED \<noteq> 0"
  by (simp add: sample_timers_def sample_timer_def EVL_TIMER_DEQUEUED_def)

theorem timer_queue_is_ordered_witness:
  "\<exists>tms' tq. timer_run evl_insert_tnode evl_remove_tnode sample_clocks {7, 8} [Enq 7, Enq 8]
      (sample_timers, evl_init_tqueue) = Some (tms', tq) \<and> tq_q tq = [8, 7] \<and>
    (\<exists>ts. for_each_evl_tnode tq = Some ts \<and> sorted_wrt (\<lambda>a b. sint (evl_tdate tms' a) \<le> sint (evl_tdate tms' b)) ts)"
proof -
  have "\<exists>tms' tq. timer_run evl_insert_tnode evl_remove_tnode sample_clocks {7, 8} [Enq 7, Enq 8]
      (sample_timers, evl_init_tqueue) = Some (tms', tq) \<and> tq_q tq = [8, 7]"
    by (simp add: timer_ops Let_def sample_timers_def sample_timer_def EVL_TIMER_DEQUEUED_def lin_tq_defs
        list_add_pri_def list_prims)
  then obtain tms' tq where r: "timer_run evl_insert_tnode evl_remove_tnode sample_clocks {7, 8} [Enq 7, Enq 8]
      (sample_timers, evl_init_tqueue) = Some (tms', tq)" "tq_q tq = [8, 7]" by blast
  from timer_queue_is_ordered [OF sample_timers_dequeued r(1)] r show ?thesis by blast
qed

text \<open>The tree build: the insertion of \<open>timer.c\<close> is a parameter with its contract.\<close>

definition rb_insertion :: "((ptr \<Rightarrow> ktime) \<Rightarrow> ptr \<Rightarrow> ptr rb_tqueue \<Rightarrow> ptr rb_tqueue) \<Rightarrow> bool" where
  "rb_insertion ins \<longleftrightarrow> (\<forall>d n q. rb_tq_inv q \<longrightarrow> n \<notin> set (rbq_root q) \<longrightarrow>
     desc (\<lambda>t. - sint (d t)) (rbq_root q) \<longrightarrow>
     rbq_root (ins d n q) = list_add_priff (\<lambda>t. - sint (d t)) n (rbq_root q) \<and>
     rbq_head (ins d n q) = list_first_entry_or_null (rbq_root (ins d n q)))"

lemma rb_timer_base:
  assumes "rb_insertion ins"
  shows "timer_base rb_tq_inv rbq_root rb_init_tqueue rb_tqueue_is_empty rb_get_tqueue_head
    rb_get_tqueue_next rb_remove_tnode ins"
  using assms
  by unfold_locales (auto simp: rb_insertion_def rb_tq_inv_def list_add_priff_def intro: distinct_list_add_pri)

lemma builds_run_agree:
  assumes "rb_insertion ins" and "rb_tq_inv rq" and "lin_tq_inv lq" and "rbq_root rq = tq_q lq"
    and "base_inv T tms (tq_q lq)"
  shows "map_option (\<lambda>(tms', q). (tms', rbq_root q)) (timer_run ins rb_remove_tnode clocks T ps (tms, rq)) =
         map_option (\<lambda>(tms', q). (tms', tq_q q)) (timer_run evl_insert_tnode evl_remove_tnode clocks T ps (tms, lq))"
  using assms(2-)
proof (induction ps arbitrary: tms rq lq)
  case (Cons p ps)
  obtain tms1 lq1 where l: "timer_step evl_insert_tnode evl_remove_tnode clocks p (tms, lq) = (tms1, lq1)"
    by fastforce
  obtain tms2 rq1 where r: "timer_step ins rb_remove_tnode clocks p (tms, rq) = (tms2, rq1)" by fastforce
  show ?case
  proof (cases "timer_op_ok T tms p")
    case True
    from Cons.prems have b: "base_inv T tms (rbq_root rq)" by simp
    note il = lin_base.step_inv [OF Cons.prems(2,4) True l]
    note ir = timer_base.step_inv [OF rb_timer_base [OF assms(1)] Cons.prems(1) b True r]
    have ins: "desc (\<lambda>t. - sint (d t)) (tq_q lq) \<Longrightarrow> n \<notin> set (tq_q lq) \<Longrightarrow>
        rbq_root (ins d n rq) = tq_q (evl_insert_tnode d n lq)" for d n
      using assms(1) Cons.prems
      by (simp add: rb_insertion_def lin_base.abs_insert)
    have rem: "n \<in> set (tq_q lq) \<Longrightarrow> rbq_root (rb_remove_tnode n rq) = tq_q (evl_remove_tnode n lq)" for n
      using Cons.prems by (simp add: rb_tq.abs_remove lin_tq.abs_remove)
    have inv: "desc (date_key tms) (tq_q lq)"
      and set: "set (tq_q lq) = {t \<in> T. tm_status (tms t) AND EVL_TIMER_DEQUEUED = 0}"
      using Cons.prems(4) by (simp_all add: base_inv_def)
    have "tms2 = tms1 \<and> rbq_root rq1 = tq_q lq1"
    proof (cases p)
      case (Enq t)
      with True set have "t \<notin> set (tq_q lq)" by simp
      from ins [OF inv this] Enq l r show ?thesis by (auto simp: evl_enqueue_timer_def Let_def)
    next
      case (Deq t)
      with True set have "t \<in> set (tq_q lq)" by simp
      from rem [OF this] Deq l r show ?thesis by (auto simp: evl_dequeue_timer_def Let_def)
    next
      case (Update t)
      with l r Cons.prems(3) show ?thesis by auto
    qed
    with il ir Cons.IH [of rq1 lq1 tms1] True show ?thesis by (simp add: l r)
  qed simp
qed simp

text \<open>C4. The two builds of the timer queue are interchangeable: given an insertion into the tree that
  keeps its sequence ordered by date, the new timer after the ones with the same date, and its cached
  head first, any sequence of operations on a base whose timers all start dequeued is legal for both or
  for none, and leaves the same timers, the same enumeration by \<open>for_each_evl_tnode\<close> and the same head.\<close>

theorem timer_builds_agree:
  assumes "rb_insertion ins" and "\<forall>t \<in> T. tm_status (tms t) AND EVL_TIMER_DEQUEUED \<noteq> 0"
  shows "map_option (\<lambda>(tms', q). (tms', rb_for_each_evl_tnode q, rb_get_tqueue_head q))
           (timer_run ins rb_remove_tnode clocks T ps (tms, rb_init_tqueue)) =
         map_option (\<lambda>(tms', q). (tms', for_each_evl_tnode q, evl_get_tqueue_head q))
           (timer_run evl_insert_tnode evl_remove_tnode clocks T ps (tms, evl_init_tqueue))"
    (is "?l = ?r")
proof -
  let ?rb = "timer_run ins rb_remove_tnode clocks T ps (tms, rb_init_tqueue)"
  let ?ln = "timer_run evl_insert_tnode evl_remove_tnode clocks T ps (tms, evl_init_tqueue)"
  have b: "base_inv T tms (tq_q evl_init_tqueue)" "base_inv T tms (rbq_root rb_init_tqueue)"
    using assms(2) by (auto simp: base_inv_def lin_tq_defs rb_tq_defs)
  have agree: "map_option (\<lambda>(tms', q). (tms', rbq_root q)) ?rb = map_option (\<lambda>(tms', q). (tms', tq_q q)) ?ln"
    using builds_run_agree [OF assms(1) rb_tq.inv_init lin_tq.inv_init _ b(1)]
    by (simp add: lin_tq.abs_init rb_tq.abs_init)
  show ?thesis
  proof (cases ?rb)
    case None
    with agree show ?thesis by simp
  next
    case (Some s)
    obtain tms' rq where s: "s = (tms', rq)" by fastforce
    with Some agree obtain lq where ln: "?ln = Some (tms', lq)" and q: "rbq_root rq = tq_q lq"
      by (cases ?ln) auto
    have ri: "rb_tq_inv rq"
      using timer_base.run_inv [OF rb_timer_base [OF assms(1)] rb_tq.inv_init b(2)] Some s by blast
    have li: "lin_tq_inv lq" using lin_base.run_inv [OF lin_tq.inv_init b(1) ln] by blast
    have "rb_for_each_evl_tnode rq = Some (tq_q lq)"
      using rb_tq.walk_enumerates [OF ri] q by (simp add: rb_for_each_evl_tnode_def)
    moreover have "for_each_evl_tnode lq = Some (tq_q lq)"
      using lin_tq.walk_enumerates [OF li] lin_tq.head_abs [OF li]
      by (simp add: for_each_evl_tnode_def evl_get_tqueue_next_def [abs_def])
    ultimately show ?thesis
      using Some s ln q rb_tq.head_abs [OF ri] lin_tq.head_abs [OF li] by simp
  qed
qed

definition sample_rb_insert :: "(ptr \<Rightarrow> ktime) \<Rightarrow> ptr \<Rightarrow> ptr rb_tqueue \<Rightarrow> ptr rb_tqueue" where
  "sample_rb_insert d n q =
     (let r = list_add_priff (\<lambda>t. - sint (d t)) n (rbq_root q) in
      \<lparr>rbq_root = r, rbq_head = list_first_entry_or_null r\<rparr>)"

theorem timer_builds_agree_witness:
  "map_option (\<lambda>(tms', q). (tms', rb_for_each_evl_tnode q, rb_get_tqueue_head q))
     (timer_run sample_rb_insert rb_remove_tnode sample_clocks {7, 8} [Enq 7, Enq 8, Deq 7] (sample_timers, rb_init_tqueue)) =
   map_option (\<lambda>(tms', q). (tms', for_each_evl_tnode q, evl_get_tqueue_head q))
     (timer_run evl_insert_tnode evl_remove_tnode sample_clocks {7, 8} [Enq 7, Enq 8, Deq 7] (sample_timers, evl_init_tqueue))"
  by (rule timer_builds_agree [OF _ sample_timers_dequeued])
    (simp add: rb_insertion_def sample_rb_insert_def Let_def)

end
