(* ===== verification/Thread_State.thy ===== *)
theory Thread_State
  imports Evl_Prelude
begin

text \<open>
  \<open>include/uapi/evl/thread-abi.h\<close> and the masks of \<open>include/evl/thread.h\<close>: the state and
  information bits of a thread, the window a thread shares with user space, the health monitoring
  codes, and the masks the core applies to them.
\<close>

section \<open>State flags\<close>

definition EVL_T_SUSP :: u32 where [flag_defs]: "EVL_T_SUSP = 0x00000001"
definition EVL_T_PEND :: u32 where [flag_defs]: "EVL_T_PEND = 0x00000002"
definition EVL_T_DELAY :: u32 where [flag_defs]: "EVL_T_DELAY = 0x00000004"
definition EVL_T_WAIT :: u32 where [flag_defs]: "EVL_T_WAIT = 0x00000008"
definition EVL_T_READY :: u32 where [flag_defs]: "EVL_T_READY = 0x00000010"
definition EVL_T_DORMANT :: u32 where [flag_defs]: "EVL_T_DORMANT = 0x00000020"
definition EVL_T_ZOMBIE :: u32 where [flag_defs]: "EVL_T_ZOMBIE = 0x00000040"
definition EVL_T_INBAND :: u32 where [flag_defs]: "EVL_T_INBAND = 0x00000080"
definition EVL_T_HALT :: u32 where [flag_defs]: "EVL_T_HALT = 0x00000100"
definition EVL_T_BOOST :: u32 where [flag_defs]: "EVL_T_BOOST = 0x00000200"
definition EVL_T_PTSYNC :: u32 where [flag_defs]: "EVL_T_PTSYNC = 0x00000400"
definition EVL_T_RRB :: u32 where [flag_defs]: "EVL_T_RRB = 0x00000800"
definition EVL_T_ROOT :: u32 where [flag_defs]: "EVL_T_ROOT = 0x00001000"
definition EVL_T_WEAK :: u32 where [flag_defs]: "EVL_T_WEAK = 0x00002000"
definition EVL_T_USER :: u32 where [flag_defs]: "EVL_T_USER = 0x00004000"
definition EVL_T_WOSS :: u32 where [flag_defs]: "EVL_T_WOSS = 0x00008000"
definition EVL_T_WOLI :: u32 where [flag_defs]: "EVL_T_WOLI = 0x00010000"
definition EVL_T_WOSX :: u32 where [flag_defs]: "EVL_T_WOSX = 0x00020000"
definition EVL_T_PTRACE :: u32 where [flag_defs]: "EVL_T_PTRACE = 0x00040000"
definition EVL_T_OBSERV :: u32 where [flag_defs]: "EVL_T_OBSERV = 0x00080000"
definition EVL_T_HMSIG :: u32 where [flag_defs]: "EVL_T_HMSIG = 0x00100000"
definition EVL_T_HMOBS :: u32 where [flag_defs]: "EVL_T_HMOBS = 0x00200000"
definition EVL_T_WOSO :: u32 where [flag_defs]: "EVL_T_WOSO = 0x00400000"

section \<open>Information flags\<close>

definition EVL_T_TIMEO :: u32 where [flag_defs]: "EVL_T_TIMEO = 0x00000001"
definition EVL_T_RMID :: u32 where [flag_defs]: "EVL_T_RMID = 0x00000002"
definition EVL_T_BREAK :: u32 where [flag_defs]: "EVL_T_BREAK = 0x00000004"
definition EVL_T_KICKED :: u32 where [flag_defs]: "EVL_T_KICKED = 0x00000008"
definition EVL_T_WCHAN :: u32 where [flag_defs]: "EVL_T_WCHAN = 0x00000010"
definition EVL_T_CANCELD :: u32 where [flag_defs]: "EVL_T_CANCELD = 0x00000040"
definition EVL_T_PIALERT :: u32 where [flag_defs]: "EVL_T_PIALERT = 0x00000080"
definition EVL_T_SCHEDP :: u32 where [flag_defs]: "EVL_T_SCHEDP = 0x00000100"
definition EVL_T_BCAST :: u32 where [flag_defs]: "EVL_T_BCAST = 0x00000200"
definition EVL_T_SIGNAL :: u32 where [flag_defs]: "EVL_T_SIGNAL = 0x00000400"
definition EVL_T_SXALERT :: u32 where [flag_defs]: "EVL_T_SXALERT = 0x00000800"
definition EVL_T_PTSIG :: u32 where [flag_defs]: "EVL_T_PTSIG = 0x00001000"
definition EVL_T_PTSTOP :: u32 where [flag_defs]: "EVL_T_PTSTOP = 0x00002000"
definition EVL_T_PTJOIN :: u32 where [flag_defs]: "EVL_T_PTJOIN = 0x00004000"
definition EVL_T_NOMEM :: u32 where [flag_defs]: "EVL_T_NOMEM = 0x00008000"

section \<open>Local information flags\<close>

definition EVL_T_SYSRST :: u32 where [flag_defs]: "EVL_T_SYSRST = 0x00000001"
definition EVL_T_IGNOVR :: u32 where [flag_defs]: "EVL_T_IGNOVR = 0x00000002"
definition EVL_T_INFAULT :: u32 where [flag_defs]: "EVL_T_INFAULT = 0x00000004"
definition EVL_T_NORST :: u32 where [flag_defs]: "EVL_T_NORST = 0x00000008"

section \<open>Health monitoring codes\<close>

definition EVL_HMDIAG_SIGDEMOTE :: int where [const_defs]: "EVL_HMDIAG_SIGDEMOTE = 1"
definition EVL_HMDIAG_SYSDEMOTE :: int where [const_defs]: "EVL_HMDIAG_SYSDEMOTE = 2"
definition EVL_HMDIAG_EXDEMOTE :: int where [const_defs]: "EVL_HMDIAG_EXDEMOTE = 3"
definition EVL_HMDIAG_WATCHDOG :: int where [const_defs]: "EVL_HMDIAG_WATCHDOG = 4"
definition EVL_HMDIAG_LKDEPEND :: int where [const_defs]: "EVL_HMDIAG_LKDEPEND = 5"
definition EVL_HMDIAG_LKIMBALANCE :: int where [const_defs]: "EVL_HMDIAG_LKIMBALANCE = 6"
definition EVL_HMDIAG_LKSLEEP :: int where [const_defs]: "EVL_HMDIAG_LKSLEEP = 7"
definition EVL_HMDIAG_STAGEX :: int where [const_defs]: "EVL_HMDIAG_STAGEX = 8"
definition EVL_HMDIAG_OVERRUN :: int where [const_defs]: "EVL_HMDIAG_OVERRUN = 9"

text \<open>Special values of the core, never sent to user space.\<close>

definition EVL_HMDIAG_NONE :: int where [const_defs]: "EVL_HMDIAG_NONE = 0"
definition EVL_HMDIAG_TRAP :: int where [const_defs]: "EVL_HMDIAG_TRAP = - 1"

section \<open>Masks of the core\<close>

definition EVL_THREAD_BLOCK_BITS :: u32 where [flag_defs]:
  "EVL_THREAD_BLOCK_BITS = EVL_T_SUSP OR EVL_T_PEND OR EVL_T_DELAY OR EVL_T_WAIT OR EVL_T_DORMANT OR
     EVL_T_INBAND OR EVL_T_HALT OR EVL_T_PTSYNC"

definition EVL_THREAD_INFO_MASK :: u32 where [flag_defs]:
  "EVL_THREAD_INFO_MASK = EVL_T_RMID OR EVL_T_TIMEO OR EVL_T_BREAK OR EVL_T_KICKED OR EVL_T_BCAST OR
     EVL_T_NOMEM"

definition EVL_THREAD_MODE_BITS :: u32 where [flag_defs]:
  "EVL_THREAD_MODE_BITS = EVL_T_WOSS OR EVL_T_WOLI OR EVL_T_WOSX OR EVL_T_WOSO OR EVL_T_HMSIG OR
     EVL_T_HMOBS"

section \<open>State labels\<close>

text \<open>The \<open>n\<close>th character labels the state bit \<open>n\<close>.\<close>

definition EVL_THREAD_STATE_LABELS :: string where
  "EVL_THREAD_STATE_LABELS = ''SWDpRUZXHb#r...t..To..''"

text \<open>The state bits of the header, in the order it declares them.\<close>

definition thread_state_flags :: "u32 list" where
  "thread_state_flags = [EVL_T_SUSP, EVL_T_PEND, EVL_T_DELAY, EVL_T_WAIT, EVL_T_READY, EVL_T_DORMANT,
     EVL_T_ZOMBIE, EVL_T_INBAND, EVL_T_HALT, EVL_T_BOOST, EVL_T_PTSYNC, EVL_T_RRB, EVL_T_ROOT, EVL_T_WEAK,
     EVL_T_USER, EVL_T_WOSS, EVL_T_WOLI, EVL_T_WOSX, EVL_T_PTRACE, EVL_T_OBSERV, EVL_T_HMSIG, EVL_T_HMOBS,
     EVL_T_WOSO]"

definition thread_info_flags :: "u32 list" where
  "thread_info_flags = [EVL_T_TIMEO, EVL_T_RMID, EVL_T_BREAK, EVL_T_KICKED, EVL_T_WCHAN, EVL_T_CANCELD,
     EVL_T_PIALERT, EVL_T_SCHEDP, EVL_T_BCAST, EVL_T_SIGNAL, EVL_T_SXALERT, EVL_T_PTSIG, EVL_T_PTSTOP,
     EVL_T_PTJOIN, EVL_T_NOMEM]"

lemma state_flag_is_bit: "i < length thread_state_flags \<Longrightarrow> thread_state_flags ! i = push_bit i 1"
proof -
  have "\<forall>i \<in> {..<length thread_state_flags}. thread_state_flags ! i = push_bit i 1"
    unfolding thread_state_flags_def by (simp add: flag_defs lessThan_nat_numeral lessThan_Suc)
  then show "i < length thread_state_flags \<Longrightarrow> thread_state_flags ! i = push_bit i 1" by simp
qed

section \<open>The user window\<close>

record evl_user_window =
  uw_state :: u32
  uw_info :: u32
  uw_pp_pending :: u32

end
