(* ===== verification/Sched_Types.thy ===== *)
theory Sched_Types
  imports Sched_Queue Timer_Ops Thread_State
begin

text \<open>
  The data of the scheduler: scheduling parameters (\<open>sched/param.h\<close>), the per-class data of
  \<open>sched/{fifo,weak,quota,tp}.h\<close>, \<open>struct evl_thread\<close> (\<open>thread.h\<close>), \<open>struct evl_rq\<close> and
  \<open>struct evl_sched_class\<close> (\<open>sched.h\<close>), and the state of the core those headers operate on.

  Threads, runqueues and scheduling classes are objects in stores, named by address. A field which
  only links an object on a list of another one is not kept: the list is in its owner. The build
  is the one of \<open>configs/k1_evl_defconfig\<close>: SMP, with the quota and TP classes, the linear
  runnable queue, statistics and the core assertions.
\<close>

section \<open>Scheduling parameters\<close>

text \<open>
  The members of \<open>union evl_sched_param\<close> overlay each other: every one starts with the priority,
  the quota and TP members have a second integer, at the same place.
\<close>

record evl_sched_param =
  sp_word0 :: int
  sp_word1 :: int

definition idle_prio :: "evl_sched_param \<Rightarrow> int" where [evl_defs]: "idle_prio p = sp_word0 p"
definition weak_prio :: "evl_sched_param \<Rightarrow> int" where [evl_defs]: "weak_prio p = sp_word0 p"
definition fifo_prio :: "evl_sched_param \<Rightarrow> int" where [evl_defs]: "fifo_prio p = sp_word0 p"
definition quota_prio :: "evl_sched_param \<Rightarrow> int" where [evl_defs]: "quota_prio p = sp_word0 p"
definition quota_tgid :: "evl_sched_param \<Rightarrow> int" where [evl_defs]: "quota_tgid p = sp_word1 p"
definition tp_prio :: "evl_sched_param \<Rightarrow> int" where [evl_defs]: "tp_prio p = sp_word0 p"
definition tp_ptid :: "evl_sched_param \<Rightarrow> int" where [evl_defs]: "tp_ptid p = sp_word1 p"

section \<open>Priority scales of the classes\<close>

definition EVL_FIFO_MIN_PRIO :: int where [const_defs]: "EVL_FIFO_MIN_PRIO = 1"
definition EVL_FIFO_MAX_PRIO :: "int \<Rightarrow> int" where [const_defs]: "EVL_FIFO_MAX_PRIO mrp = mrp - 1"
definition EVL_IDLE_PRIO :: int where [const_defs]: "EVL_IDLE_PRIO = - 1"
definition EVL_WEAK_MIN_PRIO :: int where [const_defs]: "EVL_WEAK_MIN_PRIO = 0"
definition EVL_WEAK_MAX_PRIO :: int where [const_defs]: "EVL_WEAK_MAX_PRIO = 99"
definition EVL_WEAK_NR_PRIO :: int where [const_defs]:
  "EVL_WEAK_NR_PRIO = EVL_WEAK_MAX_PRIO - EVL_WEAK_MIN_PRIO + 1"
definition EVL_QUOTA_MIN_PRIO :: int where [const_defs]: "EVL_QUOTA_MIN_PRIO = EVL_FIFO_MIN_PRIO"
definition EVL_QUOTA_MAX_PRIO :: "int \<Rightarrow> int" where [const_defs]:
  "EVL_QUOTA_MAX_PRIO mrp = EVL_FIFO_MAX_PRIO mrp"
definition EVL_QUOTA_NR_PRIO :: "int \<Rightarrow> int" where [const_defs]:
  "EVL_QUOTA_NR_PRIO mrp = EVL_QUOTA_MAX_PRIO mrp - EVL_QUOTA_MIN_PRIO + 1"
definition EVL_TP_MIN_PRIO :: int where [const_defs]: "EVL_TP_MIN_PRIO = EVL_FIFO_MIN_PRIO"
definition EVL_TP_MAX_PRIO :: "int \<Rightarrow> int" where [const_defs]: "EVL_TP_MAX_PRIO mrp = EVL_FIFO_MAX_PRIO mrp"
definition EVL_TP_NR_PRIO :: "int \<Rightarrow> int" where [const_defs]:
  "EVL_TP_NR_PRIO mrp = EVL_TP_MAX_PRIO mrp - EVL_TP_MIN_PRIO + 1"
definition EVL_CLASS_WEIGHT :: "int \<Rightarrow> int" where [const_defs]:
  "EVL_CLASS_WEIGHT n = n * EVL_CLASS_WEIGHT_FACTOR"

section \<open>Per-class data of a runqueue\<close>

record evl_sched_fifo =
  sf_runnable :: "ptr linq"

record evl_sched_weak =
  sw_runnable :: "ptr linq"

record evl_quota_group =
  qg_rq :: ptr
  qg_quota :: ktime
  qg_quota_peak :: ktime
  qg_run_start :: ktime
  qg_run_budget :: ktime
  qg_run_credit :: ktime
  qg_members :: "ptr list"
  qg_expired :: "ptr list"
  qg_nr_active :: int
  qg_nr_threads :: int
  qg_tgid :: int
  qg_quota_percent :: int
  qg_quota_peak_percent :: int

record evl_sched_quota =
  sq_period :: ktime
  sq_refill_timer :: evl_timer
  sq_limit_timer :: evl_timer
  sq_groups :: "ptr list"

record evl_tp_window =
  tw_offset :: ktime
  tw_part :: int

record evl_tp_schedule =
  ts_pwin_nr :: int
  ts_tf_duration :: ktime
  ts_refcount :: int
  ts_pwins :: "evl_tp_window list"

record evl_tp_rq =
  tr_runnable :: "ptr linq"

text \<open>\<open>st_tps\<close> and a thread's \<open>tps\<close> point to a partition of the same structure: its index, or the
  idle one.\<close>

datatype tp_ref = Partition nat | Idle_Partition

record evl_sched_tp =
  st_partitions :: "evl_tp_rq list"
  st_idle :: evl_tp_rq
  st_tps :: "tp_ref option"
  st_tf_timer :: evl_timer
  st_gps :: "ptr option"
  st_wnext :: int
  st_tf_start :: ktime
  st_threads :: "ptr list"

text \<open>\<open>struct evl_sched_group\<close>.\<close>

record evl_sched_group =
  sg_quota :: evl_quota_group

section \<open>Threads\<close>

record evl_init_thread_attr =
  ia_affinity :: "nat set"
  ia_observable :: "ptr option"
  ia_flags :: u32
  ia_sched_class :: ptr
  ia_sched_param :: evl_sched_param

record thread_poll_context =
  pc_table :: "ptr option"
  pc_generation :: u32
  pc_nr :: int
  pc_active :: int

record thread_stat =
  stat_isw :: evl_counter
  stat_csw :: evl_counter
  stat_sc :: evl_counter
  stat_rwa :: evl_counter
  stat_account :: evl_account
  stat_lastperiod :: evl_account

text \<open>
  A lock is the flag that it is held. \<open>u_window\<close> points to memory shared with user space, which
  nothing else reaches: the window itself is the value. The in-band parts of a thread (its
  \<open>altsched\<close> context, work and completion) are opaque addresses.
\<close>

record evl_thread =
  th_lock :: bool
  th_rq :: ptr
  th_base_class :: ptr
  th_sched_class :: ptr
  th_bprio :: int
  th_cprio :: int
  th_wprio :: int
  th_boosters :: "ptr list"
  th_wchan :: "ptr option"
  th_rtimer :: evl_timer
  th_ptimer :: evl_timer
  th_rrperiod :: ktime
  th_state :: u32
  th_info :: u32
  th_quota :: "ptr option"
  th_quota_expired :: bool
  th_tps :: "tp_ref option"
  th_altsched :: ptr
  th_local_info :: u32
  th_wait_data :: ptr
  th_poll_context :: thread_poll_context
  th_held_mutex_count :: int
  th_inband_work :: ptr
  th_stat :: thread_stat
  th_u_window :: "evl_user_window option"
  th_owned_mutexes :: "ptr list"
  th_element :: ptr
  th_affinity :: "nat set"
  th_exited :: ptr
  th_raised_cap :: u64
  th_oob_mm :: "ptr option"
  th_observable :: "ptr option"
  th_name :: string

section \<open>Runqueues\<close>

definition RQ_SCHED :: u64 where [flag_defs]: "RQ_SCHED = 0x10000000"
definition RQ_TIMER :: u64 where [flag_defs]: "RQ_TIMER = 0x00010000"
definition RQ_TPROXY :: u64 where [flag_defs]: "RQ_TPROXY = 0x00008000"
definition RQ_IRQ :: u64 where [flag_defs]: "RQ_IRQ = 0x00004000"
definition RQ_TDEFER :: u64 where [flag_defs]: "RQ_TDEFER = 0x00002000"
definition RQ_IDLE :: u64 where [flag_defs]: "RQ_IDLE = 0x00001000"
definition RQ_TSTOPPED :: u64 where [flag_defs]: "RQ_TSTOPPED = 0x00000800"

record evl_rq =
  rq_lock :: bool
  rq_flags :: u64
  rq_curr :: ptr
  rq_fifo :: evl_sched_fifo
  rq_weak :: evl_sched_weak
  rq_quota :: evl_sched_quota
  rq_tp :: evl_sched_tp
  rq_root_thread :: ptr
  rq_account :: acct_rq
  rq_local_flags :: u64
  rq_cpu :: nat
  rq_resched_cpus :: "nat set"
  rq_inband_timer :: evl_timer
  rq_rrbtimer :: evl_timer
  rq_wdtimer :: evl_timer
  rq_proxy_timer_name :: string
  rq_rrb_timer_name :: string

section \<open>Scheduling classes\<close>

text \<open>
  The operations of a class work on the state \<open>'s\<close> of the core; an optional one is \<open>None\<close> when its
  pointer is \<open>NULL\<close>. The only field of a class that changes, its thread count, is in the state.
\<close>

record 's evl_sched_class =
  sc_init :: "ptr \<Rightarrow> 's \<Rightarrow> 's"
  sc_enqueue :: "ptr \<Rightarrow> 's \<Rightarrow> 's"
  sc_dequeue :: "ptr \<Rightarrow> 's \<Rightarrow> 's"
  sc_requeue :: "ptr \<Rightarrow> 's \<Rightarrow> 's"
  sc_pick :: "ptr \<Rightarrow> 's \<Rightarrow> ptr option \<times> 's"
  sc_yield :: "(ptr \<Rightarrow> 's \<Rightarrow> 's) option"
  sc_migrate :: "(ptr \<Rightarrow> ptr \<Rightarrow> 's \<Rightarrow> 's) option"
  sc_setparam :: "ptr \<Rightarrow> evl_sched_param \<Rightarrow> 's \<Rightarrow> bool \<times> 's"
  sc_getparam :: "ptr \<Rightarrow> evl_sched_param \<Rightarrow> 's \<Rightarrow> evl_sched_param"
  sc_chkparam :: "(ptr \<Rightarrow> evl_sched_param \<Rightarrow> 's \<Rightarrow> int) option"
  sc_trackprio :: "ptr \<Rightarrow> evl_sched_param option \<Rightarrow> 's \<Rightarrow> 's"
  sc_ceilprio :: "ptr \<Rightarrow> int \<Rightarrow> 's \<Rightarrow> 's"
  sc_declare :: "(ptr \<Rightarrow> evl_sched_param \<Rightarrow> 's \<Rightarrow> int \<times> 's) option"
  sc_forget :: "(ptr \<Rightarrow> 's \<Rightarrow> 's) option"
  sc_kick :: "(ptr \<Rightarrow> 's \<Rightarrow> 's) option"
  sc_name_of :: "(ptr \<Rightarrow> 's \<Rightarrow> string) option"
  sc_show :: "(ptr \<Rightarrow> 's \<Rightarrow> string) option"
  sc_control :: "(nat \<Rightarrow> ptr \<Rightarrow> 's \<Rightarrow> int \<times> 's) option"
  sc_next :: "ptr option"
  sc_weight :: int
  sc_policy :: int
  sc_name :: string

section \<open>The state of the core\<close>

text \<open>\<open>dovetail_current_state ()\<close>: the oob state of the running task.\<close>

record oob_state =
  os_thread :: "ptr option"
  os_subscriber :: "ptr option"
  os_preempt_count :: int

text \<open>
  The state seen from one CPU: the stores, its runqueue (\<open>this_rq\<close>), whether it masks hard irqs and
  runs out-of-band, the running task's oob state, and whether a core assertion triggered.
\<close>

record kst =
  k_threads :: "ptr \<Rightarrow> evl_thread"
  k_rqs :: "ptr \<Rightarrow> evl_rq"
  k_cpu_rq :: "nat \<Rightarrow> ptr"
  k_this_rq :: ptr
  k_nthreads :: "ptr \<Rightarrow> int"
  k_irqs_off :: bool
  k_running_oob :: bool
  k_current :: oob_state
  k_thread_list :: "ptr list"
  k_nrthreads :: int
  k_oob_cpus :: "nat set"
  k_cpu_affinity :: "nat set"
  k_warned :: bool

definition upd_thread :: "ptr \<Rightarrow> (evl_thread \<Rightarrow> evl_thread) \<Rightarrow> kst \<Rightarrow> kst" where
  "upd_thread t f s = s\<lparr>k_threads := (k_threads s)(t := f (k_threads s t))\<rparr>"

definition upd_rq :: "ptr \<Rightarrow> (evl_rq \<Rightarrow> evl_rq) \<Rightarrow> kst \<Rightarrow> kst" where
  "upd_rq r f s = s\<lparr>k_rqs := (k_rqs s)(r := f (k_rqs s r))\<rparr>"

lemma upd_thread_simps [simp]:
  "k_threads (upd_thread t f s) = (k_threads s)(t := f (k_threads s t))"
  "k_rqs (upd_thread t f s) = k_rqs s" "k_this_rq (upd_thread t f s) = k_this_rq s"
  "k_nthreads (upd_thread t f s) = k_nthreads s" "k_irqs_off (upd_thread t f s) = k_irqs_off s"
  "k_running_oob (upd_thread t f s) = k_running_oob s" "k_current (upd_thread t f s) = k_current s"
  "k_warned (upd_thread t f s) = k_warned s"
  by (simp_all add: upd_thread_def)

lemma upd_rq_simps [simp]:
  "k_rqs (upd_rq r g s) = (k_rqs s)(r := g (k_rqs s r))"
  "k_threads (upd_rq r g s) = k_threads s" "k_this_rq (upd_rq r g s) = k_this_rq s"
  "k_nthreads (upd_rq r g s) = k_nthreads s" "k_irqs_off (upd_rq r g s) = k_irqs_off s"
  "k_running_oob (upd_rq r g s) = k_running_oob s" "k_current (upd_rq r g s) = k_current s"
  "k_warned (upd_rq r g s) = k_warned s"
  by (simp_all add: upd_rq_def)

end
