(* ===== verification/Sched_Core.thy ===== *)
theory Sched_Core
  imports Sched_Types
begin

text \<open>
  The inline operations of \<open>include/evl/sched.h\<close>, \<open>sched/{fifo,idle,quota,tp,weak}.h\<close>, \<open>irq.h\<close> and
  the assertions of \<open>assert.h\<close>, on the state of the core. What \<open>sched.c\<close>, \<open>wait.c\<close> and the in-band
  kernel provide (\<open>__evl_schedule\<close>, \<open>run_oob_call\<close>, \<open>evl_set_effective_thread_priority\<close>,
  \<open>evl_adjust_wait_priority\<close>) are arguments, the operation tables of the classes come with the
  environment. A failed core assertion sets \<open>k_warned\<close>; a spin on a lock which is held is \<open>None\<close>.
\<close>

section \<open>Assertions (CONFIG_EVL_DEBUG_CORE)\<close>

definition EVL_WARN_ON_ONCE :: "bool \<Rightarrow> kst \<Rightarrow> kst" where
  "EVL_WARN_ON_ONCE cond s = (if cond then s\<lparr>k_warned := True\<rparr> else s)"

definition oob_context_only :: "kst \<Rightarrow> kst" where
  "oob_context_only s = EVL_WARN_ON_ONCE (\<not> k_running_oob s) s"

definition inband_context_only :: "kst \<Rightarrow> kst" where
  "inband_context_only s = EVL_WARN_ON_ONCE (k_running_oob s) s"

definition assert_hard_lock :: "bool \<Rightarrow> kst \<Rightarrow> kst" where
  "assert_hard_lock locked s = EVL_WARN_ON_ONCE (\<not> (locked \<and> k_irqs_off s)) s"

definition assert_thread_pinned :: "ptr \<Rightarrow> kst \<Rightarrow> kst" where
  "assert_thread_pinned t s =
     (let s1 = assert_hard_lock (th_lock (k_threads s t)) s
      in assert_hard_lock (rq_lock (k_rqs s1 (th_rq (k_threads s1 t)))) s1)"

lemmas assert_defs [evl_defs] = EVL_WARN_ON_ONCE_def assert_hard_lock_def assert_thread_pinned_def

text \<open>The assertions change nothing but the warning.\<close>

lemma warn_frame [simp]:
  "k_threads (EVL_WARN_ON_ONCE c s) = k_threads s" "k_rqs (EVL_WARN_ON_ONCE c s) = k_rqs s"
  "k_this_rq (EVL_WARN_ON_ONCE c s) = k_this_rq s" "k_nthreads (EVL_WARN_ON_ONCE c s) = k_nthreads s"
  "k_irqs_off (EVL_WARN_ON_ONCE c s) = k_irqs_off s"
  "k_running_oob (EVL_WARN_ON_ONCE c s) = k_running_oob s" "k_current (EVL_WARN_ON_ONCE c s) = k_current s"
  "k_warned (EVL_WARN_ON_ONCE c s) \<longleftrightarrow> c \<or> k_warned s"
  by (simp_all add: EVL_WARN_ON_ONCE_def)

definition pinned :: "kst \<Rightarrow> ptr \<Rightarrow> bool" where
  "pinned s t \<longleftrightarrow> th_lock (k_threads s t) \<and> rq_lock (k_rqs s (th_rq (k_threads s t))) \<and> k_irqs_off s"

lemma assert_thread_pinned_id [simp]: "pinned s t \<Longrightarrow> assert_thread_pinned t s = s"
  by (simp add: pinned_def assert_defs Let_def)

lemma assert_hard_lock_id [simp]: "l \<Longrightarrow> k_irqs_off s \<Longrightarrow> assert_hard_lock l s = s"
  by (simp add: assert_defs)

lemma assert_pinned_frame [simp]:
  "k_threads (assert_thread_pinned t s) = k_threads s" "k_rqs (assert_thread_pinned t s) = k_rqs s"
  "k_this_rq (assert_thread_pinned t s) = k_this_rq s" "k_nthreads (assert_thread_pinned t s) = k_nthreads s"
  "k_irqs_off (assert_thread_pinned t s) = k_irqs_off s" "k_current (assert_thread_pinned t s) = k_current s"
  by (simp_all add: assert_thread_pinned_def assert_hard_lock_def Let_def)

section \<open>CPUs and runqueues\<close>

definition evl_cpu_rq :: "kst \<Rightarrow> nat \<Rightarrow> ptr" where
  "evl_cpu_rq s cpu = k_cpu_rq s cpu"

definition this_evl_rq :: "kst \<Rightarrow> ptr" where
  "this_evl_rq s = k_this_rq s"

definition this_evl_rq_thread :: "kst \<Rightarrow> ptr" where
  "this_evl_rq_thread s = rq_curr (k_rqs s (this_evl_rq s))"

definition evl_need_resched :: "kst \<Rightarrow> ptr \<Rightarrow> bool" where
  "evl_need_resched s rq \<longleftrightarrow> rq_flags (k_rqs s rq) AND RQ_SCHED \<noteq> 0"

definition evl_set_self_resched :: "ptr \<Rightarrow> kst \<Rightarrow> kst" where
  "evl_set_self_resched rq s =
     (let s1 = assert_hard_lock (rq_lock (k_rqs s rq)) s
      in upd_rq rq (\<lambda>q. q\<lparr>rq_flags := rq_flags q OR RQ_SCHED\<rparr>) s1)"

definition is_evl_cpu :: "kst \<Rightarrow> nat \<Rightarrow> bool" where
  "is_evl_cpu s cpu \<longleftrightarrow> cpu \<in> k_oob_cpus s"

definition evl_rq_cpu :: "kst \<Rightarrow> ptr \<Rightarrow> nat" where
  "evl_rq_cpu s rq = rq_cpu (k_rqs s rq)"

definition evl_set_resched :: "ptr \<Rightarrow> kst \<Rightarrow> kst" where
  "evl_set_resched rq s =
     (let this_rq = this_evl_rq s;
          s1 = assert_hard_lock (rq_lock (k_rqs s rq)) s in
      if this_rq = rq then upd_rq this_rq (\<lambda>q. q\<lparr>rq_flags := rq_flags q OR RQ_SCHED\<rparr>) s1
      else if \<not> evl_need_resched s1 rq then
        let s2 = upd_rq rq (\<lambda>q. q\<lparr>rq_flags := rq_flags q OR RQ_SCHED\<rparr>) s1;
            s3 = upd_rq this_rq (\<lambda>q. q\<lparr>rq_local_flags := rq_local_flags q OR RQ_SCHED\<rparr>) s2
        in upd_rq this_rq (\<lambda>q. q\<lparr>rq_resched_cpus := insert (evl_rq_cpu s3 rq) (rq_resched_cpus q)\<rparr>) s3
      else s1)"

definition is_threading_cpu :: "kst \<Rightarrow> nat \<Rightarrow> bool" where
  "is_threading_cpu s cpu \<longleftrightarrow> cpu \<in> k_cpu_affinity s"

text \<open>\<open>for_each_evl_cpu\<close> over the online CPUs, and \<open>for_each_evl_thread\<close>.\<close>

definition for_each_evl_cpu :: "kst \<Rightarrow> nat list \<Rightarrow> nat list" where
  "for_each_evl_cpu s online = filter (is_evl_cpu s) online"

definition for_each_evl_thread :: "kst \<Rightarrow> ptr list" where
  "for_each_evl_thread s = k_thread_list s"

text \<open>The same operations without \<open>CONFIG_SMP\<close>.\<close>

definition up_is_evl_cpu :: "nat \<Rightarrow> bool" where "up_is_evl_cpu cpu \<longleftrightarrow> True"
definition up_evl_rq_cpu :: "ptr \<Rightarrow> nat" where "up_evl_rq_cpu rq = 0"
definition up_evl_set_resched :: "ptr \<Rightarrow> kst \<Rightarrow> kst" where
  "up_evl_set_resched rq s = evl_set_self_resched rq s"
definition up_is_threading_cpu :: "nat \<Rightarrow> bool" where "up_is_threading_cpu cpu \<longleftrightarrow> True"
definition up_evl_migrate_thread :: "ptr \<Rightarrow> ptr \<Rightarrow> kst \<Rightarrow> kst" where
  "up_evl_migrate_thread t dst_rq s = s"

section \<open>Rescheduling\<close>

definition test_resched :: "kst \<Rightarrow> bool" where
  "test_resched s \<longleftrightarrow>
     (rq_flags (k_rqs s (this_evl_rq s)) OR rq_local_flags (k_rqs s (this_evl_rq s))) AND (RQ_IRQ OR RQ_SCHED)
       = RQ_SCHED"

definition evl_schedule :: "(kst \<Rightarrow> kst) \<Rightarrow> ((kst \<Rightarrow> kst) \<Rightarrow> kst \<Rightarrow> kst) \<Rightarrow> kst \<Rightarrow> kst" where
  "evl_schedule raw_schedule run_oob_call s =
     (if \<not> test_resched s then s
      else if k_running_oob s then raw_schedule s
      else run_oob_call raw_schedule s)"

definition evl_preempt_count :: "kst \<Rightarrow> int" where
  "evl_preempt_count s = os_preempt_count (k_current s)"

definition raw_evl_disable_preempt :: "kst \<Rightarrow> kst" where
  "raw_evl_disable_preempt s = s\<lparr>k_current := (k_current s)\<lparr>os_preempt_count := evl_preempt_count s + 1\<rparr>\<rparr>"

definition raw_evl_enable_preempt :: "(kst \<Rightarrow> kst) \<Rightarrow> kst \<Rightarrow> kst" where
  "raw_evl_enable_preempt schedule s =
     (let s1 = s\<lparr>k_current := (k_current s)\<lparr>os_preempt_count := evl_preempt_count s - 1\<rparr>\<rparr>
      in if evl_preempt_count s1 = 0 then schedule s1 else s1)"

text \<open>Without \<open>CONFIG_EVL_DEBUG_CORE\<close> the public names are these two.\<close>

definition evl_disable_preempt :: "kst \<Rightarrow> kst" where
  "evl_disable_preempt s = raw_evl_disable_preempt s"

definition evl_enable_preempt :: "(kst \<Rightarrow> kst) \<Rightarrow> kst \<Rightarrow> kst" where
  "evl_enable_preempt schedule s = raw_evl_enable_preempt schedule s"

definition evl_in_irq :: "kst \<Rightarrow> bool" where
  "evl_in_irq s \<longleftrightarrow> rq_local_flags (k_rqs s (this_evl_rq s)) AND RQ_IRQ \<noteq> 0"

definition evl_is_inband :: "kst \<Rightarrow> bool" where
  "evl_is_inband s \<longleftrightarrow> th_state (k_threads s (this_evl_rq_thread s)) AND EVL_T_ROOT \<noteq> 0"

definition evl_cannot_block :: "kst \<Rightarrow> bool" where
  "evl_cannot_block s \<longleftrightarrow> evl_in_irq s \<or> evl_is_inband s"

text \<open>\<open>irq.h\<close>.\<close>

definition evl_enter_irq :: "kst \<Rightarrow> kst" where
  "evl_enter_irq s = upd_rq (this_evl_rq s) (\<lambda>q. q\<lparr>rq_local_flags := rq_local_flags q OR RQ_IRQ\<rparr>) s"

definition evl_exit_irq :: "(kst \<Rightarrow> kst) \<Rightarrow> kst \<Rightarrow> kst" where
  "evl_exit_irq schedule s =
     (let this_rq = this_evl_rq s;
          s1 = upd_rq this_rq (\<lambda>q. q\<lparr>rq_local_flags := rq_local_flags q AND NOT RQ_IRQ\<rparr>) s in
      if (rq_flags (k_rqs s1 this_rq) OR rq_local_flags (k_rqs s1 this_rq)) AND RQ_SCHED \<noteq> 0 then
        let s2 = schedule s1 in
        if \<not> k_irqs_off s2 then s2\<lparr>k_irqs_off := True\<rparr> else s2
      else s1)"

text \<open>\<open>tick.h\<close>: \<open>tick_notify_proxy\<close> is the in-band kernel's.\<close>

definition evl_notify_proxy_tick :: "(kst \<Rightarrow> kst) \<Rightarrow> ptr \<Rightarrow> kst \<Rightarrow> kst" where
  "evl_notify_proxy_tick tick_notify_proxy this_rq s =
     tick_notify_proxy (upd_rq this_rq (\<lambda>q. q\<lparr>rq_local_flags := rq_local_flags q AND NOT RQ_TPROXY\<rparr>) s)"

section \<open>Pinning a thread to its runqueue\<close>

definition lock_thread :: "ptr \<Rightarrow> kst \<Rightarrow> kst option" where
  "lock_thread t s =
     (if th_lock (k_threads s t) then None else Some (upd_thread t (\<lambda>th. th\<lparr>th_lock := True\<rparr>) s))"

definition lock_rq :: "ptr \<Rightarrow> kst \<Rightarrow> kst option" where
  "lock_rq r s = (if rq_lock (k_rqs s r) then None else Some (upd_rq r (\<lambda>q. q\<lparr>rq_lock := True\<rparr>) s))"

definition unlock_thread :: "ptr \<Rightarrow> kst \<Rightarrow> kst" where
  "unlock_thread t s = upd_thread t (\<lambda>th. th\<lparr>th_lock := False\<rparr>) s"

definition unlock_rq :: "ptr \<Rightarrow> kst \<Rightarrow> kst" where
  "unlock_rq r s = upd_rq r (\<lambda>q. q\<lparr>rq_lock := False\<rparr>) s"

definition evl_get_thread_rq_noirq :: "ptr \<Rightarrow> kst \<Rightarrow> (ptr \<times> kst) option" where
  "evl_get_thread_rq_noirq t s =
     Option.bind (lock_thread t s) (\<lambda>s1.
       let rq = th_rq (k_threads s1 t)
       in map_option (\<lambda>s2. (rq, s2)) (lock_rq rq s1))"

definition evl_put_thread_rq_noirq :: "ptr \<Rightarrow> ptr \<Rightarrow> kst \<Rightarrow> kst" where
  "evl_put_thread_rq_noirq t rq s = unlock_thread t (unlock_rq rq s)"

text \<open>The result has the saved interrupt state next to the runqueue.\<close>

definition evl_get_thread_rq :: "ptr \<Rightarrow> kst \<Rightarrow> (ptr \<times> bool \<times> kst) option" where
  "evl_get_thread_rq t s =
     (let flags = k_irqs_off s in
      Option.bind (lock_thread t (s\<lparr>k_irqs_off := True\<rparr>)) (\<lambda>s1.
        let rq = th_rq (k_threads s1 t)
        in map_option (\<lambda>s2. (rq, flags, s2)) (lock_rq rq s1)))"

definition evl_put_thread_rq :: "ptr \<Rightarrow> ptr \<Rightarrow> bool \<Rightarrow> kst \<Rightarrow> kst" where
  "evl_put_thread_rq t rq flags s = (unlock_thread t (unlock_rq rq s))\<lparr>k_irqs_off := flags\<rparr>"

definition evl_put_thread_rq_check_noirq :: "(ptr \<Rightarrow> kst \<Rightarrow> kst) \<Rightarrow> ptr \<Rightarrow> ptr \<Rightarrow> kst \<Rightarrow> kst" where
  "evl_put_thread_rq_check_noirq adjust_wait_priority t rq s =
     (let need_requeue = (th_info (k_threads s t) AND EVL_T_WCHAN \<noteq> 0);
          s1 = (if need_requeue then upd_thread t (\<lambda>th. th\<lparr>th_info := th_info th AND NOT EVL_T_WCHAN\<rparr>) s else s);
          s2 = evl_put_thread_rq_noirq t rq s1
      in if need_requeue then adjust_wait_priority t s2 else s2)"

definition evl_put_thread_rq_check :: "(ptr \<Rightarrow> kst \<Rightarrow> kst) \<Rightarrow> ptr \<Rightarrow> ptr \<Rightarrow> bool \<Rightarrow> kst \<Rightarrow> kst" where
  "evl_put_thread_rq_check adjust_wait_priority t rq flags s =
     (evl_put_thread_rq_check_noirq adjust_wait_priority t rq s)\<lparr>k_irqs_off := flags\<rparr>"

end
