(* ===== verification/Sched_Class.thy ===== *)
theory Sched_Class
  imports Sched_Core
begin

text \<open>
  The FIFO and idle classes (\<open>sched/fifo.h\<close>, \<open>sched/idle.h\<close>), the initial scheduling data of a thread,
  and the operations of \<open>sched.h\<close> which dispatch on the class of a thread: enqueueing, parameters,
  priority tracking and ceiling, declaration of a thread to a class.
\<close>

section \<open>The FIFO class\<close>

definition upd_fifo_queue :: "ptr \<Rightarrow> (ptr linq \<Rightarrow> ptr linq) \<Rightarrow> kst \<Rightarrow> kst" where
  "upd_fifo_queue r f s = upd_rq r (\<lambda>q. q\<lparr>rq_fifo := (rq_fifo q)\<lparr>sf_runnable := f (sf_runnable (rq_fifo q))\<rparr>\<rparr>) s"

abbreviation cprio_of :: "kst \<Rightarrow> ptr \<Rightarrow> int" where
  "cprio_of s t \<equiv> th_cprio (k_threads s t)"

definition raw_evl_requeue_fifo_thread :: "ptr \<Rightarrow> kst \<Rightarrow> kst" where
  "raw_evl_requeue_fifo_thread t s =
     upd_fifo_queue (th_rq (k_threads s t)) (lin_add_schedq (cprio_of s) t) s"

definition raw_evl_enqueue_fifo_thread :: "ptr \<Rightarrow> kst \<Rightarrow> kst" where
  "raw_evl_enqueue_fifo_thread t s =
     upd_fifo_queue (th_rq (k_threads s t)) (lin_add_schedq_tail (cprio_of s) t) s"

definition raw_evl_dequeue_fifo_thread :: "ptr \<Rightarrow> kst \<Rightarrow> kst" where
  "raw_evl_dequeue_fifo_thread t s = upd_fifo_queue (th_rq (k_threads s t)) (lin_del_schedq t) s"

definition raw_evl_chk_fifo_schedparam :: "int \<Rightarrow> evl_thread \<Rightarrow> evl_sched_param \<Rightarrow> int" where
  "raw_evl_chk_fifo_schedparam mrp th p =
     (let (lo, hi) = (if th_state th AND EVL_T_USER = 0 then (EVL_CORE_MIN_PRIO, EVL_CORE_MAX_PRIO mrp)
                      else (EVL_FIFO_MIN_PRIO, EVL_FIFO_MAX_PRIO mrp))
      in if fifo_prio p < lo \<or> fifo_prio p > hi then - EINVAL else 0)"

definition raw_evl_set_fifo_schedparam ::
    "(ptr \<Rightarrow> int \<Rightarrow> kst \<Rightarrow> bool \<times> kst) \<Rightarrow> ptr \<Rightarrow> evl_sched_param \<Rightarrow> kst \<Rightarrow> bool \<times> kst" where
  "raw_evl_set_fifo_schedparam set_effective t p s =
     (let (ret, s1) = set_effective t (fifo_prio p) s
      in (ret, if th_state (k_threads s1 t) AND EVL_T_BOOST = 0
               then upd_thread t (\<lambda>th. th\<lparr>th_state := th_state th AND NOT EVL_T_WEAK\<rparr>) s1 else s1))"

definition raw_evl_get_fifo_schedparam :: "evl_thread \<Rightarrow> evl_sched_param \<Rightarrow> evl_sched_param" where
  "raw_evl_get_fifo_schedparam th p = p\<lparr>sp_word0 := th_cprio th\<rparr>"

definition raw_evl_track_fifo_priority :: "ptr \<Rightarrow> evl_sched_param option \<Rightarrow> kst \<Rightarrow> kst" where
  "raw_evl_track_fifo_priority t p s =
     (case p of
        Some p \<Rightarrow> upd_thread t (\<lambda>th. th\<lparr>th_cprio := fifo_prio p\<rparr>) s
      | None \<Rightarrow> upd_thread t (\<lambda>th. th\<lparr>th_cprio := th_bprio th, th_state := th_state th AND NOT EVL_T_WEAK\<rparr>) s)"

definition raw_evl_ceil_fifo_priority :: "ptr \<Rightarrow> int \<Rightarrow> kst \<Rightarrow> kst" where
  "raw_evl_ceil_fifo_priority t prio s = upd_thread t (\<lambda>th. th\<lparr>th_cprio := prio\<rparr>) s"

definition raw_evl_forget_fifo_thread :: "ptr \<Rightarrow> kst \<Rightarrow> kst" where
  "raw_evl_forget_fifo_thread t s = s"

definition evl_init_fifo_thread :: "ptr \<Rightarrow> kst \<Rightarrow> int \<times> kst" where
  "evl_init_fifo_thread t s = (0, s)"

section \<open>The idle class\<close>

definition raw_evl_set_idle_schedparam ::
    "(ptr \<Rightarrow> int \<Rightarrow> kst \<Rightarrow> bool \<times> kst) \<Rightarrow> ptr \<Rightarrow> evl_sched_param \<Rightarrow> kst \<Rightarrow> bool \<times> kst" where
  "raw_evl_set_idle_schedparam set_effective t p s =
     set_effective t (idle_prio p) (upd_thread t (\<lambda>th. th\<lparr>th_state := th_state th AND NOT EVL_T_WEAK\<rparr>) s)"

definition raw_evl_get_idle_schedparam :: "evl_thread \<Rightarrow> evl_sched_param \<Rightarrow> evl_sched_param" where
  "raw_evl_get_idle_schedparam th p = p\<lparr>sp_word0 := th_cprio th\<rparr>"

definition raw_evl_track_idle_priority :: "ptr \<Rightarrow> evl_sched_param option \<Rightarrow> kst \<Rightarrow> kst" where
  "raw_evl_track_idle_priority t p s =
     (if p \<noteq> None then EVL_WARN_ON_ONCE True s
      else upd_thread t (\<lambda>th. th\<lparr>th_cprio := EVL_IDLE_PRIO\<rparr>) s)"

definition raw_evl_ceil_idle_priority :: "ptr \<Rightarrow> int \<Rightarrow> kst \<Rightarrow> kst" where
  "raw_evl_ceil_idle_priority t prio s = EVL_WARN_ON_ONCE True s"

definition evl_init_idle_thread :: "ptr \<Rightarrow> kst \<Rightarrow> int \<times> kst" where
  "evl_init_idle_thread t s = (0, s)"

section \<open>The other classes\<close>

definition evl_quota_init_thread :: "ptr \<Rightarrow> kst \<Rightarrow> int \<times> kst" where
  "evl_quota_init_thread t s = (0, upd_thread t (\<lambda>th. th\<lparr>th_quota := None, th_quota_expired := False\<rparr>) s)"

definition evl_tp_init_thread :: "ptr \<Rightarrow> kst \<Rightarrow> int \<times> kst" where
  "evl_tp_init_thread t s = (0, upd_thread t (\<lambda>th. th\<lparr>th_tps := None\<rparr>) s)"

definition evl_weak_init_thread :: "ptr \<Rightarrow> kst \<Rightarrow> int \<times> kst" where
  "evl_weak_init_thread t s = (0, s)"

definition evl_init_rq_thread :: "ptr \<Rightarrow> kst \<Rightarrow> int \<times> kst" where
  "evl_init_rq_thread t s =
     (let s1 = snd (evl_init_idle_thread t s);
          s2 = snd (evl_init_fifo_thread t s1);
          (ret, s3) = evl_quota_init_thread t s2 in
      if ret \<noteq> 0 then (ret, s3)
      else evl_tp_init_thread t s3)"

section \<open>Dispatch on the class of a thread\<close>

text \<open>The classes of the system: their operations, and which addresses are the FIFO and idle ones.\<close>

record sched_env =
  se_classes :: "ptr \<Rightarrow> kst evl_sched_class"
  se_fifo :: ptr
  se_idle :: ptr

definition evl_sched_yield :: "sched_env \<Rightarrow> ptr \<Rightarrow> kst \<Rightarrow> kst" where
  "evl_sched_yield e rq s =
     (let curr = rq_curr (k_rqs s rq);
          cls = th_sched_class (k_threads s curr);
          s1 = assert_hard_lock (rq_lock (k_rqs s rq)) s in
      case sc_yield (se_classes e cls) of
        None \<Rightarrow> s1
      | Some yield \<Rightarrow>
          if th_state (k_threads s1 curr) AND EVL_THREAD_BLOCK_BITS = 0 \<and>
             cls = th_base_class (k_threads s1 curr) \<and> evl_preempt_count s1 = 0
          then yield curr s1 else s1)"

definition evl_check_schedparams :: "sched_env \<Rightarrow> ptr \<Rightarrow> ptr \<Rightarrow> evl_sched_param \<Rightarrow> kst \<Rightarrow> int \<times> kst" where
  "evl_check_schedparams e cls t p s =
     (let s1 = assert_thread_pinned t s in
      case sc_chkparam (se_classes e cls) of None \<Rightarrow> (0, s1) | Some chk \<Rightarrow> (chk t p s1, s1))"

definition evl_declare_thread :: "sched_env \<Rightarrow> ptr \<Rightarrow> ptr \<Rightarrow> evl_sched_param \<Rightarrow> kst \<Rightarrow> int \<times> kst" where
  "evl_declare_thread e cls t p s =
     (let s1 = assert_thread_pinned t s;
          (ret, s2) = (case sc_declare (se_classes e cls) of
                         None \<Rightarrow> (0, s1) | Some declare_fn \<Rightarrow> declare_fn t p s1) in
      if ret \<noteq> 0 then (ret, s2)
      else (0, if cls \<noteq> th_base_class (k_threads s2 t)
               then s2\<lparr>k_nthreads := (k_nthreads s2)(cls := k_nthreads s2 cls + 1)\<rparr> else s2))"

definition evl_calc_weighted_prio :: "'s evl_sched_class \<Rightarrow> int \<Rightarrow> int" where
  "evl_calc_weighted_prio cls prio = prio + sc_weight cls"

definition evl_enqueue_thread :: "sched_env \<Rightarrow> ptr \<Rightarrow> kst \<Rightarrow> kst" where
  "evl_enqueue_thread e t s =
     (let cls = th_sched_class (k_threads s t); s1 = assert_thread_pinned t s in
      if cls = se_fifo e then raw_evl_enqueue_fifo_thread t s1
      else if cls \<noteq> se_idle e then sc_enqueue (se_classes e cls) t s1 else s1)"

definition evl_dequeue_thread :: "sched_env \<Rightarrow> ptr \<Rightarrow> kst \<Rightarrow> kst" where
  "evl_dequeue_thread e t s =
     (let cls = th_sched_class (k_threads s t); s1 = assert_thread_pinned t s in
      if cls = se_fifo e then raw_evl_dequeue_fifo_thread t s1
      else if cls \<noteq> se_idle e then sc_dequeue (se_classes e cls) t s1 else s1)"

definition evl_requeue_thread :: "sched_env \<Rightarrow> ptr \<Rightarrow> kst \<Rightarrow> kst" where
  "evl_requeue_thread e t s =
     (let cls = th_sched_class (k_threads s t); s1 = assert_thread_pinned t s in
      if cls = se_fifo e then raw_evl_requeue_fifo_thread t s1
      else if cls \<noteq> se_idle e then sc_requeue (se_classes e cls) t s1 else s1)"

definition evl_set_schedparam :: "sched_env \<Rightarrow> ptr \<Rightarrow> evl_sched_param \<Rightarrow> kst \<Rightarrow> bool \<times> kst" where
  "evl_set_schedparam e t p s =
     (let s1 = assert_thread_pinned t s
      in sc_setparam (se_classes e (th_base_class (k_threads s1 t))) t p s1)"

definition evl_get_schedparam :: "sched_env \<Rightarrow> ptr \<Rightarrow> evl_sched_param \<Rightarrow> kst \<Rightarrow> evl_sched_param \<times> kst" where
  "evl_get_schedparam e t p s =
     (let s1 = assert_thread_pinned t s
      in (sc_getparam (se_classes e (th_sched_class (k_threads s1 t))) t p s1, s1))"

definition update_wprio :: "sched_env \<Rightarrow> ptr \<Rightarrow> kst \<Rightarrow> kst" where
  "update_wprio e t s =
     upd_thread t (\<lambda>th. th\<lparr>th_wprio := evl_calc_weighted_prio (se_classes e (th_sched_class th)) (th_cprio th)\<rparr>) s"

definition evl_track_priority :: "sched_env \<Rightarrow> ptr \<Rightarrow> evl_sched_param option \<Rightarrow> kst \<Rightarrow> kst" where
  "evl_track_priority e t p s =
     (let s1 = assert_thread_pinned t s
      in update_wprio e t (sc_trackprio (se_classes e (th_sched_class (k_threads s1 t))) t p s1))"

definition evl_ceil_priority :: "sched_env \<Rightarrow> ptr \<Rightarrow> int \<Rightarrow> kst \<Rightarrow> kst" where
  "evl_ceil_priority e t prio s =
     (let s1 = assert_thread_pinned t s
      in update_wprio e t (sc_ceilprio (se_classes e (th_sched_class (k_threads s1 t))) t prio s1))"

definition evl_forget_thread :: "sched_env \<Rightarrow> ptr \<Rightarrow> kst \<Rightarrow> kst" where
  "evl_forget_thread e t s =
     (let cls = th_base_class (k_threads s t);
          s1 = assert_thread_pinned t s;
          s2 = s1\<lparr>k_nthreads := (k_nthreads s1)(cls := k_nthreads s1 cls - 1)\<rparr>
      in case sc_forget (se_classes e cls) of None \<Rightarrow> s2 | Some forget \<Rightarrow> forget t s2)"

definition evl_force_thread :: "sched_env \<Rightarrow> ptr \<Rightarrow> kst \<Rightarrow> kst" where
  "evl_force_thread e t s =
     (let cls = th_base_class (k_threads s t); s1 = assert_thread_pinned t s
      in case sc_kick (se_classes e cls) of None \<Rightarrow> s1 | Some kick \<Rightarrow> kick t s1)"

end
