(* ===== verification/Sched_Samples.thy ===== *)
theory Sched_Samples
  imports Sched_Class
begin

text \<open>
  A small concrete system for the witnesses of the scheduler's theorems: two runqueues at addresses
  100 (CPU 0, the current one) and 101 (CPU 1), threads at addresses below, the FIFO class at
  address 1, the idle one at address 2, and every other class with handlers that do nothing.
\<close>

definition sample_quota :: evl_sched_quota where
  "sample_quota = \<lparr>sq_period = 0, sq_refill_timer = sample_timer, sq_limit_timer = sample_timer, sq_groups = []\<rparr>"

definition sample_tp :: evl_sched_tp where
  "sample_tp = \<lparr>st_partitions = [], st_idle = \<lparr>tr_runnable = \<lparr>lq_head = []\<rparr>\<rparr>, st_tps = None,
     st_tf_timer = sample_timer, st_gps = None, st_wnext = 0, st_tf_start = 0, st_threads = []\<rparr>"

definition sample_rq :: evl_rq where
  "sample_rq = \<lparr>rq_lock = True, rq_flags = 0, rq_curr = 5, rq_fifo = \<lparr>sf_runnable = \<lparr>lq_head = []\<rparr>\<rparr>,
     rq_weak = \<lparr>sw_runnable = \<lparr>lq_head = []\<rparr>\<rparr>, rq_quota = sample_quota, rq_tp = sample_tp,
     rq_root_thread = 6, rq_account = \<lparr>last_account_switch = 0, current_account = 0\<rparr>,
     rq_local_flags = 0, rq_cpu = 0, rq_resched_cpus = {}, rq_inband_timer = sample_timer,
     rq_rrbtimer = sample_timer, rq_wdtimer = sample_timer, rq_proxy_timer_name = [], rq_rrb_timer_name = []\<rparr>"

definition sample_account :: evl_account where
  "sample_account = \<lparr>ac_start = 0, ac_total = 0\<rparr>"

definition sample_stat :: thread_stat where
  "sample_stat = \<lparr>stat_isw = \<lparr>cnt_counter = 0\<rparr>, stat_csw = \<lparr>cnt_counter = 0\<rparr>, stat_sc = \<lparr>cnt_counter = 0\<rparr>,
     stat_rwa = \<lparr>cnt_counter = 0\<rparr>, stat_account = sample_account, stat_lastperiod = sample_account\<rparr>"

definition sample_thread :: evl_thread where
  "sample_thread = \<lparr>th_lock = True, th_rq = 100, th_base_class = 1, th_sched_class = 1, th_bprio = 10,
     th_cprio = 10, th_wprio = 10, th_boosters = [], th_wchan = None, th_rtimer = sample_timer,
     th_ptimer = sample_timer, th_rrperiod = 0, th_state = 0, th_info = 0, th_quota = None,
     th_quota_expired = False, th_tps = None, th_altsched = 0, th_local_info = 0, th_wait_data = 0,
     th_poll_context = \<lparr>pc_table = None, pc_generation = 0, pc_nr = 0, pc_active = 0\<rparr>,
     th_held_mutex_count = 0, th_inband_work = 0, th_stat = sample_stat, th_u_window = None,
     th_owned_mutexes = [], th_element = 0, th_affinity = {0}, th_exited = 0, th_raised_cap = 0,
     th_oob_mm = None, th_observable = None, th_name = ''t''\<rparr>"

definition sample_class :: "kst evl_sched_class" where
  "sample_class = \<lparr>sc_init = \<lambda>_ s. s, sc_enqueue = \<lambda>_ s. s, sc_dequeue = \<lambda>_ s. s, sc_requeue = \<lambda>_ s. s,
     sc_pick = \<lambda>_ s. (None, s), sc_yield = None, sc_migrate = None, sc_setparam = \<lambda>_ _ s. (False, s),
     sc_getparam = \<lambda>_ p _. p, sc_chkparam = None, sc_trackprio = \<lambda>_ _ s. s, sc_ceilprio = \<lambda>_ _ s. s,
     sc_declare = None, sc_forget = None, sc_kick = None, sc_name_of = None, sc_show = None,
     sc_control = None, sc_next = None, sc_weight = 0, sc_policy = 0, sc_name = ''c''\<rparr>"

definition sample_env :: sched_env where
  "sample_env = \<lparr>se_classes = (\<lambda>_. sample_class)(1 := sample_class\<lparr>
       sc_trackprio := raw_evl_track_fifo_priority, sc_ceilprio := raw_evl_ceil_fifo_priority,
       sc_weight := EVL_CLASS_WEIGHT 4\<rparr>),
     se_fifo = 1, se_idle = 2\<rparr>"

definition sample_kst :: kst where
  "sample_kst = \<lparr>k_threads = (\<lambda>_. sample_thread)(8 := sample_thread\<lparr>th_cprio := 20, th_bprio := 20\<rparr>),
     k_rqs = (\<lambda>_. sample_rq)(101 := sample_rq\<lparr>rq_cpu := 1\<rparr>), k_cpu_rq = (\<lambda>c. 100 + c), k_this_rq = 100,
     k_nthreads = (\<lambda>_. 0), k_irqs_off = True, k_running_oob = True,
     k_current = \<lparr>os_thread = Some 5, os_subscriber = None, os_preempt_count = 0\<rparr>,
     k_thread_list = [5, 7, 8], k_nrthreads = 3, k_oob_cpus = {0, 1}, k_cpu_affinity = {0, 1}, k_warned = False\<rparr>"

lemmas sample_defs = sample_kst_def sample_env_def sample_thread_def sample_rq_def sample_class_def

end
