(* ===== verification/Sched_Order.thy ===== *)
theory Sched_Order
  imports Sched_Samples
begin

text \<open>
  The FIFO runqueues under the dispatching operations of \<open>sched.h\<close>: the invariant of the runnable
  queues and its preservation over any sequence of operations the core performs on threads of the FIFO
  class, interleaved with accesses of other classes to the same queues through \<open>sched/queue.h\<close>.
\<close>

section \<open>The runnable queue of a runqueue\<close>

definition fifo_queue :: "kst \<Rightarrow> ptr \<Rightarrow> ptr list" where
  "fifo_queue s r = lq_head (sf_runnable (rq_fifo (k_rqs s r)))"

text \<open>Threads of any class may be on the queue: a class which has no runnable queue of its own, like quota,
  puts its threads there.\<close>

definition fifo_inv :: "kst \<Rightarrow> bool" where
  "fifo_inv s \<longleftrightarrow> (\<forall>r. distinct (fifo_queue s r) \<and> desc (cprio_of s) (fifo_queue s r) \<and>
     (\<forall>t \<in> set (fifo_queue s r). th_rq (k_threads s t) = r))"

definition queued :: "kst \<Rightarrow> ptr \<Rightarrow> bool" where
  "queued s t \<longleftrightarrow> t \<in> set (fifo_queue s (th_rq (k_threads s t)))"

lemma fifo_inv_queued_iff: "fifo_inv s \<Longrightarrow> t \<in> set (fifo_queue s r) \<longleftrightarrow> queued s t \<and> th_rq (k_threads s t) = r"
  by (auto simp: fifo_inv_def queued_def)

lemma queue_upd_fifo [simp]:
  "fifo_queue (upd_fifo_queue r f s) r' = (if r' = r then lq_head (f (sf_runnable (rq_fifo (k_rqs s r)))) else fifo_queue s r')"
  "k_threads (upd_fifo_queue r f s) = k_threads s"
  by (simp_all add: fifo_queue_def upd_fifo_queue_def)

lemma queue_simps [simp]:
  "lq_head (lin_add_schedq p t q) = list_add_prilf p t (lq_head q)"
  "lq_head (lin_add_schedq_tail p t q) = list_add_priff p t (lq_head q)"
  "lq_head (lin_del_schedq t q) = remove1 t (lq_head q)"
  by (simp_all add: lin_add_schedq_def lin_add_schedq_tail_def lin_del_schedq_def list_del_def)

lemma fifo_queue_cong [simp]:
  "fifo_queue (assert_thread_pinned t s) = fifo_queue s" "fifo_queue (upd_thread t f s) = fifo_queue s"
  "fifo_queue (update_wprio e t s) = fifo_queue s"
  "lq_head (sf_runnable (rq_fifo (k_rqs s r))) = fifo_queue s r"
  by (auto simp: fifo_queue_def fun_eq_iff update_wprio_def)

section \<open>Changes that leave the queues in order\<close>

definition keeps_fifo :: "kst \<Rightarrow> kst \<Rightarrow> bool" where
  "keeps_fifo s s' \<longleftrightarrow> fifo_queue s' = fifo_queue s \<and> (\<forall>u. th_rq (k_threads s' u) = th_rq (k_threads s u))"

definition keeps_cprio :: "ptr set \<Rightarrow> kst \<Rightarrow> kst \<Rightarrow> bool" where
  "keeps_cprio U s s' \<longleftrightarrow> (\<forall>u. u \<notin> U \<longrightarrow> cprio_of s' u = cprio_of s u)"

text \<open>A change of the core which does not show in the FIFO queues, nor in the place and the priorities of a
  thread.\<close>

definition unseen :: "kst \<Rightarrow> kst \<Rightarrow> bool" where
  "unseen s s' \<longleftrightarrow> fifo_queue s' = fifo_queue s \<and>
     (\<forall>u. th_rq (k_threads s' u) = th_rq (k_threads s u) \<and> cprio_of s' u = cprio_of s u \<and>
          th_bprio (k_threads s' u) = th_bprio (k_threads s u) \<and> th_wprio (k_threads s' u) = th_wprio (k_threads s u))"

text \<open>The FIFO class tracks priorities with the inline functions of \<open>sched/fifo.h\<close>; nothing is assumed of the
  handlers of the other classes.\<close>

definition fifo_class_ok :: "sched_env \<Rightarrow> bool" where
  "fifo_class_ok e \<longleftrightarrow> sc_trackprio (se_classes e (se_fifo e)) = raw_evl_track_fifo_priority \<and>
     sc_ceilprio (se_classes e (se_fifo e)) = raw_evl_ceil_fifo_priority"

lemma keeps_fifo_upd [simp]:
  "keeps_fifo s (upd_thread t f s) \<longleftrightarrow>
     th_rq (f (k_threads s t)) = th_rq (k_threads s t)"
  by (auto simp: keeps_fifo_def)

lemma keeps_cprio_upd [simp]:
  "keeps_cprio U s (upd_thread t f s) \<longleftrightarrow> t \<in> U \<or> th_cprio (f (k_threads s t)) = cprio_of s t"
  by (auto simp: keeps_cprio_def)

lemma keeps_trans:
  "keeps_fifo s s1 \<Longrightarrow> keeps_fifo s1 s2 \<Longrightarrow> keeps_fifo s s2"
  "keeps_cprio U s s1 \<Longrightarrow> keeps_cprio U s1 s2 \<Longrightarrow> keeps_cprio U s s2"
  by (simp_all add: keeps_fifo_def keeps_cprio_def)

lemma keeps_pinned [simp]:
  "keeps_fifo (assert_thread_pinned t s) s' = keeps_fifo s s'"
  "keeps_cprio U (assert_thread_pinned t s) s' = keeps_cprio U s s'"
  "keeps_fifo s (assert_thread_pinned t s)" "keeps_cprio U s (assert_thread_pinned t s)"
  by (simp_all add: keeps_fifo_def keeps_cprio_def)

text \<open>Reprioritising threads that are not queued keeps the queues in order.\<close>

lemma fifo_inv_frame:
  assumes "fifo_inv s" and "keeps_fifo s s'" and "keeps_cprio U s s'" and "\<forall>u \<in> U. \<not> queued s u"
  shows "fifo_inv s'"
proof -
  have *: "u \<notin> U" if "u \<in> set (fifo_queue s r)" for u r
    using that assms(1,4) fifo_inv_queued_iff [OF assms(1)] by blast
  have "desc (cprio_of s') (fifo_queue s r) \<longleftrightarrow> desc (cprio_of s) (fifo_queue s r)" for r
    by (rule desc_cong) (use * assms(3) in \<open>auto simp: keeps_cprio_def\<close>)
  with assms(1,2) show ?thesis by (simp add: fifo_inv_def keeps_fifo_def)
qed

section \<open>Operations on the runqueues\<close>

text \<open>
  The operations of the core on a thread of the FIFO class, and what happens to the queues besides: a
  thread of another class is added or deleted by the operations of \<open>sched/queue.h\<close>, a thread that is
  on no queue is moved to a runqueue or gets other priorities, or the core changes what does not show.
\<close>

datatype sched_op =
    Enqueue_thread ptr | Requeue_thread ptr | Dequeue_thread ptr
  | Track_priority ptr "evl_sched_param option" | Ceil_priority ptr int
  | Other_add ptr | Other_add_tail ptr | Other_del ptr
  | Other_thread ptr ptr int int int | Other_step "kst \<Rightarrow> kst"

abbreviation is_fifo :: "sched_env \<Rightarrow> kst \<Rightarrow> ptr \<Rightarrow> bool" where
  "is_fifo e s t \<equiv> th_sched_class (k_threads s t) = se_fifo e"

text \<open>Threads are queued when they are not, unqueued when they are, and reprioritised while they are off the
  queue.\<close>

fun sched_op_ok :: "sched_env \<Rightarrow> kst \<Rightarrow> sched_op \<Rightarrow> bool" where
  "sched_op_ok e s (Enqueue_thread t) \<longleftrightarrow> is_fifo e s t \<and> \<not> queued s t"
| "sched_op_ok e s (Requeue_thread t) \<longleftrightarrow> is_fifo e s t \<and> \<not> queued s t"
| "sched_op_ok e s (Dequeue_thread t) \<longleftrightarrow> is_fifo e s t \<and> queued s t"
| "sched_op_ok e s (Track_priority t p) \<longleftrightarrow> is_fifo e s t \<and> \<not> queued s t"
| "sched_op_ok e s (Ceil_priority t prio) \<longleftrightarrow> is_fifo e s t \<and> \<not> queued s t"
| "sched_op_ok e s (Other_add t) \<longleftrightarrow> \<not> queued s t"
| "sched_op_ok e s (Other_add_tail t) \<longleftrightarrow> \<not> queued s t"
| "sched_op_ok e s (Other_del t) \<longleftrightarrow> queued s t"
| "sched_op_ok e s (Other_thread t r cprio bprio wprio) \<longleftrightarrow> \<not> queued s t"
| "sched_op_ok e s (Other_step f) \<longleftrightarrow> unseen s (f s)"

fun sched_step :: "sched_env \<Rightarrow> sched_op \<Rightarrow> kst \<Rightarrow> kst" where
  "sched_step e (Enqueue_thread t) s = evl_enqueue_thread e t s"
| "sched_step e (Requeue_thread t) s = evl_requeue_thread e t s"
| "sched_step e (Dequeue_thread t) s = evl_dequeue_thread e t s"
| "sched_step e (Track_priority t p) s = evl_track_priority e t p s"
| "sched_step e (Ceil_priority t prio) s = evl_ceil_priority e t prio s"
| "sched_step e (Other_add t) s = upd_fifo_queue (th_rq (k_threads s t)) (lin_add_schedq (cprio_of s) t) s"
| "sched_step e (Other_add_tail t) s = upd_fifo_queue (th_rq (k_threads s t)) (lin_add_schedq_tail (cprio_of s) t) s"
| "sched_step e (Other_del t) s = upd_fifo_queue (th_rq (k_threads s t)) (lin_del_schedq t) s"
| "sched_step e (Other_thread t r cprio bprio wprio) s =
     upd_thread t (\<lambda>th. th\<lparr>th_rq := r, th_cprio := cprio, th_bprio := bprio, th_wprio := wprio\<rparr>) s"
| "sched_step e (Other_step f) s = f s"

fun sched_run :: "sched_env \<Rightarrow> sched_op list \<Rightarrow> kst \<Rightarrow> kst option" where
  "sched_run e [] s = Some s"
| "sched_run e (p # ps) s = (if sched_op_ok e s p then sched_run e ps (sched_step e p s) else None)"

lemma fifo_inv_insert:
  assumes inv: "fifo_inv s" and t: "\<not> queued s t"
    and th: "k_threads s' = k_threads s" and r: "r = th_rq (k_threads s t)"
    and q: "fifo_queue s' = (fifo_queue s)(r := xs)"
    and xs: "set xs = insert t (set (fifo_queue s r))" "distinct xs" "desc (cprio_of s) xs"
  shows "fifo_inv s'"
  using assms by (auto simp: fifo_inv_def)

lemma fifo_add_inv:
  assumes "fifo_inv s" and "\<not> queued s t"
  shows "fifo_inv (raw_evl_enqueue_fifo_thread t s)" and "fifo_inv (raw_evl_requeue_fifo_thread t s)"
proof -
  let ?q = "fifo_queue s (th_rq (k_threads s t))"
  have q: "distinct ?q" "desc (cprio_of s) ?q" "t \<notin> set ?q"
    using assms by (auto simp: fifo_inv_def queued_def)
  show "fifo_inv (raw_evl_enqueue_fifo_thread t s)"
    by (rule fifo_inv_insert [OF assms, where xs = "list_add_priff (cprio_of s) t ?q"])
      (use q in \<open>auto simp: raw_evl_enqueue_fifo_thread_def desc_list_add_priff distinct_list_add_priff\<close>)
  show "fifo_inv (raw_evl_requeue_fifo_thread t s)"
    by (rule fifo_inv_insert [OF assms, where xs = "list_add_prilf (cprio_of s) t ?q"])
      (use q in \<open>auto simp: raw_evl_requeue_fifo_thread_def desc_list_add_prilf distinct_list_add_prilf\<close>)
qed

lemma fifo_del_inv: "fifo_inv s \<Longrightarrow> fifo_inv (raw_evl_dequeue_fifo_thread t s)"
  by (auto simp: fifo_inv_def raw_evl_dequeue_fifo_thread_def desc_remove1 dest: notin_set_remove1)

text \<open>Another class uses the queue of its thread by the same operations of \<open>sched/queue.h\<close>.\<close>

lemma other_class_access [simp]:
  "sched_step e (Other_add t) s = raw_evl_requeue_fifo_thread t s"
  "sched_step e (Other_add_tail t) s = raw_evl_enqueue_fifo_thread t s"
  "sched_step e (Other_del t) s = raw_evl_dequeue_fifo_thread t s"
  by (simp_all add: raw_evl_requeue_fifo_thread_def raw_evl_enqueue_fifo_thread_def raw_evl_dequeue_fifo_thread_def)

lemma fifo_inv_pinned [simp]: "fifo_inv (assert_thread_pinned t s) = fifo_inv s"
  by (simp add: fifo_inv_def)

lemma queued_pinned [simp]: "queued (assert_thread_pinned t s) u = queued s u"
  by (simp add: queued_def)

text \<open>Tracking and ceiling the priority of a FIFO thread.\<close>

lemma track_keeps:
  assumes "fifo_class_ok e" "is_fifo e s t"
  shows "keeps_fifo s (evl_track_priority e t p s)" "keeps_cprio {t} s (evl_track_priority e t p s)"
    "keeps_fifo s (evl_ceil_priority e t prio s)" "keeps_cprio {t} s (evl_ceil_priority e t prio s)"
proof -
  have 2: "keeps_fifo s' (update_wprio e t s')" "keeps_cprio U s' (update_wprio e t s')" for s' U
    by (simp_all add: update_wprio_def)
  have 1: "keeps_fifo s (raw_evl_track_fifo_priority t p (assert_thread_pinned t s))"
    "keeps_cprio {t} s (raw_evl_track_fifo_priority t p (assert_thread_pinned t s))"
    "keeps_fifo s (raw_evl_ceil_fifo_priority t prio (assert_thread_pinned t s))"
    "keeps_cprio {t} s (raw_evl_ceil_fifo_priority t prio (assert_thread_pinned t s))"
    by (auto simp: raw_evl_track_fifo_priority_def raw_evl_ceil_fifo_priority_def keeps_fifo_def keeps_cprio_def
        split: option.splits)
  have eq: "evl_track_priority e t p s = update_wprio e t (raw_evl_track_fifo_priority t p (assert_thread_pinned t s))"
    "evl_ceil_priority e t prio s = update_wprio e t (raw_evl_ceil_fifo_priority t prio (assert_thread_pinned t s))"
    using assms by (simp_all add: evl_track_priority_def evl_ceil_priority_def fifo_class_ok_def Let_def)
  show "keeps_fifo s (evl_track_priority e t p s)" "keeps_cprio {t} s (evl_track_priority e t p s)"
    "keeps_fifo s (evl_ceil_priority e t prio s)" "keeps_cprio {t} s (evl_ceil_priority e t prio s)"
    unfolding eq by (blast intro: keeps_trans 1 2)+
qed

lemma fifo_inv_other_thread:
  assumes "fifo_inv s" "\<not> queued s t"
  shows "fifo_inv (upd_thread t f s)"
proof -
  have "t \<notin> set (fifo_queue s q)" for q using fifo_inv_queued_iff [OF assms(1)] assms(2) by blast
  moreover have "desc (cprio_of (upd_thread t f s)) (fifo_queue s q) = desc (cprio_of s) (fifo_queue s q)" for q
    using calculation [of q] by (intro desc_cong) auto
  ultimately show ?thesis using assms(1) by (auto simp: fifo_inv_def)
qed

lemma unseen_inv: "fifo_inv s \<Longrightarrow> unseen s s' \<Longrightarrow> fifo_inv s'"
  using fifo_inv_frame [of s s' "{}"] by (simp add: unseen_def keeps_fifo_def keeps_cprio_def)

lemma sched_step_inv:
  assumes e: "fifo_class_ok e" and inv: "fifo_inv s" and ok: "sched_op_ok e s p"
  shows "fifo_inv (sched_step e p s)"
proof (cases p)
  case (Track_priority t p')
  with ok show ?thesis using fifo_inv_frame [OF inv track_keeps(1,2) [OF e]] by simp
next
  case (Ceil_priority t prio)
  with ok show ?thesis using fifo_inv_frame [OF inv track_keeps(3,4) [OF e]] by simp
next
  case (Other_thread t r cprio bprio wprio)
  with ok fifo_inv_other_thread [OF inv, of t] show ?thesis by simp
next
  case (Other_step f)
  with ok show ?thesis using unseen_inv [OF inv] by simp
qed (use ok inv in \<open>simp_all del: sched_step.simps(6-8) add: evl_enqueue_thread_def evl_requeue_thread_def
  evl_dequeue_thread_def fifo_add_inv fifo_del_inv\<close>)

lemma sched_run_inv:
  "fifo_class_ok e \<Longrightarrow> fifo_inv s \<Longrightarrow> sched_run e ps s = Some s' \<Longrightarrow> fifo_inv s'"
proof (induction ps arbitrary: s)
  case (Cons p ps)
  then have "fifo_inv (sched_step e p s)" by (auto intro: sched_step_inv split: if_splits)
  with Cons show ?case by (auto split: if_splits)
qed simp

text \<open>C2. The FIFO runqueues stay in order: any sequence of enqueueings, requeueings, dequeueings, priority
  trackings (PI) and ceilings (PP) the core performs on threads of the FIFO class, which tracks priorities
  with the functions of \<open>sched/fifo.h\<close>, interleaved in any way with other classes adding and deleting
  their own threads to the same queues by \<open>sched/queue.h\<close>, with threads that move between runqueues or get
  other priorities, and with changes that do not concern the queues, where a thread is reprioritised or
  moved only while it is off its queue, keeps every FIFO queue free of duplicates, made of threads of
  that runqueue only, and ordered by effective priority; picking from it then takes out a thread no
  other queued thread of the runqueue has a higher priority than. Nothing is assumed of the handlers of
  other classes.\<close>

theorem fifo_runqueues_stay_ordered:
  assumes "fifo_class_ok e" and "fifo_inv s" and "sched_run e ps s = Some s'"
    and "lin_get_schedq (sf_runnable (rq_fifo (k_rqs s' r))) = (Some t, q')"
  shows "fifo_inv s' \<and> th_rq (k_threads s' t) = r \<and>
    (\<forall>u \<in> set (fifo_queue s' r). cprio_of s' u \<le> cprio_of s' t) \<and> fifo_queue s' r = t # lq_head q'"
proof -
  have inv: "fifo_inv s'" using assms(1-3) by (rule sched_run_inv)
  have q: "fifo_queue s' r = t # lq_head q'"
    using assms(4) by (cases "fifo_queue s' r") (auto simp: lin_get_schedq_def list_del_def)
  with inv have "\<forall>u \<in> set (t # lq_head q'). th_rq (k_threads s' u) = r" and "desc (cprio_of s') (t # lq_head q')"
    unfolding fifo_inv_def by metis+
  with inv q show ?thesis by auto
qed

lemma sample_fifo_class_ok: "fifo_class_ok sample_env"
  by (simp add: fifo_class_ok_def sample_env_def sample_class_def)

lemma sample_fifo_inv: "fifo_inv sample_kst"
  by (simp add: fifo_inv_def fifo_queue_def sample_defs)

text \<open>Thread 9 gets another priority, and its class adds it to the queue.\<close>

definition sample_ops :: "sched_op list" where
  "sample_ops = [Enqueue_thread 7, Enqueue_thread 8, Dequeue_thread 7, Track_priority 7 (Some \<lparr>sp_word0 = 30, sp_word1 = 0\<rparr>),
     Enqueue_thread 7, Other_thread 9 100 15 15 15, Other_add_tail 9]"

lemma sample_run:
  "\<exists>s'. sched_run sample_env sample_ops sample_kst = Some s' \<and> fifo_queue s' 100 = [7, 8, 9]"
  by (simp add: sample_ops_def sample_defs fifo_queue_def queued_def evl_enqueue_thread_def Let_def
      evl_dequeue_thread_def evl_track_priority_def update_wprio_def raw_evl_enqueue_fifo_thread_def
      raw_evl_dequeue_fifo_thread_def raw_evl_track_fifo_priority_def upd_fifo_queue_def upd_thread_def upd_rq_def
      assert_defs lin_add_schedq_tail_def lin_del_schedq_def list_add_priff_def list_add_pri_def list_prims fifo_prio_def
      del: queue_simps fifo_queue_cong)

theorem fifo_runqueues_stay_ordered_witness:
  "\<exists>s' q'. sched_run sample_env sample_ops sample_kst = Some s' \<and>
     lin_get_schedq (sf_runnable (rq_fifo (k_rqs s' 100))) = (Some 7, q') \<and>
     (\<forall>u \<in> set (fifo_queue s' 100). cprio_of s' u \<le> cprio_of s' 7)"
proof -
  obtain s' where s': "sched_run sample_env sample_ops sample_kst = Some s'" "fifo_queue s' 100 = [7, 8, 9]"
    using sample_run by blast
  then obtain q' where q': "lin_get_schedq (sf_runnable (rq_fifo (k_rqs s' 100))) = (Some 7, q')"
    by (simp add: lin_get_schedq_def)
  from fifo_runqueues_stay_ordered [OF sample_fifo_class_ok sample_fifo_inv s'(1) q'] s'(1) q' show ?thesis by blast
qed

end
