(* ===== verification/Sched_Policy.thy ===== *)
theory Sched_Policy
  imports Sched_Order
begin

text \<open>
  The operations of \<open>sched.h\<close> and \<open>sched/fifo.h\<close> on the runqueues, with picking from the runnable queue
  (\<open>evl_get_schedq\<close>), as a refinement of the FIFO scheduling policy: a queue of threads for every CPU and
  priority, where a thread that becomes runnable goes to the tail of the queue of its priority, one
  that was preempted to its head, and the next thread to run is the head of the highest queue that is
  not empty.
\<close>

section \<open>The policy\<close>

text \<open>Besides the queues: where each thread runs, its effective, base and weighted priority, and the weight of
  the class.\<close>

record policy =
  pl_queue :: "ptr \<Rightarrow> int \<Rightarrow> ptr list"
  pl_home :: "ptr \<Rightarrow> ptr"
  pl_prio :: "ptr \<Rightarrow> int"
  pl_base :: "ptr \<Rightarrow> int"
  pl_wprio :: "ptr \<Rightarrow> int"
  pl_weight :: int

definition upd_level :: "ptr \<Rightarrow> (ptr list \<Rightarrow> ptr list) \<Rightarrow> policy \<Rightarrow> policy" where
  "upd_level t f a = a\<lparr>pl_queue := (pl_queue a)(pl_home a t := (pl_queue a (pl_home a t))
     (pl_prio a t := f (pl_queue a (pl_home a t) (pl_prio a t))))\<rparr>"

definition set_prio :: "ptr \<Rightarrow> int \<Rightarrow> policy \<Rightarrow> policy" where
  "set_prio t prio a = a\<lparr>pl_prio := (pl_prio a)(t := prio), pl_wprio := (pl_wprio a)(t := prio + pl_weight a)\<rparr>"

fun policy_op :: "sched_op \<Rightarrow> policy \<Rightarrow> policy" where
  "policy_op (Enqueue_thread t) = upd_level t (\<lambda>ts. ts @ [t])"
| "policy_op (Requeue_thread t) = upd_level t (Cons t)"
| "policy_op (Dequeue_thread t) = upd_level t (remove1 t)"
| "policy_op (Track_priority t p) =
     (\<lambda>a. set_prio t (case p of Some p \<Rightarrow> fifo_prio p | None \<Rightarrow> pl_base a t) a)"
| "policy_op (Ceil_priority t prio) = set_prio t prio"
| "policy_op (Other_add t) = upd_level t (Cons t)"
| "policy_op (Other_add_tail t) = upd_level t (\<lambda>ts. ts @ [t])"
| "policy_op (Other_del t) = upd_level t (remove1 t)"
| "policy_op (Other_thread t r cprio bprio wprio) =
     (\<lambda>a. a\<lparr>pl_home := (pl_home a)(t := r), pl_prio := (pl_prio a)(t := cprio),
            pl_base := (pl_base a)(t := bprio), pl_wprio := (pl_wprio a)(t := wprio)\<rparr>)"
| "policy_op (Other_step f) = (\<lambda>a. a)"

datatype rq_event = Op sched_op | Pick ptr

text \<open>The runs of the policy, with the threads picked.\<close>

inductive policy_run :: "policy \<Rightarrow> rq_event list \<Rightarrow> ptr option list \<Rightarrow> policy \<Rightarrow> bool" where
  run_done: "policy_run a [] [] a"
| run_op: "policy_run (policy_op p a) es out a' \<Longrightarrow> policy_run a (Op p # es) out a'"
| run_pick: "pl_queue a r prio = t # ts \<Longrightarrow> (\<And>higher. prio < higher \<Longrightarrow> pl_queue a r higher = []) \<Longrightarrow>
    policy_run (a\<lparr>pl_queue := (pl_queue a)(r := (pl_queue a r)(prio := ts))\<rparr>) es out a' \<Longrightarrow>
    policy_run a (Pick r # es) (Some t # out) a'"
| run_idle: "(\<And>prio. pl_queue a r prio = []) \<Longrightarrow> policy_run a es out a' \<Longrightarrow>
    policy_run a (Pick r # es) (None # out) a'"

inductive_cases policy_runE:
  "policy_run a [] out a'" "policy_run a (Op p # es) out a'" "policy_run a (Pick r # es) out a'"

text \<open>The policy leaves no choice.\<close>

lemma top_level_unique:
  assumes "q (prio :: int) = t # ts" "\<And>h. prio < h \<Longrightarrow> q h = []" "q prio' = t' # ts'" "\<And>h. prio' < h \<Longrightarrow> q h = []"
  shows "prio' = prio \<and> t' = t \<and> ts' = ts"
proof -
  have "\<not> prio < prio'"
  proof
    assume "prio < prio'"
    from assms(2) [OF this] assms(3) show False by simp
  qed
  moreover have "\<not> prio' < prio"
  proof
    assume "prio' < prio"
    from assms(4) [OF this] assms(1) show False by simp
  qed
  ultimately have eq: "prio' = prio" by (rule linorder_class.antisym_conv3 [THEN iffD1])
  from assms(1,3) show ?thesis unfolding eq by simp
qed

lemma policy_run_deterministic:
  "policy_run a es out a' \<Longrightarrow> policy_run a es out2 a2 \<Longrightarrow> out2 = out \<and> a2 = a'"
proof (induction a es out a' arbitrary: out2 a2 rule: policy_run.induct)
  case (run_done a)
  then show ?case by (elim policy_runE(1)) simp
next
  case (run_op p a es out a')
  from run_op.prems have "policy_run (policy_op p a) es out2 a2" by (elim policy_runE(2)) simp
  then show ?case by (rule run_op.IH)
next
  case (run_pick a r prio t ts es out a')
  from run_pick.prems show ?case
  proof (cases rule: policy_runE(3) [consumes 1, case_names pick idle])
    case (pick prio' t' ts' out')
    have "prio' = prio \<and> t' = t \<and> ts' = ts" by (rule top_level_unique [OF run_pick(1,2) pick(2,3)])
    with pick run_pick.IH show ?thesis by simp
  next
    case (idle out')
    with run_pick(1) show ?thesis by simp
  qed
next
  case (run_idle a r es out a')
  from run_idle.prems show ?case
  proof (cases rule: policy_runE(3) [consumes 1, case_names pick idle])
    case (pick prio' t' ts' out')
    with run_idle(1) show ?thesis by simp
  next
    case (idle out')
    with run_idle.IH show ?thesis by simp
  qed
qed

section \<open>The runqueues as a policy\<close>

definition policy_of :: "sched_env \<Rightarrow> kst \<Rightarrow> policy" where
  "policy_of e s = \<lparr>pl_queue = (\<lambda>r prio. filter (\<lambda>t. cprio_of s t = prio) (fifo_queue s r)),
     pl_home = (\<lambda>t. th_rq (k_threads s t)), pl_prio = cprio_of s, pl_base = (\<lambda>t. th_bprio (k_threads s t)),
     pl_wprio = (\<lambda>t. th_wprio (k_threads s t)), pl_weight = sc_weight (se_classes e (se_fifo e))\<rparr>"

text \<open>Picking takes the thread off its queue.\<close>

definition pick_next :: "ptr \<Rightarrow> kst \<Rightarrow> ptr option \<times> kst" where
  "pick_next r s = (let (t, q) = lin_get_schedq (sf_runnable (rq_fifo (k_rqs s r))) in (t, upd_fifo_queue r (\<lambda>_. q) s))"

fun rq_run :: "sched_env \<Rightarrow> rq_event list \<Rightarrow> kst \<Rightarrow> (ptr option list \<times> kst) option" where
  "rq_run e [] s = Some ([], s)"
| "rq_run e (Op p # es) s = (if sched_op_ok e s p then rq_run e es (sched_step e p s) else None)"
| "rq_run e (Pick r # es) s = (case pick_next r s of (t, s1) \<Rightarrow> map_option (apfst (Cons t)) (rq_run e es s1))"

lemma policy_simps [simp]:
  "pl_home (policy_of e s) t = th_rq (k_threads s t)" "pl_base (policy_of e s) t = th_bprio (k_threads s t)"
  "pl_queue (policy_of e s) r prio = filter (\<lambda>t. cprio_of s t = prio) (fifo_queue s r)"
  by (simp_all add: policy_of_def)

lemma fifo_op_simps [simp]:
  "k_threads (raw_evl_enqueue_fifo_thread t s) = k_threads s" "k_threads (raw_evl_requeue_fifo_thread t s) = k_threads s"
  "k_threads (raw_evl_dequeue_fifo_thread t s) = k_threads s"
  by (simp_all add: raw_evl_enqueue_fifo_thread_def raw_evl_requeue_fifo_thread_def raw_evl_dequeue_fifo_thread_def)

lemma policy_of_pinned [simp]: "policy_of e (assert_thread_pinned t s) = policy_of e s"
  by (simp add: policy_of_def)

section \<open>Refinement, operation by operation\<close>

lemma policy_of_unseen: "unseen s s' \<Longrightarrow> policy_of e s' = policy_of e s"
  by (simp add: policy_of_def unseen_def)

text \<open>An operation on the FIFO queue of a thread is one on its level.\<close>

lemma policy_level:
  assumes "k_threads s' = k_threads s"
    "\<And>r. fifo_queue s' r = (if r = th_rq (k_threads s t) then xs else fifo_queue s r)"
    "\<And>prio. filter (\<lambda>u. cprio_of s u = prio) xs =
       (let l = filter (\<lambda>u. cprio_of s u = prio) (fifo_queue s (th_rq (k_threads s t)))
        in if prio = cprio_of s t then f l else l)"
  shows "policy_of e s' = upd_level t f (policy_of e s)"
  by (simp add: policy_of_def upd_level_def assms fun_eq_iff Let_def)

lemma queue_op_refines:
  assumes "fifo_inv s"
  shows "policy_of e (raw_evl_enqueue_fifo_thread t s) = upd_level t (\<lambda>ts. ts @ [t]) (policy_of e s)"
    and "policy_of e (raw_evl_requeue_fifo_thread t s) = upd_level t (Cons t) (policy_of e s)"
    and "policy_of e (raw_evl_dequeue_fifo_thread t s) = upd_level t (remove1 t) (policy_of e s)"
proof -
  let ?q = "fifo_queue s (th_rq (k_threads s t))"
  have d: "desc (cprio_of s) ?q" using assms by (simp add: fifo_inv_def)
  show "policy_of e (raw_evl_enqueue_fifo_thread t s) = upd_level t (\<lambda>ts. ts @ [t]) (policy_of e s)"
    by (rule policy_level [where xs = "list_add_priff (cprio_of s) t ?q"])
      (auto simp: raw_evl_enqueue_fifo_thread_def filter_level_priff [OF d])
  show "policy_of e (raw_evl_requeue_fifo_thread t s) = upd_level t (Cons t) (policy_of e s)"
    by (rule policy_level [where xs = "list_add_prilf (cprio_of s) t ?q"])
      (auto simp: raw_evl_requeue_fifo_thread_def filter_level_prilf [OF d])
  show "policy_of e (raw_evl_dequeue_fifo_thread t s) = upd_level t (remove1 t) (policy_of e s)"
    by (rule policy_level [where xs = "remove1 t ?q"])
      (auto simp: raw_evl_dequeue_fifo_thread_def filter_remove1 remove1_idem Let_def)
qed

text \<open>Changing a thread that is on no queue leaves every level alone.\<close>

lemma off_queue_levels:
  assumes "fifo_inv s" "\<not> queued s t" "keeps_fifo s s'" "\<And>u. u \<noteq> t \<Longrightarrow> cprio_of s' u = cprio_of s u"
  shows "filter (\<lambda>u. cprio_of s' u = p) (fifo_queue s' r) = filter (\<lambda>u. cprio_of s u = p) (fifo_queue s r)"
proof -
  have "u \<noteq> t" if "u \<in> set (fifo_queue s r)" for u
    using that assms(2) fifo_inv_queued_iff [OF assms(1)] by blast
  then show ?thesis using assms(3,4) by (intro filter_cong) (auto simp: keeps_fifo_def)
qed

lemma set_prio_refines:
  assumes "fifo_inv s" "\<not> queued s t" "keeps_fifo s s'" "cprio_of s' t = prio"
    "th_bprio (k_threads s' t) = th_bprio (k_threads s t)"
    "th_wprio (k_threads s' t) = prio + sc_weight (se_classes e (se_fifo e))"
    "\<And>u. u \<noteq> t \<Longrightarrow> k_threads s' u = k_threads s u"
  shows "policy_of e s' = set_prio t prio (policy_of e s)"
proof -
  have "cprio_of s' u = (if u = t then prio else cprio_of s u)"
    "th_bprio (k_threads s' u) = th_bprio (k_threads s u)"
    "th_wprio (k_threads s' u) = (if u = t then prio + sc_weight (se_classes e (se_fifo e)) else th_wprio (k_threads s u))" for u
    using assms(4-7) by (cases "u = t"; simp)+
  with assms(3) off_queue_levels [OF assms(1-3)] assms(7) show ?thesis
    by (auto simp: policy_of_def set_prio_def keeps_fifo_def fun_eq_iff)
qed

lemma reprioritise_refines:
  assumes "fifo_class_ok e" "fifo_inv s" "is_fifo e s t" "\<not> queued s t"
  shows "policy_of e (evl_track_priority e t p s) =
      set_prio t (case p of Some p \<Rightarrow> fifo_prio p | None \<Rightarrow> th_bprio (k_threads s t)) (policy_of e s)"
    and "policy_of e (evl_ceil_priority e t prio s) = set_prio t prio (policy_of e s)"
proof -
  have fifo: "sc_trackprio (se_classes e (se_fifo e)) = raw_evl_track_fifo_priority"
    "sc_ceilprio (se_classes e (se_fifo e)) = raw_evl_ceil_fifo_priority"
    using assms(1) by (simp_all add: fifo_class_ok_def)
  note repri = evl_track_priority_def evl_ceil_priority_def assms(3) fifo raw_evl_track_fifo_priority_def
    raw_evl_ceil_fifo_priority_def update_wprio_def evl_calc_weighted_prio_def Let_def
  show "policy_of e (evl_track_priority e t p s) =
      set_prio t (case p of Some p \<Rightarrow> fifo_prio p | None \<Rightarrow> th_bprio (k_threads s t)) (policy_of e s)"
    by (rule set_prio_refines [OF assms(2,4) track_keeps(1) [OF assms(1,3)]]) (simp_all add: repri split: option.split)
  show "policy_of e (evl_ceil_priority e t prio s) = set_prio t prio (policy_of e s)"
    by (rule set_prio_refines [OF assms(2,4) track_keeps(3) [OF assms(1,3)]]) (simp_all add: repri)
qed

lemma other_thread_refines:
  assumes "fifo_inv s" "\<not> queued s t"
  shows "policy_of e (sched_step e (Other_thread t r cprio bprio wprio) s) =
    policy_op (Other_thread t r cprio bprio wprio) (policy_of e s)"
proof -
  let ?s = "sched_step e (Other_thread t r cprio bprio wprio) s"
  have "u \<noteq> t" if "u \<in> set (fifo_queue s q)" for u q
    using that assms(2) fifo_inv_queued_iff [OF assms(1)] by blast
  then have "filter (\<lambda>u. cprio_of ?s u = p) (fifo_queue s q) = filter (\<lambda>u. cprio_of s u = p) (fifo_queue s q)" for p q
    by (intro filter_cong) auto
  then show ?thesis by (simp add: policy_of_def fun_eq_iff)
qed

lemma step_refines:
  assumes "fifo_class_ok e" "fifo_inv s" "sched_op_ok e s p"
  shows "policy_of e (sched_step e p s) = policy_op p (policy_of e s)"
proof (cases p)
  case (Other_thread t r cprio bprio wprio)
  with assms(3) show ?thesis using other_thread_refines [OF assms(2)] by simp
next
  case (Other_step f)
  with assms(3) show ?thesis by (simp add: policy_of_unseen)
qed (use assms reprioritise_refines [OF assms(1,2)] in \<open>simp_all del: sched_step.simps(6-8)
  add: queue_op_refines evl_enqueue_thread_def evl_requeue_thread_def evl_dequeue_thread_def split: option.split\<close>)

section \<open>Refinement of runs\<close>

lemma pick_next_cases:
  obtains (empty) "fifo_queue s r = []" "fst (pick_next r s) = None" "fifo_queue (snd (pick_next r s)) = fifo_queue s"
  | (top) t ts where "fifo_queue s r = t # ts" "fst (pick_next r s) = Some t"
      "fifo_queue (snd (pick_next r s)) = (fifo_queue s)(r := ts)"
  by (cases "fifo_queue s r") (auto simp: pick_next_def lin_get_schedq_def list_del_def fun_eq_iff split_beta)

lemma pick_next_threads [simp]: "k_threads (snd (pick_next r s)) = k_threads s"
  by (simp add: pick_next_def split_beta)

lemma pick_next_inv:
  assumes "fifo_inv s"
  shows "fifo_inv (snd (pick_next r s))"
proof (cases rule: pick_next_cases [of s r])
  case empty
  with assms show ?thesis by (simp add: fifo_inv_def)
next
  case (top t ts)
  have "distinct (t # ts) \<and> desc (cprio_of s) (t # ts) \<and>
      (\<forall>u \<in> set (t # ts). th_rq (k_threads s u) = r)"
    using assms top(1) unfolding fifo_inv_def by metis
  with assms top(3) show ?thesis by (simp add: fifo_inv_def)
qed

lemma rq_run_refines:
  assumes "fifo_class_ok e"
  shows "fifo_inv s \<Longrightarrow> rq_run e es s = Some (out, s') \<Longrightarrow>
    fifo_inv s' \<and> policy_run (policy_of e s) es out (policy_of e s')"
proof (induction es arbitrary: s out)
  case Nil
  then show ?case by (auto intro: policy_run.intros)
next
  case (Cons ev es)
  show ?case
  proof (cases ev)
    case (Op p)
    with Cons.prems have ok: "sched_op_ok e s p" and run: "rq_run e es (sched_step e p s) = Some (out, s')"
      by (auto split: if_splits)
    have "fifo_inv (sched_step e p s)" by (rule sched_step_inv [OF assms Cons.prems(1) ok])
    from Cons.IH [OF this run] show ?thesis
      using step_refines [OF assms Cons.prems(1) ok] Op by (auto intro: policy_run.intros)
  next
    case (Pick r)
    let ?s1 = "snd (pick_next r s)"
    obtain out1 where out: "out = fst (pick_next r s) # out1" and run: "rq_run e es ?s1 = Some (out1, s')"
      using Cons.prems(2) Pick by (auto split: prod.splits)
    have IH: "fifo_inv s'" "policy_run (policy_of e ?s1) es out1 (policy_of e s')"
      using Cons.IH [OF pick_next_inv [OF Cons.prems(1)] run] by blast+
    show ?thesis
    proof (cases rule: pick_next_cases [of s r])
      case empty
      have "policy_of e ?s1 = policy_of e s" by (simp add: policy_of_def empty(3))
      with IH empty show ?thesis unfolding Pick out by (auto intro: run_idle)
    next
      case (top t ts)
      let ?q = "\<lambda>prio. filter (\<lambda>u. cprio_of s u = prio)"
      have d: "desc (cprio_of s) (t # ts)" using Cons.prems(1) top(1) unfolding fifo_inv_def by metis
      have "pl_queue (policy_of e s) r (cprio_of s t) = t # ?q (cprio_of s t) ts"
        and high: "cprio_of s t < higher \<Longrightarrow> pl_queue (policy_of e s) r higher = []" for higher
        using d by (auto simp: top(1) filter_empty_conv)
      moreover have "policy_of e ?s1 = policy_of e s\<lparr>pl_queue := (pl_queue (policy_of e s))(r :=
          (pl_queue (policy_of e s) r)(cprio_of s t := ?q (cprio_of s t) ts))\<rparr>"
        by (auto simp: policy_of_def top(1,3) fun_eq_iff)
      ultimately show ?thesis using IH unfolding Pick out top(2) by (auto intro!: run_pick)
    qed
  qed
qed

text \<open>C3. The runqueues implement the FIFO scheduling policy: any run of enqueueings, requeueings, dequeueings,
  priority trackings (PI) and ceilings (PP) of threads of the FIFO class, which tracks priorities with the
  functions of \<open>sched/fifo.h\<close>, of additions and deletions other classes make to the same queues by
  \<open>sched/queue.h\<close>, of changes to threads that are on no queue, and of pickings, on any CPUs, where a thread is
  reprioritised or moved only while it is off its queue, is a run of the policy with the same threads
  picked, and the only one: threads of one priority are picked in the order they became runnable, a
  preempted one before them, and none while a higher one waits; a priority tracked back without
  parameters is the base priority again, and the weighted priority follows every change. Nothing is
  assumed of the handlers of other classes.\<close>

theorem runqueues_implement_fifo_policy:
  assumes "fifo_class_ok e" and "fifo_inv s" and "rq_run e es s = Some (out, s')"
  shows "policy_run (policy_of e s) es picked a \<longleftrightarrow> picked = out \<and> a = policy_of e s'"
  using rq_run_refines [OF assms] policy_run_deterministic by blast

text \<open>Threads 7, 8 and 9 at priorities 10, 20 and 10: 8 is picked first and preempted, 9 is boosted above it
  while it is off the queue; thread 6 is put on the queue by another class, at priority 10.\<close>

definition sample_events :: "rq_event list" where
  "sample_events = [Op (Enqueue_thread 7), Op (Enqueue_thread 9), Op (Enqueue_thread 8), Pick 100,
     Op (Requeue_thread 8), Op (Dequeue_thread 9), Op (Track_priority 9 (Some \<lparr>sp_word0 = 30, sp_word1 = 0\<rparr>)),
     Op (Enqueue_thread 9), Op (Other_add_tail 6), Pick 100, Pick 100, Pick 100, Pick 100, Pick 100]"

lemma sample_events_run:
  "\<exists>s'. rq_run sample_env sample_events sample_kst = Some ([Some 8, Some 9, Some 8, Some 7, Some 6, None], s') \<and>
     pl_prio (policy_of sample_env s') 9 = 30"
  by (simp add: sample_events_def pick_next_def policy_of_def sample_defs fifo_queue_def queued_def evl_enqueue_thread_def Let_def
      evl_dequeue_thread_def evl_requeue_thread_def evl_track_priority_def update_wprio_def raw_evl_enqueue_fifo_thread_def
      raw_evl_dequeue_fifo_thread_def raw_evl_requeue_fifo_thread_def raw_evl_track_fifo_priority_def
      upd_fifo_queue_def upd_thread_def upd_rq_def assert_defs lin_add_schedq_tail_def lin_add_schedq_def lin_get_schedq_def
      lin_del_schedq_def list_add_priff_def list_add_prilf_def list_add_pri_def list_prims fifo_prio_def
      del: queue_simps fifo_queue_cong)

theorem runqueues_implement_fifo_policy_witness:
  "\<exists>a. policy_run (policy_of sample_env sample_kst) sample_events [Some 8, Some 9, Some 8, Some 7, Some 6, None] a \<and>
     pl_prio a 9 = 30"
proof -
  obtain s' where s': "rq_run sample_env sample_events sample_kst = Some ([Some 8, Some 9, Some 8, Some 7, Some 6, None], s')"
    "pl_prio (policy_of sample_env s') 9 = 30"
    using sample_events_run by blast
  show ?thesis
    using runqueues_implement_fifo_policy [OF sample_fifo_class_ok sample_fifo_inv s'(1)] s'(2) by blast
qed

end
