(* ===== verification/Sched_Props.thy ===== *)
theory Sched_Props
  imports Sched_Order
begin

text \<open>
  Rescheduling requests, interrupt sections, pinning, scheduling parameters and weighted priorities:
  the properties of the operations of \<open>Sched_Core\<close> and \<open>Sched_Class\<close> besides the queue discipline.
\<close>

section \<open>Flag algebra\<close>

lemma rq_flag_facts [simp]:
  "(x OR RQ_SCHED) AND RQ_SCHED = RQ_SCHED" "RQ_SCHED \<noteq> 0" "RQ_IRQ \<noteq> 0"
  "(x OR RQ_IRQ) AND RQ_IRQ = RQ_IRQ" "(x AND NOT RQ_IRQ) AND RQ_IRQ = 0"
  "(x OR RQ_SCHED) OR RQ_SCHED = x OR RQ_SCHED"
  by (simp_all only: or_and_absorb and_not_cancel or.assoc or.idem) (simp_all add: flag_defs)

lemma rq_sched_or_irq: "(x OR RQ_SCHED) AND RQ_IRQ = x AND RQ_IRQ" "(x OR RQ_IRQ) AND RQ_SCHED = x AND RQ_SCHED"
  by (simp_all add: flag_defs word_ao_dist)

lemma rq_irq_cleared_sched: "(x AND NOT RQ_IRQ) AND RQ_SCHED = x AND RQ_SCHED"
  by (simp add: flag_defs and.assoc)

lemma rq_bits: "RQ_SCHED = 2 ^ 28" "RQ_IRQ = 2 ^ 14"
  by (simp_all add: flag_defs)

lemmas rq_sched_test = single_bit_test [OF rq_bits(1), simplified]
lemmas rq_irq_test = single_bit_test [OF rq_bits(2), simplified]

lemma test_resched_iff:
  "test_resched s \<longleftrightarrow>
     (rq_flags (k_rqs s (k_this_rq s)) OR rq_local_flags (k_rqs s (k_this_rq s))) AND RQ_SCHED \<noteq> 0 \<and>
     (rq_flags (k_rqs s (k_this_rq s)) OR rq_local_flags (k_rqs s (k_this_rq s))) AND RQ_IRQ = 0"
proof -
  have "x AND (RQ_IRQ OR RQ_SCHED) = RQ_SCHED \<longleftrightarrow> x AND RQ_SCHED \<noteq> 0 \<and> x AND RQ_IRQ = 0" for x
  proof -
    have "x AND (RQ_IRQ OR RQ_SCHED) = (if bit x 14 then RQ_IRQ else 0) OR (if bit x 28 then RQ_SCHED else 0)"
      by (simp only: bit.conj_disj_distrib rq_bits and_exp)
    then show ?thesis by (simp add: rq_sched_test rq_irq_test) (simp add: flag_defs)
  qed
  then show ?thesis by (simp add: test_resched_def this_evl_rq_def)
qed

section \<open>Rescheduling requests\<close>

lemma set_resched_frame [simp]:
  "k_threads (evl_set_resched r s) = k_threads s" "k_this_rq (evl_set_resched r s) = k_this_rq s"
  "k_irqs_off (evl_set_resched r s) = k_irqs_off s" "k_current (evl_set_resched r s) = k_current s"
  "k_running_oob (evl_set_resched r s) = k_running_oob s"
  by (auto simp: evl_set_resched_def Let_def assert_hard_lock_def EVL_WARN_ON_ONCE_def)

lemma set_resched_irq_flag:
  "rq_local_flags (k_rqs (evl_set_resched r s) q) AND RQ_IRQ = rq_local_flags (k_rqs s q) AND RQ_IRQ"
  "rq_flags (k_rqs (evl_set_resched r s) q) AND RQ_IRQ = rq_flags (k_rqs s q) AND RQ_IRQ"
  by (auto simp: evl_set_resched_def Let_def assert_hard_lock_def rq_sched_or_irq)

lemma or_and_irq: "(x OR y) AND RQ_IRQ = 0 \<longleftrightarrow> x AND RQ_IRQ = 0 \<and> y AND RQ_IRQ = (0 :: u64)"
  by (simp add: rq_irq_test bit_or_iff)

lemma or_and_sched: "(x OR y) AND RQ_SCHED \<noteq> 0 \<longleftrightarrow> x AND RQ_SCHED \<noteq> 0 \<or> y AND RQ_SCHED \<noteq> (0 :: u64)"
  by (simp add: rq_sched_test bit_or_iff)

text \<open>C11. A rescheduling request is never lost nor sent twice: under the lock of the runqueue with hard
  irqs off, \<open>evl_set_resched\<close> raises no warning and marks the runqueue; a remote runqueue that is marked
  already is left as it is, together with the IPIs the current CPU has to send, and one that is not is
  marked with its CPU added to exactly those IPIs; unless the remote mark was there already, the next
  \<open>evl_schedule\<close> of the current CPU outside of an interrupt enters \<open>__evl_schedule\<close>. A second request
  changes nothing, no other runqueue is touched, and nothing but the runqueues.\<close>

theorem resched_request_is_seen:
  assumes "rq_lock (k_rqs s r)" and "k_irqs_off s"
    and "rq_flags (k_rqs s (k_this_rq s)) AND RQ_IRQ = 0" and "rq_local_flags (k_rqs s (k_this_rq s)) AND RQ_IRQ = 0"
  shows "let s' = evl_set_resched r s; this = k_this_rq s in
     evl_need_resched s' r \<and> k_warned s' = k_warned s \<and> evl_set_resched r s' = s' \<and>
     (r \<noteq> this \<and> evl_need_resched s r \<longrightarrow> s' = s) \<and>
     (r \<noteq> this \<and> \<not> evl_need_resched s r \<longrightarrow>
        rq_resched_cpus (k_rqs s' this) = insert (rq_cpu (k_rqs s r)) (rq_resched_cpus (k_rqs s this))) \<and>
     (r = this \<or> \<not> evl_need_resched s r \<longrightarrow>
        evl_schedule sched call s' = (if k_running_oob s then sched s' else call sched s')) \<and>
     (\<forall>q. q \<noteq> r \<and> q \<noteq> this \<longrightarrow> k_rqs s' q = k_rqs s q) \<and> s'\<lparr>k_rqs := k_rqs s\<rparr> = s"
proof -
  let ?s = "evl_set_resched r s"
  have need: "evl_need_resched ?s r"
    by (auto simp: evl_set_resched_def Let_def evl_need_resched_def this_evl_rq_def assert_hard_lock_def)
  have "test_resched ?s" if "r = k_this_rq s \<or> \<not> evl_need_resched s r"
  proof -
    have "rq_flags (k_rqs ?s (k_this_rq s)) AND RQ_SCHED \<noteq> 0 \<or> rq_local_flags (k_rqs ?s (k_this_rq s)) AND RQ_SCHED \<noteq> 0"
      using that assms(1,2) by (auto simp: evl_set_resched_def Let_def this_evl_rq_def)
    with assms(3,4) show ?thesis
      by (simp add: test_resched_iff or_and_irq or_and_sched set_resched_irq_flag)
  qed
  moreover have marked: "evl_set_resched r x = x"
    if "rq_lock (k_rqs x r)" "k_irqs_off x" "r \<noteq> k_this_rq x" "evl_need_resched x r" for x
    using that by (auto simp: evl_set_resched_def Let_def this_evl_rq_def)
  moreover have "evl_set_resched r ?s = ?s"
  proof (cases "k_this_rq s = r")
    case True
    with assms(1,2) show ?thesis
      by (simp add: evl_set_resched_def Let_def this_evl_rq_def upd_rq_def)
  next
    case False
    have "rq_lock (k_rqs ?s r)" using assms(1,2) by (auto simp: evl_set_resched_def Let_def this_evl_rq_def)
    with False need assms(2) show ?thesis by (intro marked) auto
  qed
  moreover have "k_warned ?s = k_warned s" "\<forall>q. q \<noteq> r \<and> q \<noteq> k_this_rq s \<longrightarrow> k_rqs ?s q = k_rqs s q"
    "r \<noteq> k_this_rq s \<and> \<not> evl_need_resched s r \<longrightarrow>
       rq_resched_cpus (k_rqs ?s (k_this_rq s)) = insert (rq_cpu (k_rqs s r)) (rq_resched_cpus (k_rqs s (k_this_rq s)))"
    "?s\<lparr>k_rqs := k_rqs s\<rparr> = s"
    using assms(1,2) by (auto simp: evl_set_resched_def Let_def this_evl_rq_def evl_rq_cpu_def upd_rq_def)
  ultimately show ?thesis
    using need assms(1,2) by (auto simp: Let_def evl_schedule_def)
qed

theorem resched_request_is_seen_witness:
  "evl_need_resched (evl_set_resched 101 sample_kst) 101 \<and>
   evl_schedule (\<lambda>s. s\<lparr>k_nrthreads := 0\<rparr>) (\<lambda>f. f) (evl_set_resched 101 sample_kst) =
     (evl_set_resched 101 sample_kst)\<lparr>k_nrthreads := 0\<rparr> \<and>
   1 \<in> rq_resched_cpus (k_rqs (evl_set_resched 101 sample_kst) 100)"
  using resched_request_is_seen [of sample_kst 101 "\<lambda>s. s\<lparr>k_nrthreads := 0\<rparr>" "\<lambda>f. f"]
  by (simp add: sample_defs evl_need_resched_def Let_def)

section \<open>Interrupt sections\<close>

lemma resched_list_irq_flag:
  "rq_local_flags (k_rqs (fold evl_set_resched rs s) q) AND RQ_IRQ = rq_local_flags (k_rqs s q) AND RQ_IRQ"
  "k_this_rq (fold evl_set_resched rs s) = k_this_rq s"
  "k_running_oob (fold evl_set_resched rs s) = k_running_oob s"
  by (induction rs arbitrary: s) (simp_all add: set_resched_irq_flag)

lemma schedule_in_irq: "evl_in_irq s \<Longrightarrow> evl_schedule sched call s = s"
  by (simp add: evl_schedule_def evl_in_irq_def this_evl_rq_def test_resched_iff or_and_irq)

text \<open>C12. Rescheduling is deferred to the end of an interrupt: between \<open>evl_enter_irq\<close> and
  \<open>evl_exit_irq\<close>, whatever requests the handlers post, \<open>evl_schedule\<close> does nothing and blocking is
  refused; the exit leaves the interrupt state and, when a request is pending on the runqueue, calls
  \<open>__evl_schedule\<close> once on that state; hard irqs are off again on return even when the call enabled
  them. With no request pending the scheduler is not called.\<close>

theorem irq_section_defers_scheduling:
  assumes "k_running_oob s" and "rq_flags (k_rqs s (k_this_rq s)) AND RQ_IRQ = 0"
  shows "let s1 = fold evl_set_resched rs (evl_enter_irq s); this = k_this_rq s;
      s2 = upd_rq this (\<lambda>q. q\<lparr>rq_local_flags := rq_local_flags q AND NOT RQ_IRQ\<rparr>) s1;
      pending = (rq_flags (k_rqs s1 this) OR rq_local_flags (k_rqs s1 this)) AND RQ_SCHED \<noteq> 0 in
    evl_schedule sched call s1 = s1 \<and> evl_cannot_block s1 \<and> \<not> evl_in_irq s2 \<and>
    evl_exit_irq (evl_schedule sched call) s1 = (if pending then (sched s2)\<lparr>k_irqs_off := True\<rparr> else s2)"
proof -
  let ?s1 = "fold evl_set_resched rs (evl_enter_irq s)"
  let ?self = "k_this_rq s"
  let ?s2 = "upd_rq ?self (\<lambda>q. q\<lparr>rq_local_flags := rq_local_flags q AND NOT RQ_IRQ\<rparr>) ?s1"
  have t: "k_this_rq ?s1 = ?self" "k_running_oob ?s1"
    using assms(1) by (simp_all add: resched_list_irq_flag evl_enter_irq_def)
  have f: "rq_flags (k_rqs ?s1 ?self) AND RQ_IRQ = 0"
  proof -
    have "rq_flags (k_rqs (fold evl_set_resched rs s) q) AND RQ_IRQ = rq_flags (k_rqs s q) AND RQ_IRQ" for s q
      by (induction rs arbitrary: s) (simp_all add: set_resched_irq_flag)
    with assms(2) show ?thesis by (simp add: evl_enter_irq_def this_evl_rq_def)
  qed
  have i: "evl_in_irq ?s1"
    by (simp add: evl_in_irq_def this_evl_rq_def t resched_list_irq_flag) (simp add: evl_enter_irq_def this_evl_rq_def)
  have "\<not> evl_in_irq ?s2"
    by (simp add: evl_in_irq_def this_evl_rq_def t)
  moreover have "evl_schedule sched call ?s2 = sched ?s2"
    if "(rq_flags (k_rqs ?s1 ?self) OR rq_local_flags (k_rqs ?s1 ?self)) AND RQ_SCHED \<noteq> 0"
    using that f t by (simp add: evl_schedule_def test_resched_iff or_and_irq or_and_sched rq_irq_cleared_sched)
  moreover have "x\<lparr>k_irqs_off := True\<rparr> = x" if "k_irqs_off x" for x :: kst
    using that by simp
  ultimately show ?thesis
    by (auto simp: Let_def schedule_in_irq i evl_cannot_block_def evl_exit_irq_def this_evl_rq_def t
        or_and_sched rq_irq_cleared_sched)
qed

theorem irq_section_defers_scheduling_witness:
  "evl_exit_irq (evl_schedule (\<lambda>s. s\<lparr>k_irqs_off := False, k_nrthreads := 0\<rparr>) (\<lambda>f. f))
     (evl_set_resched 100 (evl_enter_irq sample_kst)) =
   (upd_rq 100 (\<lambda>q. q\<lparr>rq_local_flags := rq_local_flags q AND NOT RQ_IRQ\<rparr>)
     (evl_set_resched 100 (evl_enter_irq sample_kst)))\<lparr>k_irqs_off := True, k_nrthreads := 0\<rparr>"
proof -
  have r: "(rq_flags (k_rqs (evl_set_resched 100 (evl_enter_irq sample_kst)) 100) OR
      rq_local_flags (k_rqs (evl_set_resched 100 (evl_enter_irq sample_kst)) 100)) AND RQ_SCHED \<noteq> 0"
    by (simp add: sample_defs evl_set_resched_def evl_enter_irq_def this_evl_rq_def Let_def or_and_sched)
  have s: "k_running_oob sample_kst" "k_this_rq sample_kst = 100" "rq_flags (k_rqs sample_kst 100) AND RQ_IRQ = 0"
    by (simp_all add: sample_defs)
  show ?thesis
    using irq_section_defers_scheduling [of sample_kst "[100]"
        "\<lambda>s. s\<lparr>k_irqs_off := False, k_nrthreads := 0\<rparr>" "\<lambda>f. f"] r s
    by (simp add: Let_def)
qed

end
