(* ===== verification/Sched_Smp.thy ===== *)
theory Sched_Smp
  imports Sched_Props
begin

text \<open>
  Rescheduling across CPUs: \<open>evl_set_resched\<close>, \<open>evl_schedule\<close>, the preemption-disabled sections and the
  interrupt sections of \<open>sched.h\<close> and \<open>irq.h\<close> as the steps several CPUs take in any order, on either
  stage, with the rescheduling IPIs in flight. \<open>__evl_schedule\<close> (\<open>sched.c\<close>) is an argument with the
  contract \<open>clears_requests\<close>: with preemption enabled it takes the request off the runqueue of its CPU and
  sends an IPI to each CPU the runqueue lists, as the comment of \<open>evl_set_resched\<close> demands; with
  preemption disabled the request waits, as the comment of \<open>lock.h\<close> has it. \<open>run_oob_call\<close> (Dovetail)
  runs it on the out-of-band stage (\<open>escalates\<close>).
\<close>

section \<open>The system\<close>

text \<open>
  The state of the core, the CPUs a rescheduling IPI is in flight to, the EVL preemption count of what
  runs on each CPU, and its stage; and, for the statement only, the runqueues whose own CPU has posted a
  request it has not yet considered.
\<close>

record smp =
  sm_k :: kst
  sm_ipis :: "nat set"
  sm_count :: "nat \<Rightarrow> int"
  sm_oob :: "nat \<Rightarrow> bool"
  sm_own :: "ptr set"

abbreviation rq_of :: "kst \<Rightarrow> nat \<Rightarrow> evl_rq" where
  "rq_of k c \<equiv> k_rqs k (k_cpu_rq k c)"

definition cpu_in_irq :: "nat \<Rightarrow> smp \<Rightarrow> bool" where
  "cpu_in_irq cpu x \<longleftrightarrow> rq_local_flags (rq_of (sm_k x) cpu) AND RQ_IRQ \<noteq> 0"

text \<open>What CPU \<open>cpu\<close> sees of the core: its runqueue, the preemption count and the stage of what it runs; an
  interrupt is handled on the out-of-band stage. Each step is one that cannot be interrupted.\<close>

definition view_cpu :: "nat \<Rightarrow> smp \<Rightarrow> kst" where
  "view_cpu cpu x = (sm_k x)\<lparr>k_this_rq := k_cpu_rq (sm_k x) cpu, k_irqs_off := True,
     k_running_oob := sm_oob x cpu \<or> cpu_in_irq cpu x,
     k_current := (k_current (sm_k x))\<lparr>os_preempt_count := sm_count x cpu\<rparr>\<rparr>"

definition sent_ipis :: "nat \<Rightarrow> kst \<Rightarrow> kst \<Rightarrow> nat set" where
  "sent_ipis cpu k k' = rq_resched_cpus (rq_of k cpu) - rq_resched_cpus (rq_of k' cpu)"

definition put_cpu :: "nat \<Rightarrow> kst \<Rightarrow> smp \<Rightarrow> smp" where
  "put_cpu cpu k' x = x\<lparr>sm_k := k', sm_ipis := sm_ipis x \<union> sent_ipis cpu (sm_k x) k',
     sm_count := (sm_count x)(cpu := evl_preempt_count k'), sm_own := {r \<in> sm_own x. evl_need_resched k' r}\<rparr>"

definition smp_request :: "nat \<Rightarrow> ptr \<Rightarrow> smp \<Rightarrow> smp option" where
  "smp_request cpu r x =
     map_option (\<lambda>k1. x\<lparr>sm_k := unlock_rq r (evl_set_resched r k1),
         sm_own := (if r = k_cpu_rq (sm_k x) cpu then insert r (sm_own x) else sm_own x)\<rparr>)
       (lock_rq r (view_cpu cpu x))"

definition smp_schedule :: "(kst \<Rightarrow> kst) \<Rightarrow> ((kst \<Rightarrow> kst) \<Rightarrow> kst \<Rightarrow> kst) \<Rightarrow> nat \<Rightarrow> smp \<Rightarrow> smp" where
  "smp_schedule sched call cpu x = put_cpu cpu (evl_schedule sched call (view_cpu cpu x)) x"

definition smp_disable :: "nat \<Rightarrow> smp \<Rightarrow> smp" where
  "smp_disable cpu x = put_cpu cpu (evl_disable_preempt (view_cpu cpu x)) x"

definition smp_enable :: "(kst \<Rightarrow> kst) \<Rightarrow> ((kst \<Rightarrow> kst) \<Rightarrow> kst \<Rightarrow> kst) \<Rightarrow> nat \<Rightarrow> smp \<Rightarrow> smp" where
  "smp_enable sched call cpu x = put_cpu cpu (evl_enable_preempt (evl_schedule sched call) (view_cpu cpu x)) x"

definition smp_enter :: "nat \<Rightarrow> smp \<Rightarrow> smp" where
  "smp_enter cpu x = put_cpu cpu (evl_enter_irq (view_cpu cpu x)) x"

definition smp_exit :: "(kst \<Rightarrow> kst) \<Rightarrow> ((kst \<Rightarrow> kst) \<Rightarrow> kst \<Rightarrow> kst) \<Rightarrow> nat \<Rightarrow> smp \<Rightarrow> smp" where
  "smp_exit sched call cpu x = put_cpu cpu (evl_exit_irq (evl_schedule sched call) (view_cpu cpu x)) x"

text \<open>The handler of the IPI has nothing to do besides entering and leaving the interrupt state.\<close>

definition smp_ipi :: "(kst \<Rightarrow> kst) \<Rightarrow> ((kst \<Rightarrow> kst) \<Rightarrow> kst \<Rightarrow> kst) \<Rightarrow> nat \<Rightarrow> smp \<Rightarrow> smp" where
  "smp_ipi sched call cpu x = smp_exit sched call cpu (smp_enter cpu (x\<lparr>sm_ipis := sm_ipis x - {cpu}\<rparr>))"

text \<open>Interrupts and IPIs are taken with preemption disabled too, and handlers may use spinlocks.\<close>

inductive smp_step :: "(kst \<Rightarrow> kst) \<Rightarrow> ((kst \<Rightarrow> kst) \<Rightarrow> kst \<Rightarrow> kst) \<Rightarrow> smp \<Rightarrow> smp \<Rightarrow> bool" for sched call where
  request: "cpu \<in> k_oob_cpus (sm_k x) \<Longrightarrow> c \<in> k_oob_cpus (sm_k x) \<Longrightarrow>
    smp_request cpu (k_cpu_rq (sm_k x) c) x = Some y \<Longrightarrow> smp_step sched call x y"
| schedule: "cpu \<in> k_oob_cpus (sm_k x) \<Longrightarrow> smp_step sched call x (smp_schedule sched call cpu x)"
| disable: "cpu \<in> k_oob_cpus (sm_k x) \<Longrightarrow> smp_step sched call x (smp_disable cpu x)"
| enable: "cpu \<in> k_oob_cpus (sm_k x) \<Longrightarrow> 0 < sm_count x cpu \<Longrightarrow> smp_step sched call x (smp_enable sched call cpu x)"
| enter: "cpu \<in> k_oob_cpus (sm_k x) \<Longrightarrow> \<not> cpu_in_irq cpu x \<Longrightarrow> smp_step sched call x (smp_enter cpu x)"
| leave: "cpu \<in> k_oob_cpus (sm_k x) \<Longrightarrow> cpu_in_irq cpu x \<Longrightarrow> smp_step sched call x (smp_exit sched call cpu x)"
| ipi: "cpu \<in> k_oob_cpus (sm_k x) \<Longrightarrow> cpu \<in> sm_ipis x \<Longrightarrow> \<not> cpu_in_irq cpu x \<Longrightarrow>
    smp_step sched call x (smp_ipi sched call cpu x)"
| stage: "cpu \<in> k_oob_cpus (sm_k x) \<Longrightarrow> smp_step sched call x (x\<lparr>sm_oob := (sm_oob x)(cpu := oob)\<rparr>)"

text \<open>Where a CPU gives way to the scheduler: it calls \<open>evl_schedule\<close> outside of sections and interrupts,
  leaves its outermost section, or leaves an interrupt that found preemption enabled.\<close>

inductive sched_point :: "(kst \<Rightarrow> kst) \<Rightarrow> ((kst \<Rightarrow> kst) \<Rightarrow> kst \<Rightarrow> kst) \<Rightarrow> nat \<Rightarrow> smp \<Rightarrow> smp \<Rightarrow> bool" for sched call cpu x where
  at_call: "\<not> cpu_in_irq cpu x \<Longrightarrow> sm_count x cpu = 0 \<Longrightarrow> sched_point sched call cpu x (smp_schedule sched call cpu x)"
| at_enable: "\<not> cpu_in_irq cpu x \<Longrightarrow> sm_count x cpu = 1 \<Longrightarrow> sched_point sched call cpu x (smp_enable sched call cpu x)"
| at_exit: "cpu_in_irq cpu x \<Longrightarrow> sm_count x cpu = 0 \<Longrightarrow> sched_point sched call cpu x (smp_exit sched call cpu x)"

section \<open>What the scheduler promises\<close>

text \<open>It works on the runqueue of its CPU only. With preemption enabled it may switch threads: the one it resumes
  was switched away from with preemption enabled too, so that the count stays 0. With preemption disabled
  the request is left on the runqueue, and the IPIs are sent or left for later.\<close>

definition clears_requests :: "(kst \<Rightarrow> kst) \<Rightarrow> bool" where
  "clears_requests sched \<longleftrightarrow> (\<forall>s.
    let this = k_this_rq s; q = k_rqs s this; q' = k_rqs (sched s) this in
     rq_flags q' AND RQ_IRQ = rq_flags q AND RQ_IRQ \<and> rq_cpu q' = rq_cpu q \<and>
     (\<forall>r. r \<noteq> this \<longrightarrow> k_rqs (sched s) r = k_rqs s r) \<and>
     k_cpu_rq (sched s) = k_cpu_rq s \<and> k_oob_cpus (sched s) = k_oob_cpus s \<and>
     evl_preempt_count (sched s) = evl_preempt_count s \<and>
     (if evl_preempt_count s = 0 then rq_flags q' AND RQ_SCHED = 0 \<and> rq_resched_cpus q' = {}
      else rq_flags q' AND RQ_SCHED = rq_flags q AND RQ_SCHED \<and>
        (rq_resched_cpus q' = {} \<or> rq_resched_cpus q' = rq_resched_cpus q \<and>
           rq_local_flags q' AND RQ_SCHED = rq_local_flags q AND RQ_SCHED)))"

definition escalates :: "((kst \<Rightarrow> kst) \<Rightarrow> kst \<Rightarrow> kst) \<Rightarrow> bool" where
  "escalates call \<longleftrightarrow> (\<forall>f s. call f s = (f (s\<lparr>k_running_oob := True\<rparr>))\<lparr>k_running_oob := k_running_oob s\<rparr>)"

section \<open>The invariant\<close>

text \<open>A request waits on a CPU that is inside a section or an interrupt.\<close>

definition cpu_held :: "nat \<Rightarrow> smp \<Rightarrow> bool" where
  "cpu_held c x \<longleftrightarrow> sm_count x c \<noteq> 0 \<or> cpu_in_irq c x"

definition smp_inv :: "smp \<Rightarrow> bool" where
  "smp_inv x \<longleftrightarrow> (let k = sm_k x in \<forall>c \<in> k_oob_cpus k.
     rq_cpu (rq_of k c) = c \<and> rq_flags (rq_of k c) AND RQ_IRQ = 0 \<and> 0 \<le> sm_count x c \<and>
     (rq_resched_cpus (rq_of k c) \<noteq> {} \<longrightarrow> rq_local_flags (rq_of k c) AND RQ_SCHED \<noteq> 0) \<and>
     (evl_need_resched k (k_cpu_rq k c) \<longrightarrow>
        k_cpu_rq k c \<in> sm_own x \<or> c \<in> sm_ipis x \<or> cpu_held c x \<or>
        (\<exists>d \<in> k_oob_cpus k. c \<in> rq_resched_cpus (rq_of k d))))"

lemma view_simps [simp]:
  "k_rqs (view_cpu c x) = k_rqs (sm_k x)" "k_this_rq (view_cpu c x) = k_cpu_rq (sm_k x) c"
  "k_cpu_rq (view_cpu c x) = k_cpu_rq (sm_k x)" "k_oob_cpus (view_cpu c x) = k_oob_cpus (sm_k x)"
  "k_irqs_off (view_cpu c x)" "evl_preempt_count (view_cpu c x) = sm_count x c"
  by (simp_all add: view_cpu_def evl_preempt_count_def)

lemma preempt_count_upd_rq [simp]: "evl_preempt_count (upd_rq r f s) = evl_preempt_count s"
  by (simp add: evl_preempt_count_def)

lemma put_cpu_simps [simp]:
  "sm_k (put_cpu cpu k' x) = k'" "sm_count (put_cpu cpu k' x) = (sm_count x)(cpu := evl_preempt_count k')"
  "sm_ipis (put_cpu cpu k' x) = sm_ipis x \<union> sent_ipis cpu (sm_k x) k'"
  "sm_own (put_cpu cpu k' x) = {r \<in> sm_own x. evl_need_resched k' r}"
  by (simp_all add: put_cpu_def)

lemma cpu_frame [simp]:
  "k_cpu_rq (upd_rq r f s) = k_cpu_rq s" "k_oob_cpus (upd_rq r f s) = k_oob_cpus s"
  "k_cpu_rq (EVL_WARN_ON_ONCE b s) = k_cpu_rq s" "k_oob_cpus (EVL_WARN_ON_ONCE b s) = k_oob_cpus s"
  by (simp_all add: upd_rq_def EVL_WARN_ON_ONCE_def)

lemma smp_inv_cpus: "smp_inv x \<Longrightarrow> c \<in> k_oob_cpus (sm_k x) \<Longrightarrow> d \<in> k_oob_cpus (sm_k x) \<Longrightarrow>
    k_cpu_rq (sm_k x) c = k_cpu_rq (sm_k x) d \<longleftrightarrow> c = d"
  unfolding smp_inv_def Let_def by metis

lemma resched_rqs:
  "k_rqs (evl_set_resched r s) =
     (let this = k_this_rq s; rqs = (k_rqs s)(r := (k_rqs s r)\<lparr>rq_flags := rq_flags (k_rqs s r) OR RQ_SCHED\<rparr>) in
      if r = this then rqs
      else if evl_need_resched s r then k_rqs s
      else rqs(this := (k_rqs s this)\<lparr>rq_local_flags := rq_local_flags (k_rqs s this) OR RQ_SCHED,
                 rq_resched_cpus := insert (rq_cpu (k_rqs s r)) (rq_resched_cpus (k_rqs s this))\<rparr>))"
  "k_cpu_rq (evl_set_resched r s) = k_cpu_rq s" "k_oob_cpus (evl_set_resched r s) = k_oob_cpus s"
  by (auto simp: evl_set_resched_def Let_def this_evl_rq_def assert_hard_lock_def evl_rq_cpu_def
      evl_need_resched_def EVL_WARN_ON_ONCE_def upd_rq_def fun_eq_iff)

lemma smp_request_inv:
  assumes inv: "smp_inv x" and "cpu \<in> k_oob_cpus (sm_k x)" and "c \<in> k_oob_cpus (sm_k x)"
    and y: "smp_request cpu (k_cpu_rq (sm_k x) c) x = Some y"
  shows "smp_inv y"
proof -
  let ?k = "sm_k x"
  note ids = smp_inv_cpus [OF inv]
  from y obtain k1 where k1: "lock_rq (k_cpu_rq ?k c) (view_cpu cpu x) = Some k1"
    and y': "y = x\<lparr>sm_k := unlock_rq (k_cpu_rq ?k c) (evl_set_resched (k_cpu_rq ?k c) k1),
      sm_own := (if k_cpu_rq ?k c = k_cpu_rq ?k cpu then insert (k_cpu_rq ?k c) (sm_own x) else sm_own x)\<rparr>"
    by (auto simp: smp_request_def)
  have v: "k_rqs k1 = (k_rqs ?k)(k_cpu_rq ?k c := (rq_of ?k c)\<lparr>rq_lock := True\<rparr>)" "k_this_rq k1 = k_cpu_rq ?k cpu"
    "k_cpu_rq k1 = k_cpu_rq ?k" "k_oob_cpus k1 = k_oob_cpus ?k"
    using k1 by (auto simp: lock_rq_def upd_rq_def view_cpu_def split: if_splits)
  show ?thesis
    using inv assms(2,3) unfolding y' smp_inv_def Let_def cpu_held_def cpu_in_irq_def
    by (auto simp: unlock_rq_def resched_rqs v Let_def ids rq_sched_or_irq evl_need_resched_def)
qed

text \<open>What a CPU does to the runqueues when it may call the scheduler: it keeps to its own, posts no request, and
  keeps its list of CPUs or sends the IPIs; and when its requests are served.\<close>

definition served :: "nat \<Rightarrow> kst \<Rightarrow> bool" where
  "served cpu k' \<longleftrightarrow> \<not> evl_need_resched k' (k_cpu_rq k' cpu) \<and> rq_resched_cpus (rq_of k' cpu) = {}"

definition cpu_runs :: "nat \<Rightarrow> kst \<Rightarrow> kst \<Rightarrow> bool" where
  "cpu_runs cpu k k' \<longleftrightarrow> k_cpu_rq k' = k_cpu_rq k \<and> k_oob_cpus k' = k_oob_cpus k \<and>
     (\<forall>r. r \<noteq> k_cpu_rq k cpu \<longrightarrow> k_rqs k' r = k_rqs k r) \<and> rq_cpu (rq_of k' cpu) = rq_cpu (rq_of k cpu) \<and>
     rq_flags (rq_of k' cpu) AND RQ_IRQ = rq_flags (rq_of k cpu) AND RQ_IRQ \<and>
     (evl_need_resched k' (k_cpu_rq k cpu) \<longrightarrow> evl_need_resched k (k_cpu_rq k cpu)) \<and>
     (rq_resched_cpus (rq_of k' cpu) = {} \<or>
        rq_resched_cpus (rq_of k' cpu) = rq_resched_cpus (rq_of k cpu) \<and>
        rq_local_flags (rq_of k' cpu) AND RQ_SCHED = rq_local_flags (rq_of k cpu) AND RQ_SCHED)"

lemma cpu_runs_inv:
  assumes inv: "smp_inv x" and run: "cpu_runs cpu (sm_k x) k'" and cpu: "cpu \<in> k_oob_cpus (sm_k x)"
    and count: "0 \<le> evl_preempt_count k'"
    and free: "\<not> cpu_held cpu (put_cpu cpu k' x) \<Longrightarrow> cpu_held cpu x \<Longrightarrow> \<not> evl_need_resched k' (k_cpu_rq (sm_k x) cpu)"
  shows "smp_inv (put_cpu cpu k' x)"
proof -
  let ?k = "sm_k x" and ?y = "put_cpu cpu k' x"
  note ids = smp_inv_cpus [OF inv]
  have same: "k_cpu_rq k' = k_cpu_rq ?k" "k_oob_cpus k' = k_oob_cpus ?k"
    and oth: "\<And>c. c \<in> k_oob_cpus ?k \<Longrightarrow> c \<noteq> cpu \<Longrightarrow> rq_of k' c = rq_of ?k c"
    and mine: "rq_cpu (rq_of k' cpu) = rq_cpu (rq_of ?k cpu)"
    using run ids cpu by (auto simp: cpu_runs_def)
  have held: "c \<noteq> cpu \<Longrightarrow> c \<in> k_oob_cpus ?k \<Longrightarrow> cpu_held c ?y = cpu_held c x" for c
    using oth [of c] by (simp add: cpu_held_def cpu_in_irq_def same)
  have need: "evl_need_resched k' (k_cpu_rq ?k c) \<Longrightarrow> evl_need_resched ?k (k_cpu_rq ?k c)" if "c \<in> k_oob_cpus ?k" for c
    using that oth run same by (cases "c = cpu") (auto simp: evl_need_resched_def cpu_runs_def)
  have set: "d \<in> k_oob_cpus ?k \<Longrightarrow> c \<in> rq_resched_cpus (rq_of ?k d) \<Longrightarrow>
      c \<in> sent_ipis cpu ?k k' \<or> c \<in> rq_resched_cpus (rq_of k' d)" for c d
    using oth same run by (cases "d = cpu") (auto simp: sent_ipis_def)
  have local: "rq_flags (rq_of k' c) AND RQ_IRQ = 0 \<and> 0 \<le> sm_count ?y c \<and>
      (rq_resched_cpus (rq_of k' c) \<noteq> {} \<longrightarrow> rq_local_flags (rq_of k' c) AND RQ_SCHED \<noteq> 0)" if "c \<in> k_oob_cpus ?k" for c
  proof (cases "c = cpu")
    case True
    with run inv that same count show ?thesis by (auto simp: cpu_runs_def smp_inv_def Let_def)
  next
    case False
    with oth [OF that] inv that same show ?thesis by (simp add: smp_inv_def Let_def)
  qed
  have cpus: "rq_cpu (rq_of k' c) = c" if "c \<in> k_oob_cpus ?k" for c
    using that oth mine inv by (cases "c = cpu") (auto simp: smp_inv_def Let_def)
  have cover: "k_cpu_rq ?k c \<in> sm_own x \<and> evl_need_resched k' (k_cpu_rq ?k c) \<or> c \<in> sm_ipis x \<union> sent_ipis cpu ?k k' \<or>
      cpu_held c ?y \<or> (\<exists>d \<in> k_oob_cpus ?k. c \<in> rq_resched_cpus (rq_of k' d))"
    if c: "c \<in> k_oob_cpus ?k" and n: "evl_need_resched k' (k_cpu_rq ?k c)" for c
  proof -
    have "k_cpu_rq ?k c \<in> sm_own x \<or> c \<in> sm_ipis x \<or> cpu_held c x \<or> (\<exists>d \<in> k_oob_cpus ?k. c \<in> rq_resched_cpus (rq_of ?k d))"
      using inv c need [OF c n] by (auto simp: smp_inv_def Let_def)
    moreover have "cpu_held c x \<Longrightarrow> cpu_held c ?y" using held [OF _ c] free n by (cases "c = cpu") auto
    ultimately show ?thesis using set n by blast
  qed
  show ?thesis
    using local cpus cover by (simp add: smp_inv_def same)
qed

text \<open>Only the runqueues matter to it.\<close>

lemma runs_frame [simp]:
  "cpu_runs cpu k (t\<lparr>k_running_oob := b\<rparr>) = cpu_runs cpu k t" "cpu_runs cpu (k\<lparr>k_running_oob := b\<rparr>) t = cpu_runs cpu k t"
  "cpu_runs cpu k (t\<lparr>k_irqs_off := b\<rparr>) = cpu_runs cpu k t" "cpu_runs cpu k (t\<lparr>k_current := o'\<rparr>) = cpu_runs cpu k t"
  "cpu_runs cpu (k\<lparr>k_current := o'\<rparr>) t = cpu_runs cpu k t"
  "cpu_runs cpu (view_cpu c x) t = cpu_runs cpu (sm_k x) t" "cpu_runs cpu k (view_cpu c x) = cpu_runs cpu k (sm_k x)"
  by (simp_all add: cpu_runs_def evl_need_resched_def)

lemma served_frame [simp]:
  "served cpu (t\<lparr>k_running_oob := b\<rparr>) = served cpu t" "served cpu (t\<lparr>k_irqs_off := b\<rparr>) = served cpu t"
  by (simp_all add: served_def evl_need_resched_def)

lemma count_frame [simp]:
  "evl_preempt_count (t\<lparr>k_running_oob := b\<rparr>) = evl_preempt_count t"
  "evl_preempt_count (t\<lparr>k_irqs_off := b\<rparr>) = evl_preempt_count t"
  "evl_preempt_count (t\<lparr>k_current := o'\<rparr>) = os_preempt_count o'"
  by (simp_all add: evl_preempt_count_def)

lemma cpu_runs_refl [simp]: "cpu_runs cpu k k"
  by (simp add: cpu_runs_def)

lemma sched_runs:
  assumes "clears_requests sched" "k_this_rq t = k_cpu_rq t cpu"
  shows "cpu_runs cpu t (sched t)" "evl_preempt_count (sched t) = evl_preempt_count t"
    "evl_preempt_count t = 0 \<Longrightarrow> served cpu (sched t)"
  using assms(1) [unfolded clears_requests_def Let_def, THEN spec, of t] assms(2)
  by (simp_all add: cpu_runs_def served_def evl_need_resched_def split: if_splits)

lemma schedule_runs:
  assumes sched: "clears_requests sched" and call: "escalates call" and own: "k_this_rq s = k_cpu_rq s cpu"
  shows "cpu_runs cpu s (evl_schedule sched call s)"
    and "evl_preempt_count (evl_schedule sched call s) = evl_preempt_count s"
    and "test_resched s \<Longrightarrow> evl_preempt_count s = 0 \<Longrightarrow> served cpu (evl_schedule sched call s)"
proof -
  have esc: "call f s = (f (s\<lparr>k_running_oob := True\<rparr>))\<lparr>k_running_oob := k_running_oob s\<rparr>" for f s
    using call by (simp add: escalates_def)
  have oob: "k_this_rq (s\<lparr>k_running_oob := True\<rparr>) = k_cpu_rq (s\<lparr>k_running_oob := True\<rparr>) cpu" using own by simp
  note r = sched_runs [OF sched own] sched_runs [OF sched oob, simplified]
  show "cpu_runs cpu s (evl_schedule sched call s)"
    using r(1,4) by (simp add: evl_schedule_def esc)
  show "evl_preempt_count (evl_schedule sched call s) = evl_preempt_count s"
    using r(2,5) by (simp add: evl_schedule_def esc)
  show "served cpu (evl_schedule sched call s)" if "test_resched s" "evl_preempt_count s = 0"
    using r(3,6) that by (simp add: evl_schedule_def esc)
qed

text \<open>The pieces the steps are made of.\<close>

lemma enter_runs: "cpu_runs cpu (sm_k x) (evl_enter_irq (view_cpu cpu x))"
  "evl_preempt_count (evl_enter_irq (view_cpu cpu x)) = sm_count x cpu"
  by (simp_all add: evl_enter_irq_def this_evl_rq_def cpu_runs_def rq_sched_or_irq evl_need_resched_def)

text \<open>Leaving a section, and leaving an interrupt.\<close>

lemma enable_runs:
  assumes "clears_requests sched" "escalates call"
  shows "cpu_runs cpu (sm_k x) (evl_enable_preempt (evl_schedule sched call) (view_cpu cpu x))"
    and "evl_preempt_count (evl_enable_preempt (evl_schedule sched call) (view_cpu cpu x)) = sm_count x cpu - 1"
    and "sm_count x cpu = 1 \<Longrightarrow> test_resched (view_cpu cpu x) \<Longrightarrow>
      served cpu (evl_enable_preempt (evl_schedule sched call) (view_cpu cpu x))"
proof -
  let ?s = "(view_cpu cpu x)\<lparr>k_current := (k_current (view_cpu cpu x))\<lparr>os_preempt_count := sm_count x cpu - 1\<rparr>\<rparr>"
  have e: "evl_enable_preempt (evl_schedule sched call) (view_cpu cpu x) =
      (if sm_count x cpu = 1 then evl_schedule sched call ?s else ?s)"
    by (simp add: evl_enable_preempt_def raw_evl_enable_preempt_def Let_def)
  have s: "k_this_rq ?s = k_cpu_rq ?s cpu" "evl_preempt_count ?s = sm_count x cpu - 1"
    "test_resched ?s = test_resched (view_cpu cpu x)"
    by (simp_all add: evl_preempt_count_def test_resched_def this_evl_rq_def)
  note r = schedule_runs [OF assms s(1)]
  show "cpu_runs cpu (sm_k x) (evl_enable_preempt (evl_schedule sched call) (view_cpu cpu x))"
    using r(1) unfolding e runs_frame by (cases "sm_count x cpu = 1") simp_all
  show "evl_preempt_count (evl_enable_preempt (evl_schedule sched call) (view_cpu cpu x)) = sm_count x cpu - 1"
    unfolding e using r(2) s(2) by (cases "sm_count x cpu = 1") simp_all
  show "served cpu (evl_enable_preempt (evl_schedule sched call) (view_cpu cpu x))"
    if "sm_count x cpu = 1" "test_resched (view_cpu cpu x)"
    unfolding e using that r(3) s(2,3) by simp
qed

lemma exit_runs:
  assumes "clears_requests sched" "escalates call"
    and "rq_flags (rq_of (sm_k x) cpu) AND RQ_IRQ = 0"
  shows "cpu_runs cpu (sm_k x) (evl_exit_irq (evl_schedule sched call) (view_cpu cpu x))"
    and "evl_preempt_count (evl_exit_irq (evl_schedule sched call) (view_cpu cpu x)) = sm_count x cpu"
    and "sm_count x cpu = 0 \<Longrightarrow>
      (rq_flags (rq_of (sm_k x) cpu) OR rq_local_flags (rq_of (sm_k x) cpu)) AND RQ_SCHED \<noteq> 0 \<Longrightarrow>
      served cpu (evl_exit_irq (evl_schedule sched call) (view_cpu cpu x))"
proof -
  let ?s = "upd_rq (k_cpu_rq (sm_k x) cpu) (\<lambda>q. q\<lparr>rq_local_flags := rq_local_flags q AND NOT RQ_IRQ\<rparr>) (view_cpu cpu x)"
  let ?pend = "(rq_flags (k_rqs ?s (k_cpu_rq (sm_k x) cpu)) OR rq_local_flags (k_rqs ?s (k_cpu_rq (sm_k x) cpu))) AND RQ_SCHED \<noteq> 0"
  have e: "evl_exit_irq (evl_schedule sched call) (view_cpu cpu x) =
      (if ?pend then (if k_irqs_off (evl_schedule sched call ?s) then evl_schedule sched call ?s
         else (evl_schedule sched call ?s)\<lparr>k_irqs_off := True\<rparr>) else ?s)"
    by (simp add: evl_exit_irq_def Let_def this_evl_rq_def)
  have s: "k_this_rq ?s = k_cpu_rq ?s cpu" "evl_preempt_count ?s = sm_count x cpu" by simp_all
  have t: "test_resched ?s" if ?pend
    using that assms(3) by (simp add: test_resched_iff or_and_irq)
  have start: "cpu_runs cpu ?s t = cpu_runs cpu (sm_k x) t" for t
    by (simp add: cpu_runs_def evl_need_resched_def rq_irq_cleared_sched)
  note r = schedule_runs [OF assms(1,2) s(1)]
  show "cpu_runs cpu (sm_k x) (evl_exit_irq (evl_schedule sched call) (view_cpu cpu x))"
    unfolding e using r(1) by (simp add: start flip: start)
  show "evl_preempt_count (evl_exit_irq (evl_schedule sched call) (view_cpu cpu x)) = sm_count x cpu"
    unfolding e using r(2) s(2) by simp
  show "served cpu (evl_exit_irq (evl_schedule sched call) (view_cpu cpu x))"
    if "sm_count x cpu = 0" "(rq_flags (rq_of (sm_k x) cpu) OR rq_local_flags (rq_of (sm_k x) cpu)) AND RQ_SCHED \<noteq> 0"
  proof -
    have ?pend using that(2) by (simp add: or_and_sched rq_irq_cleared_sched)
    with r(3) [OF t [OF this]] s(2) that(1) show ?thesis unfolding e by simp
  qed
qed

text \<open>A call of the scheduler from an interrupt does nothing.\<close>

lemma schedule_in_irq_view: "cpu_in_irq cpu x \<Longrightarrow> k_rqs s = k_rqs (sm_k x) \<Longrightarrow> k_this_rq s = k_cpu_rq (sm_k x) cpu \<Longrightarrow>
    evl_schedule sched call s = s"
  by (rule schedule_in_irq) (simp add: evl_in_irq_def this_evl_rq_def cpu_in_irq_def)

lemma pending_test_resched:
  "\<not> cpu_in_irq cpu x \<Longrightarrow> rq_flags (rq_of (sm_k x) cpu) AND RQ_IRQ = 0 \<Longrightarrow>
   (rq_flags (rq_of (sm_k x) cpu) OR rq_local_flags (rq_of (sm_k x) cpu)) AND RQ_SCHED \<noteq> 0 \<Longrightarrow>
   test_resched (view_cpu cpu x)"
  by (simp add: test_resched_iff or_and_irq cpu_in_irq_def)

lemma smp_inv_D:
  assumes "smp_inv x" "c \<in> k_oob_cpus (sm_k x)"
  shows "rq_flags (rq_of (sm_k x) c) AND RQ_IRQ = 0" "0 \<le> sm_count x c"
    "rq_resched_cpus (rq_of (sm_k x) c) \<noteq> {} \<Longrightarrow> rq_local_flags (rq_of (sm_k x) c) AND RQ_SCHED \<noteq> 0"
    "evl_need_resched (sm_k x) (k_cpu_rq (sm_k x) c) \<Longrightarrow> k_cpu_rq (sm_k x) c \<in> sm_own x \<or> c \<in> sm_ipis x \<or>
       cpu_held c x \<or> (\<exists>d \<in> k_oob_cpus (sm_k x). c \<in> rq_resched_cpus (rq_of (sm_k x) d))"
  using assms by (auto simp: smp_inv_def Let_def)

section \<open>Scheduling points\<close>

text \<open>A scheduling point takes the request off the runqueue and sends the IPIs.\<close>

lemma sched_point_serves:
  assumes "sched_point sched call cpu x y" "clears_requests sched" "escalates call" "smp_inv x" "cpu \<in> k_oob_cpus (sm_k x)"
  shows "\<not> evl_need_resched (sm_k y) (k_cpu_rq (sm_k x) cpu)" and "rq_resched_cpus (rq_of (sm_k x) cpu) \<subseteq> sm_ipis y"
proof -
  have flags: "rq_flags (rq_of (sm_k x) cpu) AND RQ_IRQ = 0" by (rule smp_inv_D [OF assms(4,5)])
  obtain k' where y: "y = put_cpu cpu k' x" and run: "cpu_runs cpu (sm_k x) k'"
    and srv: "(rq_flags (rq_of (sm_k x) cpu) OR rq_local_flags (rq_of (sm_k x) cpu)) AND RQ_SCHED \<noteq> 0 \<Longrightarrow> served cpu k'"
    using assms(1)
  proof cases
    case at_call
    show thesis
      using that [OF at_call(1) [unfolded smp_schedule_def]] schedule_runs [OF assms(2,3), of "view_cpu cpu x" cpu]
        pending_test_resched [OF at_call(2) flags] at_call(3)
      by simp
  next
    case at_enable
    show thesis
      using that [OF at_enable(1) [unfolded smp_enable_def]] enable_runs [OF assms(2,3), where cpu = cpu and x = x]
        pending_test_resched [OF at_enable(2) flags] at_enable(3)
      by simp
  next
    case at_exit
    show thesis
      using that [OF at_exit(1) [unfolded smp_exit_def]] exit_runs [OF assms(2,3) flags] at_exit(3) by simp
  qed
  have same: "k_cpu_rq k' = k_cpu_rq (sm_k x)" using run by (simp add: cpu_runs_def)
  show "\<not> evl_need_resched (sm_k y) (k_cpu_rq (sm_k x) cpu)"
    using srv run same by (auto simp: y served_def cpu_runs_def evl_need_resched_def or_and_sched)
  show "rq_resched_cpus (rq_of (sm_k x) cpu) \<subseteq> sm_ipis y"
    using srv smp_inv_D(3) [OF assms(4,5)] same by (auto simp: y served_def sent_ipis_def or_and_sched)
qed

section \<open>Every step keeps the invariant\<close>

lemma smp_schedule_inv:
  assumes "clears_requests sched" "escalates call" and inv: "smp_inv x" and cpu: "cpu \<in> k_oob_cpus (sm_k x)"
  shows "smp_inv (smp_schedule sched call cpu x)"
proof -
  note r = schedule_runs [OF assms(1,2), of "view_cpu cpu x" cpu]
  have irq: "cpu_in_irq cpu x \<Longrightarrow> evl_schedule sched call (view_cpu cpu x) = view_cpu cpu x"
    by (rule schedule_in_irq_view) simp_all
  show ?thesis unfolding smp_schedule_def
  proof (rule cpu_runs_inv [OF inv _ cpu])
    show "\<not> evl_need_resched (evl_schedule sched call (view_cpu cpu x)) (k_cpu_rq (sm_k x) cpu)"
      if "\<not> cpu_held cpu (put_cpu cpu (evl_schedule sched call (view_cpu cpu x)) x)" "cpu_held cpu x"
      using that r(2) irq by (auto simp: cpu_held_def cpu_in_irq_def)
  qed (use r smp_inv_D(2) [OF inv cpu] in auto)
qed

lemma smp_disable_inv:
  assumes inv: "smp_inv x" and cpu: "cpu \<in> k_oob_cpus (sm_k x)"
  shows "smp_inv (smp_disable cpu x)"
  unfolding smp_disable_def
  by (rule cpu_runs_inv [OF inv _ cpu])
    (use smp_inv_D(2) [OF inv cpu] in \<open>auto simp: evl_disable_preempt_def raw_evl_disable_preempt_def cpu_held_def\<close>)

lemma smp_enable_inv:
  assumes "clears_requests sched" "escalates call" and inv: "smp_inv x" and cpu: "cpu \<in> k_oob_cpus (sm_k x)"
    and pos: "0 < sm_count x cpu"
  shows "smp_inv (smp_enable sched call cpu x)"
proof -
  let ?k = "evl_enable_preempt (evl_schedule sched call) (view_cpu cpu x)"
  note r = enable_runs [OF assms(1,2), where cpu = cpu and x = x]
  have irq: "rq_of ?k cpu = rq_of (sm_k x) cpu" if "cpu_in_irq cpu x"
    by (simp add: evl_enable_preempt_def raw_evl_enable_preempt_def Let_def schedule_in_irq_view [OF that])
  show ?thesis unfolding smp_enable_def
  proof (rule cpu_runs_inv [OF inv _ cpu])
    show "\<not> evl_need_resched ?k (k_cpu_rq (sm_k x) cpu)" if "\<not> cpu_held cpu (put_cpu cpu ?k x)"
    proof -
      have 1: "sm_count x cpu = 1" using that r(2) by (simp add: cpu_held_def)
      have 2: "\<not> cpu_in_irq cpu x"
      proof
        assume i: "cpu_in_irq cpu x"
        with irq [OF i] have "cpu_in_irq cpu (put_cpu cpu ?k x)" by (simp add: cpu_in_irq_def)
        with that show False by (simp add: cpu_held_def)
      qed
      have "sched_point sched call cpu x (smp_enable sched call cpu x)" by (rule at_enable [OF 2 1])
      from sched_point_serves(1) [OF this assms(1-4)] show ?thesis by (simp add: smp_enable_def)
    qed
  qed (use r pos in auto)
qed

lemma smp_enter_held: "cpu_held cpu (smp_enter cpu x)"
  by (simp add: smp_enter_def cpu_held_def cpu_in_irq_def evl_enter_irq_def this_evl_rq_def)

lemma smp_enter_inv:
  assumes inv: "smp_inv x" and cpu: "cpu \<in> k_oob_cpus (sm_k x)"
  shows "smp_inv (smp_enter cpu x)"
  unfolding smp_enter_def
  by (rule cpu_runs_inv [OF inv _ cpu])
    (use smp_inv_D(2) [OF inv cpu] smp_enter_held [of cpu x] in \<open>auto simp: enter_runs smp_enter_def\<close>)

lemma smp_exit_inv:
  assumes "clears_requests sched" "escalates call" and inv: "smp_inv x" and cpu: "cpu \<in> k_oob_cpus (sm_k x)"
    and irq: "cpu_in_irq cpu x"
  shows "smp_inv (smp_exit sched call cpu x)"
proof -
  let ?k = "evl_exit_irq (evl_schedule sched call) (view_cpu cpu x)"
  note r = exit_runs [OF assms(1,2) smp_inv_D(1) [OF inv cpu]]
  show ?thesis unfolding smp_exit_def
  proof (rule cpu_runs_inv [OF inv _ cpu])
    show "\<not> evl_need_resched ?k (k_cpu_rq (sm_k x) cpu)" if "\<not> cpu_held cpu (put_cpu cpu ?k x)"
    proof -
      have "sm_count x cpu = 0" using that r(2) by (simp add: cpu_held_def)
      with irq have "sched_point sched call cpu x (smp_exit sched call cpu x)" by (rule at_exit)
      from sched_point_serves(1) [OF this assms(1-4)] show ?thesis by (simp add: smp_exit_def)
    qed
  qed (use r smp_inv_D(2) [OF inv cpu] in auto)
qed

text \<open>An IPI is no longer needed on a CPU that is held.\<close>

lemma smp_inv_ipi_taken: "smp_inv x \<Longrightarrow> cpu_held cpu x \<Longrightarrow> smp_inv (x\<lparr>sm_ipis := sm_ipis x - {cpu}\<rparr>)"
  by (auto simp: smp_inv_def Let_def cpu_held_def cpu_in_irq_def)

lemma smp_enter_ipis: "smp_enter cpu (x\<lparr>sm_ipis := ipis\<rparr>) = (smp_enter cpu x)\<lparr>sm_ipis := ipis\<rparr>"
proof -
  have "view_cpu cpu (x\<lparr>sm_ipis := ipis\<rparr>) = view_cpu cpu x" by (simp add: view_cpu_def cpu_in_irq_def)
  moreover have "sent_ipis cpu (sm_k x) (evl_enter_irq (view_cpu cpu x)) = {}"
    by (simp add: sent_ipis_def evl_enter_irq_def this_evl_rq_def)
  ultimately show ?thesis by (simp add: smp_enter_def put_cpu_def)
qed

lemma smp_enter_same:
  "sm_ipis (smp_enter cpu x) = sm_ipis x" "k_oob_cpus (sm_k (smp_enter cpu x)) = k_oob_cpus (sm_k x)"
  "k_cpu_rq (sm_k (smp_enter cpu x)) = k_cpu_rq (sm_k x)" "cpu_in_irq cpu (smp_enter cpu x)"
  "sm_count (smp_enter cpu x) = sm_count x"
  by (simp_all add: smp_enter_def sent_ipis_def evl_enter_irq_def this_evl_rq_def cpu_in_irq_def fun_eq_iff)

lemma smp_entered_inv:
  assumes inv: "smp_inv x" and cpu: "cpu \<in> k_oob_cpus (sm_k x)"
  shows "smp_inv (smp_enter cpu (x\<lparr>sm_ipis := sm_ipis x - {cpu}\<rparr>))"
  using smp_inv_ipi_taken [OF smp_enter_inv [OF assms] smp_enter_held]
  by (simp add: smp_enter_ipis smp_enter_same)

lemma smp_step_inv:
  "smp_step sched call x y \<Longrightarrow> clears_requests sched \<Longrightarrow> escalates call \<Longrightarrow> smp_inv x \<Longrightarrow> smp_inv y"
proof (induction rule: smp_step.induct)
  case (request cpu x c y)
  then show ?case using smp_request_inv by blast
next
  case (schedule cpu x)
  show ?case by (rule smp_schedule_inv [OF schedule.prems schedule.hyps])
next
  case (disable cpu x)
  show ?case by (rule smp_disable_inv [OF disable.prems(3) disable.hyps])
next
  case (enable cpu x)
  show ?case by (rule smp_enable_inv [OF enable.prems enable.hyps])
next
  case (enter cpu x)
  show ?case by (rule smp_enter_inv [OF enter.prems(3) enter.hyps(1)])
next
  case (leave cpu x)
  show ?case by (rule smp_exit_inv [OF leave.prems leave.hyps])
next
  case (ipi cpu x)
  show ?case unfolding smp_ipi_def
    by (rule smp_exit_inv [OF ipi.prems(1,2) smp_entered_inv [OF ipi.prems(3) ipi.hyps(1)]])
      (use ipi.hyps(1) in \<open>simp_all add: smp_enter_same\<close>)
next
  case (stage cpu x oob)
  then show ?case by (simp add: smp_inv_def cpu_held_def cpu_in_irq_def)
qed

lemma smp_reachable_inv:
  "(smp_step sched call)\<^sup>*\<^sup>* x y \<Longrightarrow> clears_requests sched \<Longrightarrow> escalates call \<Longrightarrow> smp_inv x \<Longrightarrow> smp_inv y"
  by (induction rule: rtranclp_induct) (simp_all add: smp_step_inv)

section \<open>No remote request is lost\<close>

text \<open>A CPU that is inside a section or an interrupt keeps its request.\<close>

lemma sched_keeps:
  assumes "clears_requests sched" "escalates call" "k_this_rq s = k_cpu_rq s cpu" "evl_preempt_count s \<noteq> 0 \<or> \<not> test_resched s"
  shows "evl_need_resched (evl_schedule sched call s) (k_cpu_rq s cpu) = evl_need_resched s (k_cpu_rq s cpu)"
proof -
  have "evl_need_resched (sched t) (k_cpu_rq s cpu) = evl_need_resched t (k_cpu_rq s cpu)"
    if "evl_preempt_count t \<noteq> 0" "k_this_rq t = k_cpu_rq s cpu" for t
    using assms(1) [unfolded clears_requests_def Let_def, THEN spec, of t] that by (simp add: evl_need_resched_def)
  from this [of s] this [of "s\<lparr>k_running_oob := True\<rparr>"] assms(2-4) show ?thesis
    by (auto simp: evl_schedule_def escalates_def evl_need_resched_def)
qed

lemma enable_keeps:
  assumes "clears_requests sched" "escalates call" "sm_count x cpu \<noteq> 1 \<or> cpu_in_irq cpu x"
  shows "evl_need_resched (sm_k (smp_enable sched call cpu x)) (k_cpu_rq (sm_k x) cpu) =
    evl_need_resched (sm_k x) (k_cpu_rq (sm_k x) cpu)"
  using assms(3)
  by (auto simp: smp_enable_def evl_enable_preempt_def raw_evl_enable_preempt_def Let_def evl_need_resched_def
      schedule_in_irq_view)

lemma exit_keeps:
  assumes "clears_requests sched" "escalates call" "sm_count x cpu \<noteq> 0"
  shows "evl_need_resched (sm_k (smp_exit sched call cpu x)) (k_cpu_rq (sm_k x) cpu) =
    evl_need_resched (sm_k x) (k_cpu_rq (sm_k x) cpu)"
proof -
  let ?s = "upd_rq (k_cpu_rq (sm_k x) cpu) (\<lambda>q. q\<lparr>rq_local_flags := rq_local_flags q AND NOT RQ_IRQ\<rparr>) (view_cpu cpu x)"
  have "evl_need_resched (evl_schedule sched call ?s) (k_cpu_rq ?s cpu) = evl_need_resched ?s (k_cpu_rq ?s cpu)"
    by (rule sched_keeps [OF assms(1,2)]) (use assms(3) in simp_all)
  then show ?thesis
    by (simp add: smp_exit_def evl_exit_irq_def Let_def this_evl_rq_def evl_need_resched_def)
qed

text \<open>The request is dropped at a scheduling point, or by an IPI which finds the CPU outside of sections.\<close>

lemma request_is_kept:
  assumes step: "smp_step sched call x y" and sched: "clears_requests sched" "escalates call" and inv: "smp_inv x"
    and c: "c \<in> k_oob_cpus (sm_k x)" and need: "evl_need_resched (sm_k x) (k_cpu_rq (sm_k x) c)"
  shows "evl_need_resched (sm_k y) (k_cpu_rq (sm_k x) c) \<or> sched_point sched call c x y \<or>
    y = smp_ipi sched call c x \<and> \<not> cpu_held c x"
proof -
  note ids = smp_inv_cpus [OF inv]
  have other: "evl_need_resched k' (k_cpu_rq (sm_k x) c)" if "cpu_runs d (sm_k x) k'" "d \<in> k_oob_cpus (sm_k x)" "d \<noteq> c" for d k'
    using that need ids [OF c that(2)] by (auto simp: cpu_runs_def evl_need_resched_def)
  show ?thesis using step
  proof cases
    case (request cpu d)
    then show ?thesis
      using need by (auto simp: smp_request_def lock_rq_def unlock_rq_def resched_rqs Let_def evl_need_resched_def split: if_splits)
  next
    case (schedule cpu)
    show ?thesis
    proof (cases "cpu = c")
      case True
      have "sm_count x c = 0 \<and> \<not> cpu_in_irq c x \<or> sm_count x c \<noteq> 0 \<or> \<not> test_resched (view_cpu c x)"
        by (auto simp: test_resched_iff or_and_irq cpu_in_irq_def)
      then show ?thesis
        using at_call [of c x sched call] sched_keeps [OF sched, of "view_cpu c x" c] need
        unfolding schedule True by (auto simp: smp_schedule_def evl_need_resched_def)
    next
      case False
      with other [OF _ schedule(2)] schedule_runs(1) [OF sched, of "view_cpu cpu x" cpu]
      show ?thesis by (simp add: schedule(1) smp_schedule_def)
    qed
  next
    case (disable cpu)
    then show ?thesis
      using need by (simp add: smp_disable_def evl_disable_preempt_def raw_evl_disable_preempt_def evl_need_resched_def)
  next
    case (enable cpu)
    show ?thesis
    proof (cases "cpu = c")
      case True
      then show ?thesis using at_enable [of c x sched call] enable_keeps [OF sched, of x c] need unfolding enable True by blast
    next
      case False
      with other [OF _ enable(2)] enable_runs(1) [OF sched] show ?thesis by (simp add: enable(1) smp_enable_def)
    qed
  next
    case (enter cpu)
    then show ?thesis
      using need by (auto simp: smp_enter_def evl_enter_irq_def evl_need_resched_def)
  next
    case (leave cpu)
    show ?thesis
    proof (cases "cpu = c")
      case True
      then show ?thesis
        using at_exit [of c x sched call] exit_keeps [OF sched, of x c] need leave(3) unfolding leave(1) True by blast
    next
      case False
      with other [OF _ leave(2)] exit_runs(1) [OF sched smp_inv_D(1) [OF inv leave(2)]]
      show ?thesis by (simp add: leave(1) smp_exit_def)
    qed
  next
    case (ipi cpu)
    let ?x = "smp_enter cpu (x\<lparr>sm_ipis := sm_ipis x - {cpu}\<rparr>)"
    have x: "evl_need_resched (sm_k ?x) (k_cpu_rq (sm_k ?x) c)" "k_cpu_rq (sm_k ?x) = k_cpu_rq (sm_k x)"
      "k_oob_cpus (sm_k ?x) = k_oob_cpus (sm_k x)" "sm_count ?x = sm_count x"
      using need by (simp_all add: smp_enter_same) (auto simp: smp_enter_def evl_enter_irq_def evl_need_resched_def)
    have inv1: "smp_inv ?x" by (rule smp_entered_inv [OF inv ipi(2)])
    show ?thesis
    proof (cases "cpu = c")
      case True
      then show ?thesis
        using exit_keeps [OF sched, of ?x c] x ipi(1,4) by (auto simp: smp_ipi_def cpu_held_def)
    next
      case False
      have "cpu_runs cpu (sm_k ?x) (evl_exit_irq (evl_schedule sched call) (view_cpu cpu ?x))"
        by (rule exit_runs(1) [OF sched smp_inv_D(1) [OF inv1]]) (simp add: x ipi)
      moreover have "k_cpu_rq (sm_k x) c \<noteq> k_cpu_rq (sm_k x) cpu" using ids [OF c ipi(2)] False by simp
      ultimately show ?thesis
        using x(1) by (simp add: ipi(1) smp_ipi_def smp_exit_def cpu_runs_def evl_need_resched_def x(2))
    qed
  next
    case (stage cpu oob)
    then show ?thesis using need by simp
  qed
qed

text \<open>C10. Over all interleavings of requests, calls of the scheduler, preemption-disabled sections, interrupts
  and IPIs on the CPUs of the core, on either stage, started with no request pending: a runqueue whose
  flag was raised by other CPUs only is never forgotten. Either an IPI is in flight to its CPU, or its CPU
  is inside a section or an interrupt, or a CPU lists it and is marked itself, so that every scheduling
  point of that CPU sends the IPI. An IPI which finds its CPU outside of sections ends with the request
  served, every scheduling point of the CPU serves it too, and nothing else drops it: inside a section it
  waits. \<open>__evl_schedule\<close> is assumed to serve its runqueue and send the IPIs with preemption enabled and
  to leave the request waiting with preemption disabled (\<open>clears_requests\<close>), and \<open>run_oob_call\<close> to run it
  on the out-of-band stage (\<open>escalates\<close>).\<close>

theorem remote_request_is_never_lost:
  assumes "clears_requests sched" and "escalates call"
    and "sm_ipis x0 = {}" and "sm_own x0 = {}"
    and "\<forall>c \<in> k_oob_cpus (sm_k x0). rq_cpu (rq_of (sm_k x0) c) = c \<and> rq_flags (rq_of (sm_k x0) c) = 0 \<and>
      rq_resched_cpus (rq_of (sm_k x0) c) = {} \<and> sm_count x0 c = 0"
    and "(smp_step sched call)\<^sup>*\<^sup>* x0 x"
    and "c \<in> k_oob_cpus (sm_k x)" and "evl_need_resched (sm_k x) (k_cpu_rq (sm_k x) c)" and "k_cpu_rq (sm_k x) c \<notin> sm_own x"
  shows "(c \<in> sm_ipis x \<or> sm_count x c > 0 \<or> cpu_in_irq c x \<or>
      (\<exists>d \<in> k_oob_cpus (sm_k x). c \<in> rq_resched_cpus (rq_of (sm_k x) d) \<and>
         rq_local_flags (rq_of (sm_k x) d) AND RQ_SCHED \<noteq> 0 \<and>
         (\<forall>y. sched_point sched call d x y \<longrightarrow> c \<in> sm_ipis y))) \<and>
    (\<not> cpu_held c x \<longrightarrow> \<not> evl_need_resched (sm_k (smp_ipi sched call c x)) (k_cpu_rq (sm_k x) c)) \<and>
    (\<forall>y. sched_point sched call c x y \<longrightarrow> \<not> evl_need_resched (sm_k y) (k_cpu_rq (sm_k x) c)) \<and>
    (\<forall>y. smp_step sched call x y \<longrightarrow> evl_need_resched (sm_k y) (k_cpu_rq (sm_k x) c) \<or>
       sched_point sched call c x y \<or> y = smp_ipi sched call c x \<and> \<not> cpu_held c x)"
proof -
  have "smp_inv x0" using assms(3-5) by (simp add: smp_inv_def evl_need_resched_def)
  from smp_reachable_inv [OF assms(6,1,2) this] have inv: "smp_inv x" .
  let ?x = "smp_enter c (x\<lparr>sm_ipis := sm_ipis x - {c}\<rparr>)"
  have "\<not> evl_need_resched (sm_k (smp_ipi sched call c x)) (k_cpu_rq (sm_k x) c)" if "\<not> cpu_held c x"
  proof -
    have "sched_point sched call c ?x (smp_ipi sched call c x)"
      unfolding smp_ipi_def by (rule at_exit) (use that in \<open>simp_all add: smp_enter_same cpu_held_def\<close>)
    from sched_point_serves(1) [OF this assms(1,2) smp_entered_inv [OF inv assms(7)]] assms(7)
    show ?thesis by (simp add: smp_enter_same)
  qed
  moreover have "c \<in> sm_ipis y"
    if "d \<in> k_oob_cpus (sm_k x)" "c \<in> rq_resched_cpus (rq_of (sm_k x) d)" "sched_point sched call d x y" for d y
    using sched_point_serves(2) [OF that(3) assms(1,2) inv that(1)] that(2) by blast
  moreover have "c \<in> sm_ipis x \<or> sm_count x c > 0 \<or> cpu_in_irq c x \<or>
      (\<exists>d \<in> k_oob_cpus (sm_k x). c \<in> rq_resched_cpus (rq_of (sm_k x) d))"
    using smp_inv_D(2,4) [OF inv assms(7)] assms(8,9) by (auto simp: cpu_held_def)
  ultimately show ?thesis
    using smp_inv_D(3) [OF inv] sched_point_serves(1) [OF _ assms(1,2) inv assms(7)]
      request_is_kept [OF _ assms(1,2) inv assms(7,8)] by blast
qed

text \<open>A scheduler that serves the requests with preemption enabled and does nothing else, and CPU 0, inside a
  section, asking CPU 1 to reschedule.\<close>

definition sample_sched :: "kst \<Rightarrow> kst" where
  "sample_sched s = (if evl_preempt_count s \<noteq> 0 then s else upd_rq (k_this_rq s)
     (\<lambda>q. q\<lparr>rq_flags := rq_flags q AND NOT RQ_SCHED, rq_local_flags := rq_local_flags q AND NOT RQ_SCHED,
            rq_resched_cpus := {}\<rparr>) s)"

definition sample_call :: "(kst \<Rightarrow> kst) \<Rightarrow> kst \<Rightarrow> kst" where
  "sample_call f s = (f (s\<lparr>k_running_oob := True\<rparr>))\<lparr>k_running_oob := k_running_oob s\<rparr>"

definition sample_idle :: kst where
  "sample_idle = upd_rq 100 (\<lambda>q. q\<lparr>rq_lock := False\<rparr>) (upd_rq 101 (\<lambda>q. q\<lparr>rq_lock := False\<rparr>) sample_kst)"

definition sample_smp :: smp where
  "sample_smp = \<lparr>sm_k = sample_idle, sm_ipis = {}, sm_count = (\<lambda>_. 0), sm_oob = (\<lambda>_. True), sm_own = {}\<rparr>"

lemma sample_sched_clears: "clears_requests sample_sched" "escalates sample_call"
  by (simp_all add: clears_requests_def sample_sched_def escalates_def sample_call_def Let_def flag_defs and.assoc)

lemma sample_request:
  "\<exists>x. smp_request 0 101 (smp_disable 0 sample_smp) = Some x \<and> k_oob_cpus (sm_k x) = {0, 1} \<and> k_cpu_rq (sm_k x) 1 = 101 \<and>
     evl_need_resched (sm_k x) 101 \<and> sm_own x = {} \<and> sm_count x 0 = 1 \<and> sm_count x 1 = 0 \<and> \<not> cpu_in_irq 1 x"
  by (simp add: smp_request_def lock_rq_def view_cpu_def sample_idle_def sample_kst_def sample_rq_def sample_smp_def
      unlock_rq_def resched_rqs evl_need_resched_def Let_def cpu_in_irq_def smp_disable_def evl_disable_preempt_def
      raw_evl_disable_preempt_def)

theorem remote_request_is_never_lost_witness:
  "\<exists>x. smp_request 0 101 (smp_disable 0 sample_smp) = Some x \<and> sm_count x 0 = 1 \<and>
     \<not> evl_need_resched (sm_k (smp_ipi sample_sched sample_call 1 x)) 101"
proof -
  obtain x where x: "smp_request 0 101 (smp_disable 0 sample_smp) = Some x" "k_oob_cpus (sm_k x) = {0, 1}"
    "k_cpu_rq (sm_k x) 1 = 101" "evl_need_resched (sm_k x) 101" "sm_own x = {}" "sm_count x 0 = 1"
    "\<not> cpu_held 1 x"
    using sample_request by (auto simp: cpu_held_def)
  have i: "k_oob_cpus (sm_k sample_smp) = {0, 1}" "k_cpu_rq (sm_k sample_smp) = (\<lambda>c. 100 + c)"
    "k_oob_cpus (sm_k (smp_disable 0 sample_smp)) = {0, 1}" "k_cpu_rq (sm_k (smp_disable 0 sample_smp)) = (\<lambda>c. 100 + c)"
    by (simp_all add: sample_smp_def sample_idle_def sample_kst_def smp_disable_def evl_disable_preempt_def
        raw_evl_disable_preempt_def)
  have "smp_step sample_sched sample_call sample_smp (smp_disable 0 sample_smp)"
    by (rule smp_step.disable) (simp add: i)
  moreover have "smp_step sample_sched sample_call (smp_disable 0 sample_smp) x"
    by (rule smp_step.request [of 0 _ 1]) (simp_all add: i x)
  ultimately have r: "(smp_step sample_sched sample_call)\<^sup>*\<^sup>* sample_smp x" by (blast intro: rtranclp.intros)
  have z: "\<forall>c \<in> k_oob_cpus (sm_k sample_smp). rq_cpu (rq_of (sm_k sample_smp) c) = c \<and> rq_flags (rq_of (sm_k sample_smp) c) = 0 \<and>
      rq_resched_cpus (rq_of (sm_k sample_smp) c) = {} \<and> sm_count sample_smp c = 0"
    by (simp add: sample_smp_def sample_idle_def sample_kst_def sample_rq_def)
  have "sm_ipis sample_smp = {}" "sm_own sample_smp = {}" by (simp_all add: sample_smp_def)
  from remote_request_is_never_lost [OF sample_sched_clears this z r, of 1] x show ?thesis by auto
qed

end
