(* ===== verification/Evl_Wait.thy ===== *)
theory Evl_Wait
  imports Sched_Samples
begin

text \<open>
  \<open>include/evl/wait.h\<close>: wait channels, wait queues and the macro every blocking service is built on,
  \<open>evl_wait_event_timeout\<close>. The functions of \<open>wait.c\<close> and the spinlock are the operations of a
  table \<open>wait_ops\<close> over a state \<open>'s\<close> which the other threads and the timers may change while the
  caller sleeps: \<open>wo_schedule\<close> is the sleep. The condition may have side effects (reading a flag
  lowers it): it is a function to a boolean and a new state. The loop may not end: its value is
  \<open>None\<close> then.
\<close>

section \<open>Data\<close>

definition EVL_WAIT_FIFO :: u32 where [flag_defs]: "EVL_WAIT_FIFO = 0"
definition EVL_WAIT_PRIO :: u32 where [flag_defs]: "EVL_WAIT_PRIO = 1"

record evl_wait_channel =
  wc_lock :: bool
  wc_owner :: "ptr option"
  wc_requeue_wait :: ptr
  wc_wait_list :: "ptr list"
  wc_name :: string

record evl_wait_queue =
  wq_flags :: u32
  wq_clock :: ptr
  wq_wchan :: evl_wait_channel

text \<open>The static initializer; \<open>requeue_wait\<close> is the address of \<open>evl_requeue_wait\<close>.\<close>

definition EVL_WAIT_INITIALIZER :: "ptr \<Rightarrow> ptr \<Rightarrow> string \<Rightarrow> evl_wait_queue" where
  "EVL_WAIT_INITIALIZER evl_mono_clock evl_requeue_wait name =
     \<lparr>wq_flags = EVL_WAIT_PRIO, wq_clock = evl_mono_clock,
      wq_wchan = \<lparr>wc_lock = False, wc_owner = None, wc_requeue_wait = evl_requeue_wait, wc_wait_list = [],
                  wc_name = name\<rparr>\<rparr>"

definition evl_head_waiter :: "evl_wait_queue \<Rightarrow> ptr option" where
  "evl_head_waiter wq = list_first_entry_or_null (wc_wait_list (wq_wchan wq))"

definition evl_for_each_waiter :: "evl_wait_queue \<Rightarrow> ptr list" where
  "evl_for_each_waiter wq = wc_wait_list (wq_wchan wq)"

text \<open>The safe variant runs a body which may unlink the entry it is given.\<close>

definition evl_for_each_waiter_safe :: "(ptr \<Rightarrow> evl_wait_queue \<Rightarrow> evl_wait_queue) \<Rightarrow> evl_wait_queue \<Rightarrow> evl_wait_queue" where
  "evl_for_each_waiter_safe body wq = fold body (wc_wait_list (wq_wchan wq)) wq"

definition evl_wait_active :: "evl_wait_queue \<Rightarrow> kst \<Rightarrow> bool \<times> kst" where
  "evl_wait_active wq s =
     (\<not> list_empty (wc_wait_list (wq_wchan wq)), assert_hard_lock (wc_lock (wq_wchan wq)) s)"

definition evl_put_thread_wchan :: "evl_wait_channel \<Rightarrow> kst \<Rightarrow> evl_wait_channel \<times> kst" where
  "evl_put_thread_wchan wchan s = (wchan\<lparr>wc_lock := False\<rparr>, assert_hard_lock (wc_lock wchan) s)"

definition evl_wait_schedule :: "(evl_wait_channel \<Rightarrow> 's \<Rightarrow> int \<times> 's) \<Rightarrow> evl_wait_queue \<Rightarrow> 's \<Rightarrow> int \<times> 's" where
  "evl_wait_schedule raw_wait_schedule wq s = raw_wait_schedule (wq_wchan wq) s"

definition evl_init_wait :: "(ptr \<Rightarrow> u32 \<Rightarrow> string \<Rightarrow> evl_wait_queue) \<Rightarrow> ptr \<Rightarrow> u32 \<Rightarrow> string \<Rightarrow> evl_wait_queue" where
  "evl_init_wait raw_init_wait clock flags name = raw_init_wait clock flags name"

definition evl_init_wait_on_stack :: "(ptr \<Rightarrow> u32 \<Rightarrow> string \<Rightarrow> evl_wait_queue) \<Rightarrow> ptr \<Rightarrow> u32 \<Rightarrow> string \<Rightarrow> evl_wait_queue" where
  "evl_init_wait_on_stack raw_init_wait clock flags name = evl_init_wait raw_init_wait clock flags name"

definition evl_wake_up_head :: "(evl_wait_queue \<Rightarrow> ptr option \<Rightarrow> int \<Rightarrow> 's \<Rightarrow> ptr option \<times> 's) \<Rightarrow> evl_wait_queue \<Rightarrow> 's \<Rightarrow> ptr option \<times> 's" where
  "evl_wake_up_head wake_up wq s = wake_up wq None 0 s"

section \<open>Waiting for an event\<close>

record 's wait_ops =
  wo_lock :: "'s \<Rightarrow> bool \<times> 's"
  wo_unlock :: "bool \<Rightarrow> 's \<Rightarrow> 's"
  wo_add :: "ktime \<Rightarrow> evl_tmode \<Rightarrow> 's \<Rightarrow> 's"
  wo_schedule :: "'s \<Rightarrow> int \<times> 's"
  wo_bcast :: "'s \<Rightarrow> bool"

text \<open>One round of the loop: the result of the sleep, whether the loop ends, and the state.\<close>

definition wait_round :: "'s wait_ops \<Rightarrow> ('s \<Rightarrow> bool \<times> 's) \<Rightarrow> ktime \<Rightarrow> evl_tmode \<Rightarrow> bool \<times> 's \<Rightarrow> int \<times> bool \<times> bool \<times> 's" where
  "wait_round w cond timeout tmode = (\<lambda>(flags, s).
     let s1 = wo_unlock w flags (wo_add w timeout tmode s);
         (ret, s2) = wo_schedule w s1;
         bcast = wo_bcast w s2;
         (flags', s3) = wo_lock w s2 in
     if ret \<noteq> 0 \<or> bcast then (ret, True, flags', s3)
     else (let (c, s4) = cond s3 in (ret, c, flags', s4)))"

partial_function (option) wait_loop ::
    "'s wait_ops \<Rightarrow> ('s \<Rightarrow> bool \<times> 's) \<Rightarrow> ktime \<Rightarrow> evl_tmode \<Rightarrow> bool \<times> 's \<Rightarrow> (int \<times> bool \<times> 's) option" where
  [code]: "wait_loop w cond timeout tmode fs =
     (case wait_round w cond timeout tmode fs of
        (ret, stop, flags, s) \<Rightarrow>
          if stop then Some (ret, flags, s) else wait_loop w cond timeout tmode (flags, s))"

definition evl_wait_event_timeout ::
    "'s wait_ops \<Rightarrow> ('s \<Rightarrow> bool \<times> 's) \<Rightarrow> ktime \<Rightarrow> evl_tmode \<Rightarrow> 's \<Rightarrow> (int \<times> 's) option" where
  "evl_wait_event_timeout w cond timeout tmode s =
     (let (flags, s1) = wo_lock w s; (c, s2) = cond s1 in
      if c then Some (0, wo_unlock w flags s2)
      else if timeout_nonblock timeout then Some (- EAGAIN, wo_unlock w flags s2)
      else map_option (\<lambda>(ret, flags', s3). (ret, wo_unlock w flags' s3))
             (wait_loop w cond timeout tmode (flags, s2)))"

definition evl_wait_event :: "'s wait_ops \<Rightarrow> ('s \<Rightarrow> bool \<times> 's) \<Rightarrow> 's \<Rightarrow> (int \<times> 's) option" where
  "evl_wait_event w cond s = evl_wait_event_timeout w cond EVL_INFINITE EVL_REL s"

section \<open>When the loop ends\<close>

text \<open>The state at the start of round \<open>n\<close>.\<close>

fun round_state :: "'s wait_ops \<Rightarrow> ('s \<Rightarrow> bool \<times> 's) \<Rightarrow> ktime \<Rightarrow> evl_tmode \<Rightarrow> nat \<Rightarrow> bool \<times> 's \<Rightarrow> bool \<times> 's" where
  "round_state w cond timeout tmode 0 fs = fs"
| "round_state w cond timeout tmode (Suc n) fs =
     round_state w cond timeout tmode n (snd (snd (wait_round w cond timeout tmode fs)))"

definition round_stops :: "'s wait_ops \<Rightarrow> ('s \<Rightarrow> bool \<times> 's) \<Rightarrow> ktime \<Rightarrow> evl_tmode \<Rightarrow> bool \<times> 's \<Rightarrow> bool" where
  "round_stops w cond timeout tmode fs = fst (snd (wait_round w cond timeout tmode fs))"

lemma wait_loop_round:
  "wait_loop w cond timeout tmode fs =
     (if round_stops w cond timeout tmode fs
      then Some (fst (wait_round w cond timeout tmode fs), snd (snd (wait_round w cond timeout tmode fs)))
      else wait_loop w cond timeout tmode (snd (snd (wait_round w cond timeout tmode fs))))"
  by (subst wait_loop.simps) (simp add: round_stops_def split: prod.split)

lemma wait_loop_returns:
  "round_stops w cond timeout tmode (round_state w cond timeout tmode n fs) \<Longrightarrow>
   \<exists>r. wait_loop w cond timeout tmode fs = Some r"
proof (induction n arbitrary: fs)
  case 0
  then show ?case by (simp add: wait_loop_round [of w cond timeout tmode fs])
next
  case (Suc n)
  then show ?case
    by (cases "round_stops w cond timeout tmode fs") (simp_all add: wait_loop_round [of w cond timeout tmode fs])
qed

text \<open>What the loop returns is the result of the round which stops.\<close>

definition last_round :: "'s wait_ops \<Rightarrow> ('s \<Rightarrow> bool \<times> 's) \<Rightarrow> ktime \<Rightarrow> evl_tmode \<Rightarrow> bool \<times> 's \<Rightarrow> int \<times> bool \<times> 's \<Rightarrow> nat \<Rightarrow> bool" where
  "last_round w cond timeout tmode fs r n \<longleftrightarrow>
     (let fs' = round_state w cond timeout tmode n fs in
      round_stops w cond timeout tmode fs' \<and>
      r = (fst (wait_round w cond timeout tmode fs'), snd (snd (wait_round w cond timeout tmode fs'))))"

lemma wait_loop_last_round:
  assumes "wait_loop w cond timeout tmode fs = Some r"
  shows "\<exists>n. last_round w cond timeout tmode fs r n"
proof (rule wait_loop.raw_induct [OF _ assms])
  fix self w cond timeout tmode fs r
  assume IH: "\<And>cond timeout tmode fs b y. self cond timeout tmode fs b = Some y \<Longrightarrow>
      \<exists>n. last_round cond timeout tmode fs b y n"
    and r: "(case wait_round w cond timeout tmode fs of (ret, stop, flags, s) \<Rightarrow>
        if stop then Some (ret, flags, s) else self w cond timeout tmode (flags, s)) = Some r"
  show "\<exists>n. last_round w cond timeout tmode fs r n"
  proof (cases "round_stops w cond timeout tmode fs")
    case True
    with r show ?thesis
      by (intro exI [of _ 0]) (auto simp: last_round_def round_stops_def split: prod.splits)
  next
    case False
    with r have "self w cond timeout tmode (snd (snd (wait_round w cond timeout tmode fs))) = Some r"
      by (auto simp: round_stops_def split: prod.splits)
    from IH [OF this] obtain n
      where "last_round w cond timeout tmode (snd (snd (wait_round w cond timeout tmode fs))) r n" by blast
    then show ?thesis by (intro exI [of _ "Suc n"]) (simp add: last_round_def)
  qed
qed

section \<open>What waiting promises\<close>

text \<open>
  What a caller does while it waits, with what each operation answered: it takes the lock, evaluates the
  condition, adds itself to the queue, drops the lock, sleeps, reads whether it was woken up by a
  broadcast. \<open>replay\<close> runs such a trace on a state and fails where an answer differs.
\<close>

datatype wait_act = Took bool | Tested bool | Queued | Dropped bool | Slept int | Bcast bool

fun do_act :: "'s wait_ops \<Rightarrow> ('s \<Rightarrow> bool \<times> 's) \<Rightarrow> ktime \<Rightarrow> evl_tmode \<Rightarrow> wait_act \<Rightarrow> 's \<Rightarrow> 's option" where
  "do_act w cond timeout tmode (Took f) s = (if fst (wo_lock w s) = f then Some (snd (wo_lock w s)) else None)"
| "do_act w cond timeout tmode (Tested c) s = (if fst (cond s) = c then Some (snd (cond s)) else None)"
| "do_act w cond timeout tmode Queued s = Some (wo_add w timeout tmode s)"
| "do_act w cond timeout tmode (Dropped f) s = Some (wo_unlock w f s)"
| "do_act w cond timeout tmode (Slept r) s = (if fst (wo_schedule w s) = r then Some (snd (wo_schedule w s)) else None)"
| "do_act w cond timeout tmode (Bcast b) s = (if wo_bcast w s = b then Some s else None)"

fun replay :: "'s wait_ops \<Rightarrow> ('s \<Rightarrow> bool \<times> 's) \<Rightarrow> ktime \<Rightarrow> evl_tmode \<Rightarrow> wait_act list \<Rightarrow> 's \<Rightarrow> 's option" where
  "replay w cond timeout tmode [] s = Some s"
| "replay w cond timeout tmode (a # as) s = Option.bind (do_act w cond timeout tmode a s) (replay w cond timeout tmode as)"

text \<open>The traces of a caller that holds the lock, taken with interrupt state \<open>f\<close>, and found the condition false:
  it queues itself, drops the lock and sleeps; with the lock back it gives up when the sleep failed or the
  wake up was a broadcast, and otherwise evaluates the condition again, under the lock.\<close>

inductive wait_rounds :: "bool \<Rightarrow> wait_act list \<Rightarrow> int \<Rightarrow> bool" where
  gave_up: "ret \<noteq> 0 \<or> b \<Longrightarrow> wait_rounds f [Queued, Dropped f, Slept ret, Bcast b, Took f', Dropped f'] ret"
| came_true: "wait_rounds f [Queued, Dropped f, Slept 0, Bcast False, Took f', Tested True, Dropped f'] 0"
| again: "wait_rounds f' as ret \<Longrightarrow>
    wait_rounds f (Queued # Dropped f # Slept 0 # Bcast False # Took f' # Tested False # as) ret"

inductive wait_trace :: "ktime \<Rightarrow> wait_act list \<Rightarrow> int \<Rightarrow> bool" where
  at_once: "wait_trace timeout [Took f, Tested True, Dropped f] 0"
| no_wait: "timeout_nonblock timeout \<Longrightarrow> wait_trace timeout [Took f, Tested False, Dropped f] (- EAGAIN)"
| slept: "\<not> timeout_nonblock timeout \<Longrightarrow> wait_rounds f as ret \<Longrightarrow> wait_trace timeout (Took f # Tested False # as) ret"

lemma wait_loop_stop:
  "wait_round w cond timeout tmode fs = (ret, True, flags, s) \<Longrightarrow> wait_loop w cond timeout tmode fs = Some (ret, flags, s)"
  "wait_round w cond timeout tmode fs = (ret, False, flags, s) \<Longrightarrow>
   wait_loop w cond timeout tmode fs = wait_loop w cond timeout tmode (flags, s)"
  by (simp_all add: wait_loop_round [of w cond timeout tmode fs] round_stops_def)

text \<open>A trace that can be replayed is what the loop does, and what the loop does is such a trace.\<close>

lemma rounds_run:
  "wait_rounds f as ret \<Longrightarrow> replay w cond timeout tmode as s = Some s' \<Longrightarrow>
   \<exists>flags s1. wait_loop w cond timeout tmode (f, s) = Some (ret, flags, s1) \<and> s' = wo_unlock w flags s1"
proof (induction f as ret arbitrary: s rule: wait_rounds.induct)
  case (gave_up ret b f f')
  then have "wait_round w cond timeout tmode (f, s) =
      (ret, True, f', snd (wo_lock w (snd (wo_schedule w (wo_unlock w f (wo_add w timeout tmode s))))))"
    by (auto simp: wait_round_def Let_def split_beta prod_eq_iff split: if_splits)
  with gave_up show ?case by (auto simp: wait_loop_stop split: if_splits)
next
  case (came_true f f')
  let ?s = "snd (wo_lock w (snd (wo_schedule w (wo_unlock w f (wo_add w timeout tmode s)))))"
  from came_true have "wait_round w cond timeout tmode (f, s) = (0, True, f', snd (cond ?s))"
    by (auto simp: wait_round_def Let_def split_beta prod_eq_iff split: if_splits)
  with came_true show ?case by (auto simp: wait_loop_stop split: if_splits)
next
  case (again f' as ret f)
  let ?s = "snd (wo_lock w (snd (wo_schedule w (wo_unlock w f (wo_add w timeout tmode s)))))"
  from again.prems have "wait_round w cond timeout tmode (f, s) = (0, False, f', snd (cond ?s))"
    and "replay w cond timeout tmode as (snd (cond ?s)) = Some s'"
    by (auto simp: wait_round_def Let_def split_beta prod_eq_iff split: if_splits)
  with again.IH show ?case by (simp add: wait_loop_stop(2))
qed

text \<open>One round, by what the sleep answered, whether it was a broadcast, and what the condition said.\<close>

lemma round_trace:
  assumes "wait_round w cond timeout tmode (f, s) = (ret, stop, f', s')"
  shows "stop \<Longrightarrow> \<exists>as. wait_rounds f as ret \<and> replay w cond timeout tmode as s = Some (wo_unlock w f' s')"
    and "\<not> stop \<Longrightarrow> wait_rounds f' as r \<Longrightarrow> replay w cond timeout tmode as s' = Some t \<Longrightarrow>
      \<exists>bs. wait_rounds f bs r \<and> replay w cond timeout tmode bs s = Some t"
proof -
  let ?x = "wo_schedule w (wo_unlock w f (wo_add w timeout tmode s))"
  let ?l = "wo_lock w (snd ?x)"
  show "\<exists>as. wait_rounds f as ret \<and> replay w cond timeout tmode as s = Some (wo_unlock w f' s')" if stop
  proof (cases "fst ?x \<noteq> 0 \<or> wo_bcast w (snd ?x)")
    case True
    with assms have "ret = fst ?x" "f' = fst ?l" "s' = snd ?l" by (auto simp: wait_round_def Let_def split_beta)
    with True show ?thesis
      by (intro exI [of _ "[Queued, Dropped f, Slept ret, Bcast (wo_bcast w (snd ?x)), Took f', Dropped f']"] conjI gave_up)
        auto
  next
    case False
    with assms that have "fst (cond (snd ?l))" "ret = 0" "f' = fst ?l" "s' = snd (cond (snd ?l))"
      by (auto simp: wait_round_def Let_def split_beta)
    with False show ?thesis
      by (intro exI [of _ "[Queued, Dropped f, Slept 0, Bcast False, Took f', Tested True, Dropped f']"] conjI)
        (auto intro: came_true)
  qed
  show "\<exists>bs. wait_rounds f bs r \<and> replay w cond timeout tmode bs s = Some t"
    if "\<not> stop" "wait_rounds f' as r" "replay w cond timeout tmode as s' = Some t"
  proof -
    have "\<not> (fst ?x \<noteq> 0 \<or> wo_bcast w (snd ?x))" "\<not> fst (cond (snd ?l))" "f' = fst ?l" "s' = snd (cond (snd ?l))"
      using assms that(1) by (auto simp: wait_round_def Let_def split_beta split: if_splits)
    with that show ?thesis
      by (intro exI [of _ "Queued # Dropped f # Slept 0 # Bcast False # Took f' # Tested False # as"] conjI again) auto
  qed
qed

lemma run_rounds:
  assumes "wait_loop w cond timeout tmode fs = Some r"
  shows "\<exists>as. wait_rounds (fst fs) as (fst r) \<and>
    replay w cond timeout tmode as (snd fs) = Some (wo_unlock w (fst (snd r)) (snd (snd r)))"
proof (rule wait_loop.raw_induct [OF _ assms])
  fix self w cond timeout tmode fs r
  assume IH: "\<And>cond timeout tmode fs b y. self cond timeout tmode fs b = Some y \<Longrightarrow>
      \<exists>as. wait_rounds (fst b) as (fst y) \<and>
        replay cond timeout tmode fs as (snd b) = Some (wo_unlock cond (fst (snd y)) (snd (snd y)))"
    and r: "(case wait_round w cond timeout tmode fs of (ret, stop, flags, s) \<Rightarrow>
        if stop then Some (ret, flags, s) else self w cond timeout tmode (flags, s)) = Some r"
  obtain f s where fs: "fs = (f, s)" by (cases fs)
  obtain ret stop f' s' where w: "wait_round w cond timeout tmode (f, s) = (ret, stop, f', s')"
    by (metis prod.collapse)
  show "\<exists>as. wait_rounds (fst fs) as (fst r) \<and>
    replay w cond timeout tmode as (snd fs) = Some (wo_unlock w (fst (snd r)) (snd (snd r)))"
  proof (cases stop)
    case True
    with r w fs round_trace(1) [OF w] show ?thesis by auto
  next
    case False
    with r w fs have "self w cond timeout tmode (f', s') = Some r" by simp
    from IH [OF this] obtain as where "wait_rounds f' as (fst r)"
      "replay w cond timeout tmode as s' = Some (wo_unlock w (fst (snd r)) (snd (snd r)))" by auto
    from round_trace(2) [OF w False this] fs show ?thesis by simp
  qed
qed

text \<open>C8. What \<open>evl_wait_event_timeout\<close> does, whatever its operations answer: it returns \<open>ret\<close> in a state exactly
  when this state is reached by a trace of the following form. It takes the lock and evaluates the
  condition; when this is true it drops the lock and returns 0; otherwise a non-blocking call drops it
  and returns \<open>-EAGAIN\<close> without queueing or sleeping; otherwise, round after round, it queues itself under
  the lock, drops the lock with the interrupt state it was taken with, sleeps, reads the broadcast flag
  and takes the lock back; when the sleep failed or the wake up was a broadcast it drops the lock and
  returns what the sleep reported; otherwise it evaluates the condition under the lock, and drops it and
  returns 0 when this is true, or starts another round. So 0 means that the condition was true under the
  lock right before it was dropped for the last time, or that a broadcast woke up the caller.\<close>

theorem wait_event_result:
  "evl_wait_event_timeout w cond timeout tmode s = Some (ret, s') \<longleftrightarrow>
    (\<exists>as. wait_trace timeout as ret \<and> replay w cond timeout tmode as s = Some s')"
proof
  obtain f s1 where l: "wo_lock w s = (f, s1)" by fastforce
  obtain c s2 where c: "cond s1 = (c, s2)" by fastforce
  assume run: "evl_wait_event_timeout w cond timeout tmode s = Some (ret, s')"
  show "\<exists>as. wait_trace timeout as ret \<and> replay w cond timeout tmode as s = Some s'"
  proof (cases "c \<or> timeout_nonblock timeout")
    case True
    with run l c show ?thesis
      by (intro exI [of _ "[Took f, Tested c, Dropped f]"])
        (auto simp: evl_wait_event_timeout_def intro: at_once no_wait split: if_splits)
  next
    case False
    with run l c obtain f' s3 where w: "wait_loop w cond timeout tmode (f, s2) = Some (ret, f', s3)" "s' = wo_unlock w f' s3"
      by (auto simp: evl_wait_event_timeout_def)
    with run_rounds [OF w(1)] obtain as where "wait_rounds f as ret" "replay w cond timeout tmode as s2 = Some s'" by auto
    with False l c show ?thesis
      by (intro exI [of _ "Took f # Tested False # as"]) (auto intro: slept)
  qed
next
  assume "\<exists>as. wait_trace timeout as ret \<and> replay w cond timeout tmode as s = Some s'"
  then obtain as where "wait_trace timeout as ret" "replay w cond timeout tmode as s = Some s'" by blast
  then show "evl_wait_event_timeout w cond timeout tmode s = Some (ret, s')"
  proof (induction rule: wait_trace.induct)
    case (slept timeout f as ret)
    then have "replay w cond timeout tmode as (snd (cond (snd (wo_lock w s)))) = Some s'"
      by (auto split: if_splits)
    with rounds_run [OF slept.hyps(2) this] slept show ?case
      by (auto simp: evl_wait_event_timeout_def split_beta split: if_splits)
  qed (auto simp: evl_wait_event_timeout_def split_beta split: if_splits)
qed

text \<open>Whether a round ends, in the terms of the source: the sleep fails, or the thread was woken up by a
  broadcast, or the condition is true once the lock is held again.\<close>

lemma round_stops_iff:
  "round_stops w cond timeout tmode fs \<longleftrightarrow>
     (\<exists>flags s ret s2. fs = (flags, s) \<and>
        wo_schedule w (wo_unlock w flags (wo_add w timeout tmode s)) = (ret, s2) \<and>
        \<not> (ret = 0 \<and> \<not> wo_bcast w s2 \<and> \<not> fst (cond (snd (wo_lock w s2)))))"
  by (cases fs) (simp add: round_stops_def wait_round_def Let_def split: prod.split)

text \<open>C9. \<open>evl_wait_event_timeout\<close> returns exactly when there is a reason to: the condition holds at
  once, or the call is non-blocking, or in some round of the wait the sleep fails (timeout, forced wake
  up, removal), or the caller is woken up by a broadcast, or the condition is true once the lock is held
  again. Otherwise it waits forever.\<close>

theorem wait_event_returns_iff:
  "evl_wait_event_timeout w cond timeout tmode s \<noteq> None \<longleftrightarrow>
     fst (cond (snd (wo_lock w s))) \<or> timeout_nonblock timeout \<or>
     (\<exists>n flags s1 ret s2.
        round_state w cond timeout tmode n (fst (wo_lock w s), snd (cond (snd (wo_lock w s)))) = (flags, s1) \<and>
        wo_schedule w (wo_unlock w flags (wo_add w timeout tmode s1)) = (ret, s2) \<and>
        \<not> (ret = 0 \<and> \<not> wo_bcast w s2 \<and> \<not> fst (cond (snd (wo_lock w s2)))))"
proof -
  obtain flags s1 where l: "wo_lock w s = (flags, s1)" by fastforce
  obtain c s2 where c: "cond s1 = (c, s2)" by fastforce
  have "wait_loop w cond timeout tmode (flags, s2) \<noteq> None \<longleftrightarrow>
      (\<exists>n. round_stops w cond timeout tmode (round_state w cond timeout tmode n (flags, s2)))"
    using wait_loop_returns wait_loop_last_round by (fastforce simp: last_round_def Let_def)
  also have "\<dots> \<longleftrightarrow> (\<exists>n f t ret u. round_state w cond timeout tmode n (flags, s2) = (f, t) \<and>
      wo_schedule w (wo_unlock w f (wo_add w timeout tmode t)) = (ret, u) \<and>
      \<not> (ret = 0 \<and> \<not> wo_bcast w u \<and> \<not> fst (cond (snd (wo_lock w u)))))"
    by (simp only: round_stops_iff)
  finally have loop: "wait_loop w cond timeout tmode (flags, s2) \<noteq> None \<longleftrightarrow> \<dots>" .
  have "evl_wait_event_timeout w cond timeout tmode s \<noteq> None \<longleftrightarrow>
      c \<or> timeout_nonblock timeout \<or> wait_loop w cond timeout tmode (flags, s2) \<noteq> None"
    by (simp add: evl_wait_event_timeout_def l c)
  then show ?thesis unfolding loop l c fst_conv snd_conv .
qed

text \<open>A caller that sleeps twice: the state counts the sleeps, the event happens at the second one.\<close>

definition sample_wait_ops :: "nat wait_ops" where
  "sample_wait_ops = \<lparr>wo_lock = \<lambda>s. (False, s), wo_unlock = \<lambda>_ s. s, wo_add = \<lambda>_ _ s. s,
     wo_schedule = \<lambda>s. (0, Suc s), wo_bcast = \<lambda>_. False\<rparr>"

lemma sample_wait: "evl_wait_event_timeout sample_wait_ops (\<lambda>s. (2 \<le> s, s)) EVL_INFINITE EVL_REL 0 = Some (0, 2)"
  by (simp add: evl_wait_event_timeout_def sample_wait_ops_def timeout_nonblock_def const_defs
      wait_loop_round [of _ _ _ _ "(False, _)"] round_stops_def wait_round_def)

theorem wait_event_result_witness:
  "\<exists>as. wait_trace EVL_INFINITE as 0 \<and> replay sample_wait_ops (\<lambda>s. (2 \<le> s, s)) EVL_INFINITE EVL_REL as 0 = Some 2"
  using wait_event_result [of sample_wait_ops "\<lambda>s. (2 \<le> s, s)" EVL_INFINITE EVL_REL 0 0 2] sample_wait by blast

end
