(* ===== verification/Sched_Pin.thy ===== *)
theory Sched_Pin
  imports Sched_Props
begin

text \<open>
  Pinning a thread to its runqueue, the bounds of the scheduling parameters, weighted priorities,
  voluntary yielding, and what happens to the thread counts of the classes.
\<close>

section \<open>Pinning\<close>

lemmas pin_defs = evl_get_thread_rq_def evl_put_thread_rq_def evl_get_thread_rq_noirq_def
  evl_put_thread_rq_noirq_def lock_thread_def lock_rq_def unlock_thread_def unlock_rq_def

text \<open>C26. Pinning a thread is what the core operations on it require, and is undone exactly: when
  neither the lock of the thread nor the one of its runqueue is held, \<open>evl_get_thread_rq\<close> succeeds, gives
  the runqueue of the thread, and in the state it reaches \<open>assert_thread_pinned\<close> holds, so that no
  operation which checks it warns; \<open>evl_put_thread_rq\<close> then restores the initial state, interrupt
  state included. When one of the locks is held, it does not get through.\<close>

theorem pin_is_exclusive_and_reversible:
  "(\<not> th_lock (k_threads s t) \<and> \<not> rq_lock (k_rqs s (th_rq (k_threads s t))) \<longrightarrow>
      (\<exists>s'. evl_get_thread_rq t s = Some (th_rq (k_threads s t), k_irqs_off s, s') \<and> k_irqs_off s' \<and>
         assert_thread_pinned t s' = s' \<and>
         evl_put_thread_rq t (th_rq (k_threads s t)) (k_irqs_off s) s' = s)) \<and>
   (th_lock (k_threads s t) \<or> rq_lock (k_rqs s (th_rq (k_threads s t))) \<longrightarrow> evl_get_thread_rq t s = None)"
proof -
  have l: "th\<lparr>th_lock := b\<rparr> = th" if "th_lock th = b" for th :: evl_thread and b using that by auto
  have r: "q\<lparr>rq_lock := b\<rparr> = q" if "rq_lock q = b" for q :: evl_rq and b using that by auto
  show ?thesis
    by (auto simp: pin_defs Let_def upd_thread_def upd_rq_def pinned_def assert_defs l r fun_upd_idem)
qed

theorem pin_is_exclusive_and_reversible_witness:
  "\<exists>s'. evl_get_thread_rq 7 (sample_kst\<lparr>k_threads := (\<lambda>_. sample_thread\<lparr>th_lock := False\<rparr>), k_rqs := (\<lambda>_. sample_rq\<lparr>rq_lock := False\<rparr>)\<rparr>)
     = Some (100, True, s') \<and> assert_thread_pinned 7 s' = s'"
  using pin_is_exclusive_and_reversible [of "sample_kst\<lparr>k_threads := (\<lambda>_. sample_thread\<lparr>th_lock := False\<rparr>), k_rqs := (\<lambda>_. sample_rq\<lparr>rq_lock := False\<rparr>)\<rparr>" 7]
  by (auto simp: sample_defs)

text \<open>The WCHAN request of a thread is consumed once, and served when both locks are dropped.\<close>

lemma put_check_serves_requeue:
  assumes "th_info (k_threads s t) AND EVL_T_WCHAN \<noteq> 0"
  shows "\<exists>s'. evl_put_thread_rq_check_noirq adjust t rq s = adjust t s' \<and>
    th_info (k_threads s' t) AND EVL_T_WCHAN = 0 \<and> \<not> th_lock (k_threads s' t) \<and> \<not> rq_lock (k_rqs s' rq)"
  using assms by (auto simp: evl_put_thread_rq_check_noirq_def pin_defs Let_def and_not_cancel)

lemma put_check_without_requeue:
  "th_info (k_threads s t) AND EVL_T_WCHAN = 0 \<Longrightarrow>
   evl_put_thread_rq_check_noirq adjust t rq s = evl_put_thread_rq_noirq t rq s"
  by (simp add: evl_put_thread_rq_check_noirq_def)

section \<open>Scheduling parameters\<close>

lemma mrp_scale:
  assumes "mlq_levels_check mrp"
  shows "EVL_CORE_MAX_PRIO mrp \<le> EVL_CLASS_WEIGHT_FACTOR - 1"
  using assms by (simp add: mlq_levels_check_def const_defs)

text \<open>C30. Parameter checks keep priorities on the scale of the core: \<open>__evl_chk_fifo_schedparam\<close> gives 0 or
  \<open>-EINVAL\<close>, and accepts exactly the in-band \<open>SCHED_FIFO\<close> range 1 to \<open>MAX_RT_PRIO - 1\<close> for a user thread
  and the whole core scale for a kernel thread; what it accepts is a level inside the arrays of a
  multi-level queue, which therefore takes the thread; and the priority read back after a forced
  update is the one that was checked.\<close>

theorem fifo_param_check_is_exact:
  assumes "1 \<le> mrp"
  shows "(raw_evl_chk_fifo_schedparam mrp th p = 0 \<longleftrightarrow>
      (if th_state th AND EVL_T_USER = 0 then 0 \<le> fifo_prio p \<and> fifo_prio p \<le> mrp + 1
       else 1 \<le> fifo_prio p \<and> fifo_prio p < mrp)) \<and>
    raw_evl_chk_fifo_schedparam mrp th p \<in> {0, - EINVAL} \<and>
    (raw_evl_chk_fifo_schedparam mrp th p = 0 \<and> length (q_heads q) = nat (EVL_MLQ_LEVELS mrp) \<and>
       length (q_prio_map q) = nat (EVL_MLQ_LEVELS mrp) \<longrightarrow> add_q mrp q (fifo_prio p) \<noteq> None) \<and>
    fifo_prio (raw_evl_get_fifo_schedparam
      (k_threads (raw_evl_track_fifo_priority t (Some p) s) t) p') = fifo_prio p"
proof -
  have chk: "raw_evl_chk_fifo_schedparam mrp th p = 0 \<longleftrightarrow>
      (if th_state th AND EVL_T_USER = 0 then 0 \<le> fifo_prio p \<and> fifo_prio p \<le> mrp + 1
       else 1 \<le> fifo_prio p \<and> fifo_prio p < mrp)"
    by (auto simp: raw_evl_chk_fifo_schedparam_def const_defs)
  moreover have "raw_evl_chk_fifo_schedparam mrp th p \<in> {0, - EINVAL}"
    by (simp add: raw_evl_chk_fifo_schedparam_def split: prod.split)
  moreover have "add_q mrp q (fifo_prio p) \<noteq> None"
    if "0 \<le> fifo_prio p" "fifo_prio p \<le> mrp + 1" "length (q_heads q) = nat (EVL_MLQ_LEVELS mrp)"
      "length (q_prio_map q) = nat (EVL_MLQ_LEVELS mrp)"
    using that assms by (simp add: add_q_def Let_def in_range_def get_qindex_def const_defs)
  ultimately show ?thesis
    using assms by (auto simp: raw_evl_get_fifo_schedparam_def raw_evl_track_fifo_priority_def fifo_prio_def
        split: if_splits)
qed

theorem fifo_param_check_is_exact_witness:
  "raw_evl_chk_fifo_schedparam 100 (sample_thread\<lparr>th_state := EVL_T_USER\<rparr>) \<lparr>sp_word0 = 100, sp_word1 = 0\<rparr> \<in> {0, - EINVAL} \<and>
   raw_evl_chk_fifo_schedparam 100 (sample_thread\<lparr>th_state := EVL_T_USER\<rparr>) \<lparr>sp_word0 = 100, sp_word1 = 0\<rparr> \<noteq> 0"
  using fifo_param_check_is_exact [of 100 "sample_thread\<lparr>th_state := EVL_T_USER\<rparr>" "\<lparr>sp_word0 = 100, sp_word1 = 0\<rparr>"
      "\<lparr>q_elems = 0, q_prio_map = [], q_heads = []\<rparr> :: nat mlq" 7 sample_kst "\<lparr>sp_word0 = 0, sp_word1 = 0\<rparr>"]
  by (auto simp: fifo_prio_def EVL_T_USER_def)

text \<open>C29. Weighted priorities order threads of different classes by the rank of the class first, then by
  priority: for classes weighted by \<open>EVL_CLASS_WEIGHT\<close> and priorities on the core scale (which the
  build check of \<open>queue.h\<close> keeps below the weight factor), comparing weighted priorities is
  comparing the pairs of rank and priority lexicographically.\<close>

theorem weighted_prio_is_lexicographic:
  assumes "mlq_levels_check mrp" and "sc_weight c1 = EVL_CLASS_WEIGHT n1" and "sc_weight c2 = EVL_CLASS_WEIGHT n2"
    and "EVL_CORE_MIN_PRIO \<le> p1" "p1 \<le> EVL_CORE_MAX_PRIO mrp" "EVL_CORE_MIN_PRIO \<le> p2" "p2 \<le> EVL_CORE_MAX_PRIO mrp"
  shows "evl_calc_weighted_prio c1 p1 < evl_calc_weighted_prio c2 p2 \<longleftrightarrow> n1 < n2 \<or> n1 = n2 \<and> p1 < p2"
proof -
  have b: "0 \<le> p1" "p1 < 1024" "0 \<le> p2" "p2 < 1024"
    using assms(4-) mrp_scale [OF assms(1)] by (simp_all add: const_defs)
  have "p1 + n1 * 1024 < p2 + n2 * 1024 \<longleftrightarrow> n1 < n2 \<or> n1 = n2 \<and> p1 < p2"
    using b by (cases n1 n2 rule: linorder_cases) auto
  then show ?thesis by (simp add: evl_calc_weighted_prio_def assms(2,3) const_defs)
qed

theorem weighted_prio_is_lexicographic_witness:
  "evl_calc_weighted_prio (sample_class\<lparr>sc_weight := EVL_CLASS_WEIGHT 3\<rparr>) 98 <
   evl_calc_weighted_prio (sample_class\<lparr>sc_weight := EVL_CLASS_WEIGHT 4\<rparr>) 1"
  using weighted_prio_is_lexicographic [of 100 "sample_class\<lparr>sc_weight := EVL_CLASS_WEIGHT 3\<rparr>" 3
      "sample_class\<lparr>sc_weight := EVL_CLASS_WEIGHT 4\<rparr>" 4 98 1]
  by (simp add: mlq_levels_check_def const_defs)

lemma track_updates_wprio:
  "th_wprio (k_threads (evl_track_priority e t p s) t) =
     evl_calc_weighted_prio (se_classes e (th_sched_class (k_threads (evl_track_priority e t p s) t)))
       (cprio_of (evl_track_priority e t p s) t)"
  by (simp add: evl_track_priority_def Let_def update_wprio_def)

lemma ceil_updates_wprio:
  "th_wprio (k_threads (evl_ceil_priority e t prio s) t) =
     evl_calc_weighted_prio (se_classes e (th_sched_class (k_threads (evl_ceil_priority e t prio s) t)))
       (cprio_of (evl_ceil_priority e t prio s) t)"
  by (simp add: evl_ceil_priority_def Let_def update_wprio_def)

section \<open>Yielding and the thread counts\<close>

lemma yield_refused:
  assumes "th_state (k_threads s (rq_curr (k_rqs s rq))) AND EVL_THREAD_BLOCK_BITS \<noteq> 0 \<or>
     th_sched_class (k_threads s (rq_curr (k_rqs s rq))) \<noteq> th_base_class (k_threads s (rq_curr (k_rqs s rq))) \<or>
     evl_preempt_count s \<noteq> 0"
    and "rq_lock (k_rqs s rq)" "k_irqs_off s"
  shows "evl_sched_yield e rq s = s"
  using assms by (auto simp: evl_sched_yield_def Let_def split: option.splits)

lemma declare_counts:
  assumes "pinned s t" and "sc_declare (se_classes e c) = None"
  shows "k_nthreads (snd (evl_declare_thread e c t p s)) =
    (if c = th_base_class (k_threads s t) then k_nthreads s else (k_nthreads s)(c := k_nthreads s c + 1))"
  using assms by (simp add: evl_declare_thread_def Let_def)

lemma failed_declare_counts_nothing:
  assumes "pinned s t" and "sc_declare (se_classes e c) = Some d" and "d t p s = (r, s')" and "r \<noteq> 0"
  shows "evl_declare_thread e c t p s = (r, s')"
  using assms by (simp add: evl_declare_thread_def Let_def)

end
