(* ===== verification/Thread_Ops.thy ===== *)
theory Thread_Ops
  imports Sched_Pin
begin

text \<open>
  The inline operations of \<open>include/evl/thread.h\<close> and \<open>monitor.h\<close>: the user window, locking two
  threads, cancellation, kernel threads; and the proof that the locking order excludes deadlocks.
\<close>

section \<open>The user window\<close>

definition upd_window :: "ptr \<Rightarrow> (evl_thread \<Rightarrow> evl_user_window \<Rightarrow> evl_user_window) \<Rightarrow> kst \<Rightarrow> kst" where
  "upd_window t f s = upd_thread t (\<lambda>th. th\<lparr>th_u_window := map_option (f th) (th_u_window th)\<rparr>) s"

definition evl_sync_uwindow :: "ptr \<Rightarrow> kst \<Rightarrow> kst" where
  "evl_sync_uwindow t = upd_window t (\<lambda>th w. w\<lparr>uw_state := th_state th, uw_info := th_info th\<rparr>)"

definition evl_clear_sync_uwindow :: "ptr \<Rightarrow> u32 \<Rightarrow> kst \<Rightarrow> kst" where
  "evl_clear_sync_uwindow t state_bits =
     upd_window t (\<lambda>th w. w\<lparr>uw_state := th_state th AND NOT state_bits, uw_info := th_info th\<rparr>)"

definition evl_set_sync_uwindow :: "ptr \<Rightarrow> u32 \<Rightarrow> kst \<Rightarrow> kst" where
  "evl_set_sync_uwindow t state_bits =
     upd_window t (\<lambda>th w. w\<lparr>uw_state := th_state th OR state_bits, uw_info := th_info th\<rparr>)"

section \<open>Locking two threads\<close>

definition evl_double_thread_lock :: "ptr \<Rightarrow> ptr \<Rightarrow> kst \<Rightarrow> kst option" where
  "evl_double_thread_lock t1 t2 s =
     (let s1 = EVL_WARN_ON_ONCE (t1 = t2) s;
          s2 = EVL_WARN_ON_ONCE (\<not> k_irqs_off s1) s1 in
      if t1 < t2 then Option.bind (lock_thread t1 s2) (lock_thread t2)
      else Option.bind (lock_thread t2 s2) (lock_thread t1))"

section \<open>The current thread\<close>

definition evl_current :: "kst \<Rightarrow> ptr option" where
  "evl_current s = os_thread (k_current s)"

definition evl_thread_rq :: "kst \<Rightarrow> ptr \<Rightarrow> ptr" where
  "evl_thread_rq s t = th_rq (k_threads s t)"

definition evl_current_rq :: "kst \<Rightarrow> ptr option" where
  "evl_current_rq s = map_option (evl_thread_rq s) (evl_current s)"

definition evl_thread_from_task :: "(ptr \<Rightarrow> oob_state) \<Rightarrow> ptr \<Rightarrow> ptr option" where
  "evl_thread_from_task dovetail_task_state p = os_thread (dovetail_task_state p)"

definition evl_test_cancel :: "(ptr \<Rightarrow> kst \<Rightarrow> kst) \<Rightarrow> kst \<Rightarrow> kst" where
  "evl_test_cancel raw_test_cancel s =
     (case evl_current s of
        Some cur \<Rightarrow> if th_info (k_threads s cur) AND EVL_T_CANCELD \<noteq> 0 then raw_test_cancel cur s else s
      | None \<Rightarrow> s)"

definition evl_get_subscriber :: "kst \<Rightarrow> ptr option" where
  "evl_get_subscriber s = os_subscriber (k_current s)"

definition evl_set_subscriber :: "ptr option \<Rightarrow> kst \<Rightarrow> kst" where
  "evl_set_subscriber sbr s = s\<lparr>k_current := (k_current s)\<lparr>os_subscriber := sbr\<rparr>\<rparr>"

definition evl_propagate_schedparam_change :: "(ptr \<Rightarrow> kst \<Rightarrow> kst) \<Rightarrow> ptr \<Rightarrow> kst \<Rightarrow> kst" where
  "evl_propagate_schedparam_change raw_propagate cur s =
     (if th_info (k_threads s cur) AND EVL_T_SCHEDP \<noteq> 0 then raw_propagate cur s else s)"

text \<open>\<open>monitor.h\<close>: a thread without a window would fault there: \<open>None\<close>.\<close>

definition evl_commit_monitor_ceiling :: "(kst \<Rightarrow> kst) \<Rightarrow> kst \<Rightarrow> kst option" where
  "evl_commit_monitor_ceiling raw_commit s =
     Option.bind (evl_current s) (\<lambda>cur.
       map_option (\<lambda>w. if uw_pp_pending w \<noteq> 0 then raw_commit s else s)
         (th_u_window (k_threads s cur)))"

section \<open>Kernel threads\<close>

record evl_kthread =
  kt_thread :: ptr
  kt_done :: bool
  kt_threadfn :: ptr
  kt_status :: int
  kt_arg :: ptr
  kt_irq_work :: ptr

text \<open>
  \<open>_evl_run_kthread\<close>: the thread is described to \<open>evl_init_thread\<close> as a FIFO one of the given
  priority, then started; both are functions of \<open>thread.c\<close>.
\<close>

definition evl_run_kthread_attr :: "ptr \<Rightarrow> nat set \<Rightarrow> int \<Rightarrow> evl_init_thread_attr" where
  "evl_run_kthread_attr evl_sched_fifo affinity priority =
     \<lparr>ia_affinity = affinity, ia_observable = None, ia_flags = 0, ia_sched_class = evl_sched_fifo,
      ia_sched_param = \<lparr>sp_word0 = priority, sp_word1 = 0\<rparr>\<rparr>"

definition raw_evl_run_kthread ::
    "ptr \<Rightarrow> (ptr \<Rightarrow> evl_init_thread_attr \<Rightarrow> ptr option \<Rightarrow> string \<Rightarrow> kst \<Rightarrow> int \<times> kst) \<Rightarrow>
     (evl_kthread \<Rightarrow> int \<Rightarrow> kst \<Rightarrow> int \<times> kst) \<Rightarrow> evl_kthread \<Rightarrow> nat set \<Rightarrow> ptr \<Rightarrow> ptr \<Rightarrow> int \<Rightarrow> int \<Rightarrow> string \<Rightarrow>
     kst \<Rightarrow> int \<times> evl_kthread \<times> kst" where
  "raw_evl_run_kthread evl_sched_fifo init_thread run kthread affinity fn arg priority clone_flags name s =
     (let kt = kthread\<lparr>kt_threadfn := fn, kt_arg := arg, kt_status := 0, kt_done := False\<rparr>;
          (ret, s1) = init_thread (kt_thread kt) (evl_run_kthread_attr evl_sched_fifo affinity priority) None name s
      in if ret = 0 then (let (ret', s2) = run kt clone_flags s1 in (ret', kt, s2)) else (ret, kt, s1))"

definition evl_run_kthread where
  "evl_run_kthread evl_oob_cpus evl_sched_fifo init_thread run kthread fn arg priority clone_flags name s =
     raw_evl_run_kthread evl_sched_fifo init_thread run kthread evl_oob_cpus fn arg priority clone_flags name s"

definition evl_run_kthread_on_cpu where
  "evl_run_kthread_on_cpu cpu evl_sched_fifo init_thread run kthread fn arg priority clone_flags name s =
     raw_evl_run_kthread evl_sched_fifo init_thread run kthread {cpu} fn arg priority clone_flags name s"

definition evl_stop_kthread :: "(ptr \<Rightarrow> kst \<Rightarrow> kst) \<Rightarrow> (ptr \<Rightarrow> bool \<Rightarrow> kst \<Rightarrow> int \<times> kst) \<Rightarrow> evl_kthread \<Rightarrow> kst \<Rightarrow> kst" where
  "evl_stop_kthread cancel_thread join_thread kthread s =
     snd (join_thread (kt_thread kthread) True (cancel_thread (kt_thread kthread) s))"

text \<open>Called by a kernel thread, which has a current thread.\<close>

definition evl_kthread_should_stop :: "kst \<Rightarrow> bool option" where
  "evl_kthread_should_stop s =
     map_option (\<lambda>cur. th_info (k_threads s cur) AND EVL_T_CANCELD \<noteq> 0) (evl_current s)"

definition evl_unblock_kthread :: "(ptr \<Rightarrow> int \<Rightarrow> kst \<Rightarrow> kst) \<Rightarrow> evl_kthread \<Rightarrow> int \<Rightarrow> kst \<Rightarrow> kst" where
  "evl_unblock_kthread unblock_thread kthread reason s = unblock_thread (kt_thread kthread) reason s"

definition evl_join_kthread :: "(ptr \<Rightarrow> bool \<Rightarrow> kst \<Rightarrow> int \<times> kst) \<Rightarrow> evl_kthread \<Rightarrow> bool \<Rightarrow> kst \<Rightarrow> int \<times> kst" where
  "evl_join_kthread join_thread kthread uninterruptible s = join_thread (kt_thread kthread) uninterruptible s"

text \<open>\<open>container_of\<close> on the embedded thread: its kernel thread has the same name here.\<close>

definition evl_current_kthread :: "kst \<Rightarrow> ptr option" where
  "evl_current_kthread s =
     (case evl_current s of
        None \<Rightarrow> None
      | Some t \<Rightarrow> if th_state (k_threads s t) AND EVL_T_USER \<noteq> 0 then None else Some t)"

section \<open>CPUs locking pairs of threads\<close>

text \<open>
  Any number of CPUs run \<open>evl_double_thread_lock\<close> at once: \<open>todo c\<close> are the locks CPU \<open>c\<close> has still to
  take, in the order of the code, and \<open>owner\<close> says who holds each lock. A CPU with both its locks
  releases them in any order.
\<close>

definition double_lock_order :: "ptr \<Rightarrow> ptr \<Rightarrow> ptr list" where
  "double_lock_order t1 t2 = (if t1 < t2 then [t1, t2] else [t2, t1])"

type_synonym lock_state = "(ptr \<Rightarrow> nat option) \<times> (nat \<Rightarrow> ptr list)"

inductive lock_step :: "lock_state \<Rightarrow> lock_state \<Rightarrow> bool" where
  acquire: "todo c = l # ls \<Longrightarrow> own l = None \<Longrightarrow>
    lock_step (own, todo) (own(l := Some c), todo(c := ls))"
| release: "todo c = [] \<Longrightarrow> own l = Some c \<Longrightarrow> lock_step (own, todo) (own(l := None), todo)"

inductive_cases lock_stepE: "lock_step (own, todo) s'"

definition lock_init :: "nat set \<Rightarrow> (nat \<Rightarrow> ptr \<times> ptr) \<Rightarrow> lock_state" where
  "lock_init cpus req =
     (\<lambda>_. None, \<lambda>c. if c \<in> cpus then double_lock_order (fst (req c)) (snd (req c)) else [])"

definition lock_done :: "lock_state \<Rightarrow> bool" where
  "lock_done s \<longleftrightarrow> (\<forall>c. snd s c = []) \<and> (\<forall>l. fst s l = None)"

text \<open>A CPU takes its locks in increasing address order.\<close>

definition lock_inv :: "nat set \<Rightarrow> lock_state \<Rightarrow> bool" where
  "lock_inv cpus = (\<lambda>(own, todo).
     (\<forall>c. sorted_wrt (<) (todo c)) \<and> (\<forall>l c. own l = Some c \<longrightarrow> (\<forall>l' \<in> set (todo c). l < l')) \<and>
     finite (dom own) \<and> (\<forall>c. c \<notin> cpus \<longrightarrow> todo c = []))"

lemma lock_inv_step: "lock_step s s' \<Longrightarrow> lock_inv cpus s \<Longrightarrow> lock_inv cpus s'"
proof (induction rule: lock_step.induct)
  case (acquire todo c l ls own)
  have "sorted_wrt (<) (l # ls)" using acquire by (metis (mono_tags, lifting) case_prodD lock_inv_def)
  moreover have "c \<in> cpus" using acquire by (auto simp: lock_inv_def)
  ultimately show ?case using acquire by (auto simp: lock_inv_def)
next
  case (release todo c own l)
  then show ?case by (auto simp: lock_inv_def)
qed

lemma lock_inv_init:
  assumes "\<forall>c \<in> cpus. fst (req c) \<noteq> snd (req c)"
  shows "lock_inv cpus (lock_init cpus req)"
  using assms by (auto simp: lock_inv_def lock_init_def double_lock_order_def)

lemma lock_progress:
  assumes "lock_inv cpus (own, todo)" and "\<not> lock_done (own, todo)"
  shows "\<exists>s'. lock_step (own, todo) s'"
proof (cases "dom own = {}")
  case True
  with assms(2) obtain c l ls where "todo c = l # ls" by (auto simp: lock_done_def) (meson list.exhaust)
  with True show ?thesis by (auto intro: lock_step.acquire)
next
  case False
  let ?m = "Max (dom own)"
  have fin: "finite (dom own)" using assms(1) by (simp add: lock_inv_def)
  with False have "?m \<in> dom own" by (rule Max_in [rotated])
  then obtain c where c: "own ?m = Some c" by auto
  show ?thesis
  proof (cases "todo c")
    case Nil
    then show ?thesis using c by (auto intro: lock_step.release)
  next
    case (Cons l ls)
    with assms(1) c have "?m < l" by (auto simp: lock_inv_def)
    then have "own l = None" using fin Max_ge [of _ l] by fastforce
    with Cons show ?thesis by (auto intro: lock_step.acquire)
  qed
qed

text \<open>Every step shortens the work left: twice the locks to take, plus the locks to release.\<close>

definition lock_work :: "nat set \<Rightarrow> lock_state \<Rightarrow> nat" where
  "lock_work cpus = (\<lambda>(own, todo). 2 * (\<Sum>c \<in> cpus. length (todo c)) + card (dom own))"

lemma lock_work_step:
  assumes "finite cpus"
  shows "lock_step s s' \<Longrightarrow> lock_inv cpus s \<Longrightarrow> lock_work cpus s' < lock_work cpus s"
proof (induction rule: lock_step.induct)
  case (acquire todo c l ls own)
  then have c: "c \<in> cpus" and fin: "finite (dom own)" by (auto simp: lock_inv_def)
  have "card (dom (own(l := Some c))) \<le> Suc (card (dom own))"
    using fin by (simp add: card_insert_if)
  moreover have "(\<Sum>x \<in> cpus. length (todo x)) = length (l # ls) + (\<Sum>x \<in> cpus - {c}. length (todo x))"
    using assms c acquire.hyps(1) by (simp add: sum.remove)
  moreover have "(\<Sum>x \<in> cpus. length ((todo(c := ls)) x)) = length ls + (\<Sum>x \<in> cpus - {c}. length (todo x))"
    using assms c by (simp add: sum.remove)
  ultimately show ?case by (simp add: lock_work_def)
next
  case (release todo c own l)
  then have fin: "finite (dom own)" by (simp add: lock_inv_def)
  have "dom (own(l := None)) = dom own - {l}" by auto
  with fin release.hyps(2) domI [of own l c] have "card (dom (own(l := None))) < card (dom own)"
    by (simp only: card_Diff1_less)
  then show ?case by (simp add: lock_work_def)
qed

lemma double_lock_follows_order:
  "evl_double_thread_lock t1 t2 s =
     fold (\<lambda>t r. Option.bind r (lock_thread t)) (double_lock_order t1 t2)
       (Some (EVL_WARN_ON_ONCE (\<not> k_irqs_off s) (EVL_WARN_ON_ONCE (t1 = t2) s)))"
  by (simp add: evl_double_thread_lock_def double_lock_order_def Let_def)

lemma lock_reach_inv:
  "lock_step\<^sup>*\<^sup>* s s' \<Longrightarrow> lock_inv cpus s \<Longrightarrow> lock_inv cpus s'"
  by (induction rule: rtranclp_induct) (simp_all add: lock_inv_step)

lemma lock_reach_work:
  assumes "finite cpus" and "lock_inv cpus s" and "(lock_step ^^ n) s s'"
  shows "lock_work cpus s' + n \<le> lock_work cpus s"
  using assms(3)
proof (induction n arbitrary: s')
  case (Suc n)
  then obtain s1 where s1: "(lock_step ^^ n) s s1" "lock_step s1 s'" by auto
  then have "lock_inv cpus s1" using lock_reach_inv [OF relpowp_imp_rtranclp assms(2)] by blast
  with lock_work_step [OF assms(1) s1(2)] Suc.IH [OF s1(1)] show ?case by simp
qed simp

lemma lock_work_init:
  assumes "finite cpus"
  shows "lock_work cpus (lock_init cpus req) = 4 * card cpus"
proof -
  have "(\<Sum>c \<in> cpus. length (snd (lock_init cpus req) c)) = (\<Sum>c \<in> cpus. 2)"
    by (rule sum.cong) (simp_all add: lock_init_def double_lock_order_def)
  then show ?thesis by (simp add: lock_work_def lock_init_def)
qed

text \<open>C7. \<open>evl_double_thread_lock\<close> cannot deadlock: it takes its two locks in the order of their
  addresses, and however any number of CPUs that lock pairs of distinct threads interleave, every
  reachable state in which some CPU still waits or holds a lock has a next step, and no run is longer
  than four steps per CPU; so all the CPUs get both their locks and release them.\<close>

theorem double_lock_never_deadlocks:
  assumes "finite cpus" and "\<forall>c \<in> cpus. fst (req c) \<noteq> snd (req c)" and "(lock_step ^^ n) (lock_init cpus req) s"
  shows "(lock_done s \<or> (\<exists>s'. lock_step s s')) \<and> n \<le> 4 * card cpus \<and>
    evl_double_thread_lock t1 t2 k =
     fold (\<lambda>t r. Option.bind r (lock_thread t)) (double_lock_order t1 t2)
       (Some (EVL_WARN_ON_ONCE (\<not> k_irqs_off k) (EVL_WARN_ON_ONCE (t1 = t2) k)))"
proof -
  obtain own todo where s: "s = (own, todo)" by fastforce
  note inv = lock_inv_init [OF assms(2)]
  have "lock_inv cpus (own, todo)"
    using lock_reach_inv [OF relpowp_imp_rtranclp [OF assms(3)] inv] s by simp
  with lock_progress have "lock_done s \<or> (\<exists>s'. lock_step s s')" unfolding s by blast
  moreover have "n \<le> 4 * card cpus"
    using lock_reach_work [OF assms(1) inv assms(3)] lock_work_init [OF assms(1)] by simp
  ultimately show ?thesis by (simp add: double_lock_follows_order)
qed

theorem double_lock_never_deadlocks_witness:
  "\<exists>s'. lock_step (lock_init {0, 1} (\<lambda>c. if c = 0 then (7, 8) else (8, 7))) s'"
proof -
  have "\<not> lock_done (lock_init {0, 1} (\<lambda>c. if c = 0 then (7, 8) else (8, 7)))"
    by (auto simp: lock_done_def lock_init_def double_lock_order_def)
  then show ?thesis
    using double_lock_never_deadlocks [of "{0, 1}" "\<lambda>c. if c = 0 then (7, 8) else (8, 7)" 0
        "lock_init {0, 1} (\<lambda>c. if c = 0 then (7, 8) else (8, 7))" 7 8 sample_kst]
    by auto
qed

text \<open>The user window mirrors the thread: each of the three synchronizations writes the state of the
  thread, without the given bits or with them, and its information bits to the window when there is
  one, leaves the ceiling request of the user in place, and changes nothing else of the core: in
  particular not the state of the thread itself, so that a plain synchronization afterwards undoes the
  temporary view.\<close>

lemma uwindow_mirrors_thread:
  "th_u_window (k_threads (evl_sync_uwindow t s) t) =
     map_option (\<lambda>w. \<lparr>uw_state = th_state (k_threads s t), uw_info = th_info (k_threads s t),
       uw_pp_pending = uw_pp_pending w\<rparr>) (th_u_window (k_threads s t)) \<and>
   th_u_window (k_threads (evl_clear_sync_uwindow t b s) t) =
     map_option (\<lambda>w. \<lparr>uw_state = th_state (k_threads s t) AND NOT b, uw_info = th_info (k_threads s t),
       uw_pp_pending = uw_pp_pending w\<rparr>) (th_u_window (k_threads s t)) \<and>
   th_u_window (k_threads (evl_set_sync_uwindow t b s) t) =
     map_option (\<lambda>w. \<lparr>uw_state = th_state (k_threads s t) OR b, uw_info = th_info (k_threads s t),
       uw_pp_pending = uw_pp_pending w\<rparr>) (th_u_window (k_threads s t)) \<and>
   evl_sync_uwindow t (evl_clear_sync_uwindow t b s) = evl_sync_uwindow t s \<and>
   evl_sync_uwindow t (evl_set_sync_uwindow t b s) = evl_sync_uwindow t s"
  by (auto simp: evl_sync_uwindow_def evl_clear_sync_uwindow_def evl_set_sync_uwindow_def upd_window_def
      upd_thread_def option.map_comp comp_def intro!: option.map_cong)

end
