(* ===== verification/Evl_Sync.thy ===== *)
theory Evl_Sync
  imports Evl_Wait Thread_Ops
begin

text \<open>
  Synchronization services over wait queues: flags (\<open>include/evl/flag.h\<close>), kernel semaphores
  (\<open>sem.h\<close>), mutexes (\<open>mutex.h\<close>) and preemption-aware spinlocks (\<open>lock.h\<close>). What \<open>wait.c\<close>,
  \<open>mutex.c\<close> and \<open>sem.c\<close> provide is an argument. A spin on a lock which is held is \<open>None\<close>.
\<close>

section \<open>Flags\<close>

record evl_flag =
  fl_wait :: evl_wait_queue
  fl_raised :: bool

definition EVL_FLAG_INITIALIZER :: "ptr \<Rightarrow> ptr \<Rightarrow> string \<Rightarrow> evl_flag" where
  "EVL_FLAG_INITIALIZER evl_mono_clock evl_requeue_wait name =
     \<lparr>fl_wait = EVL_WAIT_INITIALIZER evl_mono_clock evl_requeue_wait name, fl_raised = False\<rparr>"

definition evl_init_flag :: "(ptr \<Rightarrow> u32 \<Rightarrow> string \<Rightarrow> evl_wait_queue) \<Rightarrow> ptr \<Rightarrow> evl_flag" where
  "evl_init_flag raw_init_wait evl_mono_clock =
     \<lparr>fl_wait = evl_init_wait raw_init_wait evl_mono_clock EVL_WAIT_PRIO ''&wf->wait'', fl_raised = False\<rparr>"

definition evl_init_flag_on_stack :: "(ptr \<Rightarrow> u32 \<Rightarrow> string \<Rightarrow> evl_wait_queue) \<Rightarrow> ptr \<Rightarrow> evl_flag" where
  "evl_init_flag_on_stack raw_init_wait evl_mono_clock =
     \<lparr>fl_wait = evl_init_wait_on_stack raw_init_wait evl_mono_clock EVL_WAIT_PRIO ''&wf->wait'', fl_raised = False\<rparr>"

definition evl_destroy_flag :: "(evl_wait_queue \<Rightarrow> kst \<Rightarrow> evl_wait_queue \<times> kst) \<Rightarrow> evl_flag \<times> kst \<Rightarrow> evl_flag \<times> kst" where
  "evl_destroy_flag destroy_wait = (\<lambda>(fl, k).
     let (w, k') = destroy_wait (fl_wait fl) k in (fl\<lparr>fl_wait := w\<rparr>, k'))"

definition evl_peek_flag :: "evl_flag \<Rightarrow> bool" where
  "evl_peek_flag fl = fl_raised fl"

definition evl_read_flag :: "evl_flag \<Rightarrow> bool \<times> evl_flag" where
  "evl_read_flag fl = (if fl_raised fl then (True, fl\<lparr>fl_raised := False\<rparr>) else (False, fl))"

definition set_flag_lock :: "bool \<Rightarrow> evl_flag \<Rightarrow> evl_flag" where
  "set_flag_lock b fl =
     fl\<lparr>fl_wait := (fl_wait fl)\<lparr>wq_wchan := (wq_wchan (fl_wait fl))\<lparr>wc_lock := b\<rparr>\<rparr>\<rparr>"

definition evl_lock_flag :: "evl_flag \<times> kst \<Rightarrow> (bool \<times> evl_flag \<times> kst) option" where
  "evl_lock_flag = (\<lambda>(fl, k).
     if wc_lock (wq_wchan (fl_wait fl)) then None
     else Some (k_irqs_off k, set_flag_lock True fl, k\<lparr>k_irqs_off := True\<rparr>))"

definition evl_unlock_flag :: "bool \<Rightarrow> evl_flag \<times> kst \<Rightarrow> evl_flag \<times> kst" where
  "evl_unlock_flag flags = (\<lambda>(fl, k). (set_flag_lock False fl, k\<lparr>k_irqs_off := flags\<rparr>))"

definition evl_wait_flag_timeout :: "(evl_flag \<times> kst) wait_ops \<Rightarrow> ktime \<Rightarrow> evl_tmode \<Rightarrow> evl_flag \<times> kst \<Rightarrow> (int \<times> evl_flag \<times> kst) option" where
  "evl_wait_flag_timeout w timeout tmode s =
     evl_wait_event_timeout w (\<lambda>(fl, k). let (b, fl') = evl_read_flag fl in (b, fl', k)) timeout tmode s"

definition evl_wait_flag :: "(evl_flag \<times> kst) wait_ops \<Rightarrow> evl_flag \<times> kst \<Rightarrow> (int \<times> evl_flag \<times> kst) option" where
  "evl_wait_flag w s = evl_wait_flag_timeout w EVL_INFINITE EVL_REL s"

definition evl_wait_flag_head :: "(evl_wait_queue \<Rightarrow> ptr option) \<Rightarrow> evl_flag \<Rightarrow> ptr option" where
  "evl_wait_flag_head wait_head fl = wait_head (fl_wait fl)"

type_synonym flush_fn = "evl_wait_queue \<Rightarrow> u32 \<Rightarrow> kst \<Rightarrow> evl_wait_queue \<times> kst"

definition evl_flush_flag_locked :: "flush_fn \<Rightarrow> u32 \<Rightarrow> evl_flag \<times> kst \<Rightarrow> evl_flag \<times> kst" where
  "evl_flush_flag_locked flush reason = (\<lambda>(fl, k).
     let (w, k') = flush (fl_wait fl) reason k in (fl\<lparr>fl_wait := w\<rparr>, k'))"

definition evl_raise_flag_locked :: "flush_fn \<Rightarrow> evl_flag \<times> kst \<Rightarrow> evl_flag \<times> kst" where
  "evl_raise_flag_locked flush = (\<lambda>(fl, k).
     let fl1 = fl\<lparr>fl_raised := True\<rparr>; (w, k') = flush (fl_wait fl1) 0 k in (fl1\<lparr>fl_wait := w\<rparr>, k'))"

definition flag_section :: "(evl_flag \<times> kst \<Rightarrow> evl_flag \<times> kst) \<Rightarrow> evl_flag \<times> kst \<Rightarrow> (evl_flag \<times> kst) option" where
  "flag_section body s = map_option (\<lambda>(flags, s1). evl_unlock_flag flags (body s1)) (evl_lock_flag s)"

definition evl_raise_flag_nosched :: "flush_fn \<Rightarrow> evl_flag \<times> kst \<Rightarrow> (evl_flag \<times> kst) option" where
  "evl_raise_flag_nosched flush = flag_section (evl_raise_flag_locked flush)"

definition evl_raise_flag :: "flush_fn \<Rightarrow> (kst \<Rightarrow> kst) \<Rightarrow> evl_flag \<times> kst \<Rightarrow> (evl_flag \<times> kst) option" where
  "evl_raise_flag flush schedule s = map_option (map_prod id schedule) (evl_raise_flag_nosched flush s)"

definition evl_flush_flag_nosched :: "flush_fn \<Rightarrow> u32 \<Rightarrow> evl_flag \<times> kst \<Rightarrow> (evl_flag \<times> kst) option" where
  "evl_flush_flag_nosched flush reason = flag_section (evl_flush_flag_locked flush reason)"

definition evl_flush_flag :: "flush_fn \<Rightarrow> (kst \<Rightarrow> kst) \<Rightarrow> u32 \<Rightarrow> evl_flag \<times> kst \<Rightarrow> (evl_flag \<times> kst) option" where
  "evl_flush_flag flush schedule reason s = map_option (map_prod id schedule) (evl_flush_flag_nosched flush reason s)"

definition evl_pulse_flag_locked :: "flush_fn \<Rightarrow> evl_flag \<times> kst \<Rightarrow> evl_flag \<times> kst" where
  "evl_pulse_flag_locked flush = evl_flush_flag_locked flush EVL_T_BCAST"

definition evl_pulse_flag_nosched :: "flush_fn \<Rightarrow> evl_flag \<times> kst \<Rightarrow> (evl_flag \<times> kst) option" where
  "evl_pulse_flag_nosched flush = evl_flush_flag_nosched flush EVL_T_BCAST"

definition evl_pulse_flag :: "flush_fn \<Rightarrow> (kst \<Rightarrow> kst) \<Rightarrow> evl_flag \<times> kst \<Rightarrow> (evl_flag \<times> kst) option" where
  "evl_pulse_flag flush schedule = evl_flush_flag flush schedule EVL_T_BCAST"

definition evl_clear_flag :: "evl_flag \<Rightarrow> evl_flag" where
  "evl_clear_flag fl = fl\<lparr>fl_raised := False\<rparr>"

section \<open>Kernel semaphores\<close>

record evl_ksem =
  ks_wait :: evl_wait_queue
  ks_value :: u32

definition EVL_KSEM_INITIALIZER :: "ptr \<Rightarrow> ptr \<Rightarrow> string \<Rightarrow> u32 \<Rightarrow> evl_ksem" where
  "EVL_KSEM_INITIALIZER evl_mono_clock evl_requeue_wait name v =
     \<lparr>ks_wait = EVL_WAIT_INITIALIZER evl_mono_clock evl_requeue_wait name, ks_value = v\<rparr>"

definition evl_init_ksem :: "(ptr \<Rightarrow> u32 \<Rightarrow> string \<Rightarrow> evl_wait_queue) \<Rightarrow> ptr \<Rightarrow> u32 \<Rightarrow> evl_ksem" where
  "evl_init_ksem raw_init_wait evl_mono_clock v =
     \<lparr>ks_wait = evl_init_wait raw_init_wait evl_mono_clock EVL_WAIT_PRIO ''&ksem->wait'', ks_value = v\<rparr>"

definition evl_destroy_ksem :: "(evl_wait_queue \<Rightarrow> kst \<Rightarrow> evl_wait_queue \<times> kst) \<Rightarrow> evl_ksem \<times> kst \<Rightarrow> evl_ksem \<times> kst" where
  "evl_destroy_ksem destroy_wait = (\<lambda>(ksem, k).
     let (w, k') = destroy_wait (ks_wait ksem) k in (ksem\<lparr>ks_wait := w\<rparr>, k'))"

section \<open>Mutexes\<close>

definition EVL_MUTEX_PI :: u32 where [flag_defs]: "EVL_MUTEX_PI = 1"
definition EVL_MUTEX_PP :: u32 where [flag_defs]: "EVL_MUTEX_PP = 2"
definition EVL_MUTEX_PIBOOST :: u32 where [flag_defs]: "EVL_MUTEX_PIBOOST = 4"
definition EVL_MUTEX_CEILING :: u32 where [flag_defs]: "EVL_MUTEX_CEILING = 8"
definition EVL_MUTEX_COUNTED :: u32 where [flag_defs]: "EVL_MUTEX_COUNTED = 16"

record evl_mutex_boost =
  bo_sched_class :: "ptr option"
  bo_param :: evl_sched_param
  bo_wprio :: int

record evl_mutex =
  mx_fastlock :: ptr
  mx_flags :: u32
  mx_ceiling_addr :: "ptr option"
  mx_wchan :: evl_wait_channel
  mx_boost :: evl_mutex_boost
  mx_clock :: ptr

text \<open>Handles (\<open>uapi/evl/types.h\<close>): the two top bits of a fast lock word are status bits.\<close>

type_synonym fundle = u32

definition EVL_NO_HANDLE :: fundle where [flag_defs]: "EVL_NO_HANDLE = 0"
definition EVL_MUTEX_FLCLAIM :: fundle where [flag_defs]: "EVL_MUTEX_FLCLAIM = 0x80000000"
definition EVL_MUTEX_FLCEIL :: fundle where [flag_defs]: "EVL_MUTEX_FLCEIL = 0x40000000"
definition EVL_HANDLE_INDEX_MASK :: fundle where [flag_defs]:
  "EVL_HANDLE_INDEX_MASK = EVL_MUTEX_FLCLAIM OR EVL_MUTEX_FLCEIL"

definition evl_get_index :: "fundle \<Rightarrow> fundle" where
  "evl_get_index handle = handle AND NOT EVL_HANDLE_INDEX_MASK"

definition evl_is_mutex_owner :: "fundle \<Rightarrow> fundle \<Rightarrow> bool" where
  "evl_is_mutex_owner fastlock ownerh \<longleftrightarrow> evl_get_index fastlock = ownerh"

text \<open>Initialization: \<open>init\<close> is \<open>__evl_init_mutex\<close>.\<close>

type_synonym mutex_init = "ptr \<Rightarrow> ptr \<Rightarrow> ptr option \<Rightarrow> string \<Rightarrow> evl_mutex"

definition evl_init_mutex :: "mutex_init \<Rightarrow> ptr \<Rightarrow> ptr \<Rightarrow> ptr option \<Rightarrow> string \<Rightarrow> evl_mutex" where
  "evl_init_mutex init clock fastlock ceiling name = init clock fastlock ceiling name"

definition evl_init_mutex_pi :: "mutex_init \<Rightarrow> ptr \<Rightarrow> ptr \<Rightarrow> string \<Rightarrow> evl_mutex" where
  "evl_init_mutex_pi init clock fastlock name = evl_init_mutex init clock fastlock None name"

definition evl_init_mutex_pp :: "mutex_init \<Rightarrow> ptr \<Rightarrow> ptr \<Rightarrow> ptr \<Rightarrow> string \<Rightarrow> evl_mutex" where
  "evl_init_mutex_pp init clock fastlock ceiling name = evl_init_mutex init clock fastlock (Some ceiling) name"

definition evl_lock_mutex :: "('m \<Rightarrow> ktime \<Rightarrow> evl_tmode \<Rightarrow> 's \<Rightarrow> int \<times> 's) \<Rightarrow> 'm \<Rightarrow> 's \<Rightarrow> int \<times> 's" where
  "evl_lock_mutex lock_mutex_timeout mutex s = lock_mutex_timeout mutex EVL_INFINITE EVL_REL s"

text \<open>A kernel mutex has its fast lock word next to it.\<close>

record evl_kmutex =
  km_mutex :: evl_mutex
  km_fastlock :: u32

definition evl_init_kmutex :: "mutex_init \<Rightarrow> ptr \<Rightarrow> ptr \<Rightarrow> evl_kmutex" where
  "evl_init_kmutex init evl_mono_clock fastlock =
     \<lparr>km_mutex = evl_init_mutex_pi init evl_mono_clock fastlock ''&kmutex->mutex'', km_fastlock = 0\<rparr>"

definition evl_destroy_kmutex :: "(evl_mutex \<Rightarrow> 's \<Rightarrow> 's) \<Rightarrow> evl_kmutex \<Rightarrow> 's \<Rightarrow> 's" where
  "evl_destroy_kmutex destroy_mutex kmutex s = destroy_mutex (km_mutex kmutex) s"

definition evl_trylock_kmutex :: "(evl_mutex \<Rightarrow> 's \<Rightarrow> int \<times> 's) \<Rightarrow> evl_kmutex \<Rightarrow> 's \<Rightarrow> int \<times> 's" where
  "evl_trylock_kmutex trylock_mutex kmutex s = trylock_mutex (km_mutex kmutex) s"

definition evl_lock_kmutex :: "(evl_mutex \<Rightarrow> ktime \<Rightarrow> evl_tmode \<Rightarrow> 's \<Rightarrow> int \<times> 's) \<Rightarrow> evl_kmutex \<Rightarrow> 's \<Rightarrow> int \<times> 's" where
  "evl_lock_kmutex lock_mutex_timeout kmutex s = evl_lock_mutex lock_mutex_timeout (km_mutex kmutex) s"

definition evl_unlock_kmutex :: "(evl_mutex \<Rightarrow> 's \<Rightarrow> 's) \<Rightarrow> evl_kmutex \<Rightarrow> 's \<Rightarrow> 's" where
  "evl_unlock_kmutex unlock_mutex kmutex s = unlock_mutex (km_mutex kmutex) s"

text \<open>\<open>clamp\<close> on unsigned 32 bit values, of the word user space may write; the bounds must be ordered.\<close>

definition clamp :: "u32 \<Rightarrow> u32 \<Rightarrow> u32 \<Rightarrow> u32" where
  "clamp val lo hi = (let m = (if val > lo then val else lo) in if m < hi then m else hi)"

definition evl_ceiling_priority :: "int \<Rightarrow> u32 \<Rightarrow> int" where
  "evl_ceiling_priority mrp ceiling = sint (clamp ceiling 1 (word_of_int (EVL_FIFO_MAX_PRIO mrp)))"

section \<open>Preemption-aware spinlocks\<close>

text \<open>The locks are the set of addresses held by this CPU; the assertion of the debug build included.\<close>

type_synonym lock_st = "ptr set \<times> kst"

definition evl_spin_lock_check :: "bool \<Rightarrow> kst \<Rightarrow> kst" where
  "evl_spin_lock_check irqs_disabled s =
     EVL_WARN_ON_ONCE (\<not> (k_running_oob s \<or> irqs_disabled \<or> k_irqs_off s)) s"

definition raw_evl_spin_lock :: "ptr \<Rightarrow> lock_st \<Rightarrow> lock_st option" where
  "raw_evl_spin_lock l = (\<lambda>(held, s).
     let s1 = evl_disable_preempt s in if l \<in> held then None else Some (insert l held, s1))"

definition evl_spin_lock :: "bool \<Rightarrow> ptr \<Rightarrow> lock_st \<Rightarrow> lock_st option" where
  "evl_spin_lock irqs_disabled l = (\<lambda>(held, s). raw_evl_spin_lock l (held, evl_spin_lock_check irqs_disabled s))"

text \<open>The subclass of a nested lock only tells the lock validator about the nesting.\<close>

definition raw_evl_spin_lock_nested :: "ptr \<Rightarrow> int \<Rightarrow> lock_st \<Rightarrow> lock_st option" where
  "raw_evl_spin_lock_nested l subclass = (\<lambda>(held, s).
     let s1 = evl_disable_preempt s in if l \<in> held then None else Some (insert l held, s1))"

definition evl_spin_lock_nested :: "bool \<Rightarrow> ptr \<Rightarrow> int \<Rightarrow> lock_st \<Rightarrow> lock_st option" where
  "evl_spin_lock_nested irqs_disabled l subclass = (\<lambda>(held, s).
     raw_evl_spin_lock_nested l subclass (held, evl_spin_lock_check irqs_disabled s))"

text \<open>A failed trylock leaves preemption disabled, as the code does.\<close>

definition raw_evl_spin_trylock :: "ptr \<Rightarrow> lock_st \<Rightarrow> bool \<times> lock_st" where
  "raw_evl_spin_trylock l = (\<lambda>(held, s).
     let s1 = evl_disable_preempt s in if l \<in> held then (False, held, s1) else (True, insert l held, s1))"

definition evl_spin_trylock :: "bool \<Rightarrow> ptr \<Rightarrow> lock_st \<Rightarrow> bool \<times> lock_st" where
  "evl_spin_trylock irqs_disabled l = (\<lambda>(held, s).
     raw_evl_spin_trylock l (held, evl_spin_lock_check irqs_disabled s))"

definition evl_spin_unlock :: "(kst \<Rightarrow> kst) \<Rightarrow> ptr \<Rightarrow> lock_st \<Rightarrow> lock_st" where
  "evl_spin_unlock schedule l = (\<lambda>(held, s). (held - {l}, evl_enable_preempt schedule s))"

definition evl_spin_lock_irq :: "ptr \<Rightarrow> lock_st \<Rightarrow> lock_st option" where
  "evl_spin_lock_irq l = (\<lambda>(held, s).
     let s1 = (evl_disable_preempt s)\<lparr>k_irqs_off := True\<rparr>
     in if l \<in> held then None else Some (insert l held, s1))"

definition evl_spin_unlock_irq :: "(kst \<Rightarrow> kst) \<Rightarrow> ptr \<Rightarrow> lock_st \<Rightarrow> lock_st" where
  "evl_spin_unlock_irq schedule l = (\<lambda>(held, s).
     (held - {l}, evl_enable_preempt schedule (s\<lparr>k_irqs_off := False\<rparr>)))"

definition evl_spin_lock_irqsave :: "ptr \<Rightarrow> lock_st \<Rightarrow> (bool \<times> lock_st) option" where
  "evl_spin_lock_irqsave l = (\<lambda>(held, s).
     let s1 = evl_disable_preempt s
     in if l \<in> held then None else Some (k_irqs_off s1, insert l held, s1\<lparr>k_irqs_off := True\<rparr>))"

definition evl_spin_unlock_irqrestore :: "(kst \<Rightarrow> kst) \<Rightarrow> ptr \<Rightarrow> bool \<Rightarrow> lock_st \<Rightarrow> lock_st" where
  "evl_spin_unlock_irqrestore schedule l flags = (\<lambda>(held, s).
     (held - {l}, evl_enable_preempt schedule (s\<lparr>k_irqs_off := flags\<rparr>)))"

end
