(* ===== verification/Sync_Props.thy ===== *)
theory Sync_Props
  imports Evl_Sync
begin

text \<open>
  The properties of flags, mutex handles, ceilings and preemption-aware locks.
\<close>

section \<open>Flags\<close>

datatype flag_op = F_read | F_raise | F_pulse | F_flush u32 | F_clear

text \<open>Operations on a flag, each one under its lock: whether a reader got it, and the next state.\<close>

fun flag_step :: "flush_fn \<Rightarrow> flag_op \<Rightarrow> evl_flag \<times> kst \<Rightarrow> bool \<times> evl_flag \<times> kst" where
  "flag_step flush F_read (fl, k) = (let (b, fl') = evl_read_flag fl in (b, fl', k))"
| "flag_step flush F_raise s = (False, evl_raise_flag_locked flush s)"
| "flag_step flush F_pulse s = (False, evl_pulse_flag_locked flush s)"
| "flag_step flush (F_flush reason) s = (False, evl_flush_flag_locked flush reason s)"
| "flag_step flush F_clear (fl, k) = (False, evl_clear_flag fl, k)"

fun flag_run :: "flush_fn \<Rightarrow> flag_op list \<Rightarrow> evl_flag \<times> kst \<Rightarrow> nat \<times> evl_flag \<times> kst" where
  "flag_run flush [] s = (0, s)"
| "flag_run flush (p # ps) s =
     (let (b, s1) = flag_step flush p s; (n, s2) = flag_run flush ps s1 in (of_bool b + n, s2))"

fun is_raise :: "flag_op \<Rightarrow> bool" where
  "is_raise F_raise = True" | "is_raise _ = False"

lemma locked_ops_raised [simp]:
  "fl_raised (fst (evl_raise_flag_locked flush s))"
  "fl_raised (fst (evl_flush_flag_locked flush r s)) = fl_raised (fst s)"
  "fl_raised (fst (evl_pulse_flag_locked flush s)) = fl_raised (fst s)"
  by (auto simp: evl_raise_flag_locked_def evl_flush_flag_locked_def evl_pulse_flag_locked_def Let_def
      split: prod.splits)

lemma flag_reads_bound:
  "fst (flag_run flush ps s) + of_bool (fl_raised (fst (snd (flag_run flush ps s)))) \<le>
     length (filter is_raise ps) + of_bool (fl_raised (fst s))"
proof (induction ps arbitrary: s)
  case (Cons p ps)
  obtain b s1 where s1: "flag_step flush p s = (b, s1)" by (cases "flag_step flush p s")
  obtain n s2 where s2: "flag_run flush ps s1 = (n, s2)" by (cases "flag_run flush ps s1")
  have "of_bool b + of_bool (fl_raised (fst s1)) \<le> of_bool (is_raise p) + (of_bool (fl_raised (fst s)) :: nat)"
    using s1 by (cases p; cases s) (auto simp: evl_read_flag_def evl_clear_flag_def split: if_splits)
  with Cons.IH [of s1] s1 s2 show ?case by (cases "is_raise p") auto
qed simp

lemma flag_stays_raised:
  "fl_raised (fst s) \<Longrightarrow> F_read \<notin> set ps \<Longrightarrow> F_clear \<notin> set ps \<Longrightarrow> fl_raised (fst (snd (flag_run flush ps s)))"
proof (induction ps arbitrary: s)
  case (Cons p ps)
  obtain b s1 where s1: "flag_step flush p s = (b, s1)" by (cases "flag_step flush p s")
  have "fl_raised (fst s1)"
    using s1 Cons.prems by (cases p; cases s) auto
  with Cons s1 show ?case by (simp add: Let_def split_beta)
qed simp

lemma flag_run_append:
  "snd (flag_run flush (ps @ qs) s) = snd (flag_run flush qs (snd (flag_run flush ps s)))"
  by (induction ps arbitrary: s) (simp_all add: Let_def split_beta)


definition sample_flag :: evl_flag where
  "sample_flag = EVL_FLAG_INITIALIZER 1 2 ''f''"


section \<open>Mutex handles and ceilings\<close>

lemma get_index_or:
  assumes "h AND EVL_HANDLE_INDEX_MASK = 0" and "c AND NOT EVL_HANDLE_INDEX_MASK = 0"
  shows "evl_get_index (h OR c) = h"
proof -
  have "h AND NOT EVL_HANDLE_INDEX_MASK = h"
    using assms(1) by (metis (no_types) bit.conj_cancel_right bit.conj_disj_distrib bit.disj_cancel_right
        and.right_neutral or.left_neutral)
  with assms(2) show ?thesis by (simp add: evl_get_index_def word_ao_dist)
qed

text \<open>The owner test of a fast mutex ignores the status bits only: for handles clear of the reserved
  bits, whatever of the contention and ceiling bits is set in the fast lock word, \<open>evl_is_mutex_owner\<close>
  says whether the word holds that very handle, and a free mutex belongs to nobody.\<close>

lemma mutex_owner_test_is_exact:
  assumes "h AND EVL_HANDLE_INDEX_MASK = 0" and "c AND NOT EVL_HANDLE_INDEX_MASK = 0"
  shows "(evl_is_mutex_owner (h OR c) ownerh \<longleftrightarrow> h = ownerh) \<and> evl_get_index (evl_get_index h') = evl_get_index h' \<and>
    (ownerh \<noteq> EVL_NO_HANDLE \<longrightarrow> \<not> evl_is_mutex_owner (EVL_NO_HANDLE OR c) ownerh)"
  using get_index_or [OF assms] get_index_or [of EVL_NO_HANDLE c] assms(2)
  by (auto simp: evl_is_mutex_owner_def evl_get_index_def EVL_NO_HANDLE_def and.assoc)

lemma mutex_owner_test_is_exact_witness:
  "evl_is_mutex_owner (5 OR EVL_MUTEX_FLCLAIM) 5 \<and> \<not> evl_is_mutex_owner (5 OR EVL_MUTEX_FLCEIL) 6"
  using mutex_owner_test_is_exact [of 5 EVL_MUTEX_FLCLAIM 5] mutex_owner_test_is_exact [of 5 EVL_MUTEX_FLCEIL 6]
  by (simp add: EVL_HANDLE_INDEX_MASK_def EVL_MUTEX_FLCLAIM_def EVL_MUTEX_FLCEIL_def)

lemma clamp_bounds:
  assumes "lo \<le> hi"
  shows "lo \<le> clamp v lo hi" "clamp v lo hi \<le> hi" "lo \<le> v \<Longrightarrow> v \<le> hi \<Longrightarrow> clamp v lo hi = v"
  using assms by (auto simp: clamp_def Let_def)

text \<open>C28. The ceiling user space stores in a mutex can never take its owner out of the priority range
  of the FIFO class: whatever the 32 bit word is, \<open>evl_ceiling_priority\<close> lies between 1 and
  \<open>EVL_FIFO_MAX_PRIO\<close>, so the parameter check accepts it for any thread; a word already in this
  range is the priority.\<close>

theorem ceiling_stays_in_fifo_range:
  assumes "2 \<le> mrp" and "mrp \<le> 2 ^ 31"
  shows "EVL_FIFO_MIN_PRIO \<le> evl_ceiling_priority mrp v \<and> evl_ceiling_priority mrp v \<le> EVL_FIFO_MAX_PRIO mrp \<and>
    raw_evl_chk_fifo_schedparam mrp th \<lparr>sp_word0 = evl_ceiling_priority mrp v, sp_word1 = 0\<rparr> = 0 \<and>
    (1 \<le> uint v \<and> uint v < mrp \<longrightarrow> evl_ceiling_priority mrp v = uint v)"
proof -
  let ?hi = "word_of_int (EVL_FIFO_MAX_PRIO mrp) :: u32"
  have hi: "uint ?hi = mrp - 1"
    using assms by (simp only: EVL_FIFO_MAX_PRIO_def uint_word_of_int_eq) (simp add: take_bit_int_eq_self)
  then have le: "1 \<le> ?hi" using assms by (simp add: word_le_def)
  let ?c = "clamp v 1 ?hi"
  have c: "1 \<le> uint ?c" "uint ?c \<le> mrp - 1"
    using clamp_bounds(1,2) [OF le, of v] hi by (simp_all add: word_le_def)
  have s: "evl_ceiling_priority mrp v = uint ?c"
    using c assms(2) by (simp add: evl_ceiling_priority_def sint_uint signed_take_bit_int_eq_self)
  moreover have "?c = v" if "1 \<le> uint v" "uint v < mrp"
    using that hi clamp_bounds(3) [OF le, of v] by (simp add: word_le_def)
  ultimately show ?thesis
    using c assms by (auto simp: raw_evl_chk_fifo_schedparam_def fifo_prio_def const_defs)
qed

theorem ceiling_stays_in_fifo_range_witness:
  "evl_ceiling_priority 100 0xFFFFFFFF \<le> 99 \<and> 1 \<le> evl_ceiling_priority 100 0"
  using ceiling_stays_in_fifo_range [of 100 "0xFFFFFFFF" sample_thread] ceiling_stays_in_fifo_range [of 100 0 sample_thread]
  by (simp add: EVL_FIFO_MIN_PRIO_def EVL_FIFO_MAX_PRIO_def)

section \<open>Preemption-aware spinlocks\<close>

lemma enable_disable:
  "evl_enable_preempt sched (evl_disable_preempt s) = (if evl_preempt_count s = 0 then sched s else s)"
  by (simp add: evl_enable_preempt_def raw_evl_enable_preempt_def evl_disable_preempt_def
      raw_evl_disable_preempt_def Let_def evl_preempt_count_def)

fun lock_all :: "ptr list \<Rightarrow> lock_st \<Rightarrow> lock_st option" where
  "lock_all [] s = Some s"
| "lock_all (l # ls) s = Option.bind (evl_spin_lock False l s) (lock_all ls)"

fun unlock_all :: "(kst \<Rightarrow> kst) \<Rightarrow> ptr list \<Rightarrow> lock_st \<Rightarrow> lock_st" where
  "unlock_all sched [] s = s"
| "unlock_all sched (l # ls) s = unlock_all sched ls (evl_spin_unlock sched l s)"

lemma unlock_all_append: "unlock_all sched (ls @ ms) s = unlock_all sched ms (unlock_all sched ls s)"
  by (induction ls arbitrary: s) simp_all

lemma lock_unlock_all:
  assumes "k_running_oob s" and "0 \<le> evl_preempt_count s" and "distinct ls" and "set ls \<inter> held = {}"
  shows "\<exists>s'. lock_all ls (held, s) = Some (held \<union> set ls, s') \<and>
    evl_preempt_count s' = evl_preempt_count s + int (length ls) \<and>
    unlock_all sched (rev ls) (held \<union> set ls, s') =
      (held, if ls \<noteq> [] \<and> evl_preempt_count s = 0 then sched s else s)"
  using assms
proof (induction ls arbitrary: held s)
  case (Cons l ls)
  let ?s1 = "evl_disable_preempt s"
  have p: "evl_preempt_count ?s1 = evl_preempt_count s + 1" "k_running_oob ?s1"
    using Cons.prems(1) by (simp_all add: evl_disable_preempt_def raw_evl_disable_preempt_def evl_preempt_count_def)
  have step: "evl_spin_lock False l (held, s) = Some (insert l held, ?s1)"
    using Cons.prems by (simp add: evl_spin_lock_def evl_spin_lock_check_def raw_evl_spin_lock_def EVL_WARN_ON_ONCE_def Let_def)
  obtain s' where s': "lock_all ls (insert l held, ?s1) = Some (insert l held \<union> set ls, s')"
    "evl_preempt_count s' = evl_preempt_count ?s1 + int (length ls)"
    "unlock_all sched (rev ls) (insert l held \<union> set ls, s') = (insert l held, ?s1)"
    using Cons.IH [of ?s1 "insert l held"] Cons.prems p by auto
  have "evl_spin_unlock sched l (insert l held, ?s1) = (held, if evl_preempt_count s = 0 then sched s else s)"
    using Cons.prems(4) enable_disable [of sched s] by (auto simp: evl_spin_unlock_def)
  with s' step p show ?case by (simp add: unlock_all_append)
qed simp

text \<open>EVL spinlocks nest: taking any number of distinct free locks out-of-band succeeds without a
  warning of the checks and disables preemption as many times; releasing them in the reverse order
  gives back every lock, and rescheduling happens exactly once, on the state before the first lock,
  at the release of the outermost lock when preemption was enabled, and not at all when it was not.\<close>

lemma spinlocks_nest:
  assumes "k_running_oob s" and "0 \<le> evl_preempt_count s" and "distinct ls" and "ls \<noteq> []" and "set ls \<inter> held = {}"
  shows "\<exists>s'. lock_all ls (held, s) = Some (held \<union> set ls, s') \<and>
    evl_preempt_count s' = evl_preempt_count s + int (length ls) \<and>
    unlock_all sched (rev ls) (held \<union> set ls, s') = (held, if evl_preempt_count s = 0 then sched s else s)"
  using lock_unlock_all [OF assms(1,2,3,5)] assms(4) by simp

lemma spinlocks_nest_witness:
  "\<exists>s'. lock_all [3, 4] ({}, sample_kst) = Some ({3, 4}, s') \<and> evl_preempt_count s' = 2 \<and>
    unlock_all (\<lambda>s. s\<lparr>k_nrthreads := 9\<rparr>) [4, 3] ({3, 4}, s') = ({}, sample_kst\<lparr>k_nrthreads := 9\<rparr>)"
  using spinlocks_nest [of sample_kst "[3, 4]" "{}" "\<lambda>s. s\<lparr>k_nrthreads := 9\<rparr>"]
  by (simp add: sample_kst_def evl_preempt_count_def insert_commute)

text \<open>C27. A failed \<open>evl_spin_trylock\<close> takes no lock but leaves preemption disabled: unlike the other lock
  operations, which balance, its caller cannot use \<open>evl_spin_unlock\<close> (it does not hold the lock) and
  is left with one more preemption count than before, so that the releases that follow never
  reschedule.\<close>

theorem failed_trylock_leaks_preempt_count:
  assumes "l \<in> held" and "k_running_oob s" and "0 \<le> evl_preempt_count s"
    and "evl_spin_trylock False l (held, s) = (ok, held', s')"
  shows "\<not> ok \<and> held' = held \<and> evl_preempt_count s' = evl_preempt_count s + 1 \<and>
    (\<forall>m s1. m \<notin> held' \<longrightarrow> evl_spin_lock False m (held', s') = Some s1 \<longrightarrow>
       evl_spin_unlock sched m s1 = (held', s'))"
proof -
  have s': "s' = evl_disable_preempt s" "held' = held" "\<not> ok"
    using assms by (auto simp: evl_spin_trylock_def raw_evl_spin_trylock_def evl_spin_lock_check_def
        EVL_WARN_ON_ONCE_def Let_def)
  then have p: "evl_preempt_count s' = evl_preempt_count s + 1" "k_running_oob s'"
    using assms(2) by (simp_all add: evl_disable_preempt_def raw_evl_disable_preempt_def evl_preempt_count_def)
  have "evl_spin_unlock sched m s1 = (held', s')" if "m \<notin> held'" "evl_spin_lock False m (held', s') = Some s1" for m s1
    using that p assms(3) enable_disable [of sched s']
    by (auto simp: evl_spin_lock_def raw_evl_spin_lock_def evl_spin_lock_check_def EVL_WARN_ON_ONCE_def Let_def
        evl_spin_unlock_def)
  with s' p show ?thesis by simp
qed

theorem failed_trylock_leaks_preempt_count_witness:
  "evl_preempt_count (snd (snd (evl_spin_trylock False 3 ({3}, sample_kst)))) = 1"
  using failed_trylock_leaks_preempt_count [of 3 "{3}" sample_kst
      "fst (evl_spin_trylock False 3 ({3}, sample_kst))" "fst (snd (evl_spin_trylock False 3 ({3}, sample_kst)))"
      "snd (snd (evl_spin_trylock False 3 ({3}, sample_kst)))" "\<lambda>s. s"]
  by (simp add: sample_kst_def evl_preempt_count_def)

end
