(* ===== verification/Sched_Sections.thy ===== *)
theory Sched_Sections
  imports Sched_Smp Sync_Props
begin

text \<open>
  What holds off rescheduling, together: sections with preemption disabled (\<open>sched.h\<close>), EVL spinlocks
  of the three kinds (\<open>lock.h\<close>: plain, with hard irqs saved and disabled, with hard irqs disabled) and
  interrupts (\<open>irq.h\<close>) nest in each other, and requests (\<open>evl_set_resched\<close>) or calls of
  \<open>evl_schedule\<close> happen anywhere inside. A program is a tree of sections. \<open>__evl_schedule\<close> is an argument:
  \<open>honors_sections\<close> says that with preemption disabled it lets the current thread run on, with hard irqs as
  they are, and leaves the request posted, and that it serves the request of its runqueue otherwise; it may
  then re-enable hard irqs, as the comment in \<open>irq.h\<close> says.
\<close>

section \<open>Programs of nested sections\<close>

datatype sect =
    Request ptr
  | Resched
  | Preempt "sect list"
  | Locked ptr "sect list"
  | Irqsave_locked ptr "sect list"
  | Irq_locked ptr "sect list"
  | Interrupt "sect list"

text \<open>The hardware disables hard irqs when it takes an interrupt, and enables them again on return.\<close>

definition enter_handler :: "kst \<Rightarrow> kst" where
  "enter_handler s = s\<lparr>k_irqs_off := True\<rparr>"

definition leave_handler :: "kst \<Rightarrow> kst" where
  "leave_handler s = s\<lparr>k_irqs_off := False\<rparr>"

fun run_section :: "(kst \<Rightarrow> kst) \<Rightarrow> sect \<Rightarrow> lock_st \<Rightarrow> lock_st option"
  and run_sections :: "(kst \<Rightarrow> kst) \<Rightarrow> sect list \<Rightarrow> lock_st \<Rightarrow> lock_st option" where
  "run_section schedule (Request r) (held, s) = Some (held, evl_set_resched r s)"
| "run_section schedule Resched (held, s) = Some (held, schedule s)"
| "run_section schedule (Preempt ps) (held, s) =
     map_option (apsnd (evl_enable_preempt schedule)) (run_sections schedule ps (held, evl_disable_preempt s))"
| "run_section schedule (Locked l ps) (held, s) =
     Option.bind (evl_spin_lock False l (held, s)) (\<lambda>st.
       map_option (evl_spin_unlock schedule l) (run_sections schedule ps st))"
| "run_section schedule (Irqsave_locked l ps) (held, s) =
     Option.bind (evl_spin_lock_irqsave l (held, s)) (\<lambda>(flags, st).
       map_option (evl_spin_unlock_irqrestore schedule l flags) (run_sections schedule ps st))"
| "run_section schedule (Irq_locked l ps) (held, s) =
     Option.bind (evl_spin_lock_irq l (held, s)) (\<lambda>st.
       map_option (evl_spin_unlock_irq schedule l) (run_sections schedule ps st))"
| "run_section schedule (Interrupt ps) (held, s) =
     map_option (apsnd (leave_handler \<circ> evl_exit_irq schedule))
       (run_sections schedule ps (held, evl_enter_irq (enter_handler s)))"
| "run_sections schedule [] st = Some st"
| "run_sections schedule (p # ps) st = Option.bind (run_section schedule p st) (run_sections schedule ps)"

text \<open>No interrupt while hard irqs are off, in a handler or under a lock which disables them;
  \<open>evl_spin_unlock_irq\<close>, which enables them whatever they were, only pairs with a lock taken while they
  are on.\<close>

fun irqs_respected :: "bool \<Rightarrow> sect \<Rightarrow> bool" and irqs_respected_all :: "bool \<Rightarrow> sect list \<Rightarrow> bool" where
  "irqs_respected off (Request r) \<longleftrightarrow> True"
| "irqs_respected off Resched \<longleftrightarrow> True"
| "irqs_respected off (Preempt ps) \<longleftrightarrow> irqs_respected_all off ps"
| "irqs_respected off (Locked l ps) \<longleftrightarrow> irqs_respected_all off ps"
| "irqs_respected off (Irqsave_locked l ps) \<longleftrightarrow> irqs_respected_all True ps"
| "irqs_respected off (Irq_locked l ps) \<longleftrightarrow> \<not> off \<and> irqs_respected_all True ps"
| "irqs_respected off (Interrupt ps) \<longleftrightarrow> \<not> off \<and> irqs_respected_all True ps"
| "irqs_respected_all off [] \<longleftrightarrow> True"
| "irqs_respected_all off (p # ps) \<longleftrightarrow> irqs_respected off p \<and> irqs_respected_all off ps"

text \<open>A section, what is run in it, and the state its body starts from.\<close>

fun sect_body :: "sect \<Rightarrow> sect list option" where
  "sect_body (Preempt ps) = Some ps"
| "sect_body (Locked l ps) = Some ps"
| "sect_body (Irqsave_locked l ps) = Some ps"
| "sect_body (Irq_locked l ps) = Some ps"
| "sect_body (Interrupt ps) = Some ps"
| "sect_body p = None"

fun sect_enter :: "sect \<Rightarrow> lock_st \<Rightarrow> lock_st option" where
  "sect_enter (Locked l ps) st = evl_spin_lock False l st"
| "sect_enter (Irqsave_locked l ps) st = map_option snd (evl_spin_lock_irqsave l st)"
| "sect_enter (Irq_locked l ps) st = evl_spin_lock_irq l st"
| "sect_enter (Interrupt ps) (held, s) = Some (held, evl_enter_irq (enter_handler s))"
| "sect_enter p (held, s) = Some (held, evl_disable_preempt s)"

section \<open>What the scheduler honors\<close>

abbreviation this_rq :: "kst \<Rightarrow> evl_rq" where
  "this_rq s \<equiv> k_rqs s (k_this_rq s)"

definition pending :: "kst \<Rightarrow> bool" where
  "pending s \<longleftrightarrow> (rq_flags (this_rq s) OR rq_local_flags (this_rq s)) AND RQ_SCHED \<noteq> 0"

definition in_section :: "kst \<Rightarrow> bool" where
  "in_section s \<longleftrightarrow> evl_preempt_count s > 0 \<or> evl_in_irq s"

text \<open>The state the operations of one context share: it stays on its CPU, out-of-band.\<close>

definition same_context :: "kst \<Rightarrow> kst \<Rightarrow> bool" where
  "same_context s s' \<longleftrightarrow> k_this_rq s' = k_this_rq s \<and> k_running_oob s' = k_running_oob s \<and>
     evl_preempt_count s' = evl_preempt_count s \<and> evl_in_irq s' = evl_in_irq s \<and>
     rq_flags (this_rq s') AND RQ_IRQ = rq_flags (this_rq s) AND RQ_IRQ"

definition held_off :: "kst \<Rightarrow> kst \<Rightarrow> bool" where
  "held_off s s' \<longleftrightarrow> rq_curr (this_rq s') = rq_curr (this_rq s) \<and> k_irqs_off s' = k_irqs_off s \<and>
     (pending s \<longrightarrow> pending s')"

definition honors_sections :: "(kst \<Rightarrow> kst) \<Rightarrow> bool" where
  "honors_sections sched \<longleftrightarrow> (\<forall>s. same_context s (sched s) \<and>
     (evl_preempt_count s > 0 \<longrightarrow> held_off s (sched s)) \<and>
     (evl_preempt_count s = 0 \<longrightarrow> \<not> pending (sched s)))"

text \<open>What a piece of a program keeps.\<close>

definition sect_keeps :: "kst \<Rightarrow> kst \<Rightarrow> bool" where
  "sect_keeps s s' \<longleftrightarrow> same_context s s' \<and> (in_section s \<longrightarrow> held_off s s')"

definition oob_context :: "kst \<Rightarrow> bool" where
  "oob_context s \<longleftrightarrow> k_running_oob s \<and> 0 \<le> evl_preempt_count s \<and> rq_flags (this_rq s) AND RQ_IRQ = 0 \<and>
     (evl_in_irq s \<longrightarrow> k_irqs_off s)"

lemmas sect_defs = sect_keeps_def same_context_def held_off_def in_section_def pending_def evl_in_irq_def
  this_evl_rq_def

lemma sect_keeps_refl: "sect_keeps s s"
  by (simp add: sect_keeps_def same_context_def held_off_def)

lemma sect_keeps_trans: "sect_keeps s s' \<Longrightarrow> sect_keeps s' s'' \<Longrightarrow> sect_keeps s s''"
  by (auto simp: sect_keeps_def same_context_def held_off_def in_section_def)

lemma sect_keeps_context: "sect_keeps s s' \<Longrightarrow> oob_context s \<Longrightarrow> oob_context s' \<and> in_section s' = in_section s"
  by (auto simp: sect_keeps_def same_context_def oob_context_def in_section_def held_off_def)

text \<open>Hard irqs matter for themselves only.\<close>

lemma irqs_off_frame [simp]:
  "evl_preempt_count (s\<lparr>k_irqs_off := b\<rparr>) = evl_preempt_count s" "evl_in_irq (s\<lparr>k_irqs_off := b\<rparr>) = evl_in_irq s"
  "pending (s\<lparr>k_irqs_off := b\<rparr>) = pending s" "in_section (s\<lparr>k_irqs_off := b\<rparr>) = in_section s"
  by (simp_all add: evl_preempt_count_def evl_in_irq_def this_evl_rq_def pending_def in_section_def)

text \<open>A body which runs with hard irqs changed and leaves them as they were at last.\<close>

lemma irqs_bracket:
  "sect_keeps (s\<lparr>k_irqs_off := b\<rparr>) s1 \<Longrightarrow> sect_keeps s (s1\<lparr>k_irqs_off := k_irqs_off s\<rparr>)"
  by (auto simp: sect_keeps_def same_context_def held_off_def)

lemma schedule_keeps:
  assumes "honors_sections sched" and "oob_context s"
  shows "sect_keeps s (evl_schedule sched call s)"
    and "\<not> in_section s \<Longrightarrow> \<not> pending (evl_schedule sched call s)"
proof -
  have t: "test_resched s \<longleftrightarrow> pending s \<and> \<not> evl_in_irq s"
    using assms(2) by (auto simp: test_resched_iff pending_def or_and_irq evl_in_irq_def this_evl_rq_def oob_context_def)
  have h: "same_context s (sched s)" "evl_preempt_count s > 0 \<Longrightarrow> held_off s (sched s)"
    "evl_preempt_count s = 0 \<Longrightarrow> \<not> pending (sched s)"
    using assms(1) by (simp_all add: honors_sections_def)
  have e: "evl_schedule sched call s = (if pending s \<and> \<not> evl_in_irq s then sched s else s)"
    using assms(2) t by (simp add: evl_schedule_def oob_context_def)
  show "sect_keeps s (evl_schedule sched call s)"
    using h sect_keeps_refl [of s] by (auto simp: e sect_keeps_def in_section_def)
  show "\<not> pending (evl_schedule sched call s)" if "\<not> in_section s"
    using that h assms(2) by (auto simp: e in_section_def oob_context_def)
qed

section \<open>Entering and leaving\<close>

lemma disable_preempt_facts [simp]:
  "k_rqs (evl_disable_preempt s) = k_rqs s" "k_this_rq (evl_disable_preempt s) = k_this_rq s"
  "k_running_oob (evl_disable_preempt s) = k_running_oob s" "k_irqs_off (evl_disable_preempt s) = k_irqs_off s"
  "evl_preempt_count (evl_disable_preempt s) = evl_preempt_count s + 1"
  "evl_in_irq (evl_disable_preempt s) = evl_in_irq s"
  by (simp_all add: evl_disable_preempt_def raw_evl_disable_preempt_def evl_preempt_count_def evl_in_irq_def
      this_evl_rq_def)

lemma current_update_facts [simp]:
  "evl_preempt_count (s\<lparr>k_current := c\<rparr>) = os_preempt_count c" "evl_in_irq (s\<lparr>k_current := c\<rparr>) = evl_in_irq s"
  by (simp_all add: evl_preempt_count_def evl_in_irq_def this_evl_rq_def)

lemma request_keeps: "sect_keeps s (evl_set_resched r s)"
proof -
  have "pending (evl_set_resched r s)" if "pending s"
    using that by (auto simp: pending_def resched_rqs Let_def or_and_sched)
  moreover have "rq_curr (this_rq (evl_set_resched r s)) = rq_curr (this_rq s)"
    by (simp add: resched_rqs Let_def)
  ultimately show ?thesis
    by (simp add: sect_keeps_def same_context_def held_off_def evl_in_irq_def this_evl_rq_def set_resched_irq_flag
        evl_preempt_count_def)
qed

text \<open>The body of a section runs within it.\<close>

lemma spin_lock_oob:
  "k_running_oob s \<Longrightarrow>
   evl_spin_lock False l (held, s) = (if l \<in> held then None else Some (insert l held, evl_disable_preempt s))"
  by (simp add: evl_spin_lock_def raw_evl_spin_lock_def evl_spin_lock_check_def EVL_WARN_ON_ONCE_def Let_def)

lemma enter_section:
  assumes "oob_context s" and "sect_enter p (held, s) = Some (held1, s1)" and "sect_body p = Some ps"
    and "irqs_respected (k_irqs_off s) p"
  shows "oob_context s1" "in_section s1" "irqs_respected_all (k_irqs_off s1) ps" "k_this_rq s1 = k_this_rq s"
    "rq_curr (this_rq s1) = rq_curr (this_rq s)"
proof -
  consider (preempt) "p = Preempt ps" | (locked) l where "p = Locked l ps" | (irqsave) l where "p = Irqsave_locked l ps"
    | (irq_locked) l where "p = Irq_locked l ps" | (irq) "p = Interrupt ps"
    using assms(3) by (cases p) auto
  then have "oob_context s1 \<and> in_section s1 \<and> irqs_respected_all (k_irqs_off s1) ps \<and> k_this_rq s1 = k_this_rq s \<and>
      rq_curr (this_rq s1) = rq_curr (this_rq s)"
  proof cases
    case preempt
    with assms show ?thesis by (auto simp: oob_context_def in_section_def)
  next
    case locked
    with assms show ?thesis by (auto simp: spin_lock_oob oob_context_def in_section_def split: if_splits)
  next
    case irqsave
    with assms show ?thesis
      by (auto simp: evl_spin_lock_irqsave_def Let_def oob_context_def in_section_def split: if_splits)
  next
    case irq_locked
    with assms show ?thesis
      by (auto simp: evl_spin_lock_irq_def Let_def oob_context_def in_section_def split: if_splits)
  next
    case irq
    with assms show ?thesis
      by (auto simp: evl_enter_irq_def enter_handler_def oob_context_def in_section_def evl_in_irq_def this_evl_rq_def
          evl_preempt_count_def)
  qed
  then show "oob_context s1" "in_section s1" "irqs_respected_all (k_irqs_off s1) ps" "k_this_rq s1 = k_this_rq s"
    "rq_curr (this_rq s1) = rq_curr (this_rq s)" by blast+
qed

text \<open>Leaving a section with preemption disabled: what the body kept is kept, and the outermost one serves
  what was posted.\<close>

lemma leave_preempt:
  assumes "honors_sections sched" and "oob_context s" and "sect_keeps (evl_disable_preempt s) s1"
  shows "sect_keeps s (evl_enable_preempt (evl_schedule sched call) s1)"
    and "\<not> in_section s \<Longrightarrow> \<not> pending (evl_enable_preempt (evl_schedule sched call) s1)"
proof -
  let ?s2 = "s1\<lparr>k_current := (k_current s1)\<lparr>os_preempt_count := evl_preempt_count s1 - 1\<rparr>\<rparr>"
  let ?S = "evl_schedule sched call"
  have body: "same_context (evl_disable_preempt s) s1" "held_off (evl_disable_preempt s) s1"
    using assms(2,3) by (simp_all add: sect_keeps_def in_section_def oob_context_def)
  have s2: "sect_keeps s ?s2" "evl_preempt_count ?s2 = evl_preempt_count s" "oob_context ?s2" "in_section ?s2 = in_section s"
    using body assms(2)
    by (auto simp: sect_keeps_def same_context_def held_off_def oob_context_def in_section_def pending_def)
  have e: "evl_enable_preempt ?S s1 = (if evl_preempt_count s = 0 then ?S ?s2 else ?s2)"
    using s2(2) by (simp add: evl_enable_preempt_def raw_evl_enable_preempt_def Let_def)
  note sched = schedule_keeps [OF assms(1) s2(3), of call]
  show "sect_keeps s (evl_enable_preempt ?S s1)"
    using sect_keeps_trans [OF s2(1) sched(1)] s2(1) by (simp add: e)
  show "\<not> pending (evl_enable_preempt ?S s1)" if "\<not> in_section s"
    using sched(2) that s2(4) assms(2) by (simp add: e in_section_def oob_context_def)
qed

lemma exit_irq_keeps:
  assumes "honors_sections sched" and "oob_context s" and "k_irqs_off s" and "\<not> evl_in_irq s"
    and "sect_keeps (evl_enter_irq s) s1"
  shows "sect_keeps s (evl_exit_irq (evl_schedule sched call) s1)"
    and "\<not> in_section s \<Longrightarrow> \<not> pending (evl_exit_irq (evl_schedule sched call) s1)"
proof -
  let ?s2 = "upd_rq (k_this_rq s1) (\<lambda>q. q\<lparr>rq_local_flags := rq_local_flags q AND NOT RQ_IRQ\<rparr>) s1"
  let ?S = "evl_schedule sched call"
  have enter: "this_rq (evl_enter_irq s) = (this_rq s)\<lparr>rq_local_flags := rq_local_flags (this_rq s) OR RQ_IRQ\<rparr>"
    "k_this_rq (evl_enter_irq s) = k_this_rq s" "evl_preempt_count (evl_enter_irq s) = evl_preempt_count s"
    "k_running_oob (evl_enter_irq s) = k_running_oob s" "evl_in_irq (evl_enter_irq s)"
    "k_irqs_off (evl_enter_irq s) = k_irqs_off s"
    by (simp_all add: evl_enter_irq_def this_evl_rq_def evl_in_irq_def)
  have body: "same_context (evl_enter_irq s) s1" "held_off (evl_enter_irq s) s1"
    using assms(5) enter by (simp_all add: sect_keeps_def in_section_def)
  have s2: "sect_keeps s ?s2" "oob_context ?s2" "in_section ?s2 = in_section s"
    using body assms(2-4) enter
    by (auto simp: sect_keeps_def same_context_def held_off_def oob_context_def in_section_def
        evl_in_irq_def this_evl_rq_def pending_def or_and_sched rq_irq_cleared_sched rq_sched_or_irq)
  have e: "evl_exit_irq ?S s1 =
      (if pending ?s2 then (if k_irqs_off (?S ?s2) then ?S ?s2 else (?S ?s2)\<lparr>k_irqs_off := True\<rparr>) else ?s2)"
    by (simp add: evl_exit_irq_def this_evl_rq_def Let_def pending_def)
  have off: "sect_keeps s x \<Longrightarrow> sect_keeps s (x\<lparr>k_irqs_off := True\<rparr>)" for x
    using assms(3) by (auto simp: sect_keeps_def same_context_def held_off_def)
  note sched = schedule_keeps [OF assms(1) s2(2), of call]
  show "sect_keeps s (evl_exit_irq ?S s1)"
    using sect_keeps_trans [OF s2(1) sched(1)] s2(1) by (simp add: e off)
  show "\<not> pending (evl_exit_irq ?S s1)" if "\<not> in_section s"
    using sched(2) that s2(3) by (simp add: e)
qed

text \<open>The handler as a whole, from the interrupted context and back.\<close>

lemma leave_irq:
  assumes "honors_sections sched" and "oob_context s" and "\<not> k_irqs_off s"
    and "sect_keeps (evl_enter_irq (enter_handler s)) s1"
  shows "sect_keeps s (leave_handler (evl_exit_irq (evl_schedule sched call) s1))"
    and "\<not> in_section s \<Longrightarrow> \<not> pending (leave_handler (evl_exit_irq (evl_schedule sched call) s1))"
proof -
  have h: "oob_context (enter_handler s)" "k_irqs_off (enter_handler s)" "\<not> evl_in_irq (enter_handler s)"
    using assms(2,3) by (auto simp: enter_handler_def oob_context_def)
  note exit = exit_irq_keeps [OF assms(1) h assms(4), of call]
  show "sect_keeps s (leave_handler (evl_exit_irq (evl_schedule sched call) s1))"
    using irqs_bracket [where s = s and b = True] exit(1) assms(3) by (simp add: enter_handler_def leave_handler_def)
  show "\<not> pending (leave_handler (evl_exit_irq (evl_schedule sched call) s1))" if "\<not> in_section s"
    using exit(2) that by (simp add: enter_handler_def leave_handler_def)
qed

text \<open>Under a lock which disables hard irqs, as under a plain one.\<close>

lemma leave_irq_lock:
  assumes "honors_sections sched" and "oob_context s" and "flags = k_irqs_off s"
    and "sect_keeps ((evl_disable_preempt s)\<lparr>k_irqs_off := True\<rparr>) s1"
  shows "sect_keeps s (evl_enable_preempt (evl_schedule sched call) (s1\<lparr>k_irqs_off := flags\<rparr>))"
    and "\<not> in_section s \<Longrightarrow> \<not> pending (evl_enable_preempt (evl_schedule sched call) (s1\<lparr>k_irqs_off := flags\<rparr>))"
  using leave_preempt [OF assms(1,2) irqs_bracket [OF assms(4), simplified]] by (simp_all add: assms(3))

section \<open>Programs\<close>

definition ends_served :: "sect \<Rightarrow> bool" where
  "ends_served p \<longleftrightarrow> (\<forall>r. p \<noteq> Request r)"

text \<open>A section keeps what it should, given its body does.\<close>

lemma program_keeps:
  "run_section S p st = Some st' \<Longrightarrow> oob_context (snd st) \<Longrightarrow> irqs_respected (k_irqs_off (snd st)) p \<Longrightarrow>
    S = evl_schedule sched call \<Longrightarrow> honors_sections sched \<Longrightarrow> fst st' = fst st \<and> sect_keeps (snd st) (snd st') \<and>
    (ends_served p \<and> \<not> in_section (snd st) \<longrightarrow> \<not> pending (snd st'))"
  "run_sections S ps st = Some st' \<Longrightarrow> oob_context (snd st) \<Longrightarrow> in_section (snd st) \<Longrightarrow>
    irqs_respected_all (k_irqs_off (snd st)) ps \<Longrightarrow>
    S = evl_schedule sched call \<Longrightarrow> honors_sections sched \<Longrightarrow> fst st' = fst st \<and> sect_keeps (snd st) (snd st')"
proof (induction S p st and S ps st arbitrary: st' and st' rule: run_section_run_sections.induct)
  case (1 S r held s)
  then show ?case by (auto simp: request_keeps ends_served_def)
next
  case (2 S held s)
  then show ?case using schedule_keeps [of sched s call] by auto
next
  case (3 S ps held s)
  then obtain st1 where st1: "run_sections S ps (held, evl_disable_preempt s) = Some st1"
    "st' = apsnd (evl_enable_preempt S) st1" by auto
  note enter = enter_section [of s "Preempt ps" held held "evl_disable_preempt s" ps]
  from 3(1) [OF st1(1)] enter 3(3-6) have "fst st1 = held" "sect_keeps (evl_disable_preempt s) (snd st1)" by auto
  with leave_preempt [of sched s "snd st1" call] 3(3,5,6) st1(2) show ?case by auto
next
  case (4 S l ps held s)
  then have l: "l \<notin> held" and e: "evl_spin_lock False l (held, s) = Some (insert l held, evl_disable_preempt s)"
    by (auto simp: spin_lock_oob oob_context_def split: if_splits)
  then obtain st1 where st1: "run_sections S ps (insert l held, evl_disable_preempt s) = Some st1"
    "st' = evl_spin_unlock S l st1" using 4(2) by auto
  note enter = enter_section [of s "Locked l ps" held "insert l held" "evl_disable_preempt s" ps]
  from 4(1) [OF e st1(1)] enter e 4(3-6)
  have "fst st1 = insert l held" "sect_keeps (evl_disable_preempt s) (snd st1)" by auto
  with leave_preempt [of sched s "snd st1" call] 4(3,5,6) st1(2) l show ?case
    by (auto simp: evl_spin_unlock_def split_beta)
next
  case (5 S l ps held s)
  let ?s1 = "(evl_disable_preempt s)\<lparr>k_irqs_off := True\<rparr>"
  from 5(2) have l: "l \<notin> held" and e: "evl_spin_lock_irqsave l (held, s) = Some (k_irqs_off s, insert l held, ?s1)"
    by (auto simp: evl_spin_lock_irqsave_def Let_def bind_eq_Some_conv split: if_splits)
  then obtain st1 where st1: "run_sections S ps (insert l held, ?s1) = Some st1"
    "st' = evl_spin_unlock_irqrestore S l (k_irqs_off s) st1" using 5(2) by auto
  note enter = enter_section [of s "Irqsave_locked l ps" held "insert l held" ?s1 ps]
  from 5(1) [OF e refl st1(1)] enter e 5(3-6)
  have "fst st1 = insert l held" "sect_keeps ?s1 (snd st1)" by auto
  with leave_irq_lock [of sched s _ "snd st1" call] 5(3,5,6) st1(2) l show ?case
    by (auto simp: evl_spin_unlock_irqrestore_def split_beta)
next
  case (6 S l ps held s)
  let ?s1 = "(evl_disable_preempt s)\<lparr>k_irqs_off := True\<rparr>"
  from 6(2) have l: "l \<notin> held" and e: "evl_spin_lock_irq l (held, s) = Some (insert l held, ?s1)"
    by (auto simp: evl_spin_lock_irq_def Let_def bind_eq_Some_conv split: if_splits)
  then obtain st1 where st1: "run_sections S ps (insert l held, ?s1) = Some st1"
    "st' = evl_spin_unlock_irq S l st1" using 6(2) by auto
  note enter = enter_section [of s "Irq_locked l ps" held "insert l held" ?s1 ps]
  from 6(1) [OF e st1(1)] enter e 6(3-6)
  have "fst st1 = insert l held" "sect_keeps ?s1 (snd st1)" by auto
  with leave_irq_lock [of sched s False "snd st1" call] 6(3-6) st1(2) l show ?case
    by (auto simp: evl_spin_unlock_irq_def split_beta)
next
  case (7 S ps held s)
  let ?s1 = "evl_enter_irq (enter_handler s)"
  obtain st1 where st1: "run_sections S ps (held, ?s1) = Some st1" "st' = apsnd (leave_handler \<circ> evl_exit_irq S) st1"
    using 7(2) by auto
  note enter = enter_section [of s "Interrupt ps" held held ?s1 ps]
  from 7(1) [OF st1(1)] enter 7(3-6) have "fst st1 = held" "sect_keeps ?s1 (snd st1)" by auto
  with leave_irq [of sched s "snd st1" call] 7(3-6) st1(2) show ?case by auto
next
  case (8 S st)
  then show ?case by (simp add: sect_keeps_refl)
next
  case (9 S p ps st)
  then obtain st1 where p: "run_section S p st = Some st1" and ps: "run_sections S ps st1 = Some st'"
    by (auto simp: bind_eq_Some_conv)
  from 9(1) [OF p] 9(4-) have st1: "fst st1 = fst st" "sect_keeps (snd st) (snd st1)" by auto
  have "oob_context (snd st1)" "in_section (snd st1)" "k_irqs_off (snd st1) = k_irqs_off (snd st)"
    using sect_keeps_context [OF st1(2) 9(4)] 9(5) st1(2) by (auto simp: sect_keeps_def held_off_def)
  with 9(2) [OF p ps] 9(4-) have "fst st' = fst st1" "sect_keeps (snd st1) (snd st')" by auto
  with st1 sect_keeps_trans show ?case by auto
qed

lemma irqs_respected_take: "irqs_respected_all off ps \<Longrightarrow> irqs_respected_all off (take n ps)"
  by (induction ps arbitrary: n) (auto simp: take_Cons split: nat.split)


text \<open>A scheduler that honors sections, and an interrupt inside of a spinlock, whose handler
  takes another one and asks for CPU 0 and CPU 1.\<close>

definition sample_preemptive :: "kst \<Rightarrow> kst" where
  "sample_preemptive s = (if evl_preempt_count s > 0 then s
     else upd_rq (k_this_rq s) (\<lambda>q. q\<lparr>rq_curr := 7\<rparr>) (sample_sched s))"

lemma sample_preemptive_honors: "honors_sections sample_preemptive"
  by (auto simp: honors_sections_def sample_preemptive_def sample_sched_def same_context_def held_off_def pending_def
      evl_in_irq_def this_evl_rq_def flag_defs and.assoc word_ao_dist)

definition sample_section :: sect where
  "sample_section = Locked 3 [Interrupt [Request 101, Irqsave_locked 4 [Request 100], Resched], Resched]"

definition sample_start :: kst where
  "sample_start = sample_kst\<lparr>k_irqs_off := False\<rparr>"

lemma sample_section_runs:
  "\<exists>s'. run_section (evl_schedule sample_preemptive (\<lambda>f. f)) sample_section ({}, sample_start) = Some ({}, s')"
  by (simp add: sample_section_def spin_lock_oob evl_spin_unlock_def evl_spin_lock_irqsave_def evl_spin_unlock_irqrestore_def Let_def sample_start_def sample_kst_def)

lemma sample_section_context:
  "oob_context sample_start" "\<not> in_section sample_start" "irqs_respected (k_irqs_off sample_start) sample_section"
  by (simp_all add: oob_context_def in_section_def sample_start_def sample_kst_def sample_rq_def evl_in_irq_def this_evl_rq_def
      evl_preempt_count_def sample_section_def)


end
