(* ===== verification/Flag_Waiters.thy ===== *)
theory Flag_Waiters
  imports Sync_Props
begin

text \<open>
  Threads that wait on a flag while others raise, pulse, flush and clear it. First \<open>evl_wait_event_timeout\<close>
  of \<open>wait.h\<close> is cut at its sleeps, where other threads may run: it is the part up to the first sleep
  and, after each wake-up, the part up to the next one or to the return. Then the parts of
  \<open>evl_wait_flag_timeout\<close> and the operations of \<open>flag.h\<close>, each of which runs under the lock of the wait
  channel, are the actions of a system of threads. The functions of \<open>wait.c\<close> that link threads to the wait
  queue and off it are arguments (\<open>waitq_contract\<close>).
\<close>

section \<open>Waiting, cut at the sleeps\<close>

text \<open>The value returned, if the part returns, and the state; without a value the thread goes to sleep.\<close>

definition wait_check :: "'s wait_ops \<Rightarrow> ('s \<Rightarrow> bool \<times> 's) \<Rightarrow> ktime \<Rightarrow> evl_tmode \<Rightarrow> bool \<times> 's \<Rightarrow> int option \<times> 's" where
  "wait_check w cond timeout tmode = (\<lambda>(flags, s).
     let (c, s1) = cond s in
     if c then (Some 0, wo_unlock w flags s1)
     else (None, wo_unlock w flags (wo_add w timeout tmode s1)))"

definition wait_begin :: "'s wait_ops \<Rightarrow> ('s \<Rightarrow> bool \<times> 's) \<Rightarrow> ktime \<Rightarrow> evl_tmode \<Rightarrow> 's \<Rightarrow> int option \<times> 's" where
  "wait_begin w cond timeout tmode s =
     (let (flags, s1) = wo_lock w s in
      if timeout_nonblock timeout then
        (let (c, s2) = cond s1 in (Some (if c then 0 else - EAGAIN), wo_unlock w flags s2))
      else wait_check w cond timeout tmode (flags, s1))"

definition wait_resume ::
    "'s wait_ops \<Rightarrow> ('s \<Rightarrow> bool \<times> 's) \<Rightarrow> ktime \<Rightarrow> evl_tmode \<Rightarrow> int \<Rightarrow> 's \<Rightarrow> int option \<times> 's" where
  "wait_resume w cond timeout tmode ret s =
     (let bcast = wo_bcast w s; (flags, s1) = wo_lock w s in
      if ret \<noteq> 0 \<or> bcast then (Some ret, wo_unlock w flags s1)
      else wait_check w cond timeout tmode (flags, s1))"

text \<open>A thread asleep: it sleeps, resumes, and goes back to sleep until a part returns.\<close>

partial_function (option) wait_asleep ::
    "'s wait_ops \<Rightarrow> ('s \<Rightarrow> bool \<times> 's) \<Rightarrow> ktime \<Rightarrow> evl_tmode \<Rightarrow> 's \<Rightarrow> (int \<times> 's) option" where
  [code]: "wait_asleep w cond timeout tmode s =
     (case wo_schedule w s of (ret, s1) \<Rightarrow>
        (case wait_resume w cond timeout tmode ret s1 of
           (Some r, s2) \<Rightarrow> Some (r, s2)
         | (None, s2) \<Rightarrow> wait_asleep w cond timeout tmode s2))"

definition release :: "'s wait_ops \<Rightarrow> int \<times> bool \<times> 's \<Rightarrow> int \<times> 's" where
  "release w = (\<lambda>(ret, flags, s). (ret, wo_unlock w flags s))"

text \<open>A round of the loop is a sleep and a part.\<close>

lemma wait_round_parts:
  "(case wo_schedule w (wo_unlock w flags (wo_add w timeout tmode s)) of (ret, s1) \<Rightarrow>
      wait_resume w cond timeout tmode ret s1) =
   (case wait_round w cond timeout tmode (flags, s) of (ret, stop, flags', s') \<Rightarrow>
      if stop then (Some ret, wo_unlock w flags' s')
      else (None, wo_unlock w flags' (wo_add w timeout tmode s')))"
  by (auto simp: wait_resume_def wait_check_def wait_round_def Let_def split: prod.split)

lemma wait_asleep_unfold:
  "wait_asleep w cond timeout tmode (wo_unlock w flags (wo_add w timeout tmode s)) =
   (case wait_round w cond timeout tmode (flags, s) of (ret, stop, flags', s') \<Rightarrow>
      if stop then Some (ret, wo_unlock w flags' s')
      else wait_asleep w cond timeout tmode (wo_unlock w flags' (wo_add w timeout tmode s')))"
proof -
  let ?s = "wo_unlock w flags (wo_add w timeout tmode s)"
  obtain ret s1 where sleep: "wo_schedule w ?s = (ret, s1)" by fastforce
  obtain r stop flags' s' where round: "wait_round w cond timeout tmode (flags, s) = (r, stop, flags', s')"
    by (metis prod.collapse)
  have "wait_resume w cond timeout tmode ret s1 = (if stop then (Some r, wo_unlock w flags' s')
      else (None, wo_unlock w flags' (wo_add w timeout tmode s')))"
    using wait_round_parts [where w = w and flags = flags and timeout = timeout and tmode = tmode and s = s and cond = cond]
    by (simp add: sleep round)
  then show ?thesis by (subst wait_asleep.simps) (simp add: sleep round)
qed

text \<open>Hence the loop of the macro and the sleeping thread return the same.\<close>

lemma wait_loop_asleep:
  assumes "wait_loop w cond timeout tmode fs = Some r"
  shows "wait_asleep w cond timeout tmode (wo_unlock w (fst fs) (wo_add w timeout tmode (snd fs))) = Some (release w r)"
proof (rule wait_loop.raw_induct [OF _ assms])
  fix self w cond timeout tmode fs r
  assume IH: "\<And>w cond timeout tmode fs r. self w cond timeout tmode fs = Some r \<Longrightarrow>
      wait_asleep w cond timeout tmode (wo_unlock w (fst fs) (wo_add w timeout tmode (snd fs))) = Some (release w r)"
    and r: "(case wait_round w cond timeout tmode fs of (ret, stop, flags, s) \<Rightarrow>
        if stop then Some (ret, flags, s) else self w cond timeout tmode (flags, s)) = Some r"
  obtain ret stop flags s where round: "wait_round w cond timeout tmode fs = (ret, stop, flags, s)"
    by (metis prod.collapse)
  show "wait_asleep w cond timeout tmode (wo_unlock w (fst fs) (wo_add w timeout tmode (snd fs))) = Some (release w r)"
  proof (cases stop)
    case True
    with r round show ?thesis by (auto simp: wait_asleep_unfold release_def)
  next
    case False
    with r round have "self w cond timeout tmode (flags, s) = Some r" by simp
    from IH [OF this] False round show ?thesis by (simp add: wait_asleep_unfold)
  qed
qed

lemma asleep_wait_loop:
  assumes "wait_asleep w cond timeout tmode x = Some y"
  shows "x = wo_unlock w (fst fs) (wo_add w timeout tmode (snd fs)) \<longrightarrow>
    (\<exists>r. wait_loop w cond timeout tmode fs = Some r)"
proof (rule wait_asleep.raw_induct
    [where P = "\<lambda>w cond timeout tmode x y. \<forall>fs. x = wo_unlock w (fst fs) (wo_add w timeout tmode (snd fs)) \<longrightarrow>
      (\<exists>r. wait_loop w cond timeout tmode fs = Some r)", OF _ assms, THEN spec])
  fix self w cond timeout tmode x y
  assume IH: "\<And>w cond timeout tmode x y. self w cond timeout tmode x = Some y \<Longrightarrow>
      \<forall>fs. x = wo_unlock w (fst fs) (wo_add w timeout tmode (snd fs)) \<longrightarrow>
        (\<exists>r. wait_loop w cond timeout tmode fs = Some r)"
    and y: "(case wo_schedule w x of (ret, s1) \<Rightarrow> case wait_resume w cond timeout tmode ret s1 of
        (None, s2) \<Rightarrow> self w cond timeout tmode s2 | (Some r, s2) \<Rightarrow> Some (r, s2)) = Some y"
  show "\<forall>fs. x = wo_unlock w (fst fs) (wo_add w timeout tmode (snd fs)) \<longrightarrow>
      (\<exists>r. wait_loop w cond timeout tmode fs = Some r)"
  proof (intro allI impI)
    fix fs assume x: "x = wo_unlock w (fst fs) (wo_add w timeout tmode (snd fs))"
    obtain ret s1 where sleep: "wo_schedule w x = (ret, s1)" by fastforce
    obtain r stop flags s where round: "wait_round w cond timeout tmode fs = (r, stop, flags, s)"
      by (metis prod.collapse)
    have part: "wait_resume w cond timeout tmode ret s1 = (if stop then (Some r, wo_unlock w flags s)
        else (None, wo_unlock w flags (wo_add w timeout tmode s)))"
      using wait_round_parts [where w = w and flags = "fst fs" and timeout = timeout and tmode = tmode
          and s = "snd fs" and cond = cond] sleep round x by simp
    show "\<exists>r. wait_loop w cond timeout tmode fs = Some r"
    proof (cases stop)
      case True
      with round show ?thesis by (subst wait_loop.simps) simp
    next
      case False
      with y sleep part have "self w cond timeout tmode (wo_unlock w flags (wo_add w timeout tmode s)) = Some y" by simp
      from IH [OF this, rule_format, of "(flags, s)"] round False show ?thesis by (subst wait_loop.simps) simp
    qed
  qed
qed

lemma wait_loop_is_asleep:
  "wait_asleep w cond timeout tmode (wo_unlock w flags (wo_add w timeout tmode s)) =
     map_option (release w) (wait_loop w cond timeout tmode (flags, s))"
proof (cases "wait_loop w cond timeout tmode (flags, s)")
  case None
  then show ?thesis
    using asleep_wait_loop [where fs = "(flags, s)" and w = w and cond = cond and timeout = timeout and tmode = tmode]
    by (cases "wait_asleep w cond timeout tmode (wo_unlock w flags (wo_add w timeout tmode s))") auto
next
  case (Some r)
  from wait_loop_asleep [OF this] Some show ?thesis by simp
qed

text \<open>The whole macro: its first part, and the sleeping thread when that part does not return.\<close>

lemma wait_event_parts:
  "evl_wait_event_timeout w cond timeout tmode s =
     (case wait_begin w cond timeout tmode s of
        (Some r, s') \<Rightarrow> Some (r, s')
      | (None, s') \<Rightarrow> wait_asleep w cond timeout tmode s')"
proof -
  obtain flags s1 where l: "wo_lock w s = (flags, s1)" by fastforce
  obtain c s2 where c: "cond s1 = (c, s2)" by fastforce
  show ?thesis
    by (simp add: evl_wait_event_timeout_def wait_begin_def wait_check_def l c wait_loop_is_asleep)
      (simp add: release_def [abs_def])
qed

section \<open>Threads and a flag\<close>

text \<open>A thread has not called, sleeps on the queue, was woken up with the result of its sleep and whether
  by a broadcast, or has its value.\<close>

datatype wphase = Idle | Asleep | Woken int bool | Done int

record flag_sys =
  fs_flag :: "evl_flag \<times> kst"
  fs_phase :: "ptr \<Rightarrow> wphase"

definition wq_waiters :: "evl_wait_queue \<Rightarrow> ptr list" where
  "wq_waiters wq = wc_wait_list (wq_wchan wq)"

definition fs_waiters :: "flag_sys \<Rightarrow> ptr list" where
  "fs_waiters x = wq_waiters (fl_wait (fst (fs_flag x)))"

definition flag_locked :: "evl_flag \<Rightarrow> bool" where
  "flag_locked fl \<longleftrightarrow> wc_lock (wq_wchan (fl_wait fl))"

type_synonym add_fn = "ptr \<Rightarrow> ktime \<Rightarrow> evl_tmode \<Rightarrow> evl_wait_queue \<Rightarrow> evl_wait_queue"
type_synonym unlink_fn = "ptr \<Rightarrow> evl_wait_queue \<Rightarrow> evl_wait_queue"

text \<open>Waiting for the flag as thread \<open>t\<close>, with the condition of \<open>evl_wait_flag_timeout\<close>; the sleep is
  between the parts.\<close>

definition flag_ops :: "add_fn \<Rightarrow> ptr \<Rightarrow> bool \<Rightarrow> (evl_flag \<times> kst) wait_ops" where
  "flag_ops add t bcast =
     \<lparr>wo_lock = \<lambda>(fl, k). (k_irqs_off k, set_flag_lock True fl, k\<lparr>k_irqs_off := True\<rparr>),
      wo_unlock = evl_unlock_flag,
      wo_add = \<lambda>timeout tmode (fl, k). (fl\<lparr>fl_wait := add t timeout tmode (fl_wait fl)\<rparr>, k),
      wo_schedule = Pair 0, wo_bcast = \<lambda>s. bcast\<rparr>"

definition flag_cond :: "evl_flag \<times> kst \<Rightarrow> bool \<times> evl_flag \<times> kst" where
  "flag_cond = (\<lambda>(fl, k). let (b, fl') = evl_read_flag fl in (b, fl', k))"

lemma flag_wait_cond: "evl_wait_flag_timeout w timeout tmode s = evl_wait_event_timeout w flag_cond timeout tmode s"
  by (simp add: evl_wait_flag_timeout_def flag_cond_def)

datatype flag_act =
    Wait ptr ktime evl_tmode
  | Resume ptr ktime evl_tmode
  | Raise
  | Pulse
  | Flush u32 int bool
  | Clear
  | Timeout ptr int
  | Leave ptr

definition after_part :: "ptr \<Rightarrow> flag_sys \<Rightarrow> int option \<times> evl_flag \<times> kst \<Rightarrow> flag_sys" where
  "after_part t x = (\<lambda>(r, f). \<lparr>fs_flag = f,
     fs_phase = (fs_phase x)(t := (case r of None \<Rightarrow> Asleep | Some ret \<Rightarrow> Done ret))\<rparr>)"

definition after_flush :: "int \<Rightarrow> bool \<Rightarrow> flag_sys \<Rightarrow> evl_flag \<times> kst \<Rightarrow> flag_sys" where
  "after_flush ret bcast x f = \<lparr>fs_flag = f,
     fs_phase = (\<lambda>t. if t \<in> set (fs_waiters x) then Woken ret bcast else fs_phase x t)\<rparr>"

text \<open>A flush wakes the waiters up with the result and the broadcast bit its reason stands for: none for
  \<open>evl_raise_flag\<close>, the broadcast for \<open>evl_pulse_flag\<close>, any for \<open>evl_flush_flag\<close>. A timeout takes one
  thread off the queue, with a result of its own. An action which is not possible is \<open>None\<close>.\<close>

fun do_act :: "add_fn \<Rightarrow> flush_fn \<Rightarrow> unlink_fn \<Rightarrow> flag_act \<Rightarrow> flag_sys \<Rightarrow> flag_sys option" where
  "do_act add flush unlink (Wait t timeout tmode) x =
     (if fs_phase x t = Idle
      then Some (after_part t x (wait_begin (flag_ops add t False) flag_cond timeout tmode (fs_flag x))) else None)"
| "do_act add flush unlink (Resume t timeout tmode) x =
     (case fs_phase x t of
        Woken ret bcast \<Rightarrow>
          Some (after_part t x (wait_resume (flag_ops add t bcast) flag_cond timeout tmode ret (fs_flag x)))
      | _ \<Rightarrow> None)"
| "do_act add flush unlink Raise x = map_option (after_flush 0 False x) (evl_raise_flag_nosched flush (fs_flag x))"
| "do_act add flush unlink Pulse x = map_option (after_flush 0 True x) (evl_pulse_flag_nosched flush (fs_flag x))"
| "do_act add flush unlink (Flush reason ret bcast) x =
     map_option (after_flush ret bcast x) (evl_flush_flag_nosched flush reason (fs_flag x))"
| "do_act add flush unlink Clear x = Some (x\<lparr>fs_flag := map_prod evl_clear_flag id (fs_flag x)\<rparr>)"
| "do_act add flush unlink (Timeout t ret) x =
     (if fs_phase x t = Asleep
      then Some (x\<lparr>fs_flag := map_prod (\<lambda>fl. fl\<lparr>fl_wait := unlink t (fl_wait fl)\<rparr>) id (fs_flag x),
                   fs_phase := (fs_phase x)(t := Woken ret False)\<rparr>)
      else None)"
| "do_act add flush unlink (Leave t) x =
     (case fs_phase x t of Done r \<Rightarrow> Some (x\<lparr>fs_phase := (fs_phase x)(t := Idle)\<rparr>) | _ \<Rightarrow> None)"

fun do_acts :: "add_fn \<Rightarrow> flush_fn \<Rightarrow> unlink_fn \<Rightarrow> flag_act list \<Rightarrow> flag_sys \<Rightarrow> flag_sys option" where
  "do_acts add flush unlink [] x = Some x"
| "do_acts add flush unlink (p # ps) x = Option.bind (do_act add flush unlink p x) (do_acts add flush unlink ps)"

text \<open>What \<open>wait.c\<close> does to the queue: linking a thread, flushing, unlinking one. The lock is left alone.\<close>

definition waitq_contract :: "add_fn \<Rightarrow> flush_fn \<Rightarrow> unlink_fn \<Rightarrow> bool" where
  "waitq_contract add flush unlink \<longleftrightarrow>
     (\<forall>t timeout tmode wq. set (wq_waiters (add t timeout tmode wq)) = insert t (set (wq_waiters wq)) \<and>
        wc_lock (wq_wchan (add t timeout tmode wq)) = wc_lock (wq_wchan wq)) \<and>
     (\<forall>wq reason k. wq_waiters (fst (flush wq reason k)) = [] \<and>
        wc_lock (wq_wchan (fst (flush wq reason k))) = wc_lock (wq_wchan wq)) \<and>
     (\<forall>t wq. set (wq_waiters (unlink t wq)) = set (wq_waiters wq) - {t} \<and>
        wc_lock (wq_wchan (unlink t wq)) = wc_lock (wq_wchan wq))"

definition waiters_inv :: "flag_sys \<Rightarrow> bool" where
  "waiters_inv x \<longleftrightarrow> \<not> flag_locked (fst (fs_flag x)) \<and>
     (\<forall>t. fs_phase x t = Asleep \<longleftrightarrow> t \<in> set (fs_waiters x)) \<and>
     (evl_peek_flag (fst (fs_flag x)) \<longrightarrow> fs_waiters x = [])"

section \<open>What the actions keep\<close>

lemma set_flag_lock_simps [simp]:
  "flag_locked (set_flag_lock b fl) = b" "wq_waiters (fl_wait (set_flag_lock b fl)) = wq_waiters (fl_wait fl)"
  "fl_raised (set_flag_lock b fl) = fl_raised fl"
  by (simp_all add: flag_locked_def set_flag_lock_def wq_waiters_def)

text \<open>A part of a wait, run with the lock free: it returns with the lock free again, having consumed the
  flag or not, or has linked the thread on the queue of a flag which is not raised.\<close>

lemma wait_part:
  assumes "waitq_contract add flush unlink"
    and "wait_check (flag_ops add t bcast) flag_cond timeout tmode (flags, set_flag_lock True fl, k) = (r, fl', k')"
  shows "\<not> flag_locked fl' \<and> \<not> fl_raised fl' \<and>
    r = (if fl_raised fl then Some 0 else None) \<and>
    set (wq_waiters (fl_wait fl')) = (if fl_raised fl then {} else {t}) \<union> set (wq_waiters (fl_wait fl))"
proof -
  have add: "set (wq_waiters (add t timeout tmode wq)) = insert t (set (wq_waiters wq))" for wq
    using assms(1) by (simp add: waitq_contract_def)
  show ?thesis
    using assms(2) add
    by (auto simp: wait_check_def flag_ops_def flag_cond_def evl_read_flag_def evl_unlock_flag_def flag_locked_def
        set_flag_lock_def wq_waiters_def Let_def split: if_splits)
qed

lemma wait_begin_cases:
  assumes "waitq_contract add flush unlink"
    and "wait_begin (flag_ops add t bcast) flag_cond timeout tmode (fl, k) = (r, fl', k')"
  shows "\<not> flag_locked fl' \<and> \<not> fl_raised fl' \<and> (r = None \<longrightarrow> \<not> fl_raised fl) \<and>
    set (wq_waiters (fl_wait fl')) = (if r = None then {t} else {}) \<union> set (wq_waiters (fl_wait fl))"
proof (cases "timeout_nonblock timeout")
  case True
  with assms(2) show ?thesis
    by (auto simp: wait_begin_def flag_ops_def flag_cond_def evl_read_flag_def evl_unlock_flag_def Let_def
        flag_locked_def set_flag_lock_def wq_waiters_def split: if_splits)
next
  case False
  with assms(2) have "wait_check (flag_ops add t bcast) flag_cond timeout tmode
      (k_irqs_off k, set_flag_lock True fl, k\<lparr>k_irqs_off := True\<rparr>) = (r, fl', k')"
    by (simp add: wait_begin_def flag_ops_def)
  from wait_part [OF assms(1) this] show ?thesis by auto
qed

lemma wait_resume_cases:
  assumes "waitq_contract add flush unlink"
    and "wait_resume (flag_ops add t bcast) flag_cond timeout tmode ret (fl, k) = (r, fl', k')"
  shows "\<not> flag_locked fl' \<and> (r = None \<longrightarrow> \<not> fl_raised fl) \<and> (fl_raised fl' \<longrightarrow> fl_raised fl) \<and>
    set (wq_waiters (fl_wait fl')) = (if r = None then {t} else {}) \<union> set (wq_waiters (fl_wait fl)) \<and>
    (ret = 0 \<and> \<not> bcast \<longrightarrow> r = (if fl_raised fl then Some 0 else None) \<and> \<not> fl_raised fl')"
proof (cases "ret \<noteq> 0 \<or> bcast")
  case True
  with assms(2) show ?thesis
    by (auto simp: wait_resume_def flag_ops_def evl_unlock_flag_def Let_def)
next
  case False
  with assms(2) have "wait_check (flag_ops add t bcast) flag_cond timeout tmode
      (k_irqs_off k, set_flag_lock True fl, k\<lparr>k_irqs_off := True\<rparr>) = (r, fl', k')"
    by (simp add: wait_resume_def flag_ops_def)
  from wait_part [OF assms(1) this] False show ?thesis by auto
qed

text \<open>The operations of \<open>flag.h\<close> on a free lock.\<close>

lemma raise_free:
  assumes "waitq_contract add flush unlink" and "\<not> flag_locked fl"
  shows "\<exists>fl1 k1. evl_raise_flag_nosched flush (fl, k) = Some (fl1, k1) \<and> \<not> flag_locked fl1 \<and> fl_raised fl1 \<and>
    wq_waiters (fl_wait fl1) = []"
proof -
  let ?fl = "(set_flag_lock True fl)\<lparr>fl_raised := True\<rparr>" and ?k = "k\<lparr>k_irqs_off := True\<rparr>"
  obtain w k' where w: "flush (fl_wait ?fl) 0 ?k = (w, k')" by fastforce
  have "wq_waiters (fst (flush (fl_wait ?fl) 0 ?k)) = []" using assms(1) unfolding waitq_contract_def by blast
  with w have "wq_waiters w = []" by simp
  with w assms(2) show ?thesis
    by (simp add: evl_raise_flag_nosched_def flag_section_def evl_lock_flag_def evl_raise_flag_locked_def Let_def
        evl_unlock_flag_def) (simp add: flag_locked_def)
qed

lemma flush_free:
  assumes "waitq_contract add flush unlink" and "\<not> flag_locked fl"
  shows "\<exists>fl1 k1. evl_flush_flag_nosched flush reason (fl, k) = Some (fl1, k1) \<and> \<not> flag_locked fl1 \<and>
    wq_waiters (fl_wait fl1) = []"
proof -
  let ?fl = "set_flag_lock True fl" and ?k = "k\<lparr>k_irqs_off := True\<rparr>"
  obtain w k' where w: "flush (fl_wait ?fl) reason ?k = (w, k')" by fastforce
  have "wq_waiters (fst (flush (fl_wait ?fl) reason ?k)) = []" using assms(1) unfolding waitq_contract_def by blast
  with w have "wq_waiters w = []" by simp
  with w assms(2) show ?thesis
    by (simp add: evl_flush_flag_nosched_def flag_section_def evl_lock_flag_def evl_flush_flag_locked_def Let_def
        evl_unlock_flag_def) (simp add: flag_locked_def)
qed

lemma fs_waiters_simp: "fs_waiters \<lparr>fs_flag = (fl, k), fs_phase = ph\<rparr> = wq_waiters (fl_wait fl)"
  by (simp add: fs_waiters_def)

lemma after_flush_inv:
  assumes "waiters_inv x" and "\<not> flag_locked fl" and "wq_waiters (fl_wait fl) = []"
  shows "waiters_inv (after_flush ret bcast x (fl, k))"
  using assms by (auto simp: waiters_inv_def after_flush_def fs_waiters_simp)

lemma after_part_inv:
  assumes "waiters_inv x" and "fs_flag x = (fl, k)" and "fs_phase x t \<noteq> Asleep"
    and "\<not> flag_locked fl'" and "fl_raised fl' \<longrightarrow> fl_raised fl" and "r = None \<longrightarrow> \<not> fl_raised fl"
    and "set (wq_waiters (fl_wait fl')) = (if r = None then {t} else {}) \<union> set (wq_waiters (fl_wait fl))"
  shows "waiters_inv (after_part t x (r, fl', k'))"
  using assms
  by (cases x) (auto simp: waiters_inv_def after_part_def fs_waiters_simp evl_peek_flag_def split: option.splits)

lemma do_act_inv:
  assumes "waitq_contract add flush unlink" and "waiters_inv x" and "do_act add flush unlink p x = Some y"
  shows "waiters_inv y"
proof -
  obtain fl k where f: "fs_flag x = (fl, k)" by fastforce
  have free: "\<not> flag_locked fl" using assms(2) by (simp add: waiters_inv_def f)
  show ?thesis
  proof (cases p)
    case (Wait t timeout tmode)
    obtain r fl' k' where b: "wait_begin (flag_ops add t False) flag_cond timeout tmode (fl, k) = (r, fl', k')"
      by (metis prod.collapse)
    from wait_begin_cases [OF assms(1) b] assms(3) after_part_inv [OF assms(2) f, of t fl' r k'] show ?thesis
      by (auto simp: Wait f b split: if_splits)
  next
    case (Resume t timeout tmode)
    with assms(3) obtain ret bcast where ph: "fs_phase x t = Woken ret bcast"
      by (auto split: wphase.splits)
    obtain r fl' k' where b: "wait_resume (flag_ops add t bcast) flag_cond timeout tmode ret (fl, k) = (r, fl', k')"
      by (metis prod.collapse)
    from wait_resume_cases [OF assms(1) b] assms(3) after_part_inv [OF assms(2) f, of t fl' r k'] show ?thesis
      by (auto simp: Resume f b ph)
  next
    case Raise
    with raise_free [OF assms(1) free, of k] assms(2,3) after_flush_inv show ?thesis by (auto simp: f)
  next
    case Pulse
    then have "map_option (after_flush 0 True x) (evl_flush_flag_nosched flush EVL_T_BCAST (fl, k)) = Some y"
      using assms(3) by (simp add: f evl_pulse_flag_nosched_def evl_flush_flag_nosched_def)
    with flush_free [OF assms(1) free, of EVL_T_BCAST k] assms(2) after_flush_inv show ?thesis by auto
  next
    case (Flush reason ret bcast)
    with flush_free [OF assms(1) free, of reason k] assms(2,3) after_flush_inv show ?thesis by (auto simp: f)
  next
    case Clear
    with assms show ?thesis
      by (auto simp: waiters_inv_def f evl_clear_flag_def flag_locked_def evl_peek_flag_def fs_waiters_def)
  next
    case (Timeout t ret)
    with assms show ?thesis
      by (auto simp: waiters_inv_def waitq_contract_def f flag_locked_def evl_peek_flag_def fs_waiters_def
          split: if_splits)
  next
    case (Leave t)
    with assms(3) have "fs_phase x t \<noteq> Asleep" "y = x\<lparr>fs_phase := (fs_phase x)(t := Idle)\<rparr>"
      by (auto split: wphase.splits)
    moreover from this assms(2) have "t \<notin> set (fs_waiters x)" by (simp add: waiters_inv_def)
    ultimately show ?thesis using assms(2) by (auto simp: waiters_inv_def fs_waiters_def split: if_splits)
  qed
qed

lemma do_acts_inv:
  "waitq_contract add flush unlink \<Longrightarrow> waiters_inv x \<Longrightarrow> do_acts add flush unlink ps x = Some y \<Longrightarrow> waiters_inv y"
  by (induction ps arbitrary: x) (auto simp: bind_eq_Some_conv dest: do_act_inv)

definition flag_start :: "evl_flag \<Rightarrow> kst \<Rightarrow> flag_sys" where
  "flag_start fl k = \<lparr>fs_flag = (fl, k), fs_phase = \<lambda>t. Idle\<rparr>"

lemma flag_start_inv:
  "\<not> flag_locked fl \<Longrightarrow> wq_waiters (fl_wait fl) = [] \<Longrightarrow> waiters_inv (flag_start fl k)"
  by (simp add: waiters_inv_def flag_start_def fs_waiters_def)

text \<open>C15. No wake-up is lost: over all interleavings of waits, timeouts, resumptions, raises, pulses,
  flushes and clears, from a flag nobody waits for and whatever its initial state, no thread ever sleeps on
  a flag which is raised; the threads asleep are exactly those the queue links, and the lock is free
  between the actions, so that raising is always possible and wakes all of them up.\<close>

theorem no_thread_sleeps_on_a_raised_flag:
  assumes "waitq_contract add flush unlink" and "\<not> flag_locked fl" and "wq_waiters (fl_wait fl) = []"
    and "do_acts add flush unlink ps (flag_start fl k) = Some x"
  shows "(evl_peek_flag (fst (fs_flag x)) \<longrightarrow> (\<forall>t. fs_phase x t \<noteq> Asleep)) \<and>
    (\<forall>t. fs_phase x t = Asleep \<longleftrightarrow> t \<in> set (fs_waiters x)) \<and>
    (\<exists>y. do_act add flush unlink Raise x = Some y \<and> evl_peek_flag (fst (fs_flag y)) \<and>
       (\<forall>t. fs_phase y t = (if fs_phase x t = Asleep then Woken 0 False else fs_phase x t)))"
proof -
  have inv: "waiters_inv x" by (rule do_acts_inv [OF assms(1) flag_start_inv [OF assms(2,3)] assms(4)])
  obtain fl1 k1 where f: "fs_flag x = (fl1, k1)" by fastforce
  from inv have "\<not> flag_locked fl1" by (simp add: waiters_inv_def f)
  from raise_free [OF assms(1) this, of k1] inv show ?thesis
    by (auto simp: f waiters_inv_def after_flush_def evl_peek_flag_def)
qed

section \<open>A raise releases one waiter\<close>

lemma resume_plain:
  assumes "waitq_contract add flush unlink"
    and "wait_resume (flag_ops add t False) flag_cond timeout tmode 0 (fl, k) = (r, fl', k')"
  shows "r = (if fl_raised fl then Some 0 else None)" and "\<not> fl_raised fl'"
  using wait_resume_cases [OF assms] by blast+

text \<open>Threads that resume from a plain wake-up while the flag is down go back to sleep.\<close>

lemma resume_all_sleep:
  assumes "waitq_contract add flush unlink" and "waiters_inv x" and "\<not> evl_peek_flag (fst (fs_flag x))"
    and "distinct ts" and "\<forall>t \<in> set ts. fs_phase x t = Woken 0 False"
  shows "\<exists>y. do_acts add flush unlink (map (\<lambda>t. Resume t timeout tmode) ts) x = Some y \<and> waiters_inv y \<and>
    \<not> evl_peek_flag (fst (fs_flag y)) \<and> (\<forall>t. fs_phase y t = (if t \<in> set ts then Asleep else fs_phase x t))"
  using assms(2-5)
proof (induction ts arbitrary: x)
  case (Cons t ts)
  obtain fl k where f: "fs_flag x = (fl, k)" by fastforce
  obtain r fl' k' where b: "wait_resume (flag_ops add t False) flag_cond timeout tmode 0 (fl, k) = (r, fl', k')"
    by (metis prod.collapse)
  let ?x = "after_part t x (r, fl', k')"
  have act: "do_act add flush unlink (Resume t timeout tmode) x = Some ?x" using Cons.prems(4) by (simp add: f b)
  have r: "r = None" "\<not> fl_raised fl'" using resume_plain [OF assms(1) b] Cons.prems(2) by (auto simp: evl_peek_flag_def f)
  have "waiters_inv ?x" by (rule do_act_inv [OF assms(1) Cons.prems(1) act])
  moreover have "\<not> evl_peek_flag (fst (fs_flag ?x))" "\<forall>u \<in> set ts. fs_phase ?x u = Woken 0 False"
    using r Cons.prems(3,4) by (auto simp: after_part_def evl_peek_flag_def)
  ultimately obtain y where y: "do_acts add flush unlink (map (\<lambda>t. Resume t timeout tmode) ts) ?x = Some y"
    "waiters_inv y" "\<not> evl_peek_flag (fst (fs_flag y))"
    "\<And>u. fs_phase y u = (if u \<in> set ts then Asleep else fs_phase ?x u)"
    using Cons.IH [of ?x] Cons.prems(3) by auto
  have "fs_phase y u = (if u \<in> set (t # ts) then Asleep else fs_phase x u)" for u
    using y(4) [of u] r(1) by (simp add: after_part_def)
  with y act show ?case by (intro exI [of _ y]) (simp del: do_act.simps)
qed simp

text \<open>C16. Raising a flag releases one waiter and no more: when no thread waits but those on the queue, and
  they resume after a raise in any order, the first one returns with 0 and lowers the flag, and all the
  others find it lowered and are asleep on the queue again, none of them dropped.\<close>

theorem raise_releases_exactly_one_waiter:
  assumes "waitq_contract add flush unlink" and "\<not> flag_locked fl" and "wq_waiters (fl_wait fl) = []"
    and "do_acts add flush unlink ps (flag_start fl k) = Some x"
    and "distinct (t # ts)" and "set (t # ts) = set (fs_waiters x)"
  shows "\<exists>y. do_acts add flush unlink (Raise # map (\<lambda>u. Resume u timeout tmode) (t # ts)) x = Some y \<and>
    \<not> evl_peek_flag (fst (fs_flag y)) \<and> set (fs_waiters y) = set ts \<and>
    (\<forall>u. fs_phase y u = (if u = t then Done 0 else fs_phase x u))"
proof -
  have inv: "waiters_inv x" by (rule do_acts_inv [OF assms(1) flag_start_inv [OF assms(2,3)] assms(4)])
  obtain fl0 k0 where f0: "fs_flag x = (fl0, k0)" by fastforce
  from inv have "\<not> flag_locked fl0" by (simp add: waiters_inv_def f0)
  from raise_free [OF assms(1) this, of k0] obtain fl1 k1
    where "evl_raise_flag_nosched flush (fl0, k0) = Some (fl1, k1)" "fl_raised fl1" by blast
  then obtain x1 where raise: "do_act add flush unlink Raise x = Some x1" and up: "fl_raised fl1"
    and x1: "x1 = after_flush 0 False x (fl1, k1)"
    by (simp add: f0)
  have f1: "fs_flag x1 = (fl1, k1)"
    and ph1: "\<And>u. fs_phase x1 u = (if u \<in> set (t # ts) then Woken 0 False else fs_phase x u)"
    by (simp_all only: x1 after_flush_def flag_sys.simps assms(6))
  have inv1: "waiters_inv x1" by (rule do_act_inv [OF assms(1) inv raise])
  obtain r fl2 k2 where b: "wait_resume (flag_ops add t False) flag_cond timeout tmode 0 (fl1, k1) = (r, fl2, k2)"
    by (metis prod.collapse)
  have r: "r = Some 0" "\<not> fl_raised fl2" using resume_plain [OF assms(1) b] up by auto
  let ?x2 = "after_part t x1 (r, fl2, k2)"
  have act: "do_act add flush unlink (Resume t timeout tmode) x1 = Some ?x2" by (simp add: ph1 f1 b)
  have inv2: "waiters_inv ?x2" by (rule do_act_inv [OF assms(1) inv1 act])
  have "\<forall>u \<in> set ts. fs_phase ?x2 u = Woken 0 False" using assms(5) by (auto simp: after_part_def ph1)
  with resume_all_sleep [OF assms(1) inv2, of ts timeout tmode] r assms(5) obtain y where
    y: "do_acts add flush unlink (map (\<lambda>u. Resume u timeout tmode) ts) ?x2 = Some y" "waiters_inv y"
    "\<not> evl_peek_flag (fst (fs_flag y))" "\<And>u. fs_phase y u = (if u \<in> set ts then Asleep else fs_phase ?x2 u)"
    by (auto simp: after_part_def evl_peek_flag_def)
  have old: "\<And>u. fs_phase x u = Asleep \<longleftrightarrow> u \<in> set (t # ts)" using inv assms(6) by (simp add: waiters_inv_def)
  have ph: "fs_phase y u = (if u = t then Done 0 else fs_phase x u)" for u
    using y(4) [of u] r(1) assms(5) old [of u] by (auto simp: after_part_def ph1)
  have "set (fs_waiters y) = {u. fs_phase y u = Asleep}" using y(2) by (auto simp: waiters_inv_def)
  also have "\<dots> = set ts" using ph old assms(5) by auto
  finally show ?thesis using raise act y ph by (intro exI [of _ y]) (simp del: do_act.simps)
qed

text \<open>A queue in the order of arrival, and two threads that wait for a flag.\<close>

definition upd_waiters :: "(ptr list \<Rightarrow> ptr list) \<Rightarrow> evl_wait_queue \<Rightarrow> evl_wait_queue" where
  "upd_waiters g wq = wq\<lparr>wq_wchan := (wq_wchan wq)\<lparr>wc_wait_list := g (wc_wait_list (wq_wchan wq))\<rparr>\<rparr>"

definition sample_add :: add_fn where
  "sample_add t timeout tmode = upd_waiters (\<lambda>ts. ts @ [t])"

definition sample_flush :: flush_fn where
  "sample_flush wq reason k = (upd_waiters (\<lambda>ts. []) wq, k)"

definition sample_unlink :: unlink_fn where
  "sample_unlink t = upd_waiters (removeAll t)"

lemmas sample_waitq_defs = sample_add_def sample_flush_def sample_unlink_def upd_waiters_def

lemma sample_waitq: "waitq_contract sample_add sample_flush sample_unlink"
  by (auto simp: waitq_contract_def sample_waitq_defs wq_waiters_def)

lemma sample_flag_free: "\<not> flag_locked sample_flag" "wq_waiters (fl_wait sample_flag) = []"
  by (simp_all add: sample_flag_def flag_locked_def wq_waiters_def EVL_FLAG_INITIALIZER_def EVL_WAIT_INITIALIZER_def)

lemma sample_two_waiters:
  "\<exists>x. do_acts sample_add sample_flush sample_unlink [Wait 5 EVL_INFINITE EVL_REL, Wait 7 EVL_INFINITE EVL_REL]
      (flag_start sample_flag sample_kst) = Some x \<and> set (fs_waiters x) = {5, 7} \<and> fs_phase x 5 = Asleep \<and>
    fs_phase x 7 = Asleep"
  by (simp add: flag_start_def after_part_def wait_begin_def wait_check_def flag_ops_def flag_cond_def Let_def
      evl_read_flag_def evl_unlock_flag_def set_flag_lock_def sample_waitq_defs fs_waiters_def wq_waiters_def
      sample_flag_def EVL_FLAG_INITIALIZER_def EVL_WAIT_INITIALIZER_def timeout_nonblock_def const_defs split_beta)

theorem no_thread_sleeps_on_a_raised_flag_witness:
  "\<exists>x y. do_acts sample_add sample_flush sample_unlink [Wait 5 EVL_INFINITE EVL_REL, Wait 7 EVL_INFINITE EVL_REL]
      (flag_start sample_flag sample_kst) = Some x \<and> fs_phase x 5 = Asleep \<and>
    do_act sample_add sample_flush sample_unlink Raise x = Some y \<and> fs_phase y 5 = Woken 0 False"
proof -
  obtain x where x: "do_acts sample_add sample_flush sample_unlink
      [Wait 5 EVL_INFINITE EVL_REL, Wait 7 EVL_INFINITE EVL_REL] (flag_start sample_flag sample_kst) = Some x"
    "fs_phase x 5 = Asleep"
    using sample_two_waiters by blast
  from no_thread_sleeps_on_a_raised_flag [OF sample_waitq sample_flag_free x(1)] x(2) obtain y where
    "do_act sample_add sample_flush sample_unlink Raise x = Some y" "fs_phase y 5 = Woken 0 False"
    by (metis (mono_tags, lifting))
  with x show ?thesis by blast
qed

theorem raise_releases_exactly_one_waiter_witness:
  "\<exists>x y. do_acts sample_add sample_flush sample_unlink [Wait 5 EVL_INFINITE EVL_REL, Wait 7 EVL_INFINITE EVL_REL]
      (flag_start sample_flag sample_kst) = Some x \<and>
    do_acts sample_add sample_flush sample_unlink
      (Raise # map (\<lambda>u. Resume u EVL_INFINITE EVL_REL) [7, 5]) x = Some y \<and>
    fs_phase y 7 = Done 0 \<and> fs_phase y 5 = Asleep"
proof -
  obtain x where x: "do_acts sample_add sample_flush sample_unlink
      [Wait 5 EVL_INFINITE EVL_REL, Wait 7 EVL_INFINITE EVL_REL] (flag_start sample_flag sample_kst) = Some x"
    "set (fs_waiters x) = {5, 7}" "fs_phase x 5 = Asleep"
    using sample_two_waiters by blast
  have "distinct [7, 5 :: ptr]" "set [7, 5] = set (fs_waiters x)" by (auto simp: x(2))
  from raise_releases_exactly_one_waiter [OF sample_waitq sample_flag_free x(1) this, of EVL_INFINITE EVL_REL]
  obtain y where y: "do_acts sample_add sample_flush sample_unlink
      (Raise # map (\<lambda>u. Resume u EVL_INFINITE EVL_REL) [7, 5]) x = Some y"
    "\<And>u. fs_phase y u = (if u = 7 then Done 0 else fs_phase x u)" by blast
  with x(1,3) y(2) [of 7] y(2) [of 5] show ?thesis by (intro exI [of _ x] exI [of _ y]) (simp del: do_acts.simps)
qed

end
