(* ===== verification/Evl_Crossing.thy ===== *)
theory Evl_Crossing
  imports Evl_Prelude
begin

text \<open>
  \<open>include/evl/crossing.h\<close> and \<open>file.h\<close>: the barrier an in-band caller passes once no out-of-band
  operation is in flight, and the references on files built on it. The completion and the irq work
  belong to the in-band kernel: a completion is its count of \<open>complete\<close> calls not consumed by a
  waiter, an irq work is whether it is queued. The interleavings are a step relation.
\<close>

section \<open>Operations\<close>

record evl_crossing =
  cx_oob_refs :: int
  cx_oob_done :: nat
  cx_oob_work :: bool

text \<open>The handler of the irq work, which the kernel takes off its queue before calling it.\<close>

definition evl_open_crossing :: "evl_crossing \<Rightarrow> evl_crossing" where
  "evl_open_crossing c = c\<lparr>cx_oob_done := Suc (cx_oob_done c)\<rparr>"

definition evl_init_crossing :: "evl_crossing" where
  "evl_init_crossing = \<lparr>cx_oob_refs = 1, cx_oob_done = 0, cx_oob_work = False\<rparr>"

definition evl_reinit_crossing :: "evl_crossing \<Rightarrow> evl_crossing" where
  "evl_reinit_crossing c = c\<lparr>cx_oob_refs := 1, cx_oob_done := 0\<rparr>"

definition evl_down_crossing :: "evl_crossing \<Rightarrow> evl_crossing" where
  "evl_down_crossing c = c\<lparr>cx_oob_refs := cx_oob_refs c + 1\<rparr>"

definition evl_up_crossing :: "evl_crossing \<Rightarrow> evl_crossing" where
  "evl_up_crossing c =
     (let c1 = c\<lparr>cx_oob_refs := cx_oob_refs c - 1\<rparr>
      in if cx_oob_refs c1 = 0 then c1\<lparr>cx_oob_work := True\<rparr> else c1)"

text \<open>The first part of \<open>evl_pass_crossing\<close>: whether the caller has to wait for the completion.\<close>

definition evl_pass_crossing :: "evl_crossing \<Rightarrow> bool \<times> evl_crossing" where
  "evl_pass_crossing c =
     (let c1 = c\<lparr>cx_oob_refs := cx_oob_refs c - 1\<rparr> in (cx_oob_refs c1 > 0, c1))"

record evl_file =
  ef_filp :: ptr
  ef_crossing :: evl_crossing

record evl_fd =
  efd_fd :: u32
  efd_efilp :: ptr
  efd_files :: ptr
  efd_poll_nodes :: "ptr list"

record evl_file_binding =
  eb_efile :: evl_file
  eb_element :: ptr

definition evl_get_fileref :: "evl_file \<Rightarrow> evl_file" where
  "evl_get_fileref f = f\<lparr>ef_crossing := evl_down_crossing (ef_crossing f)\<rparr>"

definition evl_put_file :: "evl_file \<Rightarrow> evl_file" where
  "evl_put_file f = f\<lparr>ef_crossing := evl_up_crossing (ef_crossing f)\<rparr>"

lemmas crossing_defs [evl_defs] = evl_open_crossing_def evl_init_crossing_def evl_reinit_crossing_def
  evl_down_crossing_def evl_up_crossing_def evl_pass_crossing_def

section \<open>Interleavings\<close>

text \<open>
  The crossing, the number of out-of-band operations between their down and up calls, and where the
  in-band caller is. As the header demands, nobody goes down once the caller has entered
  \<open>evl_pass_crossing\<close>.
\<close>

datatype passer = Before | Waiting | Passed

inductive crossing_step :: "evl_crossing \<times> nat \<times> passer \<Rightarrow> evl_crossing \<times> nat \<times> passer \<Rightarrow> bool" where
  down: "crossing_step (c, n, Before) (evl_down_crossing c, Suc n, Before)"
| up: "crossing_step (c, Suc n, p) (evl_up_crossing c, n, p)"
| work: "cx_oob_work c \<Longrightarrow> crossing_step (c, n, p) (evl_open_crossing (c\<lparr>cx_oob_work := False\<rparr>), n, p)"
| pass: "evl_pass_crossing c = (w, c') \<Longrightarrow>
    crossing_step (c, n, Before) (c', n, if w then Waiting else Passed)"
| wake: "cx_oob_done c = Suc d \<Longrightarrow> crossing_step (c, n, Waiting) (c\<lparr>cx_oob_done := d\<rparr>, n, Passed)"

inductive_cases crossing_stepE: "crossing_step (c, n, p) s'"

fun crossing_inv :: "evl_crossing \<times> nat \<times> passer \<Rightarrow> bool" where
  "crossing_inv (c, n, Before) \<longleftrightarrow> cx_oob_refs c = int n + 1 \<and> cx_oob_done c = 0 \<and> \<not> cx_oob_work c"
| "crossing_inv (c, n, Waiting) \<longleftrightarrow> cx_oob_refs c = int n \<and>
     (if n = 0 then cx_oob_done c + of_bool (cx_oob_work c) = 1 else cx_oob_done c = 0 \<and> \<not> cx_oob_work c)"
| "crossing_inv (c, n, Passed) \<longleftrightarrow> n = 0 \<and> cx_oob_refs c = 0 \<and> cx_oob_done c = 0 \<and> \<not> cx_oob_work c"

lemma crossing_inv_step: "crossing_step s s' \<Longrightarrow> crossing_inv s \<Longrightarrow> crossing_inv s'"
proof (induction rule: crossing_step.induct)
  case (up c n p)
  then show ?case by (cases p) (auto simp: crossing_defs Let_def split: if_splits)
next
  case (work c n p)
  then show ?case by (cases p) (auto simp: crossing_defs split: if_splits)
qed (auto simp: crossing_defs Let_def split: if_splits)

lemma crossing_reachable_inv:
  "crossing_step\<^sup>*\<^sup>* s s' \<Longrightarrow> crossing_inv s \<Longrightarrow> crossing_inv s'"
  by (induction rule: rtranclp_induct) (simp_all add: crossing_inv_step)

text \<open>The work left before a waiting caller passes.\<close>

fun crossing_work :: "evl_crossing \<times> nat \<times> passer \<Rightarrow> nat" where
  "crossing_work (c, n, p) = 3 * n + 2 * of_bool (cx_oob_work c) + cx_oob_done c"

lemma waiting_step_progress:
  assumes "crossing_inv (c, n, Waiting)"
  shows "\<exists>s'. crossing_step (c, n, Waiting) s'"
proof (cases n)
  case 0
  with assms have "cx_oob_work c \<or> cx_oob_done c = Suc 0" by (cases "cx_oob_work c") auto
  then show ?thesis by (metis crossing_step.work crossing_step.wake)
next
  case (Suc m)
  then show ?thesis by (metis crossing_step.up)
qed

lemma waiting_step_decreases:
  "crossing_step (c, n, Waiting) s' \<Longrightarrow> crossing_work s' < crossing_work (c, n, Waiting)"
  by (erule crossing_stepE) (auto simp: crossing_defs Let_def)

text \<open>Every run of a waiting caller which is not passed yet is bounded by the work left.\<close>

lemma waiting_run_bounded:
  assumes "crossing_inv s" and "(crossing_step ^^ k) s s'" and "snd (snd s) = Waiting" and "snd (snd s') = Waiting"
  shows "crossing_work s' + k \<le> crossing_work s"
  using assms
proof (induction k arbitrary: s)
  case (Suc k)
  then obtain s1 where s1: "crossing_step s s1" "(crossing_step ^^ k) s1 s'"
    by (meson relpowp_Suc_E2)
  obtain c n where s: "s = (c, n, Waiting)" using Suc.prems(3) by (metis prod.collapse)
  have inv1: "crossing_inv s1" using crossing_inv_step [OF s1(1)] Suc.prems(1) .
  have "snd (snd s1) \<noteq> Passed"
  proof
    assume "snd (snd s1) = Passed"
    then have "snd (snd s') = Passed" using s1(2)
    proof (induction k arbitrary: s1)
      case (Suc k)
      then obtain s2 where s2: "crossing_step s1 s2" "(crossing_step ^^ k) s2 s'" by (meson relpowp_Suc_E2)
      from s2(1) Suc.prems(1) have "snd (snd s2) = Passed" by cases auto
      with Suc.IH s2(2) show ?case by blast
    qed simp
    with Suc.prems(4) show False by simp
  qed
  moreover have "snd (snd s1) \<noteq> Before" using s1(1) s by (auto elim: crossing_stepE)
  ultimately have "snd (snd s1) = Waiting" by (cases "snd (snd s1)") auto
  with Suc.IH [OF inv1 s1(2) _ Suc.prems(4)] waiting_step_decreases [of c n s1] s1(1) s show ?case by auto
qed simp

text \<open>C6. The crossing is safe and live: however the out-of-band users, the irq work and the in-band
  caller interleave, when the caller is past \<open>evl_pass_crossing\<close> no out-of-band user is in flight; a
  caller that waits is never stuck (some step is enabled) and every run leads it through the crossing
  within three steps per user in flight plus two; and once it is through, no work or completion is
  left behind that a reinitialized crossing would see.\<close>

theorem crossing_is_safe_and_live:
  assumes "crossing_step\<^sup>*\<^sup>* (evl_init_crossing, 0, Before) (c, n, p)"
  shows "(p = Passed \<longrightarrow> n = 0 \<and> cx_oob_done c = 0 \<and> \<not> cx_oob_work c \<and> evl_reinit_crossing c = evl_init_crossing) \<and>
    (p = Waiting \<longrightarrow> (\<exists>s'. crossing_step (c, n, p) s') \<and>
       (\<forall>k s'. (crossing_step ^^ k) (c, n, p) s' \<and> snd (snd s') = Waiting \<longrightarrow> k \<le> 3 * n + 2))"
proof -
  have inv: "crossing_inv (c, n, p)"
    by (rule crossing_reachable_inv [OF assms]) (simp add: evl_init_crossing_def)
  have "k \<le> 3 * n + 2" if "p = Waiting" "(crossing_step ^^ k) (c, n, p) s'" "snd (snd s') = Waiting" for k s'
  proof -
    have "crossing_work (c, n, p) \<le> 3 * n + 2"
      using inv that(1) by (cases "cx_oob_work c") (auto split: if_splits)
    with waiting_run_bounded [OF inv that(2) _ that(3)] that(1) show ?thesis by simp
  qed
  with inv waiting_step_progress [of c n] show ?thesis
    by (cases p) (auto simp: evl_reinit_crossing_def evl_init_crossing_def)
qed

theorem crossing_is_safe_and_live_witness:
  "\<exists>s'. crossing_step (snd (evl_pass_crossing (evl_down_crossing evl_init_crossing)), 1, Waiting) s'"
proof -
  let ?c = "snd (evl_pass_crossing (evl_down_crossing evl_init_crossing))"
  have "crossing_step (evl_init_crossing, 0, Before) (evl_down_crossing evl_init_crossing, Suc 0, Before)"
    by (rule crossing_step.down)
  moreover have "crossing_step (evl_down_crossing evl_init_crossing, Suc 0, Before) (?c, Suc 0, Waiting)"
    using crossing_step.pass [of "evl_down_crossing evl_init_crossing" True ?c "Suc 0"]
    by (simp add: crossing_defs)
  ultimately have "crossing_step\<^sup>*\<^sup>* (evl_init_crossing, 0, Before) (?c, Suc 0, Waiting)"
    by (meson rtranclp.rtrancl_into_rtrancl rtranclp.rtrancl_refl)
  from crossing_is_safe_and_live [OF this] show ?thesis by simp
qed

end
