(* ===== verification/Irq_Pipeline.thy ===== *)
theory Irq_Pipeline
  imports Evl_Prelude
begin

text \<open>
  Interrupt state of a hart: \<open>arch/riscv/include/asm/irqflags.h\<close> (the native operations on the
  \<open>sstatus\<close> register), \<open>arch/riscv/include/asm/irq_pipeline.h\<close> (the in-band operations on the stall
  bit, flag conversions, tick stealing, IPI numbers) and \<open>asm-generic/irq_pipeline.h\<close> (the hard
  operations, merging and splitting of the two states), in both builds. The CSR accessors are one
  instruction each, with the meaning the ISA gives them; the operations of the pipeline core on
  the stall bit (\<open>inband_irq_*\<close>) are arguments.
\<close>

section \<open>The registers\<close>

record hart =
  csr_status :: u64
  csr_ie :: u64
  csr_slie :: u64

definition csr_read :: "hart \<Rightarrow> u64" where "csr_read h = csr_status h"
definition csr_set :: "u64 \<Rightarrow> hart \<Rightarrow> hart" where "csr_set m h = h\<lparr>csr_status := csr_status h OR m\<rparr>"
definition csr_clear :: "u64 \<Rightarrow> hart \<Rightarrow> hart" where "csr_clear m h = h\<lparr>csr_status := csr_status h AND NOT m\<rparr>"
definition csr_read_clear :: "u64 \<Rightarrow> hart \<Rightarrow> u64 \<times> hart" where
  "csr_read_clear m h = (csr_status h, csr_clear m h)"

definition IRQMASK_i_POS :: nat where [const_defs]: "IRQMASK_i_POS = 0"
definition IRQMASK_I_POS :: nat where [const_defs]: "IRQMASK_I_POS = 1"

text \<open>\<open>SR_IE\<close> is at the position the header gives.\<close>

definition SR_IE :: u64 where [flag_defs]: "SR_IE = 2 ^ IRQMASK_I_POS"
definition IRQMASK_I_BIT :: u64 where [flag_defs]: "IRQMASK_I_BIT = SR_IE"

section \<open>Native operations (irqflags.h)\<close>

definition native_save_flags :: "hart \<Rightarrow> u64" where
  "native_save_flags h = csr_read h"

definition native_irq_enable :: "hart \<Rightarrow> hart" where
  "native_irq_enable h = csr_set SR_IE h"

definition native_irq_disable :: "hart \<Rightarrow> hart" where
  "native_irq_disable h = csr_clear SR_IE h"

definition native_irq_save :: "hart \<Rightarrow> u64 \<times> hart" where
  "native_irq_save h = csr_read_clear SR_IE h"

definition native_irqs_disabled_flags :: "u64 \<Rightarrow> bool" where
  "native_irqs_disabled_flags flags \<longleftrightarrow> flags AND SR_IE = 0"

definition native_irqs_disabled :: "hart \<Rightarrow> bool" where
  "native_irqs_disabled h \<longleftrightarrow> native_irqs_disabled_flags (native_save_flags h)"

definition native_irq_restore :: "u64 \<Rightarrow> hart \<Rightarrow> hart" where
  "native_irq_restore flags h = csr_set (flags AND SR_IE) h"

definition native_irq_sync :: "hart \<Rightarrow> hart" where
  "native_irq_sync h = native_irq_disable (native_irq_enable h)"

section \<open>Hard operations (asm-generic, CONFIG_IRQ_PIPELINE)\<close>

definition hard_local_irq_save :: "hart \<Rightarrow> u64 \<times> hart" where
  "hard_local_irq_save h = native_irq_save h"
definition hard_local_irq_restore :: "u64 \<Rightarrow> hart \<Rightarrow> hart" where
  "hard_local_irq_restore flags h = native_irq_restore flags h"
definition hard_local_irq_enable :: "hart \<Rightarrow> hart" where "hard_local_irq_enable h = native_irq_enable h"
definition hard_local_irq_disable :: "hart \<Rightarrow> hart" where "hard_local_irq_disable h = native_irq_disable h"
definition hard_local_save_flags :: "hart \<Rightarrow> u64" where "hard_local_save_flags h = native_save_flags h"
definition hard_irqs_disabled :: "hart \<Rightarrow> bool" where "hard_irqs_disabled h \<longleftrightarrow> native_irqs_disabled h"
definition hard_irqs_disabled_flags :: "u64 \<Rightarrow> bool" where
  "hard_irqs_disabled_flags flags \<longleftrightarrow> native_irqs_disabled_flags flags"
definition hard_local_irq_sync :: "hart \<Rightarrow> hart" where "hard_local_irq_sync h = native_irq_sync h"

definition hard_cond_local_irq_enable :: "hart \<Rightarrow> hart" where
  "hard_cond_local_irq_enable h = hard_local_irq_enable h"
definition hard_cond_local_irq_disable :: "hart \<Rightarrow> hart" where
  "hard_cond_local_irq_disable h = hard_local_irq_disable h"
definition hard_cond_local_irq_save :: "hart \<Rightarrow> u64 \<times> hart" where
  "hard_cond_local_irq_save h = hard_local_irq_save h"
definition hard_cond_local_irq_restore :: "u64 \<Rightarrow> hart \<Rightarrow> hart" where
  "hard_cond_local_irq_restore flags h = hard_local_irq_restore flags h"

section \<open>Virtual and native flags\<close>

definition arch_irqs_virtual_to_native_flags :: "u32 \<Rightarrow> u64" where
  "arch_irqs_virtual_to_native_flags stalled = (if stalled = 0 then SR_IE else 0)"

definition arch_irqs_native_to_virtual_flags :: "u64 \<Rightarrow> u64" where
  "arch_irqs_native_to_virtual_flags flags = (if flags AND SR_IE = 0 then push_bit IRQMASK_i_POS 1 else 0)"

definition irqs_merge_flags :: "u64 \<Rightarrow> u32 \<Rightarrow> u64" where
  "irqs_merge_flags flags stalled =
     arch_irqs_virtual_to_native_flags stalled OR arch_irqs_native_to_virtual_flags flags"

text \<open>The flags and the stall bit; the last conversion narrows its argument to an \<open>int\<close>.\<close>

definition irqs_split_flags :: "u64 \<Rightarrow> u64 \<times> u32" where
  "irqs_split_flags combo =
     (let stall = of_bool (hard_irqs_disabled_flags combo);
          virt = combo AND NOT (arch_irqs_virtual_to_native_flags stall)
      in (arch_irqs_virtual_to_native_flags (ucast virt), stall))"

definition stage_save_flags :: "bool \<Rightarrow> hart \<Rightarrow> u64" where
  "stage_save_flags irqs_disabled h = irqs_merge_flags (hard_local_save_flags h) (of_bool irqs_disabled)"

section \<open>In-band operations (CONFIG_IRQ_PIPELINE)\<close>

text \<open>
  The stage of the pipeline core is the state \<open>'s\<close>: its operations are a table.
\<close>

record 's inband_ops =
  inband_irq_save :: "'s \<Rightarrow> u32 \<times> 's"
  inband_irq_restore :: "u32 \<Rightarrow> 's \<Rightarrow> 's"
  inband_irq_enable :: "'s \<Rightarrow> 's"
  inband_irq_disable :: "'s \<Rightarrow> 's"
  inband_irqs_disabled :: "'s \<Rightarrow> u32"

definition arch_irqs_disabled_flags :: "u64 \<Rightarrow> bool" where
  "arch_irqs_disabled_flags flags \<longleftrightarrow> native_irqs_disabled_flags flags"

definition arch_local_irq_save :: "'s inband_ops \<Rightarrow> 's \<Rightarrow> u64 \<times> 's" where
  "arch_local_irq_save p s =
     (let (stalled, s') = inband_irq_save p s in (arch_irqs_virtual_to_native_flags stalled, s'))"

definition arch_local_irq_enable :: "'s inband_ops \<Rightarrow> 's \<Rightarrow> 's" where
  "arch_local_irq_enable p s = inband_irq_enable p s"

definition arch_local_irq_disable :: "'s inband_ops \<Rightarrow> 's \<Rightarrow> 's" where
  "arch_local_irq_disable p s = inband_irq_disable p s"

definition arch_local_save_flags :: "'s inband_ops \<Rightarrow> 's \<Rightarrow> u64" where
  "arch_local_save_flags p s = arch_irqs_virtual_to_native_flags (inband_irqs_disabled p s)"

definition arch_local_irq_restore :: "'s inband_ops \<Rightarrow> u64 \<Rightarrow> 's \<Rightarrow> 's" where
  "arch_local_irq_restore p flags s = inband_irq_restore p (of_bool (arch_irqs_disabled_flags flags)) s"

definition arch_irqs_disabled :: "'s inband_ops \<Rightarrow> 's \<Rightarrow> bool" where
  "arch_irqs_disabled p s \<longleftrightarrow> arch_irqs_disabled_flags (arch_local_save_flags p s)"

text \<open>Without the pipeline the same names are the native operations.\<close>

definition np_arch_local_irq_save :: "hart \<Rightarrow> u64 \<times> hart" where
  "np_arch_local_irq_save h = native_irq_save h"
definition np_arch_local_irq_enable :: "hart \<Rightarrow> hart" where "np_arch_local_irq_enable h = native_irq_enable h"
definition np_arch_local_irq_disable :: "hart \<Rightarrow> hart" where "np_arch_local_irq_disable h = native_irq_disable h"
definition np_arch_local_save_flags :: "hart \<Rightarrow> u64" where "np_arch_local_save_flags h = native_save_flags h"
definition np_arch_local_irq_restore :: "u64 \<Rightarrow> hart \<Rightarrow> hart" where
  "np_arch_local_irq_restore flags h = native_irq_restore flags h"
definition np_arch_irqs_disabled_flags :: "u64 \<Rightarrow> bool" where
  "np_arch_irqs_disabled_flags flags \<longleftrightarrow> native_irqs_disabled_flags flags"
definition np_arch_irqs_disabled :: "hart \<Rightarrow> bool" where
  "np_arch_irqs_disabled h \<longleftrightarrow> np_arch_irqs_disabled_flags (np_arch_local_save_flags h)"

text \<open>The stage helpers of \<open>asm-generic/irq_pipeline.h\<close> without the pipeline.\<close>

definition np_stage_disabled :: "hart \<Rightarrow> bool" where "np_stage_disabled h \<longleftrightarrow> np_arch_irqs_disabled h"
definition np_stage_disabled_flags :: "u64 \<Rightarrow> bool \<times> bool" where
  "np_stage_disabled_flags flags =
     (let stalled = np_arch_irqs_disabled_flags flags in (stalled, stalled))"
definition np_test_and_lock_stage :: "hart \<Rightarrow> (u64 \<times> bool) \<times> hart" where
  "np_test_and_lock_stage h =
     (let (flags, h') = np_arch_local_irq_save h in ((flags, np_arch_irqs_disabled_flags flags), h'))"
definition np_unlock_stage :: "u64 \<Rightarrow> hart \<Rightarrow> hart" where
  "np_unlock_stage flags h = np_arch_local_irq_restore flags h"
definition np_stage_save_flags :: "hart \<Rightarrow> u64" where "np_stage_save_flags h = np_arch_local_save_flags h"

text \<open>The conditional hard operations do nothing without the pipeline.\<close>

definition np_hard_cond_local_irq_enable :: "hart \<Rightarrow> hart" where "np_hard_cond_local_irq_enable h = h"
definition np_hard_cond_local_irq_disable :: "hart \<Rightarrow> hart" where "np_hard_cond_local_irq_disable h = h"
definition np_hard_cond_local_irq_save :: "hart \<Rightarrow> u64 \<times> hart" where "np_hard_cond_local_irq_save h = (0, h)"
definition np_hard_cond_local_irq_restore :: "u64 \<Rightarrow> hart \<Rightarrow> hart" where
  "np_hard_cond_local_irq_restore flags h = h"
definition np_hard_local_irq_sync :: "hart \<Rightarrow> hart" where "np_hard_local_irq_sync h = h"

section \<open>Ticks and IPIs\<close>

record pt_regs =
  reg_status :: u64
  reg_epc :: u64
  reg_cause :: u64

definition arch_save_timer_regs :: "pt_regs \<Rightarrow> pt_regs \<Rightarrow> pt_regs" where
  "arch_save_timer_regs dst src = dst\<lparr>reg_status := reg_status src, reg_epc := reg_epc src\<rparr>"

text \<open>\<open>SR_PIE\<close> is a constant of the kernel's \<open>csr.h\<close>.\<close>

definition arch_steal_pipelined_tick :: "u64 \<Rightarrow> pt_regs \<Rightarrow> bool" where
  "arch_steal_pipelined_tick SR_PIE regs \<longleftrightarrow> reg_status regs AND SR_PIE = 0"

definition arch_enable_oob_stage :: int where "arch_enable_oob_stage = 0"

definition arch_handle_irq_pipelined :: "(pt_regs \<Rightarrow> 's \<Rightarrow> 's) \<Rightarrow> pt_regs \<Rightarrow> 's \<Rightarrow> 's" where
  "arch_handle_irq_pipelined handle_arch_irq regs s = handle_arch_irq regs s"

definition arch_kentry_get_irqstate :: "pt_regs \<Rightarrow> u64" where "arch_kentry_get_irqstate regs = 0"
definition arch_kentry_set_irqstate :: "pt_regs \<Rightarrow> u64 \<Rightarrow> pt_regs" where
  "arch_kentry_set_irqstate regs irqstate = regs"

definition OOB_NR_IPI :: int where [const_defs]: "OOB_NR_IPI = 3"
definition OOB_IPI_OFFSET :: int where [const_defs]: "OOB_IPI_OFFSET = 1"
definition TIMER_OOB_IPI :: "int \<Rightarrow> int" where [const_defs]: "TIMER_OOB_IPI ipi_irq_base = ipi_irq_base + OOB_IPI_OFFSET"
definition RESCHEDULE_OOB_IPI :: "int \<Rightarrow> int" where [const_defs]:
  "RESCHEDULE_OOB_IPI ipi_irq_base = TIMER_OOB_IPI ipi_irq_base + 1"
definition CALL_FUNCTION_OOB_IPI :: "int \<Rightarrow> int" where [const_defs]:
  "CALL_FUNCTION_OOB_IPI ipi_irq_base = RESCHEDULE_OOB_IPI ipi_irq_base + 1"

definition irqs_pipelined :: "bool \<Rightarrow> bool" where
  "irqs_pipelined CONFIG_IRQ_PIPELINE \<longleftrightarrow> CONFIG_IRQ_PIPELINE"
definition irq_pipeline_debug :: "bool \<Rightarrow> bool \<Rightarrow> bool" where
  "irq_pipeline_debug CONFIG_DEBUG_IRQ_PIPELINE irq_pipeline_oopsing \<longleftrightarrow>
     CONFIG_DEBUG_IRQ_PIPELINE \<and> \<not> irq_pipeline_oopsing"
definition irq_pipeline_debug_locking :: "bool \<Rightarrow> bool" where
  "irq_pipeline_debug_locking CONFIG_DEBUG_HARD_LOCKS \<longleftrightarrow> CONFIG_DEBUG_HARD_LOCKS"

end
