(* ===== verification/Irq_Props.thy ===== *)
theory Irq_Props
  imports Irq_Pipeline
begin

text \<open>
  What the interrupt state operations promise: the interface of nested masked sections, implemented
  by the native operations and by the in-band operations on the stall bit; the round trip of the
  combined flags; and which ticks the out-of-band stage steals.
\<close>

section \<open>Nested masked sections\<close>

text \<open>A program is made of work on the rest of the state and of masked sections around programs.\<close>

datatype 'r irq_prog = Work "'r \<Rightarrow> 'r" | Section "'r irq_prog list"

text \<open>
  The interface: saving masks interrupts, restoring what was saved gives back the mask of before
  when interrupts are still masked, and neither touches the rest of the state.
\<close>

locale irq_flags_ops =
  fixes save :: "'s \<Rightarrow> 'f \<times> 's" and restore :: "'f \<Rightarrow> 's \<Rightarrow> 's"
    and masked :: "'s \<Rightarrow> bool" and rest :: "'s \<Rightarrow> 'r" and put :: "'r \<Rightarrow> 's \<Rightarrow> 's"
  assumes save_masks: "masked (snd (save s))" and save_rest: "rest (snd (save s)) = rest s"
    and restore_mask: "masked s' \<Longrightarrow> masked (restore (fst (save s)) s') = masked s"
    and restore_rest: "rest (restore f s) = rest s"
    and put_rest: "rest (put r s) = r" and put_mask: "masked (put r s) = masked s"
begin

text \<open>Running a program: the state, and for every work done whether interrupts were masked.\<close>

fun run_prog :: "'r irq_prog \<Rightarrow> 's \<Rightarrow> 's \<times> bool list" and run_progs :: "'r irq_prog list \<Rightarrow> 's \<Rightarrow> 's \<times> bool list" where
  "run_prog (Work f) s = (put (f (rest s)) s, [masked s])"
| "run_prog (Section ps) s =
     (let (fl, s1) = save s; (s2, tr) = run_progs ps s1 in (restore fl s2, tr))"
| "run_progs [] s = (s, [])"
| "run_progs (p # ps) s =
     (let (s1, tr1) = run_prog p s; (s2, tr2) = run_progs ps s1 in (s2, tr1 @ tr2))"

end

text \<open>What a program does to the rest of the state, and the masks of its work, seen abstractly.\<close>

fun spec_prog :: "'r irq_prog \<Rightarrow> bool \<Rightarrow> 'r \<Rightarrow> 'r \<times> bool list" and spec_progs :: "'r irq_prog list \<Rightarrow> bool \<Rightarrow> 'r \<Rightarrow> 'r \<times> bool list" where
  "spec_prog (Work f) m r = (f r, [m])"
| "spec_prog (Section ps) m r = spec_progs ps True r"
| "spec_progs [] m r = (r, [])"
| "spec_progs (p # ps) m r =
     (let (r1, tr1) = spec_prog p m r; (r2, tr2) = spec_progs ps m r1 in (r2, tr1 @ tr2))"

context irq_flags_ops
begin

lemma sections_nest:
  "masked (fst (run_prog p s)) = masked s \<and> rest (fst (run_prog p s)) = fst (spec_prog p (masked s) (rest s)) \<and>
   snd (run_prog p s) = snd (spec_prog p (masked s) (rest s))"
  "masked (fst (run_progs ps s)) = masked s \<and> rest (fst (run_progs ps s)) = fst (spec_progs ps (masked s) (rest s)) \<and>
   snd (run_progs ps s) = snd (spec_progs ps (masked s) (rest s))"
proof (induction p s and ps s rule: run_prog_run_progs.induct)
  case (1 f s)
  then show ?case by (simp add: put_rest put_mask)
next
  case (2 ps s)
  obtain fl s1 where s1: "save s = (fl, s1)" by fastforce
  obtain s2 tr where s2: "run_progs ps s1 = (s2, tr)" by fastforce
  have "masked s1" "rest s1 = rest s" using save_masks [of s] save_rest [of s] s1 by simp_all
  with 2 [OF s1 [symmetric] refl] s1 s2 restore_mask [of s2 s] show ?case
    by (simp add: restore_rest)
next
  case (4 p ps s)
  obtain s1 tr where s1: "run_prog p s = (s1, tr)" by fastforce
  obtain s2 tr2 where s2: "run_progs ps s1 = (s2, tr2)" by fastforce
  from 4(1) 4(2) [OF s1 [symmetric] refl] s1 s2 show ?case by (simp add: Let_def split_beta)
qed simp

end

section \<open>The native operations\<close>

lemma sr_ie_bit: "SR_IE = 2 ^ 1"
  by (simp add: flag_defs const_defs)

lemmas sr_ie_test = single_bit_test [OF sr_ie_bit, simplified]

lemma sr_ie_facts [simp]:
  "(x AND NOT SR_IE) AND SR_IE = 0" "SR_IE \<noteq> 0" "SR_IE AND SR_IE = SR_IE"
  "(x OR (y AND SR_IE)) AND SR_IE = (x AND SR_IE) OR (y AND SR_IE)"
  by (simp_all only: and_not_cancel and.idem word_ao_dist and.assoc) (simp_all add: sr_ie_bit)

definition hard_save :: "hart \<times> 'r \<Rightarrow> u64 \<times> hart \<times> 'r" where
  "hard_save = (\<lambda>(h, r). let (fl, h') = hard_local_irq_save h in (fl, h', r))"

definition hard_restore :: "u64 \<Rightarrow> hart \<times> 'r \<Rightarrow> hart \<times> 'r" where
  "hard_restore fl = (\<lambda>(h, r). (hard_local_irq_restore fl h, r))"

definition hard_masked :: "hart \<times> 'r \<Rightarrow> bool" where
  "hard_masked = (\<lambda>(h, r). hard_irqs_disabled h)"

lemmas native_defs = native_irq_save_def native_irq_restore_def native_irqs_disabled_def
  native_irqs_disabled_flags_def native_save_flags_def native_irq_enable_def native_irq_disable_def
  csr_read_def csr_set_def csr_clear_def csr_read_clear_def
lemmas hard_defs = hard_save_def hard_restore_def hard_masked_def hard_local_irq_save_def
  hard_local_irq_restore_def hard_irqs_disabled_def native_defs

interpretation hard: irq_flags_ops hard_save hard_restore hard_masked snd "\<lambda>r s. (fst s, r)"
  by unfold_locales (auto simp: hard_defs)

text \<open>Hard interrupt masking nests: in a program of nested \<open>hard_local_irq_save\<close>/\<open>restore\<close> sections
  over any work, work runs with interrupts masked exactly when it is in a section or interrupts were
  masked at the start, the effect on memory is the one of the work alone, and \<open>SR_IE\<close> has at the end
  the value of the start.\<close>

lemma hard_sections_nest:
  "let (s', masks) = irq_flags_ops.run_prog hard_save hard_restore hard_masked snd (\<lambda>r s. (fst s, r)) p (h, m) in
     native_irqs_disabled (fst s') = native_irqs_disabled h \<and>
     (snd s', masks) = spec_prog p (native_irqs_disabled h) m"
  using hard.sections_nest(1) [of p "(h, m)"]
  by (simp add: Let_def split_beta hard_masked_def hard_irqs_disabled_def prod_eq_iff)

section \<open>The in-band operations\<close>

text \<open>What the pipeline core promises of its stall bit, and that it touches nothing else.\<close>

definition inband_ops_ok :: "'s inband_ops \<Rightarrow> ('s \<Rightarrow> bool) \<Rightarrow> bool" where
  "inband_ops_ok p stalled \<longleftrightarrow>
     (\<forall>s. inband_irqs_disabled p s = of_bool (stalled s) \<and>
        inband_irq_save p s = (of_bool (stalled s), snd (inband_irq_save p s)) \<and>
        stalled (snd (inband_irq_save p s)) \<and> stalled (inband_irq_disable p s) \<and> \<not> stalled (inband_irq_enable p s) \<and>
        (\<forall>b. stalled (inband_irq_restore p (of_bool b) s) = b))"

definition inband_save :: "'s inband_ops \<Rightarrow> 's \<times> 'r \<Rightarrow> u64 \<times> 's \<times> 'r" where
  "inband_save p = (\<lambda>(s, r). let (fl, s') = arch_local_irq_save p s in (fl, s', r))"

definition inband_restore :: "'s inband_ops \<Rightarrow> u64 \<Rightarrow> 's \<times> 'r \<Rightarrow> 's \<times> 'r" where
  "inband_restore p fl = (\<lambda>(s, r). (arch_local_irq_restore p fl s, r))"

definition inband_masked :: "'s inband_ops \<Rightarrow> 's \<times> 'r \<Rightarrow> bool" where
  "inband_masked p = (\<lambda>(s, r). arch_irqs_disabled p s)"

lemma flags_of_stall [simp]:
  "arch_irqs_disabled_flags (arch_irqs_virtual_to_native_flags (of_bool b)) = b"
  by (simp add: arch_irqs_disabled_flags_def native_irqs_disabled_flags_def arch_irqs_virtual_to_native_flags_def)

lemma inband_flags:
  assumes "inband_ops_ok p stalled"
  shows "arch_irqs_disabled p s = stalled s" "stalled (snd (arch_local_irq_save p s))"
    "arch_irqs_disabled_flags (fst (arch_local_irq_save p s)) = stalled s"
    "stalled (arch_local_irq_restore p fl s) = arch_irqs_disabled_flags fl"
proof -
  have "fst (inband_irq_save p s) = of_bool (stalled s)"
    using assms unfolding inband_ops_ok_def by (metis fst_conv)
  with assms show "arch_irqs_disabled p s = stalled s" "stalled (snd (arch_local_irq_save p s))"
    "arch_irqs_disabled_flags (fst (arch_local_irq_save p s)) = stalled s"
    "stalled (arch_local_irq_restore p fl s) = arch_irqs_disabled_flags fl"
    by (simp_all add: inband_ops_ok_def arch_irqs_disabled_def arch_local_save_flags_def arch_local_irq_save_def
        arch_local_irq_restore_def split_beta)
qed

lemma inband_irq_flags_ops:
  assumes "inband_ops_ok p stalled"
  shows "irq_flags_ops (inband_save p) (inband_restore p) (inband_masked p) snd (\<lambda>r s. (fst s, r))"
  by unfold_locales (auto simp: inband_save_def inband_restore_def inband_masked_def inband_flags [OF assms] split_beta)

text \<open>In-band masking nests the same way and leaves the hardware alone: given the pipeline core's
  operations on its stall bit, a program of nested \<open>arch_local_irq_save\<close>/\<open>restore\<close> sections runs its work
  with in-band interrupts stalled exactly inside the sections (or when they were at the start) and ends
  with the stall bit of the start; the flags these operations exchange say the same of the stall bit as
  the native ones say of \<open>SR_IE\<close>.\<close>

lemma inband_sections_nest:
  assumes "inband_ops_ok p stalled"
  shows "(let (s', masks) = irq_flags_ops.run_prog (inband_save p) (inband_restore p) (inband_masked p) snd
        (\<lambda>r s. (fst s, r)) prog (s, m) in
     stalled (fst s') = stalled s \<and> (snd s', masks) = spec_prog prog (stalled s) m) \<and>
    native_irqs_disabled_flags (arch_local_save_flags p s) = stalled s"
proof -
  have m: "inband_masked p x = stalled (fst x)" for x :: "'a \<times> 'b"
    using assms by (cases x) (simp add: inband_masked_def inband_flags)
  have "native_irqs_disabled_flags (arch_local_save_flags p s) = stalled s"
    using assms flags_of_stall [of "stalled s"]
    by (simp add: inband_ops_ok_def arch_local_save_flags_def arch_irqs_disabled_flags_def)
  then show ?thesis
    using irq_flags_ops.sections_nest(1) [OF inband_irq_flags_ops [OF assms], of prog "(s, m)"]
    by (simp add: Let_def split_beta m prod_eq_iff)
qed

definition sample_inband :: "bool inband_ops" where
  "sample_inband = \<lparr>inband_irq_save = \<lambda>s. (of_bool s, True), inband_irq_restore = \<lambda>b _. b \<noteq> 0,
     inband_irq_enable = \<lambda>_. False, inband_irq_disable = \<lambda>_. True, inband_irqs_disabled = of_bool\<rparr>"

lemma sample_inband_ok: "inband_ops_ok sample_inband (\<lambda>s. s)"
  by (simp add: inband_ops_ok_def sample_inband_def)

lemma inband_sections_nest_witness:
  "let (s', masks) = irq_flags_ops.run_prog (inband_save sample_inband) (inband_restore sample_inband)
      (inband_masked sample_inband) snd (\<lambda>r s. (fst s, r))
      (Section [Work Suc, Section [Work Suc], Work Suc]) (False, 0 :: nat) in
   \<not> fst s' \<and> snd s' = 3 \<and> masks = [True, True, True]"
  using inband_sections_nest [OF sample_inband_ok, of "Section [Work Suc, Section [Work Suc], Work Suc]" False 0]
  by (simp add: Let_def split_beta)

section \<open>Combined flags\<close>

lemma split_merge:
  "snd (irqs_split_flags (irqs_merge_flags flags (of_bool stalled))) = of_bool stalled \<and>
   fst (irqs_split_flags (irqs_merge_flags flags (of_bool stalled))) = flags AND SR_IE \<and>
   hard_irqs_disabled_flags (fst (irqs_split_flags (irqs_merge_flags flags (of_bool stalled)))) =
     hard_irqs_disabled_flags flags"
proof -
  have "flags AND SR_IE = (if bit flags 1 then SR_IE else 0)"
    by (simp only: sr_ie_bit and_exp)
  then consider "flags AND SR_IE = SR_IE" | "flags AND SR_IE = 0" by presburger
  then show ?thesis
    by cases (cases stalled; simp add: irqs_split_flags_def irqs_merge_flags_def hard_irqs_disabled_flags_def
        native_irqs_disabled_flags_def arch_irqs_virtual_to_native_flags_def arch_irqs_native_to_virtual_flags_def
        Let_def; simp add: sr_ie_bit IRQMASK_i_POS_def)+
qed

text \<open>C24. Merging the virtual and the native interrupt states into one word loses neither: splitting the
  word \<open>irqs_merge_flags flags stalled\<close> gives back the stall bit, and flags which say the same of
  \<open>SR_IE\<close> as the ones merged.\<close>

theorem merge_split_roundtrip:
  "snd (irqs_split_flags (irqs_merge_flags flags (of_bool stalled))) = of_bool stalled \<and>
   fst (irqs_split_flags (irqs_merge_flags flags (of_bool stalled))) = flags AND SR_IE \<and>
   hard_irqs_disabled_flags (fst (irqs_split_flags (irqs_merge_flags flags (of_bool stalled)))) =
     hard_irqs_disabled_flags flags"
  by (rule split_merge)

section \<open>Stealing ticks\<close>

text \<open>
  A trap entry saves \<open>sstatus\<close> in the frame after the hardware has moved the interrupt enable bit to
  the previous enable bit: the documented behaviour of the ISA the header relies on.
\<close>

definition trap_entry_ok :: "u64 \<Rightarrow> (u64 \<Rightarrow> u64) \<Rightarrow> bool" where
  "trap_entry_ok SR_PIE trap \<longleftrightarrow> (\<forall>st. trap st AND SR_IE = 0 \<and> (trap st AND SR_PIE \<noteq> 0 \<longleftrightarrow> st AND SR_IE \<noteq> 0))"

text \<open>A tick is stolen from the in-band stage exactly when hardware interrupts were masked when it
  fired: on the frame a trap builds, \<open>arch_steal_pipelined_tick\<close> reads the state of before the trap,
  while testing \<open>SR_IE\<close> in its place would find interrupts masked in every frame and steal every
  tick. Saving the timer registers keeps the answer.\<close>

lemma tick_is_stolen_iff_masked:
  assumes "trap_entry_ok SR_PIE trap" and "reg_status regs = trap (csr_status h)"
  shows "(arch_steal_pipelined_tick SR_PIE regs \<longleftrightarrow> native_irqs_disabled h) \<and>
    arch_steal_pipelined_tick SR_IE regs \<and>
    arch_steal_pipelined_tick SR_PIE (arch_save_timer_regs dst regs) = arch_steal_pipelined_tick SR_PIE regs"
  using assms by (simp add: trap_entry_ok_def arch_steal_pipelined_tick_def native_defs arch_save_timer_regs_def)

definition sample_trap :: "u64 \<Rightarrow> u64" where
  "sample_trap st = (if st AND SR_IE \<noteq> 0 then 0x20 else 0)"

lemma tick_is_stolen_iff_masked_witness:
  "\<not> arch_steal_pipelined_tick 0x20 \<lparr>reg_status = sample_trap 2, reg_epc = 0, reg_cause = 0\<rparr>"
  using tick_is_stolen_iff_masked [of "0x20" sample_trap "\<lparr>reg_status = sample_trap 2, reg_epc = 0, reg_cause = 0\<rparr>"
      "\<lparr>csr_status = 2, csr_ie = 0, csr_slie = 0\<rparr>"]
  by (simp add: trap_entry_ok_def sample_trap_def native_defs sr_ie_bit)

lemma oob_ipis_distinct:
  "distinct [TIMER_OOB_IPI b, RESCHEDULE_OOB_IPI b, CALL_FUNCTION_OOB_IPI b] \<and>
   (\<forall>i \<in> {TIMER_OOB_IPI b, RESCHEDULE_OOB_IPI b, CALL_FUNCTION_OOB_IPI b}. b < i \<and> i \<le> b + OOB_NR_IPI)"
  by (simp add: const_defs)

lemma sync_masks: "native_irqs_disabled (native_irq_sync h)"
  by (simp add: native_irq_sync_def native_defs)

end
