(* ===== verification/Riscv_Intc.thy ===== *)
theory Riscv_Intc
  imports Irq_Pipeline
begin

text \<open>
  \<open>drivers/irqchip/irq-riscv-intc.c\<close>: the driver of the per-hart local interrupt controller. Its
  global variables and what it registers with the irq core of the in-band kernel are the state; the
  CSRs are the ones of \<open>Irq_Pipeline\<close>. The Andes constants, the translation of firmware specifiers
  and the firmware queries are arguments: they are not in the sources.
\<close>

section \<open>Chips\<close>

text \<open>\<open>BIT (n)\<close> is \<open>1UL << n\<close>; the width of a \<open>long\<close> is 64.\<close>

definition BITS_PER_LONG :: u32 where [const_defs]: "BITS_PER_LONG = 64"

definition BIT :: "u64 \<Rightarrow> u64" where
  "BIT n = push_bit (unat n) 1"

text \<open>The handlers of a chip work on the hart that calls them.\<close>

record irq_chip =
  ic_name :: string
  ic_mask :: "u64 \<Rightarrow> hart \<Rightarrow> hart"
  ic_unmask :: "u64 \<Rightarrow> hart \<Rightarrow> hart"
  ic_eoi :: "u64 \<Rightarrow> hart \<Rightarrow> hart"
  ic_pipeline_safe :: bool

definition riscv_intc_irq_mask :: "u64 \<Rightarrow> hart \<Rightarrow> hart" where
  "riscv_intc_irq_mask hwirq h = h\<lparr>csr_ie := csr_ie h AND NOT (BIT hwirq)\<rparr>"

definition riscv_intc_irq_unmask :: "u64 \<Rightarrow> hart \<Rightarrow> hart" where
  "riscv_intc_irq_unmask hwirq h = h\<lparr>csr_ie := csr_ie h OR BIT hwirq\<rparr>"

text \<open>The mask of the Andes handlers is an \<open>unsigned int\<close>: the bit is narrowed, then widened again.\<close>

definition andes_mask :: "u64 \<Rightarrow> u32" where
  "andes_mask hwirq = ucast (BIT (hwirq mod ucast BITS_PER_LONG))"

definition andes_intc_irq_mask :: "u64 \<Rightarrow> u64 \<Rightarrow> hart \<Rightarrow> hart" where
  "andes_intc_irq_mask ANDES_SLI_CAUSE_BASE hwirq h =
     (let mask = andes_mask hwirq in
      if hwirq < ANDES_SLI_CAUSE_BASE then h\<lparr>csr_ie := csr_ie h AND NOT (ucast mask)\<rparr>
      else h\<lparr>csr_slie := csr_slie h AND NOT (ucast mask)\<rparr>)"

definition andes_intc_irq_unmask :: "u64 \<Rightarrow> u64 \<Rightarrow> hart \<Rightarrow> hart" where
  "andes_intc_irq_unmask ANDES_SLI_CAUSE_BASE hwirq h =
     (let mask = andes_mask hwirq in
      if hwirq < ANDES_SLI_CAUSE_BASE then h\<lparr>csr_ie := csr_ie h OR ucast mask\<rparr>
      else h\<lparr>csr_slie := csr_slie h OR ucast mask\<rparr>)"

definition riscv_intc_irq_eoi :: "u64 \<Rightarrow> hart \<Rightarrow> hart" where
  "riscv_intc_irq_eoi hwirq h = h"

definition riscv_intc_chip :: irq_chip where
  "riscv_intc_chip = \<lparr>ic_name = ''RISC-V INTC'', ic_mask = riscv_intc_irq_mask, ic_unmask = riscv_intc_irq_unmask,
     ic_eoi = riscv_intc_irq_eoi, ic_pipeline_safe = True\<rparr>"

definition andes_intc_chip :: "u64 \<Rightarrow> irq_chip" where
  "andes_intc_chip ANDES_SLI_CAUSE_BASE = \<lparr>ic_name = ''RISC-V INTC'',
     ic_mask = andes_intc_irq_mask ANDES_SLI_CAUSE_BASE, ic_unmask = andes_intc_irq_unmask ANDES_SLI_CAUSE_BASE,
     ic_eoi = riscv_intc_irq_eoi, ic_pipeline_safe = True\<rparr>"

section \<open>The domain\<close>

text \<open>What the driver registered: an irq domain with its chip and firmware node, the mapping of each
  virq to its hwirq and chip, the arch handler and the node callback.\<close>

record irq_domain =
  dom_fwnode :: ptr
  dom_host_data :: irq_chip

record intc_st =
  intc_domain :: "irq_domain option"
  riscv_intc_nr_irqs :: u32
  riscv_intc_custom_base :: u32
  riscv_intc_custom_nr_irqs :: u32
  irq_percpu_devid :: "u32 set"
  irq_map :: "u32 \<Rightarrow> (u64 \<times> irq_chip) option"
  handle_irq_set :: bool
  hwnode_fn_set :: bool
  fwnode_initialized :: "ptr set"

text \<open>The values of the globals before the driver runs.\<close>

definition intc_boot :: intc_st where
  "intc_boot = \<lparr>intc_domain = None, riscv_intc_nr_irqs = BITS_PER_LONG, riscv_intc_custom_base = BITS_PER_LONG,
     riscv_intc_custom_nr_irqs = 0, irq_percpu_devid = {}, irq_map = (\<lambda>_. None), handle_irq_set = False,
     hwnode_fn_set = False, fwnode_initialized = {}\<rparr>"

definition riscv_intc_domain_map :: "irq_domain \<Rightarrow> u32 \<Rightarrow> u64 \<Rightarrow> intc_st \<Rightarrow> int \<times> intc_st" where
  "riscv_intc_domain_map d irq hwirq s =
     (let chip = dom_host_data d;
          s1 = s\<lparr>irq_percpu_devid := insert irq (irq_percpu_devid s)\<rparr>
      in (0, s1\<lparr>irq_map := (irq_map s1)(irq \<mapsto> (hwirq, chip))\<rparr>))"

text \<open>The loop of the allocation: \<open>n\<close> iterations left, from \<open>virq + i\<close> and \<open>hwirq + i\<close> on.\<close>

fun domain_alloc_loop :: "irq_domain \<Rightarrow> u32 \<Rightarrow> u64 \<Rightarrow> nat \<Rightarrow> nat \<Rightarrow> intc_st \<Rightarrow> int \<times> intc_st" where
  "domain_alloc_loop d virq hwirq i 0 s = (0, s)"
| "domain_alloc_loop d virq hwirq i (Suc n) s =
     (let (ret, s1) = riscv_intc_domain_map d (virq + of_nat i) (hwirq + of_nat i) s in
      if ret \<noteq> 0 then (ret, s1) else domain_alloc_loop d virq hwirq (Suc i) n s1)"

definition riscv_intc_domain_alloc ::
    "('f \<Rightarrow> int \<times> u64) \<Rightarrow> irq_domain \<Rightarrow> u32 \<Rightarrow> u32 \<Rightarrow> 'f \<Rightarrow> intc_st \<Rightarrow> int \<times> intc_st" where
  "riscv_intc_domain_alloc translate_onecell d virq nr_irqs fwspec s =
     (let (ret, hwirq) = translate_onecell fwspec in
      if ret \<noteq> 0 then (ret, s)
      else if (hwirq \<ge> ucast (riscv_intc_nr_irqs s) \<and> hwirq < ucast (riscv_intc_custom_base s)) \<or>
              hwirq \<ge> ucast (riscv_intc_custom_base s + riscv_intc_custom_nr_irqs s) then (- EINVAL, s)
      else domain_alloc_loop d virq hwirq 0 (unat nr_irqs) s)"

text \<open>The operations of the domain. The two functions on one-cell specifiers are the kernel's.\<close>

record ('f, 'x) irq_domain_ops =
  dop_map :: "irq_domain \<Rightarrow> u32 \<Rightarrow> u64 \<Rightarrow> intc_st \<Rightarrow> int \<times> intc_st"
  dop_xlate :: 'x
  dop_alloc :: "irq_domain \<Rightarrow> u32 \<Rightarrow> u32 \<Rightarrow> 'f \<Rightarrow> intc_st \<Rightarrow> int \<times> intc_st"

definition riscv_intc_domain_ops :: "('f \<Rightarrow> int \<times> u64) \<Rightarrow> 'x \<Rightarrow> ('f, 'x) irq_domain_ops" where
  "riscv_intc_domain_ops translate_onecell xlate_onecell =
     \<lparr>dop_map = riscv_intc_domain_map, dop_xlate = xlate_onecell,
      dop_alloc = riscv_intc_domain_alloc translate_onecell\<rparr>"

text \<open>Handling a trap: the cause without the interrupt flag is looked up in the domain; a failure is
  only reported.\<close>

definition riscv_intc_irq :: "u64 \<Rightarrow> (irq_domain option \<Rightarrow> u64 \<Rightarrow> 's \<Rightarrow> int \<times> 's) \<Rightarrow> (u64 \<Rightarrow> 's \<Rightarrow> 's) \<Rightarrow>
    intc_st \<Rightarrow> pt_regs \<Rightarrow> 's \<Rightarrow> 's" where
  "riscv_intc_irq CAUSE_IRQ_FLAG generic_handle_domain_irq pr_warn st regs s =
     (let cause = reg_cause regs AND NOT CAUSE_IRQ_FLAG;
          (ret, s1) = generic_handle_domain_irq (intc_domain st) cause s
      in if ret \<noteq> 0 then pr_warn cause s1 else s1)"

definition riscv_intc_hwnode :: "intc_st \<Rightarrow> ptr option" where
  "riscv_intc_hwnode s = map_option dom_fwnode (intc_domain s)"

section \<open>Initialization\<close>

text \<open>\<open>create_tree\<close> and \<open>set_handle\<close> are \<open>irq_domain_create_tree\<close> and \<open>set_handle_irq\<close>.\<close>

definition riscv_intc_init_common ::
    "(ptr \<Rightarrow> irq_chip \<Rightarrow> irq_domain option) \<Rightarrow> (intc_st \<Rightarrow> int) \<Rightarrow> ptr \<Rightarrow> irq_chip \<Rightarrow> intc_st \<Rightarrow> int \<times> intc_st" where
  "riscv_intc_init_common create_tree set_handle fn chip s =
     (let s1 = s\<lparr>intc_domain := create_tree fn chip\<rparr> in
      if intc_domain s1 = None then (- ENXIO, s1)
      else
        let rc = set_handle s1 in
        if rc \<noteq> 0 then (rc, s1)
        else (0, s1\<lparr>handle_irq_set := True, hwnode_fn_set := True\<rparr>))"

text \<open>The answers of the firmware about a device tree node and the CPU the code runs on.\<close>

record intc_env =
  ie_parent_hartid :: "int \<times> u64"
  ie_hartid_to_cpuid :: "u64 \<Rightarrow> int"
  ie_processor_id :: int
  ie_is_andes :: bool
  ie_andes_base :: u32
  ie_andes_last :: u32

definition riscv_intc_init ::
    "(ptr \<Rightarrow> irq_chip \<Rightarrow> irq_domain option) \<Rightarrow> (intc_st \<Rightarrow> int) \<Rightarrow> intc_env \<Rightarrow> ptr \<Rightarrow> intc_st \<Rightarrow> int \<times> intc_st" where
  "riscv_intc_init create_tree set_handle e node s =
     (let (rc, hartid) = ie_parent_hartid e in
      if rc < 0 then (0, s)
      else if ie_hartid_to_cpuid e hartid \<noteq> ie_processor_id e
           then (0, s\<lparr>fwnode_initialized := insert node (fwnode_initialized s)\<rparr>)
      else
        let (chip, s1) =
          (if ie_is_andes e
           then (andes_intc_chip (ucast (ie_andes_base e)),
                 s\<lparr>riscv_intc_custom_base := ie_andes_base e, riscv_intc_custom_nr_irqs := ie_andes_last e\<rparr>)
           else (riscv_intc_chip, s))
        in riscv_intc_init_common create_tree set_handle node chip s1)"

text \<open>The initialization function of a device tree node, by its compatible string: the one function for
  both controllers.\<close>

definition riscv_intc_irqchips ::
    "(ptr \<Rightarrow> irq_chip \<Rightarrow> irq_domain option) \<Rightarrow> (intc_st \<Rightarrow> int) \<Rightarrow>
     (string \<times> (intc_env \<Rightarrow> ptr \<Rightarrow> intc_st \<Rightarrow> int \<times> intc_st)) list" where
  "riscv_intc_irqchips create_tree set_handle =
     [(''riscv,cpu-intc'', riscv_intc_init create_tree set_handle),
      (''andestech,cpu-intc'', riscv_intc_init create_tree set_handle)]"

text \<open>\<open>alloc\<close> and \<open>free\<close> manage the named firmware node; the result has whether it is still allocated.\<close>

definition riscv_intc_acpi_init ::
    "(ptr \<Rightarrow> irq_chip \<Rightarrow> irq_domain option) \<Rightarrow> (intc_st \<Rightarrow> int) \<Rightarrow> intc_env \<Rightarrow> u64 \<Rightarrow> ptr option \<Rightarrow> intc_st \<Rightarrow>
     int \<times> bool \<times> intc_st" where
  "riscv_intc_acpi_init create_tree set_handle e hart_id alloc_fwnode s =
     (if ie_hartid_to_cpuid e hart_id \<noteq> ie_processor_id e then (0, False, s)
      else case alloc_fwnode of
          None \<Rightarrow> (- ENOMEM, False, s)
        | Some fn \<Rightarrow>
            let (rc, s1) = riscv_intc_init_common create_tree set_handle fn riscv_intc_chip s
            in (rc, rc = 0, s1))"

lemmas intc_defs [evl_defs] = riscv_intc_domain_map_def riscv_intc_domain_alloc_def riscv_intc_init_common_def
  riscv_intc_init_def riscv_intc_acpi_init_def

section \<open>Masking\<close>

lemma BIT_exp: "BIT n = 2 ^ unat n"
  by (simp add: BIT_def push_bit_eq_mult)

lemma mask_clears:
  assumes "unat m < 64"
  shows "bit (csr_ie (riscv_intc_irq_mask n h)) (unat m) \<longleftrightarrow> bit (csr_ie h) (unat m) \<and> m \<noteq> n"
  using assms by (auto simp: riscv_intc_irq_mask_def BIT_exp bit_and_iff bit_not_iff bit_exp_iff word_unat_eq_iff)

lemma unmask_sets:
  assumes "unat m < 64"
  shows "bit (csr_ie (riscv_intc_irq_unmask n h)) (unat m) \<longleftrightarrow> bit (csr_ie h) (unat m) \<or> m = n"
  using assms by (auto simp: riscv_intc_irq_unmask_def BIT_exp bit_or_iff bit_exp_iff word_unat_eq_iff)

text \<open>Masking one local interrupt touches this one only: for every interrupt with a bit in the enable
  register, \<open>irq_mask\<close> disables it and \<open>irq_unmask\<close> enables it, every other one keeps its state, and so do
  the other registers; unmasking after masking restores an interrupt that was enabled. Both chips are
  flagged safe for the interrupt pipeline.\<close>

lemma intc_mask_is_exact:
  assumes "unat n < 64" and "unat m < 64"
  shows "(bit (csr_ie (ic_mask riscv_intc_chip n h)) (unat m) \<longleftrightarrow> bit (csr_ie h) (unat m) \<and> m \<noteq> n) \<and>
    (bit (csr_ie (ic_unmask riscv_intc_chip n h)) (unat m) \<longleftrightarrow> bit (csr_ie h) (unat m) \<or> m = n) \<and>
    csr_status (ic_mask riscv_intc_chip n h) = csr_status h \<and> csr_slie (ic_mask riscv_intc_chip n h) = csr_slie h \<and>
    (bit (csr_ie h) (unat n) \<longrightarrow> ic_unmask riscv_intc_chip n (ic_mask riscv_intc_chip n h) = h) \<and>
    ic_eoi riscv_intc_chip n h = h \<and> ic_pipeline_safe riscv_intc_chip \<and> ic_pipeline_safe (andes_intc_chip base)"
proof -
  have "(csr_ie h AND NOT (BIT n)) OR BIT n = csr_ie h" if "bit (csr_ie h) (unat n)"
    using that by (auto intro!: bit_word_eqI simp: BIT_exp bit_or_iff bit_and_iff bit_not_iff bit_exp_iff)
  then have "bit (csr_ie h) (unat n) \<longrightarrow> riscv_intc_irq_unmask n (riscv_intc_irq_mask n h) = h"
    by (simp add: riscv_intc_irq_mask_def riscv_intc_irq_unmask_def)
  with mask_clears [OF assms(2), of n h] unmask_sets [OF assms(2), of n h] show ?thesis
    by (simp add: riscv_intc_chip_def andes_intc_chip_def riscv_intc_irq_eoi_def)
      (simp add: riscv_intc_irq_mask_def)
qed

lemma intc_mask_is_exact_witness:
  "\<not> bit (csr_ie (ic_mask riscv_intc_chip 5 \<lparr>csr_status = 0, csr_ie = 0x222, csr_slie = 0\<rparr>)) 5"
  using intc_mask_is_exact [of 5 5 "\<lparr>csr_status = 0, csr_ie = 0x222, csr_slie = 0\<rparr>" 256]
  by simp

text \<open>C33. The Andes handlers cannot reach the upper half of a register: they narrow the bit of the
  interrupt to an \<open>unsigned int\<close>, so for an interrupt whose bit is 32 or above (which the domain
  accepts up to 63) masking and unmasking do nothing, while for the lower half they do what the
  generic handlers do.\<close>

theorem andes_mask_upper_half_is_noop:
  assumes "n < base"
  shows "(32 \<le> unat n \<and> unat n < 64 \<longrightarrow>
      andes_intc_irq_mask base n h = h \<and> andes_intc_irq_unmask base n h = h) \<and>
    (unat n < 32 \<longrightarrow>
      andes_intc_irq_mask base n h = riscv_intc_irq_mask n h \<and>
      andes_intc_irq_unmask base n h = riscv_intc_irq_unmask n h)"
proof -
  have u: "unat (n mod ucast BITS_PER_LONG) = unat n mod 64"
    by (simp add: BITS_PER_LONG_def unat_mod_distrib)
  have hi: "ucast (andes_mask n) = (0 :: u64)" if "32 \<le> unat n" "unat n < 64"
    using that by (auto intro!: bit_word_eqI simp: andes_mask_def BIT_exp u bit_ucast_iff bit_exp_iff)
  have lo: "ucast (andes_mask n) = BIT n" if "unat n < 32"
    using that by (auto intro!: bit_word_eqI simp: andes_mask_def BIT_exp u bit_ucast_iff bit_exp_iff)
  show ?thesis
    using assms hi lo
    by (auto simp: andes_intc_irq_mask_def andes_intc_irq_unmask_def riscv_intc_irq_mask_def
        riscv_intc_irq_unmask_def Let_def)
qed

theorem andes_mask_upper_half_is_noop_witness:
  "andes_intc_irq_mask 256 40 \<lparr>csr_status = 0, csr_ie = - 1, csr_slie = 0\<rparr> = \<lparr>csr_status = 0, csr_ie = - 1, csr_slie = 0\<rparr>"
  using andes_mask_upper_half_is_noop [of 40 256 "\<lparr>csr_status = 0, csr_ie = - 1, csr_slie = 0\<rparr>"] by simp

section \<open>Allocation\<close>

lemma alloc_loop_maps:
  "domain_alloc_loop d virq hwirq i n s =
     (0, s\<lparr>irq_percpu_devid := irq_percpu_devid s \<union> (\<lambda>k. virq + of_nat k) ` {i..<i + n},
          irq_map := (\<lambda>v. case find (\<lambda>k. v = virq + of_nat k) (rev [i..<i + n]) of
              Some k \<Rightarrow> Some (hwirq + of_nat k, dom_host_data d) | None \<Rightarrow> irq_map s v)\<rparr>)"
proof (induction n arbitrary: i s)
  case 0
  then show ?case by simp
next
  case (Suc n)
  have r: "rev [i..<i + Suc n] = rev [Suc i..<Suc i + n] @ [i]"
    by (simp add: upt_conv_Cons del: upt_Suc)
  have f: "find P (xs @ [x]) = (case find P xs of Some y \<Rightarrow> Some y | None \<Rightarrow> if P x then Some x else None)" for P xs and x :: nat
    by (induction xs) auto
  have s: "{i..<i + Suc n} = insert i {Suc i..<Suc i + n}" by auto
  show ?case
    unfolding r s
    by (simp add: riscv_intc_domain_map_def Let_def Suc.IH f fun_eq_iff split: option.splits del: upt_Suc)
qed

text \<open>The windows of the controller: the standard interrupts, and the custom ones above their base.\<close>

definition valid_hwirq :: "intc_st \<Rightarrow> u64 \<Rightarrow> bool" where
  "valid_hwirq s n \<longleftrightarrow> n < ucast (riscv_intc_nr_irqs s) \<or>
     (ucast (riscv_intc_custom_base s) \<le> n \<and> n < ucast (riscv_intc_custom_base s + riscv_intc_custom_nr_irqs s))"

lemma find_rev_upt_inj:
  assumes "k < n" and "\<forall>j < n. (f j = v) = (j = k)"
  shows "find (\<lambda>j. v = f j) (rev [0..<n]) = Some k"
proof -
  have "find (\<lambda>j. v = f j) xs = (if k \<in> set xs then Some k else None)" if "set xs \<subseteq> {..<n}" for xs
    using that assms(2) by (induction xs) auto
  from this [of "rev [0..<n]"] show ?thesis using assms(1) by (simp add: subset_iff)
qed

text \<open>C31. Allocating interrupts from the domain validates and maps, when the custom window lies above the
  standard one and its end is a 32 bit number: the error of the translation is passed on and an interrupt
  number outside of both windows is refused with \<open>-EINVAL\<close>, both without any effect; otherwise the
  allocation succeeds, the virq \<open>virq + k\<close> is mapped to the interrupt \<open>hwirq + k\<close> with the chip of the
  domain for every \<open>k\<close> below \<open>nr_irqs\<close>, every other virq keeps its mapping, exactly these virqs become
  per-CPU ones, and everything else keeps its value, the globals of the driver included.\<close>

theorem domain_alloc_validates_and_maps:
  assumes "translate fwspec = (ret, hwirq)" and "riscv_intc_nr_irqs s \<le> riscv_intc_custom_base s"
    and "uint (riscv_intc_custom_base s) + uint (riscv_intc_custom_nr_irqs s) < 2 ^ 32"
  shows "(ret \<noteq> 0 \<longrightarrow> riscv_intc_domain_alloc translate d virq nr fwspec s = (ret, s)) \<and>
    (ret = 0 \<and> \<not> valid_hwirq s hwirq \<longrightarrow> riscv_intc_domain_alloc translate d virq nr fwspec s = (- EINVAL, s)) \<and>
    (ret = 0 \<and> valid_hwirq s hwirq \<longrightarrow>
      (\<exists>s'. riscv_intc_domain_alloc translate d virq nr fwspec s = (0, s') \<and>
         (\<forall>k < unat nr. irq_map s' (virq + of_nat k) = Some (hwirq + of_nat k, dom_host_data d)) \<and>
         (\<forall>v. (\<forall>k < unat nr. v \<noteq> virq + of_nat k) \<longrightarrow> irq_map s' v = irq_map s v) \<and>
         s' = s\<lparr>irq_map := irq_map s',
                irq_percpu_devid := irq_percpu_devid s \<union> (\<lambda>k. virq + of_nat k) ` {..<unat nr}\<rparr>))"
proof -
  let ?base = "ucast (riscv_intc_custom_base s) :: u64"
  have le: "(ucast (riscv_intc_nr_irqs s) :: u64) \<le> ?base"
    using assms(2) by (simp add: word_le_def uint_up_ucast is_up)
  have "uint (riscv_intc_custom_base s + riscv_intc_custom_nr_irqs s) =
      uint (riscv_intc_custom_base s) + uint (riscv_intc_custom_nr_irqs s)"
    using assms(3) by (simp add: uint_word_ariths)
  then have "?base \<le> ucast (riscv_intc_custom_base s + riscv_intc_custom_nr_irqs s)"
    by (simp add: word_le_def uint_up_ucast is_up)
  with le have v: "(hwirq \<ge> ucast (riscv_intc_nr_irqs s) \<and> hwirq < ?base \<or>
      hwirq \<ge> ucast (riscv_intc_custom_base s + riscv_intc_custom_nr_irqs s)) \<longleftrightarrow> \<not> valid_hwirq s hwirq"
    by (auto simp: valid_hwirq_def)
  have inj: "find (\<lambda>j. virq + of_nat k = virq + of_nat j) (rev [0..<unat nr]) = Some k" if "k < unat nr" for k
  proof (rule find_rev_upt_inj [OF that])
    have "m < 2 ^ 32" if "m < unat nr" for m
      using less_trans [OF that unsigned_less [of nr]] by simp
    with that show "\<forall>j < unat nr. (virq + of_nat j = virq + of_nat k) = (j = k)"
      by (auto simp: word_of_nat_eq_iff take_bit_nat_eq_self)
  qed
  have out: "find (\<lambda>j. v = virq + of_nat j) (rev [0..<unat nr]) = None" if "\<forall>k < unat nr. v \<noteq> virq + of_nat k" for v
    using that by (simp add: find_None_iff)
  show ?thesis
    using assms(1) v
    by (auto simp: riscv_intc_domain_alloc_def Let_def alloc_loop_maps inj [simplified] out lessThan_atLeast0)
qed

definition sample_domain :: irq_domain where
  "sample_domain = \<lparr>dom_fwnode = 1, dom_host_data = riscv_intc_chip\<rparr>"

lemma boot_windows:
  "riscv_intc_nr_irqs intc_boot \<le> riscv_intc_custom_base intc_boot"
  "uint (riscv_intc_custom_base intc_boot) + uint (riscv_intc_custom_nr_irqs intc_boot) < 2 ^ 32"
  "valid_hwirq intc_boot n \<longleftrightarrow> n < 64"
  by (auto simp: intc_boot_def BITS_PER_LONG_def valid_hwirq_def)

theorem domain_alloc_validates_and_maps_witness:
  "\<exists>s'. riscv_intc_domain_alloc (\<lambda>n. (0, n)) sample_domain 10 2 5 intc_boot = (0, s') \<and>
     irq_map s' 11 = Some (6, riscv_intc_chip)"
proof -
  obtain s' where s': "riscv_intc_domain_alloc (\<lambda>n. (0, n)) sample_domain 10 2 5 intc_boot = (0, s')"
    "\<forall>k < unat (2 :: u32). irq_map s' (10 + of_nat k) = Some (5 + of_nat k, dom_host_data sample_domain)"
    using domain_alloc_validates_and_maps [of "\<lambda>n. (0, n)" 5 0 5 intc_boot sample_domain 10 2] boot_windows
    by auto
  from s'(2) have "irq_map s' (10 + of_nat 1) = Some (5 + of_nat 1, dom_host_data sample_domain)"
    by (rule allE [of _ 1]) simp
  with s'(1) show ?thesis by (simp add: sample_domain_def)
qed

text \<open>The check covers the first interrupt of the request only.\<close>

lemma alloc_checks_first_only:
  "\<exists>s'. riscv_intc_domain_alloc (\<lambda>n. (0, n)) d 10 2 63 intc_boot = (0, s') \<and>
     irq_map s' 11 = Some (64, dom_host_data d) \<and> \<not> valid_hwirq intc_boot 64"
proof -
  have "riscv_intc_domain_alloc (\<lambda>n. (0, n)) d 10 2 63 intc_boot = domain_alloc_loop d 10 63 0 2 intc_boot"
    by (simp add: riscv_intc_domain_alloc_def Let_def) (simp add: intc_boot_def BITS_PER_LONG_def)
  then show ?thesis
    by (simp add: riscv_intc_domain_map_def Let_def boot_windows numeral_2_eq_2)
qed

section \<open>Initialization paths\<close>

text \<open>What starting the controller on a firmware node with a chip comes to.\<close>

definition intc_started ::
    "(ptr \<Rightarrow> irq_chip \<Rightarrow> irq_domain option) \<Rightarrow> (intc_st \<Rightarrow> int) \<Rightarrow> ptr \<Rightarrow> irq_chip \<Rightarrow> intc_st \<Rightarrow> int \<Rightarrow> intc_st \<Rightarrow> bool" where
  "intc_started create set_h fn chip s rc s' \<longleftrightarrow>
     intc_domain s' = create fn chip \<and>
     (create fn chip = None \<longrightarrow> rc = - ENXIO) \<and>
     (create fn chip \<noteq> None \<longrightarrow> rc = set_h (s\<lparr>intc_domain := create fn chip\<rparr>)) \<and>
     handle_irq_set s' = (rc = 0 \<or> handle_irq_set s) \<and> hwnode_fn_set s' = (rc = 0 \<or> hwnode_fn_set s) \<and>
     s' = s\<lparr>intc_domain := intc_domain s', handle_irq_set := handle_irq_set s', hwnode_fn_set := hwnode_fn_set s'\<rparr>"

lemma init_common_started:
  "riscv_intc_init_common create set_h fn chip s = (rc, s') \<Longrightarrow> intc_started create set_h fn chip s rc s'"
  by (auto simp: riscv_intc_init_common_def intc_started_def Let_def ENXIO_def split: if_splits)

text \<open>C32. Initialization happens for the node of the boot hart only, and reports what went wrong: without a
  hart id \<open>riscv_intc_init\<close> returns 0 and changes nothing, on a hart which is not the boot one it returns 0
  and only marks the node as initialized; on the boot hart it sets the custom window for an Andes
  controller and starts the controller with the chip of the node. The ACPI path returns 0 and changes
  nothing off the boot hart, is \<open>-ENOMEM\<close> without a firmware node, and otherwise starts the controller
  with the generic chip and frees the firmware node exactly when that fails. Starting the controller
  registers the domain; a failure to create it is \<open>-ENXIO\<close> and otherwise the result is the one of installing
  the handler; the handler and the callback are in place exactly on success, and nothing else changes.\<close>

theorem intc_init_paths:
  shows "(fst (ie_parent_hartid e) < 0 \<longrightarrow> riscv_intc_init create set_h e node s = (0, s)) \<and>
    (0 \<le> fst (ie_parent_hartid e) \<and> ie_hartid_to_cpuid e (snd (ie_parent_hartid e)) \<noteq> ie_processor_id e \<longrightarrow>
      riscv_intc_init create set_h e node s =
        (0, s\<lparr>fwnode_initialized := insert node (fwnode_initialized s)\<rparr>)) \<and>
    (0 \<le> fst (ie_parent_hartid e) \<and> ie_hartid_to_cpuid e (snd (ie_parent_hartid e)) = ie_processor_id e \<longrightarrow>
      (case riscv_intc_init create set_h e node s of (rc, s') \<Rightarrow>
         if ie_is_andes e
         then intc_started create set_h node (andes_intc_chip (ucast (ie_andes_base e)))
                (s\<lparr>riscv_intc_custom_base := ie_andes_base e, riscv_intc_custom_nr_irqs := ie_andes_last e\<rparr>) rc s'
         else intc_started create set_h node riscv_intc_chip s rc s')) \<and>
    (ie_hartid_to_cpuid e hart \<noteq> ie_processor_id e \<longrightarrow> riscv_intc_acpi_init create set_h e hart alloc s = (0, False, s)) \<and>
    (ie_hartid_to_cpuid e hart = ie_processor_id e \<longrightarrow>
      (case riscv_intc_acpi_init create set_h e hart alloc s of (rc, allocated, s') \<Rightarrow>
         (case alloc of
            None \<Rightarrow> rc = - ENOMEM \<and> \<not> allocated \<and> s' = s
          | Some fn \<Rightarrow> intc_started create set_h fn riscv_intc_chip s rc s' \<and> allocated = (rc = 0))))"
proof -
  have "case riscv_intc_init create set_h e node s of (rc, s') \<Rightarrow>
         if ie_is_andes e
         then intc_started create set_h node (andes_intc_chip (ucast (ie_andes_base e)))
                (s\<lparr>riscv_intc_custom_base := ie_andes_base e, riscv_intc_custom_nr_irqs := ie_andes_last e\<rparr>) rc s'
         else intc_started create set_h node riscv_intc_chip s rc s'"
    if "0 \<le> fst (ie_parent_hartid e)" "ie_hartid_to_cpuid e (snd (ie_parent_hartid e)) = ie_processor_id e"
    using that by (cases "ie_parent_hartid e") (simp add: riscv_intc_init_def init_common_started split: prod.split)
  moreover have "case riscv_intc_acpi_init create set_h e hart alloc s of (rc, allocated, s') \<Rightarrow>
         (case alloc of
            None \<Rightarrow> rc = - ENOMEM \<and> \<not> allocated \<and> s' = s
          | Some fn \<Rightarrow> intc_started create set_h fn riscv_intc_chip s rc s' \<and> allocated = (rc = 0))"
    if "ie_hartid_to_cpuid e hart = ie_processor_id e"
    using that by (simp add: riscv_intc_acpi_init_def init_common_started split: prod.split option.split)
  moreover have "fst (ie_parent_hartid e) < 0 \<longrightarrow> riscv_intc_init create set_h e node s = (0, s)"
    "0 \<le> fst (ie_parent_hartid e) \<and> ie_hartid_to_cpuid e (snd (ie_parent_hartid e)) \<noteq> ie_processor_id e \<longrightarrow>
      riscv_intc_init create set_h e node s =
        (0, s\<lparr>fwnode_initialized := insert node (fwnode_initialized s)\<rparr>)"
    "ie_hartid_to_cpuid e hart \<noteq> ie_processor_id e \<longrightarrow> riscv_intc_acpi_init create set_h e hart alloc s = (0, False, s)"
    by (simp_all add: riscv_intc_init_def riscv_intc_acpi_init_def split_beta)
  ultimately show ?thesis by (intro conjI impI) simp_all
qed

text \<open>On a hart that is not the boot one, and on the boot hart when installing the handler fails with -16.\<close>

theorem intc_init_paths_witness:
  "riscv_intc_init (\<lambda>fn c. Some \<lparr>dom_fwnode = fn, dom_host_data = c\<rparr>) (\<lambda>_. 0)
     \<lparr>ie_parent_hartid = (0, 3), ie_hartid_to_cpuid = (\<lambda>_. 1), ie_processor_id = 0, ie_is_andes = False,
      ie_andes_base = 256, ie_andes_last = 20\<rparr> 7 intc_boot = (0, intc_boot\<lparr>fwnode_initialized := {7}\<rparr>) \<and>
   (case riscv_intc_init (\<lambda>fn c. Some \<lparr>dom_fwnode = fn, dom_host_data = c\<rparr>) (\<lambda>_. - 16)
     \<lparr>ie_parent_hartid = (0, 3), ie_hartid_to_cpuid = (\<lambda>_. 0), ie_processor_id = 0, ie_is_andes = False,
      ie_andes_base = 256, ie_andes_last = 20\<rparr> 7 intc_boot of (rc, s') \<Rightarrow> rc = - 16 \<and> \<not> handle_irq_set s')"
proof
  show "riscv_intc_init (\<lambda>fn c. Some \<lparr>dom_fwnode = fn, dom_host_data = c\<rparr>) (\<lambda>_. 0)
     \<lparr>ie_parent_hartid = (0, 3), ie_hartid_to_cpuid = (\<lambda>_. 1), ie_processor_id = 0, ie_is_andes = False,
      ie_andes_base = 256, ie_andes_last = 20\<rparr> 7 intc_boot = (0, intc_boot\<lparr>fwnode_initialized := {7}\<rparr>)"
    using intc_init_paths [of "\<lparr>ie_parent_hartid = (0, 3), ie_hartid_to_cpuid = (\<lambda>_. 1), ie_processor_id = 0,
        ie_is_andes = False, ie_andes_base = 256, ie_andes_last = 20\<rparr>"
        "\<lambda>fn c. Some \<lparr>dom_fwnode = fn, dom_host_data = c\<rparr>" "\<lambda>_. 0" 7 intc_boot 3 None]
    by (simp add: intc_boot_def)
  show "case riscv_intc_init (\<lambda>fn c. Some \<lparr>dom_fwnode = fn, dom_host_data = c\<rparr>) (\<lambda>_. - 16)
     \<lparr>ie_parent_hartid = (0, 3), ie_hartid_to_cpuid = (\<lambda>_. 0), ie_processor_id = 0, ie_is_andes = False,
      ie_andes_base = 256, ie_andes_last = 20\<rparr> 7 intc_boot of (rc, s') \<Rightarrow> rc = - 16 \<and> \<not> handle_irq_set s'"
    using intc_init_paths [of "\<lparr>ie_parent_hartid = (0, 3), ie_hartid_to_cpuid = (\<lambda>_. 0), ie_processor_id = 0,
        ie_is_andes = False, ie_andes_base = 256, ie_andes_last = 20\<rparr>"
        "\<lambda>fn c. Some \<lparr>dom_fwnode = fn, dom_host_data = c\<rparr>" "\<lambda>_. - 16" 7 intc_boot 3 None]
    by (auto simp: intc_boot_def intc_started_def split: prod.splits)
qed

end
