(* ===== verification/Irq_Stages.thy ===== *)
theory Irq_Stages
  imports Irq_Props Riscv_Intc
begin

text \<open>
  The three gates an interrupt passes before the in-band stage handles it, together: its bit in the
  enable register, which the irqchip driver masks and unmasks; \<open>SR_IE\<close>, which the hard sections clear;
  and the stall bit, which the in-band sections set. Programs nest both kinds of sections in each other in
  any way and call the driver anywhere inside.
\<close>

datatype gate_prog = Observe | Mask u64 | Unmask u64 | Hard "gate_prog list" | Inband "gate_prog list"

text \<open>What an observation records: the combined flags of both stages, and the enable register.\<close>

definition observe :: "'s inband_ops \<Rightarrow> hart \<times> 's \<Rightarrow> u64 \<times> u64" where
  "observe p = (\<lambda>(h, s). (stage_save_flags (arch_irqs_disabled p s) h, csr_ie h))"

fun run_gate :: "'s inband_ops \<Rightarrow> gate_prog \<Rightarrow> hart \<times> 's \<Rightarrow> (hart \<times> 's) \<times> (u64 \<times> u64) list"
  and run_gates :: "'s inband_ops \<Rightarrow> gate_prog list \<Rightarrow> hart \<times> 's \<Rightarrow> (hart \<times> 's) \<times> (u64 \<times> u64) list" where
  "run_gate p Observe x = (x, [observe p x])"
| "run_gate p (Mask n) (h, s) = ((ic_mask riscv_intc_chip n h, s), [])"
| "run_gate p (Unmask n) (h, s) = ((ic_unmask riscv_intc_chip n h, s), [])"
| "run_gate p (Hard ps) (h, s) =
     (let (fl, h1) = hard_local_irq_save h; ((h2, s2), tr) = run_gates p ps (h1, s)
      in ((hard_local_irq_restore fl h2, s2), tr))"
| "run_gate p (Inband ps) (h, s) =
     (let (fl, s1) = arch_local_irq_save p s; ((h2, s2), tr) = run_gates p ps (h, s1)
      in ((h2, arch_local_irq_restore p fl s2), tr))"
| "run_gates p [] x = (x, [])"
| "run_gates p (q # qs) x =
     (let (x1, tr1) = run_gate p q x; (x2, tr2) = run_gates p qs x1 in (x2, tr1 @ tr2))"

section \<open>The abstract gates\<close>

text \<open>Masked in hardware, stalled, and the set of enabled interrupts.\<close>

type_synonym gates = "bool \<times> bool \<times> nat set"

fun spec_gate :: "gate_prog \<Rightarrow> gates \<Rightarrow> nat set \<times> gates list"
  and spec_gates :: "gate_prog list \<Rightarrow> gates \<Rightarrow> nat set \<times> gates list" where
  "spec_gate Observe (hm, st, en) = (en, [(hm, st, en)])"
| "spec_gate (Mask n) (hm, st, en) = (en - {unat n}, [])"
| "spec_gate (Unmask n) (hm, st, en) = (insert (unat n) en, [])"
| "spec_gate (Hard ps) (hm, st, en) = spec_gates ps (True, st, en)"
| "spec_gate (Inband ps) (hm, st, en) = spec_gates ps (hm, True, en)"
| "spec_gates [] (hm, st, en) = (en, [])"
| "spec_gates (q # qs) (hm, st, en) =
     (let (en1, tr1) = spec_gate q (hm, st, en); (en2, tr2) = spec_gates qs (hm, st, en1) in (en2, tr1 @ tr2))"

text \<open>The local interrupts have a bit in the register.\<close>

fun local_irqs :: "gate_prog \<Rightarrow> bool" where
  "local_irqs (Mask n) \<longleftrightarrow> unat n < 64"
| "local_irqs (Unmask n) \<longleftrightarrow> unat n < 64"
| "local_irqs (Hard ps) \<longleftrightarrow> (\<forall>q \<in> set ps. local_irqs q)"
| "local_irqs (Inband ps) \<longleftrightarrow> (\<forall>q \<in> set ps. local_irqs q)"
| "local_irqs Observe \<longleftrightarrow> True"

definition enabled_irqs :: "u64 \<Rightarrow> nat set" where
  "enabled_irqs ie = {n. n < 64 \<and> bit ie n}"

definition gates_of :: "('s \<Rightarrow> bool) \<Rightarrow> hart \<times> 's \<Rightarrow> gates" where
  "gates_of stalled = (\<lambda>(h, s). (native_irqs_disabled h, stalled s, enabled_irqs (csr_ie h)))"

text \<open>Reading an observation: the flags are split again.\<close>

definition read_gates :: "u64 \<times> u64 \<Rightarrow> gates" where
  "read_gates = (\<lambda>(combo, ie). let (flags, stall) = irqs_split_flags combo
     in (hard_irqs_disabled_flags flags, stall \<noteq> 0, enabled_irqs ie))"

section \<open>Refinement\<close>

lemma enabled_mask:
  assumes "unat n < 64"
  shows "enabled_irqs (csr_ie (riscv_intc_irq_mask n h)) = enabled_irqs (csr_ie h) - {unat n}"
    and "enabled_irqs (csr_ie (riscv_intc_irq_unmask n h)) = insert (unat n) (enabled_irqs (csr_ie h))"
  using assms
  by (auto simp: enabled_irqs_def riscv_intc_irq_mask_def riscv_intc_irq_unmask_def BIT_exp bit_and_iff bit_or_iff
      bit_not_iff bit_exp_iff)

lemma gates_of_mask:
  assumes "unat n < 64" "gates_of stalled (h, s) = (hm, st, en)"
  shows "gates_of stalled (riscv_intc_irq_mask n h, s) = (hm, st, en - {unat n})"
    and "gates_of stalled (riscv_intc_irq_unmask n h, s) = (hm, st, insert (unat n) en)"
  using assms(2)
  by (auto simp: gates_of_def enabled_mask [OF assms(1)] native_defs)
    (auto simp: riscv_intc_irq_mask_def riscv_intc_irq_unmask_def)

lemma gates_of_hard:
  assumes "gates_of stalled (h, s) = (hm, st, en)"
  shows "gates_of stalled (snd (hard_local_irq_save h), s) = (True, st, en)"
    and "gates_of stalled (h2, s2) = (True, st, en2) \<Longrightarrow>
      gates_of stalled (hard_local_irq_restore (fst (hard_local_irq_save h)) h2, s2) = (hm, st, en2)"
  using assms by (auto simp: gates_of_def hard_local_irq_save_def hard_local_irq_restore_def native_defs or_eq_0_iff)

lemma gates_of_inband:
  assumes "inband_ops_ok p stalled" "gates_of stalled (h, s) = (hm, st, en)"
  shows "gates_of stalled (h, snd (arch_local_irq_save p s)) = (hm, True, en)"
    and "gates_of stalled (h2, s2) = (hm, True, en2) \<Longrightarrow>
      gates_of stalled (h2, arch_local_irq_restore p (fst (arch_local_irq_save p s)) s2) = (hm, st, en2)"
  using assms(2) by (auto simp: gates_of_def inband_flags [OF assms(1)])

lemma read_observe:
  assumes "inband_ops_ok p stalled"
  shows "read_gates (observe p x) = gates_of stalled x"
proof -
  obtain h s where x: "x = (h, s)" by fastforce
  show ?thesis
    using split_merge [of "hard_local_save_flags h" "stalled s"]
    by (simp add: x read_gates_def observe_def gates_of_def inband_flags [OF assms] stage_save_flags_def split_beta
        hard_local_save_flags_def hard_irqs_disabled_flags_def native_irqs_disabled_def native_irqs_disabled_flags_def
        and.assoc)
qed

lemma run_gates_refine:
  "gates_of stalled x = (hm, st, en) \<Longrightarrow> local_irqs q \<Longrightarrow> run_gate p q x = (y, tr) \<Longrightarrow> inband_ops_ok p stalled \<Longrightarrow>
    \<exists>en'. spec_gate q (hm, st, en) = (en', map read_gates tr) \<and> gates_of stalled y = (hm, st, en')"
  "gates_of stalled x = (hm, st, en) \<Longrightarrow> \<forall>q \<in> set qs. local_irqs q \<Longrightarrow> run_gates p qs x = (y, tr) \<Longrightarrow>
    inband_ops_ok p stalled \<Longrightarrow>
    \<exists>en'. spec_gates qs (hm, st, en) = (en', map read_gates tr) \<and> gates_of stalled y = (hm, st, en')"
proof (induction p q x and p qs x arbitrary: hm st en y tr and hm st en y tr rule: run_gate_run_gates.induct)
  case (1 p x)
  then show ?case using read_observe [of p stalled x] by auto
next
  case (2 p n h s)
  then show ?case by (auto simp: riscv_intc_chip_def gates_of_mask)
next
  case (3 p n h s)
  then show ?case by (auto simp: riscv_intc_chip_def gates_of_mask)
next
  case (4 p ps h s)
  obtain fl h1 where h1: "hard_local_irq_save h = (fl, h1)" by fastforce
  obtain h2 s2 tr' where "run_gates p ps (h1, s) = ((h2, s2), tr')" by (metis prod.collapse)
  with 4(4) h1 have y: "run_gates p ps (h1, s) = ((h2, s2), tr)" "y = (hard_local_irq_restore fl h2, s2)" by auto
  note g = gates_of_hard [OF 4(2)]
  from 4(1) [OF h1 [symmetric] refl, of True st en "(h2, s2)" tr] g(1) h1 y(1) 4(3,5)
  obtain en' where "spec_gates ps (True, st, en) = (en', map read_gates tr)" "gates_of stalled (h2, s2) = (True, st, en')"
    by auto
  with g(2) [of h2 s2 en'] h1 y(2) show ?case by simp
next
  case (5 p ps h s)
  obtain fl s1 where s1: "arch_local_irq_save p s = (fl, s1)" by fastforce
  obtain h2 s2 tr' where "run_gates p ps (h, s1) = ((h2, s2), tr')" by (metis prod.collapse)
  with 5(4) s1 have y: "run_gates p ps (h, s1) = ((h2, s2), tr)" "y = (h2, arch_local_irq_restore p fl s2)" by auto
  note g = gates_of_inband [OF 5(5,2)]
  from 5(1) [OF s1 [symmetric] refl, of hm True en "(h2, s2)" tr] g(1) s1 y(1) 5(3,5)
  obtain en' where "spec_gates ps (hm, True, en) = (en', map read_gates tr)" "gates_of stalled (h2, s2) = (hm, True, en')"
    by auto
  with g(2) [of h2 s2 en'] s1 y(2) show ?case by simp
next
  case (6 p x)
  then show ?case by auto
next
  case (7 p q qs x)
  obtain x1 tr1 where q: "run_gate p q x = (x1, tr1)" by fastforce
  obtain x2 tr2 where qs: "run_gates p qs x1 = (x2, tr2)" by fastforce
  have y: "y = x2" "tr = tr1 @ tr2" using 7(5) q qs by auto
  from 7(1) [OF 7(3) _ q 7(6)] 7(4) obtain en1 where
    1: "spec_gate q (hm, st, en) = (en1, map read_gates tr1)" "gates_of stalled x1 = (hm, st, en1)" by auto
  from 7(2) [OF q [symmetric] refl 1(2) _ qs 7(6)] 7(4) obtain en2 where
    "spec_gates qs (hm, st, en1) = (en2, map read_gates tr2)" "gates_of stalled x2 = (hm, st, en2)" by auto
  with 1 y show ?case by simp
qed

text \<open>C23. The gates of an interrupt do not interfere: in a program that nests hard sections and in-band
  sections in each other in any way and masks and unmasks local interrupts anywhere inside, the combined
  flags \<open>stage_save_flags\<close> takes at any point, split again, say exactly whether the point is in a hard
  section and whether it is in an in-band one (or the gate was closed at the start), the enabled interrupts
  are the ones the driver left so far, and at the end both gates are as they were at the start.\<close>

theorem interrupt_gates_are_independent:
  assumes "inband_ops_ok p stalled" and "\<forall>q \<in> set qs. local_irqs q"
  shows "let ((h', s'), tr) = run_gates p qs (h, s);
             (en, spec) = spec_gates qs (native_irqs_disabled h, stalled s, enabled_irqs (csr_ie h))
    in map read_gates tr = spec \<and> native_irqs_disabled h' = native_irqs_disabled h \<and>
       stalled s' = stalled s \<and> enabled_irqs (csr_ie h') = en"
proof -
  obtain h' s' tr where r: "run_gates p qs (h, s) = ((h', s'), tr)" by (metis prod.collapse)
  from run_gates_refine(2) [OF _ assms(2) r assms(1)] show ?thesis
    by (fastforce simp: r gates_of_def)
qed

text \<open>A hard section in an in-band one, with interrupt 5 masked inside of both, and seen before and after.\<close>

theorem interrupt_gates_are_independent_witness:
  "let (x, tr) = run_gates sample_inband [Inband [Observe, Hard [Mask 5, Observe]], Observe]
      (\<lparr>csr_status = 2, csr_ie = 0x222, csr_slie = 0\<rparr>, False)
   in map read_gates tr = [(False, True, enabled_irqs 0x222), (True, True, enabled_irqs 0x222 - {5}),
      (False, False, enabled_irqs 0x222 - {5})]"
proof -
  let ?h = "\<lparr>csr_status = 2, csr_ie = 0x222, csr_slie = 0\<rparr>"
  let ?qs = "[Inband [Observe, Hard [Mask 5, Observe]], Observe]"
  obtain h' s' tr where r: "run_gates sample_inband ?qs (?h, False) = ((h', s'), tr)" by (metis prod.collapse)
  have "spec_gates ?qs (native_irqs_disabled ?h, False, enabled_irqs (csr_ie ?h)) = (enabled_irqs 0x222 - {5},
      [(False, True, enabled_irqs 0x222), (True, True, enabled_irqs 0x222 - {5}), (False, False, enabled_irqs 0x222 - {5})])"
    by (simp add: native_defs sr_ie_bit)
  with interrupt_gates_are_independent [OF sample_inband_ok, of ?qs ?h False] show ?thesis unfolding r by simp
qed

end
