(* ===== verification/Irq_Builds.thy ===== *)
theory Irq_Builds
  imports Irq_Props
begin

text \<open>
  Code of the in-band stage runs unchanged in a kernel with interrupt pipelining, where
  \<open>arch_local_irq_*\<close> act on the stall bit, and in one without, where they act on \<open>SR_IE\<close>. Programs
  here are any sequences of these operations, with the saved flags in numbered variables. The two builds
  are compared through what such a program can ask: \<open>arch_irqs_disabled\<close>, and
  \<open>arch_irqs_disabled_flags\<close> of the flags it holds.
\<close>

section \<open>Programs of the in-band stage\<close>

datatype flag_op = Save nat | Save_flags nat | Restore nat | Enable | Disable

type_synonym flag_vars = "nat \<Rightarrow> u64"

text \<open>One operation in each build.\<close>

fun piped_step :: "'s inband_ops \<Rightarrow> flag_op \<Rightarrow> 's \<times> flag_vars \<Rightarrow> 's \<times> flag_vars" where
  "piped_step p (Save i) (s, v) = (let (f, s') = arch_local_irq_save p s in (s', v(i := f)))"
| "piped_step p (Save_flags i) (s, v) = (s, v(i := arch_local_save_flags p s))"
| "piped_step p (Restore i) (s, v) = (arch_local_irq_restore p (v i) s, v)"
| "piped_step p Enable (s, v) = (arch_local_irq_enable p s, v)"
| "piped_step p Disable (s, v) = (arch_local_irq_disable p s, v)"

fun plain_step :: "flag_op \<Rightarrow> hart \<times> flag_vars \<Rightarrow> hart \<times> flag_vars" where
  "plain_step (Save i) (h, v) = (let (f, h') = np_arch_local_irq_save h in (h', v(i := f)))"
| "plain_step (Save_flags i) (h, v) = (h, v(i := np_arch_local_save_flags h))"
| "plain_step (Restore i) (h, v) = (np_arch_local_irq_restore (v i) h, v)"
| "plain_step Enable (h, v) = (np_arch_local_irq_enable h, v)"
| "plain_step Disable (h, v) = (np_arch_local_irq_disable h, v)"

text \<open>What a program can see of a state.\<close>

type_synonym irq_view = "bool \<times> (nat \<Rightarrow> bool)"

definition piped_view :: "'s inband_ops \<Rightarrow> 's \<times> flag_vars \<Rightarrow> irq_view" where
  "piped_view p = (\<lambda>(s, v). (arch_irqs_disabled p s, \<lambda>i. arch_irqs_disabled_flags (v i)))"

definition plain_view :: "hart \<times> flag_vars \<Rightarrow> irq_view" where
  "plain_view = (\<lambda>(h, v). (np_arch_irqs_disabled h, \<lambda>i. np_arch_irqs_disabled_flags (v i)))"

text \<open>What it sees after each operation of a run.\<close>

fun views :: "('o \<Rightarrow> 'x \<Rightarrow> 'x) \<Rightarrow> ('x \<Rightarrow> irq_view) \<Rightarrow> 'o list \<Rightarrow> 'x \<Rightarrow> irq_view list" where
  "views step vw [] x = []"
| "views step vw (p # ps) x = vw (step p x) # views step vw ps (step p x)"

section \<open>Each build on views\<close>

text \<open>Without the pipeline restoring only sets the enable bit: masked flags leave it as it is.\<close>

fun view_step :: "bool \<Rightarrow> flag_op \<Rightarrow> irq_view \<Rightarrow> irq_view" where
  "view_step pipelined (Save i) (m, f) = (True, f(i := m))"
| "view_step pipelined (Save_flags i) (m, f) = (m, f(i := m))"
| "view_step pipelined (Restore i) (m, f) = (if pipelined then f i else m \<and> f i, f)"
| "view_step pipelined Enable (m, f) = (False, f)"
| "view_step pipelined Disable (m, f) = (True, f)"

lemma views_simulated:
  "(\<And>p x. vw (step p x) = g p (vw x)) \<Longrightarrow> views step vw ps x = views g id ps (vw x)"
  by (induction ps arbitrary: x) simp_all

lemma piped_step_view:
  assumes "inband_ops_ok p stalled"
  shows "piped_view p (piped_step p op x) = view_step True op (piped_view p x)"
proof (cases x)
  case (Pair s v)
  have "arch_irqs_disabled_flags (arch_local_save_flags p s) = arch_irqs_disabled p s"
    by (simp add: arch_irqs_disabled_def)
  then show ?thesis
    using assms
    by (cases op) (auto simp: Pair piped_view_def inband_flags [OF assms] arch_local_irq_enable_def
        arch_local_irq_disable_def inband_ops_ok_def fun_eq_iff split_beta)
qed

lemma plain_step_view: "plain_view (plain_step op x) = view_step False op (plain_view x)"
  by (cases op; cases x)
    (auto simp: plain_view_def np_arch_irqs_disabled_def np_arch_irqs_disabled_flags_def
      np_arch_local_irq_save_def np_arch_local_save_flags_def np_arch_local_irq_restore_def
      np_arch_local_irq_enable_def np_arch_local_irq_disable_def native_defs fun_eq_iff or_eq_0_iff)

section \<open>The builds compared\<close>

text \<open>A program never restores flags saved with interrupts masked while they are unmasked.\<close>

fun restores_masked :: "flag_op list \<Rightarrow> irq_view \<Rightarrow> bool" where
  "restores_masked [] x = True"
| "restores_masked (p # ps) x =
     ((case p of Restore i \<Rightarrow> fst x \<or> \<not> snd x i | _ \<Rightarrow> True) \<and> restores_masked ps (view_step True p x))"

lemma view_steps_agree:
  "view_step False p x = view_step True p x \<longleftrightarrow> (case p of Restore i \<Rightarrow> fst x \<or> \<not> snd x i | _ \<Rightarrow> True)"
  by (cases p; cases x) auto

lemma view_runs_agree:
  "views (view_step False) id ps x = views (view_step True) id ps x \<longleftrightarrow> restores_masked ps x"
proof (induction ps arbitrary: x)
  case (Cons p ps)
  show ?case
  proof (cases "view_step False p x = view_step True p x")
    case True
    then show ?thesis using Cons.IH view_steps_agree [of p x] by simp
  next
    case False
    then show ?thesis using view_steps_agree [of p x] by simp
  qed
qed simp

text \<open>C22. Interrupt pipelining is transparent to code of the in-band stage, as far as it can be: started
  with the stall bit of one build equal to the mask of the other, a program of \<open>arch_local_irq_*\<close>
  operations reads the same answers after every operation in both builds, exactly when it never restores
  flags that were saved masked while interrupts are unmasked; there \<open>arch_local_irq_restore\<close> stalls the
  in-band stage in the pipelined build and leaves interrupts enabled in the other.\<close>

theorem pipelining_is_transparent_inband:
  assumes "inband_ops_ok p stalled" and "piped_view p (s, v) = plain_view (h, w)"
  shows "views (piped_step p) (piped_view p) ops (s, v) = views plain_step plain_view ops (h, w) \<longleftrightarrow>
    restores_masked ops (plain_view (h, w))"
  by (auto simp: views_simulated [of "piped_view p" _ "view_step True", OF piped_step_view [OF assms(1)]]
      views_simulated [of plain_view _ "view_step False", OF plain_step_view] assms(2)
      simp flip: view_runs_agree)

text \<open>Nested sections, and a restore of masked flags with interrupts enabled.\<close>

lemma sample_views_start:
  "piped_view sample_inband (False, \<lambda>i. SR_IE) = plain_view (\<lparr>csr_status = SR_IE, csr_ie = 0, csr_slie = 0\<rparr>, \<lambda>i. SR_IE)"
  by (simp add: piped_view_def plain_view_def sample_inband_def arch_irqs_disabled_def arch_local_save_flags_def
      arch_irqs_disabled_flags_def arch_irqs_virtual_to_native_flags_def np_arch_irqs_disabled_def
      np_arch_irqs_disabled_flags_def np_arch_local_save_flags_def native_defs)

theorem pipelining_is_transparent_inband_witness:
  "views (piped_step sample_inband) (piped_view sample_inband) [Save 0, Save 1, Restore 1, Restore 0] (False, \<lambda>i. SR_IE) =
     views plain_step plain_view [Save 0, Save 1, Restore 1, Restore 0]
       (\<lparr>csr_status = SR_IE, csr_ie = 0, csr_slie = 0\<rparr>, \<lambda>i. SR_IE) \<and>
   views (piped_step sample_inband) (piped_view sample_inband) [Disable, Save 0, Enable, Restore 0] (False, \<lambda>i. SR_IE) \<noteq>
     views plain_step plain_view [Disable, Save 0, Enable, Restore 0]
       (\<lparr>csr_status = SR_IE, csr_ie = 0, csr_slie = 0\<rparr>, \<lambda>i. SR_IE)"
  unfolding pipelining_is_transparent_inband [OF sample_inband_ok sample_views_start]
  by (simp add: plain_view_def np_arch_irqs_disabled_def np_arch_irqs_disabled_flags_def np_arch_local_save_flags_def
      native_defs)

end
