(* ===== verification/Irq_Trace.thy ===== *)
theory Irq_Trace
  imports Evl_Prelude
begin

text \<open>
  \<open>include/trace/events/irq.h\<close>: the tracepoints of interrupts entering and leaving the pipeline, of
  interrupt handlers, soft interrupts and tasklets. A tracepoint is the entry \<open>TP_STRUCT__entry\<close>
  declares, the function \<open>TP_fast_assign\<close> that fills it in, and the text of \<open>TP_printk\<close>. The numbers of
  the soft interrupts (\<open>linux/interrupt.h\<close>), the text \<open>__print_symbolic\<close> has for a value it does not
  know, and the name \<open>%ps\<close> prints for an address are arguments.
\<close>

section \<open>Numbers as text\<close>

fun dec_nat :: "nat \<Rightarrow> string" where
  "dec_nat n = (if n < 10 then [char_of (48 + n)] else dec_nat (n div 10) @ [char_of (48 + n mod 10)])"

declare dec_nat.simps [simp del]

definition dec_int :: "int \<Rightarrow> string" where
  "dec_int i = (if i < 0 then CHR ''-'' # dec_nat (nat (- i)) else dec_nat (nat i))"

section \<open>Interrupt handlers and the pipeline\<close>

record irqaction =
  act_name :: string

record ent_handler_entry =
  ehe_irq :: int
  ehe_name :: string

record ent_handler_exit =
  ehx_irq :: int
  ehx_ret :: int

record ent_pipeline =
  epl_irq :: int

definition trace_irq_handler_entry :: "int \<Rightarrow> irqaction \<Rightarrow> ent_handler_entry" where
  "trace_irq_handler_entry irq action = \<lparr>ehe_irq = irq, ehe_name = act_name action\<rparr>"

definition print_irq_handler_entry :: "ent_handler_entry \<Rightarrow> string" where
  "print_irq_handler_entry e = ''irq='' @ dec_int (ehe_irq e) @ '' name='' @ ehe_name e"

definition trace_irq_handler_exit :: "int \<Rightarrow> irqaction \<Rightarrow> int \<Rightarrow> ent_handler_exit" where
  "trace_irq_handler_exit irq action ret = \<lparr>ehx_irq = irq, ehx_ret = ret\<rparr>"

definition print_irq_handler_exit :: "ent_handler_exit \<Rightarrow> string" where
  "print_irq_handler_exit e =
     ''irq='' @ dec_int (ehx_irq e) @ '' ret='' @ (if ehx_ret e \<noteq> 0 then ''handled'' else ''unhandled'')"

definition trace_irq_pipeline_entry :: "int \<Rightarrow> ent_pipeline" where
  "trace_irq_pipeline_entry irq = \<lparr>epl_irq = irq\<rparr>"

definition print_irq_pipeline_entry :: "ent_pipeline \<Rightarrow> string" where
  "print_irq_pipeline_entry e = ''irq='' @ dec_int (epl_irq e)"

definition trace_irq_pipeline_exit :: "int \<Rightarrow> ent_pipeline" where
  "trace_irq_pipeline_exit irq = \<lparr>epl_irq = irq\<rparr>"

definition print_irq_pipeline_exit :: "ent_pipeline \<Rightarrow> string" where
  "print_irq_pipeline_exit e = ''irq='' @ dec_int (epl_irq e)"

section \<open>Soft interrupts and tasklets\<close>

datatype softirq = HI | TIMER | NET_TX | NET_RX | BLOCK | IRQ_POLL | TASKLET | SCHED | HRTIMER | RCU

definition SOFTIRQ_NAME_LIST :: "(softirq \<times> string) list" where
  "SOFTIRQ_NAME_LIST =
    [(HI, ''HI''),
     (TIMER, ''TIMER''),
     (NET_TX, ''NET_TX''),
     (NET_RX, ''NET_RX''),
     (BLOCK, ''BLOCK''),
     (IRQ_POLL, ''IRQ_POLL''),
     (TASKLET, ''TASKLET''),
     (SCHED, ''SCHED''),
     (HRTIMER, ''HRTIMER''),
     (RCU, ''RCU'')]"

text \<open>\<open>__print_symbolic\<close> prints the name of the first entry with the value.\<close>

definition show_softirq_name :: "(softirq \<Rightarrow> u32) \<Rightarrow> (u32 \<Rightarrow> string) \<Rightarrow> u32 \<Rightarrow> string" where
  "show_softirq_name nr other val =
     (case find (\<lambda>(v, name). nr v = val) SOFTIRQ_NAME_LIST of Some (v, name) \<Rightarrow> name | None \<Rightarrow> other val)"

record ent_softirq =
  esi_vec :: u32

definition trace_softirq :: "u32 \<Rightarrow> ent_softirq" where
  "trace_softirq vec_nr = \<lparr>esi_vec = vec_nr\<rparr>"

definition print_softirq :: "(softirq \<Rightarrow> u32) \<Rightarrow> (u32 \<Rightarrow> string) \<Rightarrow> ent_softirq \<Rightarrow> string" where
  "print_softirq nr other e =
     ''vec='' @ dec_nat (unat (esi_vec e)) @ '' [action='' @ show_softirq_name nr other (esi_vec e) @ '']''"

record ent_tasklet =
  etk_tasklet :: ptr
  etk_func :: ptr

definition trace_tasklet :: "ptr \<Rightarrow> ptr \<Rightarrow> ent_tasklet" where
  "trace_tasklet t func = \<lparr>etk_tasklet = t, etk_func = func\<rparr>"

definition print_tasklet :: "(ptr \<Rightarrow> string) \<Rightarrow> ent_tasklet \<Rightarrow> string" where
  "print_tasklet ps e = ''tasklet='' @ ps (etk_tasklet e) @ '' function='' @ ps (etk_func e)"

text \<open>The events of the two classes.\<close>

definition trace_softirq_entry :: "u32 \<Rightarrow> ent_softirq" where "trace_softirq_entry vec_nr = trace_softirq vec_nr"
definition trace_softirq_exit :: "u32 \<Rightarrow> ent_softirq" where "trace_softirq_exit vec_nr = trace_softirq vec_nr"
definition trace_softirq_raise :: "u32 \<Rightarrow> ent_softirq" where "trace_softirq_raise vec_nr = trace_softirq vec_nr"
definition trace_tasklet_entry :: "ptr \<Rightarrow> ptr \<Rightarrow> ent_tasklet" where "trace_tasklet_entry t func = trace_tasklet t func"
definition trace_tasklet_exit :: "ptr \<Rightarrow> ptr \<Rightarrow> ent_tasklet" where "trace_tasklet_exit t func = trace_tasklet t func"

section \<open>The text identifies the event\<close>

definition dec_value :: "string \<Rightarrow> nat" where
  "dec_value = foldl (\<lambda>a c. 10 * a + (of_char c - 48)) 0"

lemma dec_value_nat: "dec_value (dec_nat n) = n"
proof (induction n rule: dec_nat.induct)
  case (1 n)
  show ?case
  proof (cases "n < 10")
    case True
    then show ?thesis by (subst dec_nat.simps) (simp add: dec_value_def)
  next
    case False
    have "foldl (\<lambda>a c. 10 * a + (of_char c - 48)) 0 (dec_nat (n div 10)) = n div 10"
      using 1 False by (simp add: dec_value_def)
    then show ?thesis using False by (subst dec_nat.simps) (simp add: dec_value_def)
  qed
qed

lemma dec_nat_digits: "c \<in> set (dec_nat n) \<Longrightarrow> 48 \<le> (of_char c :: nat) \<and> (of_char c :: nat) < 58"
proof (induction n rule: dec_nat.induct)
  case (1 n)
  have "n mod 10 < 10" by simp
  moreover from 1 have "n < 10 \<and> c = char_of (48 + n) \<or> \<not> n < 10 \<and> c \<in> set (dec_nat (n div 10)) \<or>
      c = char_of (48 + n mod 10)"
    by (subst (asm) (2) dec_nat.simps) (auto split: if_splits)
  ultimately show ?case using 1(1) by fastforce
qed

lemma dec_nat_inj [simp]: "dec_nat m = dec_nat n \<longleftrightarrow> m = n"
  by (metis dec_value_nat)

lemma not_digit: "CHR ''-'' \<notin> set (dec_nat n)" "CHR '' '' \<notin> set (dec_nat n)"
  using dec_nat_digits by fastforce+

lemma dec_int_inj [simp]: "dec_int i = dec_int j \<longleftrightarrow> i = j"
proof -
  have "CHR ''-'' # xs = dec_nat n \<longleftrightarrow> False" "dec_nat n = CHR ''-'' # xs \<longleftrightarrow> False" for xs n
    using not_digit(1) [of n] by (metis list.set_intros(1))+
  then show ?thesis by (auto simp: dec_int_def)
qed

lemma dec_int_no_space: "CHR '' '' \<notin> set (dec_int i)"
  using not_digit by (auto simp: dec_int_def)

text \<open>A number ends at the first space.\<close>

lemma split_at_space:
  "CHR '' '' \<notin> set xs \<Longrightarrow> CHR '' '' \<notin> set ys \<Longrightarrow> xs @ CHR '' '' # us = ys @ CHR '' '' # vs \<longleftrightarrow> xs = ys \<and> us = vs"
  by (induction xs arbitrary: ys) (case_tac ys; auto)+

lemmas number_then_text = split_at_space [OF dec_int_no_space dec_int_no_space]
  split_at_space [OF not_digit(2) not_digit(2)]

lemma softirq_shown:
  assumes "inj nr"
  shows "show_softirq_name nr other (nr HI) = ''HI''" "show_softirq_name nr other (nr TIMER) = ''TIMER''"
    "show_softirq_name nr other (nr NET_TX) = ''NET_TX''" "show_softirq_name nr other (nr NET_RX) = ''NET_RX''"
    "show_softirq_name nr other (nr BLOCK) = ''BLOCK''" "show_softirq_name nr other (nr IRQ_POLL) = ''IRQ_POLL''"
    "show_softirq_name nr other (nr TASKLET) = ''TASKLET''" "show_softirq_name nr other (nr SCHED) = ''SCHED''"
    "show_softirq_name nr other (nr HRTIMER) = ''HRTIMER''" "show_softirq_name nr other (nr RCU) = ''RCU''"
  by (simp_all add: show_softirq_name_def SOFTIRQ_NAME_LIST_def inj_eq [OF assms])

text \<open>C25. A line of the trace tells what happened: two interrupt handler entries print the same text
  exactly when the interrupt and the name of the action agree, two exits when the interrupt and
  whether it was handled agree, two pipeline events when the interrupt agrees, two soft interrupts
  when the vector agrees; every soft interrupt is shown by its own name, and a vector that is none of them
  by what \<open>__print_symbolic\<close> has for a value it does not know.\<close>

theorem trace_text_identifies_event:
  assumes "inj nr"
  shows "(print_irq_handler_entry (trace_irq_handler_entry i a) = print_irq_handler_entry (trace_irq_handler_entry j b)
           \<longleftrightarrow> i = j \<and> act_name a = act_name b) \<and>
    (print_irq_handler_exit (trace_irq_handler_exit i a r) = print_irq_handler_exit (trace_irq_handler_exit j b q)
           \<longleftrightarrow> i = j \<and> (r = 0 \<longleftrightarrow> q = 0)) \<and>
    (print_irq_pipeline_entry (trace_irq_pipeline_entry i) = print_irq_pipeline_entry (trace_irq_pipeline_entry j)
           \<longleftrightarrow> i = j) \<and>
    (print_irq_pipeline_exit (trace_irq_pipeline_exit i) = print_irq_pipeline_exit (trace_irq_pipeline_exit j)
           \<longleftrightarrow> i = j) \<and>
    (print_softirq nr other (trace_softirq u) = print_softirq nr other (trace_softirq v) \<longleftrightarrow> u = v) \<and>
    map (\<lambda>s. show_softirq_name nr other (nr s)) [HI, TIMER, NET_TX, NET_RX, BLOCK, IRQ_POLL, TASKLET, SCHED, HRTIMER, RCU] =
      [''HI'', ''TIMER'', ''NET_TX'', ''NET_RX'', ''BLOCK'', ''IRQ_POLL'', ''TASKLET'', ''SCHED'', ''HRTIMER'', ''RCU''] \<and>
    (u \<notin> range nr \<longrightarrow> show_softirq_name nr other u = other u)"
proof -
  have names: "map (\<lambda>s. show_softirq_name nr other (nr s)) [HI, TIMER, NET_TX, NET_RX, BLOCK, IRQ_POLL, TASKLET, SCHED, HRTIMER, RCU] =
      [''HI'', ''TIMER'', ''NET_TX'', ''NET_RX'', ''BLOCK'', ''IRQ_POLL'', ''TASKLET'', ''SCHED'', ''HRTIMER'', ''RCU'']"
    by (simp only: list.map softirq_shown [OF assms])
  have unknown: "show_softirq_name nr other u = other u" if "u \<notin> range nr"
  proof -
    have "nr w \<noteq> u" for w using that by blast
    then show ?thesis by (simp add: show_softirq_name_def SOFTIRQ_NAME_LIST_def)
  qed
  have "unat u = unat v \<longleftrightarrow> u = v" by (rule word_unat_eq_iff [symmetric])
  then show ?thesis
    by (intro conjI names impI unknown) (simp add: print_irq_handler_entry_def trace_irq_handler_entry_def
        print_irq_handler_exit_def trace_irq_handler_exit_def print_irq_pipeline_entry_def trace_irq_pipeline_entry_def
        print_irq_pipeline_exit_def trace_irq_pipeline_exit_def print_softirq_def trace_softirq_def number_then_text;
        auto)+
qed

definition sample_softirq_nr :: "softirq \<Rightarrow> u32" where
  "sample_softirq_nr v = (case v of HI \<Rightarrow> 0 | TIMER \<Rightarrow> 1 | NET_TX \<Rightarrow> 2 | NET_RX \<Rightarrow> 3 | BLOCK \<Rightarrow> 4 | IRQ_POLL \<Rightarrow> 5 |
     TASKLET \<Rightarrow> 6 | SCHED \<Rightarrow> 7 | HRTIMER \<Rightarrow> 8 | RCU \<Rightarrow> 9)"

theorem trace_text_identifies_event_witness:
  "print_softirq sample_softirq_nr (\<lambda>_. []) (trace_softirq 1) = ''vec=1 [action=TIMER]'' \<and>
   print_softirq sample_softirq_nr (\<lambda>_. []) (trace_softirq 1) \<noteq> print_softirq sample_softirq_nr (\<lambda>_. []) (trace_softirq 12)"
proof -
  have "inj sample_softirq_nr"
    by (rule injI, rename_tac x y, case_tac x; case_tac y; simp add: sample_softirq_nr_def)
  then show ?thesis
    using trace_text_identifies_event [of sample_softirq_nr 0 "\<lparr>act_name = []\<rparr>" 0 "\<lparr>act_name = []\<rparr>" 0 0 "\<lambda>_. []" 1 12]
    by (simp add: print_softirq_def trace_softirq_def show_softirq_name_def SOFTIRQ_NAME_LIST_def
        sample_softirq_nr_def dec_nat.simps char_of_def bit_0)
qed

end
