(* ===== verification/Evl_Memory.thy ===== *)
theory Evl_Memory
  imports Evl_Prelude
begin

text \<open>
  \<open>include/evl/memory.h\<close>: the geometry of the core heaps and the inline accessors. The allocator
  (\<open>evl_alloc_chunk\<close>, \<open>evl_free_chunk\<close>) is in \<open>memory.c\<close>, outside of the sources: an argument.
  Memory maps addresses to bytes; address 0 is the null pointer.
\<close>

section \<open>Geometry\<close>

definition EVL_HEAP_PAGE_SHIFT :: nat where [const_defs]: "EVL_HEAP_PAGE_SHIFT = 9"
definition EVL_HEAP_PAGE_SIZE :: u64 where [const_defs]: "EVL_HEAP_PAGE_SIZE = push_bit EVL_HEAP_PAGE_SHIFT 1"
definition EVL_HEAP_PAGE_MASK :: u64 where [const_defs]: "EVL_HEAP_PAGE_MASK = NOT (EVL_HEAP_PAGE_SIZE - 1)"
definition EVL_HEAP_MIN_LOG2 :: nat where [const_defs]: "EVL_HEAP_MIN_LOG2 = 4"
definition EVL_HEAP_MAX_BUCKETS :: nat where [const_defs]:
  "EVL_HEAP_MAX_BUCKETS = EVL_HEAP_PAGE_SHIFT - EVL_HEAP_MIN_LOG2"
definition EVL_HEAP_MIN_ALIGN :: u32 where [const_defs]: "EVL_HEAP_MIN_ALIGN = push_bit EVL_HEAP_MIN_LOG2 1"

text \<open>\<open>PAGE_SIZE\<close> is the in-band kernel's: an argument; \<open>4294967295U - PAGE_SIZE + 1\<close> is an \<open>unsigned long\<close>.\<close>

definition EVL_HEAP_MAX_HEAPSZ :: "u64 \<Rightarrow> u64" where [const_defs]:
  "EVL_HEAP_MAX_HEAPSZ PAGE_SIZE = 4294967295 - PAGE_SIZE + 1"
definition EVL_HEAP_PGENT_BITS :: nat where [const_defs]: "EVL_HEAP_PGENT_BITS = 32 - EVL_HEAP_PAGE_SHIFT"

text \<open>The members \<open>map\<close> and \<open>bsize\<close> of the union share their word.\<close>

record evl_heap_pgentry =
  pg_prev :: nat
  pg_next :: nat
  pg_type :: nat
  pg_map_bsize :: u32

text \<open>The bit fields hold their values modulo their width.\<close>

definition make_pgentry :: "nat \<Rightarrow> nat \<Rightarrow> nat \<Rightarrow> u32 \<Rightarrow> evl_heap_pgentry" where
  "make_pgentry prev nxt type map_bsize =
     \<lparr>pg_prev = prev mod 2 ^ EVL_HEAP_PGENT_BITS, pg_next = nxt mod 2 ^ EVL_HEAP_PGENT_BITS,
      pg_type = type mod 2 ^ 6, pg_map_bsize = map_bsize\<rparr>"

text \<open>The three bit fields fill two 32 bit units (the first two do not fit one), the union a third.\<close>

definition EVL_HEAP_PGMAP_BYTES :: nat where [const_defs]: "EVL_HEAP_PGMAP_BYTES = 12"

record evl_heap_range =
  hr_size :: u64

record evl_heap =
  hp_membase :: u64
  hp_addr_tree :: "(u64 \<times> evl_heap_range) list"
  hp_size_tree :: "(u64 \<times> evl_heap_range) list"
  hp_pagemap :: "evl_heap_pgentry list"
  hp_usable_size :: u64
  hp_used_size :: u64
  hp_buckets :: "u32 list"
  hp_lock :: bool

section \<open>Accessors\<close>

definition evl_get_heap_size :: "evl_heap \<Rightarrow> u64" where
  "evl_get_heap_size heap = hp_usable_size heap"

definition evl_get_heap_free :: "evl_heap \<Rightarrow> u64" where
  "evl_get_heap_free heap = hp_usable_size heap - hp_used_size heap"

definition evl_get_heap_base :: "evl_heap \<Rightarrow> u64" where
  "evl_get_heap_base heap = hp_membase heap"

type_synonym memory = "u64 \<Rightarrow> u8"

definition memset :: "u64 \<Rightarrow> u8 \<Rightarrow> u64 \<Rightarrow> memory \<Rightarrow> memory" where
  "memset p c n mem = (\<lambda>a. if a - p < n then c else mem a)"

type_synonym heap_alloc = "evl_heap \<times> memory \<Rightarrow> u64 \<Rightarrow> u64 \<times> evl_heap \<times> memory"

definition evl_zalloc_chunk :: "heap_alloc \<Rightarrow> evl_heap \<times> memory \<Rightarrow> u32 \<Rightarrow> u64 \<times> evl_heap \<times> memory" where
  "evl_zalloc_chunk alloc_chunk st n =
     (let (p, heap, mem) = alloc_chunk st (ucast n) in
      if p \<noteq> 0 then (p, heap, memset p 0 (ucast n) mem) else (p, heap, mem))"

text \<open>The result is an \<open>int\<close>: the difference of the addresses is narrowed to 32 bits.\<close>

definition evl_shared_offset :: "evl_heap \<Rightarrow> u64 \<Rightarrow> int" where
  "evl_shared_offset evl_shared_heap p = sint (ucast (p - evl_get_heap_base evl_shared_heap) :: u32)"

definition evl_alloc :: "heap_alloc \<Rightarrow> evl_heap \<times> memory \<Rightarrow> u64 \<Rightarrow> u64 \<times> evl_heap \<times> memory" where
  "evl_alloc alloc_chunk system_heap n = alloc_chunk system_heap n"

definition evl_free :: "(evl_heap \<times> memory \<Rightarrow> u64 \<Rightarrow> evl_heap \<times> memory) \<Rightarrow> evl_heap \<times> memory \<Rightarrow> u64 \<Rightarrow> evl_heap \<times> memory" where
  "evl_free free_chunk system_heap p = free_chunk system_heap p"

section \<open>Properties\<close>

text \<open>Bucketed blocks fit the 32 bits of a page map, and page numbers fit their bit fields.\<close>

lemma heap_geometry:
  "unat EVL_HEAP_PAGE_SIZE = 2 ^ (EVL_HEAP_MIN_LOG2 + EVL_HEAP_MAX_BUCKETS)"
  "i < EVL_HEAP_MAX_BUCKETS \<Longrightarrow> 2 ^ EVL_HEAP_PAGE_SHIFT div 2 ^ (EVL_HEAP_MIN_LOG2 + i) \<le> (32 :: nat)"
  "p < 2 ^ EVL_HEAP_PGENT_BITS \<Longrightarrow> q < 2 ^ EVL_HEAP_PGENT_BITS \<Longrightarrow> t < 64 \<Longrightarrow>
    make_pgentry p q t m = \<lparr>pg_prev = p, pg_next = q, pg_type = t, pg_map_bsize = m\<rparr>"
proof -
  show "unat EVL_HEAP_PAGE_SIZE = 2 ^ (EVL_HEAP_MIN_LOG2 + EVL_HEAP_MAX_BUCKETS)"
    by (simp add: const_defs)
  have "(2 :: nat) ^ 9 div 2 ^ (4 + i) \<le> 2 ^ 9 div 2 ^ 4"
    by (intro div_le_mono2) (simp_all add: power_add)
  then show "2 ^ EVL_HEAP_PAGE_SHIFT div 2 ^ (EVL_HEAP_MIN_LOG2 + i) \<le> (32 :: nat)"
    by (simp add: const_defs)
qed (simp add: make_pgentry_def)

lemma page_number_fits:
  assumes "off < (2 :: nat) ^ 32"
  shows "off div 2 ^ EVL_HEAP_PAGE_SHIFT < 2 ^ EVL_HEAP_PGENT_BITS"
proof -
  have "off div 2 ^ 9 < (2 :: nat) ^ 23" using assms by (simp add: less_mult_imp_div_less)
  then show ?thesis by (simp add: const_defs)
qed

text \<open>\<open>evl_zalloc_chunk\<close> clears what it allocates and nothing else: when the allocator returns no block
  the result is null and memory is as the allocator left it; otherwise the block is the allocator's,
  each of its \<open>size\<close> bytes reads zero, every byte outside of it is as the allocator left it, and the
  heap is the one of a plain allocation of the same size.\<close>

lemma zalloc_clears_the_block:
  assumes "alloc st (ucast n) = (p, heap', mem')" and "evl_zalloc_chunk alloc st n = (q, heap'', mem'')"
  shows "q = p \<and> heap'' = heap' \<and> (p = 0 \<longrightarrow> mem'' = mem') \<and>
    (p \<noteq> 0 \<longrightarrow> (\<forall>i < ucast n. mem'' (p + i) = 0) \<and> (\<forall>a. \<not> a - p < ucast n \<longrightarrow> mem'' a = mem' a))"
  using assms by (auto simp: evl_zalloc_chunk_def memset_def split: if_splits)

definition sample_heap :: evl_heap where
  "sample_heap = \<lparr>hp_membase = 0x1000, hp_addr_tree = [], hp_size_tree = [], hp_pagemap = [], hp_usable_size = 0x800,
     hp_used_size = 0, hp_buckets = [], hp_lock = False\<rparr>"

lemma zalloc_clears_the_block_witness:
  "snd (snd (evl_zalloc_chunk (\<lambda>(h, m) n. (0x1010, h, m)) (sample_heap, \<lambda>_. 7) 16)) (0x1010 + 3) = 0"
proof -
  obtain q h m where r: "evl_zalloc_chunk (\<lambda>(h, m) n. (0x1010, h, m)) (sample_heap, \<lambda>_. 7) 16 = (q, h, m)"
    by (metis prod.collapse)
  have "\<forall>i < ucast (16 :: u32). m (0x1010 + i) = 0"
    using zalloc_clears_the_block [OF _ r] by simp
  then have "m (0x1010 + 3) = 0" by (rule allE [of _ 3]) simp
  with r show ?thesis by simp
qed

lemma uint_ucast_u32: "uint x < 2 ^ 32 \<Longrightarrow> uint (ucast (x :: u64) :: u32) = uint x"
  by (simp add: unsigned_ucast_eq take_bit_int_eq_self)

lemma top_bit:
  assumes "0 \<le> x" and "x < 2 ^ 32"
  shows "bit x 31 \<longleftrightarrow> \<not> x < (2 ^ 31 :: int)"
proof (cases "x < 2 ^ 31")
  case True
  with assms(1) show ?thesis by (simp add: bit_iff_odd div_pos_pos_trivial)
next
  case False
  with assms have "x div 2 ^ 31 = 1" by (simp add: div_pos_geq div_pos_pos_trivial)
  with False show ?thesis by (simp add: bit_iff_odd)
qed

text \<open>C34. The offset of a block in the shared heap is exact in the lower 2 GB only: for a block at an offset
  below \<open>2^31\<close>, \<open>evl_shared_offset\<close> is that offset; from there on, up to the largest heap the core
  accepts, it is negative, as the difference is returned as an \<open>int\<close>.\<close>

theorem shared_offset_range:
  assumes "uint (p - hp_membase heap) < 2 ^ 32"
  shows "evl_shared_offset heap p =
    (if uint (p - hp_membase heap) < 2 ^ 31 then uint (p - hp_membase heap)
     else uint (p - hp_membase heap) - 2 ^ 32)"
proof -
  let ?w = "ucast (p - hp_membase heap) :: u32"
  have u: "uint ?w = uint (p - hp_membase heap)" using uint_ucast_u32 [OF assms] .
  have "bit (uint ?w) 31 \<longleftrightarrow> \<not> uint ?w < 2 ^ 31"
    using top_bit [of "uint ?w"] uint_bounded [of ?w] by simp
  then have "sint ?w = (if uint ?w < 2 ^ 31 then uint ?w else uint ?w - 2 ^ 32)"
    using uint_bounded [of ?w] by (simp add: sint_uint signed_take_bit_eq_take_bit_minus take_bit_int_eq_self)
  then show ?thesis by (simp add: evl_shared_offset_def evl_get_heap_base_def u)
qed


theorem shared_offset_range_witness:
  "evl_shared_offset sample_heap 0x80001000 = - 0x80000000"
  using shared_offset_range [of "0x80001000" sample_heap] by (simp add: sample_heap_def)

end
