(* ===== verification/Evl_Factory.thy ===== *)
theory Evl_Factory
  imports Evl_Prelude
begin

text \<open>
  \<open>include/evl/factory.h\<close>: factories and the elements they build, which live as long as something
  refers to them, and \<open>include/evl/cache.h\<close>, whose entries are counted the same way. Parts which
  belong to the in-band kernel (devices, RCU heads, locks, class objects) are opaque addresses. What
  \<open>factory.c\<close> and \<open>cache.c\<close> provide is an argument. \<open>refcount_t\<close> is a counter whose operations
  stop at zero.
\<close>

section \<open>Reference counts (linux/refcount.h)\<close>

definition refcount_inc_not_zero :: "nat \<Rightarrow> bool \<times> nat" where
  "refcount_inc_not_zero n = (if n = 0 then (False, 0) else (True, Suc n))"

definition refcount_dec_and_test :: "nat \<Rightarrow> bool \<times> nat" where
  "refcount_dec_and_test n = (n = 1, n - 1)"

section \<open>Factories and elements\<close>

definition EVL_FACTORY_CLONE :: u32 where [flag_defs]: "EVL_FACTORY_CLONE = 1"
definition EVL_FACTORY_SINGLE :: u32 where [flag_defs]: "EVL_FACTORY_SINGLE = 2"
definition EVL_DEVHASH_BITS :: nat where [const_defs]: "EVL_DEVHASH_BITS = 8"

text \<open>\<open>uapi/evl/factory-abi.h\<close>: the clone flags.\<close>

definition EVL_CLONE_PUBLIC :: u32 where [flag_defs]: "EVL_CLONE_PUBLIC = 0x10000"
definition EVL_CLONE_PRIVATE :: u32 where [flag_defs]: "EVL_CLONE_PRIVATE = 0"
definition EVL_CLONE_OBSERVABLE :: u32 where [flag_defs]: "EVL_CLONE_OBSERVABLE = 0x20000"
definition EVL_CLONE_NONBLOCK :: u32 where [flag_defs]: "EVL_CLONE_NONBLOCK = 0x40000"
definition EVL_CLONE_UNICAST :: u32 where [flag_defs]: "EVL_CLONE_UNICAST = 0x80000"
definition EVL_CLONE_INPUT :: u32 where [flag_defs]: "EVL_CLONE_INPUT = 0x100000"
definition EVL_CLONE_OUTPUT :: u32 where [flag_defs]: "EVL_CLONE_OUTPUT = 0x200000"
definition EVL_CLONE_COREDEV :: u32 where [flag_defs]: "EVL_CLONE_COREDEV = 0x80000000"

definition EVL_CLONE_MASK :: u32 where [flag_defs]:
  "EVL_CLONE_MASK = push_bit 16 (- 1) AND NOT EVL_CLONE_COREDEV"
definition EVL_CLONE_MASTER :: u32 where [flag_defs]: "EVL_CLONE_MASTER = EVL_CLONE_UNICAST"

record evl_index =
  ix_elements :: "(u32 \<times> ptr) list"
  ix_lock :: bool
  ix_generator :: u32

record evl_element =
  el_rcu :: ptr
  el_factory :: ptr
  el_cdev :: ptr
  el_dev :: "ptr option"
  el_devname :: "string option"
  el_minor :: u32
  el_refs :: nat
  el_fundle :: u32
  el_clone_flags :: u32
  el_irq_work :: ptr
  el_filp :: "ptr option"
  el_efd :: int

record 's evl_factory =
  fa_name :: string
  fa_fops :: ptr
  fa_nrdev :: u32
  fa_build :: "ptr \<Rightarrow> u64 \<Rightarrow> u64 \<Rightarrow> u32 \<Rightarrow> 's \<Rightarrow> (ptr option \<times> u32) \<times> 's"
  fa_dispose :: "ptr \<Rightarrow> 's \<Rightarrow> 's"
  fa_attrs :: ptr
  fa_flags :: u32
  fa_type :: ptr
  fa_class :: ptr
  fa_cdev :: ptr
  fa_dev :: ptr
  fa_sub_rdev :: u32
  fa_kuid :: u32
  fa_kgid :: u32
  fa_minor_map :: "nat set"
  fa_index :: evl_index
  fa_name_hash :: "(string \<times> ptr) list"
  fa_hash_lock :: bool

definition fundle_of :: "evl_element \<Rightarrow> u32" where "fundle_of e = el_fundle e"

definition evl_element_name :: "evl_element \<Rightarrow> string option" where
  "evl_element_name e = el_devname e"

definition raw_evl_get_element :: "evl_element \<Rightarrow> bool \<times> evl_element" where
  "raw_evl_get_element e = (let (ok, n) = refcount_inc_not_zero (el_refs e) in (ok, e\<lparr>el_refs := n\<rparr>))"

text \<open>Whether the core warns, and the element.\<close>

definition evl_get_element :: "evl_element \<Rightarrow> bool \<times> evl_element" where
  "evl_get_element e = (let (ok, e') = raw_evl_get_element e in (\<not> ok, e'))"

definition evl_get_element_by_fundle :: "(evl_index \<Rightarrow> u32 \<Rightarrow> ptr option) \<Rightarrow> evl_index \<Rightarrow> u32 \<Rightarrow> ptr option" where
  "evl_get_element_by_fundle raw_get index fundle = raw_get index fundle"

definition evl_get_factory_element_by_fundle ::
    "(evl_index \<Rightarrow> u32 \<Rightarrow> ptr option) \<Rightarrow> 's evl_factory \<Rightarrow> u32 \<Rightarrow> ptr option" where
  "evl_get_factory_element_by_fundle raw_get fac fundle = evl_get_element_by_fundle raw_get (fa_index fac) fundle"

text \<open>\<open>drvdata\<close> is the driver data of each device: the element it backs, or null.\<close>

definition evl_get_element_by_dev ::
    "(ptr \<Rightarrow> ptr option) \<Rightarrow> ptr \<Rightarrow> (ptr \<Rightarrow> evl_element) \<Rightarrow> (ptr option \<times> bool) \<times> (ptr \<Rightarrow> evl_element)" where
  "evl_get_element_by_dev drvdata dev els =
     (case drvdata dev of
        None \<Rightarrow> ((None, False), els)
      | Some e \<Rightarrow> let (warned, e') = evl_get_element (els e) in ((Some e, warned), els(e := e')))"

definition evl_hide_element :: "evl_element \<Rightarrow> (ptr \<Rightarrow> ptr option) \<Rightarrow> ptr \<Rightarrow> ptr option" where
  "evl_hide_element e drvdata =
     (case el_dev e of Some dev \<Rightarrow> drvdata(dev := None) | None \<Rightarrow> drvdata)"

definition evl_element_is_public :: "evl_element \<Rightarrow> bool" where
  "evl_element_is_public e \<longleftrightarrow> el_clone_flags e AND EVL_CLONE_PUBLIC \<noteq> 0"

definition evl_element_has_coredev :: "evl_element \<Rightarrow> bool" where
  "evl_element_has_coredev e \<longleftrightarrow> el_clone_flags e AND EVL_CLONE_COREDEV \<noteq> 0"

definition evl_element_is_observable :: "evl_element \<Rightarrow> bool" where
  "evl_element_is_observable e \<longleftrightarrow> el_clone_flags e AND EVL_CLONE_OBSERVABLE \<noteq> 0"

text \<open>Whether the element is handed to \<open>__evl_put_element\<close> for disposal.\<close>

definition evl_put_element :: "evl_element \<Rightarrow> bool \<times> evl_element" where
  "evl_put_element e = (let (last, n) = refcount_dec_and_test (el_refs e) in (last, e\<lparr>el_refs := n\<rparr>))"

definition evl_index_factory_element ::
    "(evl_index \<Rightarrow> ptr \<Rightarrow> evl_index) \<Rightarrow> 's evl_factory \<Rightarrow> ptr \<Rightarrow> 's evl_factory" where
  "evl_index_factory_element index_element fac e = fac\<lparr>fa_index := index_element (fa_index fac) e\<rparr>"

definition evl_unindex_factory_element ::
    "(evl_index \<Rightarrow> ptr \<Rightarrow> evl_index) \<Rightarrow> 's evl_factory \<Rightarrow> ptr \<Rightarrow> 's evl_factory" where
  "evl_unindex_factory_element unindex_element fac e = fac\<lparr>fa_index := unindex_element (fa_index fac) e\<rparr>"

text \<open>\<open>clock.h\<close>: dropping a clock drops its element.\<close>

definition evl_put_clock :: "(ptr \<Rightarrow> evl_element) \<Rightarrow> ptr \<Rightarrow> bool \<times> (ptr \<Rightarrow> evl_element)" where
  "evl_put_clock els clock_element =
     (let (last, e) = evl_put_element (els clock_element) in (last, els(clock_element := e)))"

section \<open>Caches\<close>

record evl_cache_entry =
  ce_refcnt :: nat
  ce_work :: ptr
  ce_cache :: ptr
  ce_rcu :: ptr

record 'k evl_cache_ops =
  co_hash :: "'k \<Rightarrow> u32"
  co_eq :: "ptr \<Rightarrow> 'k \<Rightarrow> bool"
  co_drop :: "ptr \<Rightarrow> ptr"
  co_get_key :: "ptr \<Rightarrow> 'k"
  co_format_key :: "ptr \<Rightarrow> string"

record evl_hash_table =
  ht_buckets :: "ptr list list"
  ht_shift :: u32
  ht_nr_entries :: int
  ht_rcu :: ptr

record 'k evl_cache =
  ca_ops :: "'k evl_cache_ops"
  ca_lock :: bool
  ca_hash_table :: "evl_hash_table option"
  ca_init_shift :: u64
  ca_name :: string

definition evl_get_cache_entry :: "evl_cache_entry \<Rightarrow> evl_cache_entry" where
  "evl_get_cache_entry e = e\<lparr>ce_refcnt := Suc (ce_refcnt e)\<rparr>"

definition evl_lock_cache :: "'k evl_cache \<Rightarrow> 'k evl_cache option" where
  "evl_lock_cache c = (if ca_lock c then None else Some (c\<lparr>ca_lock := True\<rparr>))"

definition evl_unlock_cache :: "'k evl_cache \<Rightarrow> 'k evl_cache" where
  "evl_unlock_cache c = c\<lparr>ca_lock := False\<rparr>"

section \<open>The life of an element\<close>

datatype ref_op = Try_get | Get | Put

text \<open>A run of reference operations: the warnings, how many times the element was handed over for
  disposal, how many tries failed, and the element.\<close>

fun ref_run :: "ref_op list \<Rightarrow> evl_element \<Rightarrow> nat \<times> nat \<times> evl_element" where
  "ref_run [] e = (0, 0, e)"
| "ref_run (Try_get # ps) e =
     (let (ok, e1) = raw_evl_get_element e; (w, d, e2) = ref_run ps e1 in (w, d, e2))"
| "ref_run (Get # ps) e =
     (let (warned, e1) = evl_get_element e; (w, d, e2) = ref_run ps e1 in (of_bool warned + w, d, e2))"
| "ref_run (Put # ps) e =
     (let (last, e1) = evl_put_element e; (w, d, e2) = ref_run ps e1 in (w, of_bool last + d, e2))"

text \<open>Users hold a reference when they get another one or drop one; anybody may try.\<close>

fun refs_held :: "ref_op list \<Rightarrow> nat \<Rightarrow> bool" where
  "refs_held [] n = True"
| "refs_held (Try_get # ps) n = refs_held ps (if n = 0 then 0 else Suc n)"
| "refs_held (Get # ps) n = (0 < n \<and> refs_held ps (Suc n))"
| "refs_held (Put # ps) n = (0 < n \<and> refs_held ps (n - 1))"

lemmas ref_defs = raw_evl_get_element_def evl_get_element_def evl_put_element_def
  refcount_inc_not_zero_def refcount_dec_and_test_def

lemma ref_run_counts:
  "refs_held ps (el_refs e) \<Longrightarrow>
   fst (ref_run ps e) = 0 \<and>
   fst (snd (ref_run ps e)) = (if el_refs e = 0 then 0 else of_bool (el_refs (snd (snd (ref_run ps e))) = 0)) \<and>
   (el_refs e = 0 \<longrightarrow> el_refs (snd (snd (ref_run ps e))) = 0) \<and>
   (snd (snd (ref_run ps e)))\<lparr>el_refs := 0\<rparr> = e\<lparr>el_refs := 0\<rparr>"
proof (induction ps arbitrary: e)
  case (Cons p ps)
  show ?case
  proof (cases p)
    case Try_get
    with Cons show ?thesis by (simp add: ref_defs Let_def split_beta split: if_splits)
  next
    case Get
    with Cons show ?thesis by (simp add: ref_defs Let_def split_beta)
  next
    case Put
    with Cons show ?thesis by (cases "el_refs e = 1") (simp_all add: ref_defs Let_def split_beta)
  qed
qed simp

text \<open>C20. An element is disposed of once, when its last reference is dropped: from a live element, over any
  sequence of reference operations in which only holders get or drop references while lookups may try
  at any time, no \<open>evl_get_element\<close> warns, the element is handed to \<open>__evl_put_element\<close> exactly once
  when no reference is left and never otherwise, after which every try to get it fails and leaves it
  dead, and nothing but the count changed.\<close>

theorem element_is_disposed_once:
  assumes "0 < el_refs e" and "refs_held ps (el_refs e)" and "ref_run ps e = (w, d, e')"
  shows "w = 0 \<and> d = of_bool (el_refs e' = 0) \<and> e'\<lparr>el_refs := 0\<rparr> = e\<lparr>el_refs := 0\<rparr> \<and>
    (el_refs e' = 0 \<longrightarrow> raw_evl_get_element e' = (False, e'))"
proof -
  have "el_refs e' = 0 \<longrightarrow> raw_evl_get_element e' = (False, e')" by (cases e') (simp add: ref_defs)
  with ref_run_counts [OF assms(2)] assms(1,3) show ?thesis by simp
qed

definition sample_element :: evl_element where
  "sample_element = \<lparr>el_rcu = 0, el_factory = 0, el_cdev = 0, el_dev = None, el_devname = Some ''e'', el_minor = 0,
     el_refs = 1, el_fundle = 5, el_clone_flags = EVL_CLONE_PUBLIC, el_irq_work = 0, el_filp = None, el_efd = 0\<rparr>"

theorem element_is_disposed_once_witness:
  "fst (snd (ref_run [Get, Put, Put, Try_get] sample_element)) = 1"
proof -
  obtain w d e' where r: "ref_run [Get, Put, Put, Try_get] sample_element = (w, d, e')"
    by (metis prod.collapse)
  then have "el_refs e' = 0" by (auto simp: ref_defs sample_element_def split: prod.splits)
  with element_is_disposed_once [OF _ _ r] r show ?thesis by (simp add: sample_element_def)
qed

text \<open>A hidden element cannot be found through its device any more.\<close>

lemma hidden_element_not_found:
  "el_dev e = Some dev \<Longrightarrow> evl_get_element_by_dev (evl_hide_element e drvdata) dev els = ((None, False), els)"
  by (simp add: evl_hide_element_def evl_get_element_by_dev_def)

end
