(* ===== verification/Evl_Services.thy ===== *)
theory Evl_Services
  imports Sync_Props Evl_Factory
begin

text \<open>
  The small services of the core: its run state (\<open>include/evl/control.h\<close>), in-band work requests
  (\<open>work.h\<close>), poll heads (\<open>poll_head.h\<close>, \<open>poll.h\<close>, \<open>asm-generic/evl/poll.h\<close>), observables, staxes,
  I/O vectors (\<open>uio.h\<close>), pointers carried in 64 bit values (\<open>uaccess.h\<close>), the initialisation helper
  (\<open>init.h\<close>), and the state EVL keeps in tasks and address spaces
  (\<open>asm-generic/evl/thread_info.h\<close>, \<open>mm_info.h\<close>, \<open>irq.h\<close>). The functions of the .c files and of the
  in-band kernel are arguments; an in-band wait queue, irq work or work item is an address.
\<close>

section \<open>Run state of the core\<close>

datatype evl_run_states = EVL_STATE_DISABLED | EVL_STATE_RUNNING | EVL_STATE_STOPPED
  | EVL_STATE_TEARDOWN | EVL_STATE_WARMUP

text \<open>The state is the value of the atomic variable \<open>evl_runstate\<close>.\<close>

definition get_evl_state :: "evl_run_states \<Rightarrow> evl_run_states" where
  "get_evl_state evl_runstate = evl_runstate"

definition evl_is_warming :: "evl_run_states \<Rightarrow> bool" where
  "evl_is_warming st \<longleftrightarrow> get_evl_state st = EVL_STATE_WARMUP"

definition evl_is_running :: "evl_run_states \<Rightarrow> bool" where
  "evl_is_running st \<longleftrightarrow> get_evl_state st = EVL_STATE_RUNNING"

definition evl_is_enabled :: "evl_run_states \<Rightarrow> bool" where
  "evl_is_enabled st \<longleftrightarrow> get_evl_state st \<noteq> EVL_STATE_DISABLED"

definition evl_is_stopped :: "evl_run_states \<Rightarrow> bool" where
  "evl_is_stopped st \<longleftrightarrow> get_evl_state st = EVL_STATE_STOPPED"

definition set_evl_state :: "evl_run_states \<Rightarrow> evl_run_states \<Rightarrow> evl_run_states" where
  "set_evl_state state evl_runstate = state"

definition evl_enabled :: "bool \<Rightarrow> bool" where
  "evl_enabled config_evl = config_evl"

section \<open>In-band work\<close>

record evl_work =
  wk_irq_work :: ptr
  wk_wq_work :: ptr
  wk_wq :: "ptr option"
  wk_handler :: ptr
  wk_element :: "ptr option"

record evl_sync_work =
  sw_work :: evl_work
  sw_done :: evl_flag
  sw_result :: int

text \<open>The initialisers; \<open>irq_work\<close> and \<open>wq_work\<close> are the addresses of the embedded objects.\<close>

definition EVL_DEFINE_WORK :: "ptr \<Rightarrow> ptr \<Rightarrow> ptr \<Rightarrow> evl_work" where
  "EVL_DEFINE_WORK irq_work wq_work handler =
     \<lparr>wk_irq_work = irq_work, wk_wq_work = wq_work, wk_wq = None, wk_handler = handler, wk_element = None\<rparr>"

definition EVL_DEFINE_SYNC_WORK :: "ptr \<Rightarrow> ptr \<Rightarrow> ptr \<Rightarrow> ptr \<Rightarrow> ptr \<Rightarrow> string \<Rightarrow> evl_sync_work" where
  "EVL_DEFINE_SYNC_WORK irq_work wq_work evl_mono_clock evl_requeue_wait handler name =
     \<lparr>sw_work = \<lparr>wk_irq_work = irq_work, wk_wq_work = wq_work, wk_wq = None, wk_handler = handler, wk_element = None\<rparr>,
      sw_done = EVL_FLAG_INITIALIZER evl_mono_clock evl_requeue_wait name, sw_result = 0\<rparr>"

definition evl_call_inband :: "(evl_work \<Rightarrow> ptr \<Rightarrow> 's \<Rightarrow> bool \<times> 's) \<Rightarrow> ptr \<Rightarrow> evl_work \<Rightarrow> 's \<Rightarrow> bool \<times> 's" where
  "evl_call_inband call_inband_from system_wq work s = call_inband_from work system_wq s"

definition evl_flush_work :: "(ptr \<Rightarrow> 's \<Rightarrow> 's) \<Rightarrow> (ptr \<Rightarrow> 's \<Rightarrow> 's) \<Rightarrow> evl_work \<Rightarrow> 's \<Rightarrow> 's" where
  "evl_flush_work irq_work_sync flush_work work s =
     (let s1 = irq_work_sync (wk_irq_work work) s in flush_work (wk_wq_work work) s1)"

definition evl_cancel_work :: "(ptr \<Rightarrow> 's \<Rightarrow> 's) \<Rightarrow> (ptr \<Rightarrow> 's \<Rightarrow> 's) \<Rightarrow> evl_work \<Rightarrow> 's \<Rightarrow> 's" where
  "evl_cancel_work irq_work_sync cancel_work_sync work s =
     (let s1 = irq_work_sync (wk_irq_work work) s in cancel_work_sync (wk_wq_work work) s1)"

definition evl_call_inband_sync :: "(evl_sync_work \<Rightarrow> ptr \<Rightarrow> 's \<Rightarrow> int \<times> 's) \<Rightarrow> ptr \<Rightarrow> evl_sync_work \<Rightarrow> 's \<Rightarrow> int \<times> 's" where
  "evl_call_inband_sync call_inband_sync_from system_wq sync_work s = call_inband_sync_from sync_work system_wq s"

definition evl_flush_sync_work :: "(ptr \<Rightarrow> 's \<Rightarrow> 's) \<Rightarrow> (ptr \<Rightarrow> 's \<Rightarrow> 's) \<Rightarrow> evl_sync_work \<Rightarrow> 's \<Rightarrow> 's" where
  "evl_flush_sync_work irq_work_sync flush_work sw s = evl_flush_work irq_work_sync flush_work (sw_work sw) s"

text \<open>
  Why the irq work is synchronised first: its handler is what queues the work item. When
  \<open>irq_work_sync\<close> leaves no irq work pending and \<open>flush_work\<close> leaves no item queued without raising
  the irq work again, no request is in flight after a flush.
\<close>

lemma flush_leaves_nothing_pending:
  assumes "\<And>w s. \<not> irq_pending w (irq_work_sync w s)"
    and "\<And>i s. \<not> item_pending i (flush_work i s)"
    and "\<And>w i s. irq_pending w (flush_work i s) = irq_pending w s"
  shows "\<not> irq_pending (wk_irq_work wk) (evl_flush_work irq_work_sync flush_work wk s) \<and>
    \<not> item_pending (wk_wq_work wk) (evl_flush_work irq_work_sync flush_work wk s)"
  using assms by (simp add: evl_flush_work_def Let_def)

section \<open>Polling\<close>

record evl_poll_head =
  ph_watchpoints :: "ptr list"
  ph_lock :: bool

definition EVL_POLLHEAD_INITIALIZER :: evl_poll_head where
  "EVL_POLLHEAD_INITIALIZER = \<lparr>ph_watchpoints = [], ph_lock = False\<rparr>"

definition evl_init_poll_head :: "evl_poll_head \<Rightarrow> evl_poll_head" where
  "evl_init_poll_head head = head\<lparr>ph_watchpoints := [], ph_lock := False\<rparr>"

definition evl_signal_poll_events :: "(evl_poll_head \<Rightarrow> int \<Rightarrow> 's \<Rightarrow> 's) \<Rightarrow> evl_poll_head \<Rightarrow> int \<Rightarrow> 's \<Rightarrow> 's" where
  "evl_signal_poll_events raw_signal head events s =
     (if \<not> list_empty (ph_watchpoints head) then raw_signal head events s else s)"

definition EVL_POLL_NR_CONNECTORS :: nat where [const_defs]: "EVL_POLL_NR_CONNECTORS = 4"

record evl_poll_connector =
  pc_head :: ptr
  pc_next :: ptr
  pc_unwatch :: "ptr option"
  pc_events_received :: int
  pc_index :: int

text \<open>The connectors of a wait descriptor, \<open>EVL_POLL_NR_CONNECTORS\<close> of them.\<close>

record oob_poll_wait =
  pw_connectors :: "evl_poll_connector list"

record oob_poll_queue =
  pq_head :: evl_poll_head

definition init_oob_poll_queue :: "oob_poll_queue \<Rightarrow> oob_poll_queue" where
  "init_oob_poll_queue pwq = pwq\<lparr>pq_head := evl_init_poll_head (pq_head pwq)\<rparr>"

definition poll_signal_oob :: "(evl_poll_head \<Rightarrow> int \<Rightarrow> 's \<Rightarrow> 's) \<Rightarrow> oob_poll_queue \<Rightarrow> int \<Rightarrow> 's \<Rightarrow> 's" where
  "poll_signal_oob raw_signal pwq events s = evl_signal_poll_events raw_signal (pq_head pwq) events s"

definition poll_wait_oob :: "(evl_poll_head \<Rightarrow> oob_poll_wait \<Rightarrow> ptr option \<Rightarrow> 's \<Rightarrow> 's) \<Rightarrow> oob_poll_queue \<Rightarrow> oob_poll_wait \<Rightarrow> 's \<Rightarrow> 's" where
  "poll_wait_oob poll_watch pwq wait s = poll_watch (pq_head pwq) wait None s"

record evl_poll_node =
  pn_next :: ptr

text \<open>The three readings of \<open>union evl_value\<close>, which share their storage.\<close>

type_synonym evl_value = "64 word"

definition evl_value_val :: "evl_value \<Rightarrow> 32 word" where "evl_value_val v = ucast v"
definition evl_value_lval :: "evl_value \<Rightarrow> 64 word" where "evl_value_lval v = v"
definition evl_intval :: "64 word \<Rightarrow> evl_value" where "evl_intval v = v"
definition evl_ptrval :: "64 word \<Rightarrow> evl_value" where "evl_ptrval p = p"
definition evl_nil :: evl_value where "evl_nil = evl_intval 0"

record evl_poll_watchpoint =
  pt_fd :: u32
  pt_events_polled :: int
  pt_pollval :: evl_value
  pt_wait :: oob_poll_wait
  pt_flag :: "ptr option"
  pt_filp :: ptr
  pt_node :: evl_poll_node

text \<open>Raising events on a poll head is a no-op exactly while nothing watches it.\<close>

lemma signal_without_watchpoints:
  "evl_signal_poll_events raw (evl_init_poll_head head) events s = s"
  "poll_signal_oob raw (init_oob_poll_queue pwq) events s = s"
  by (simp_all add: poll_signal_oob_def init_oob_poll_queue_def evl_signal_poll_events_def evl_init_poll_head_def
      list_prims)

lemma nil_reads_zero: "evl_value_val evl_nil = 0" "evl_value_lval evl_nil = 0"
  by (simp_all add: evl_nil_def evl_intval_def evl_value_val_def evl_value_lval_def)

section \<open>Observables and staxes\<close>

record evl_observable =
  ob_element :: evl_element
  ob_observers :: "ptr list"
  ob_flush_list :: "ptr list"
  ob_oob_wait :: evl_wait_queue
  ob_inband_wait_r :: ptr
  ob_inband_wait_w :: ptr
  ob_poll_head :: evl_poll_head
  ob_wake_r_irqwork :: ptr
  ob_wake_w_irqwork :: ptr
  ob_flush_irqwork :: ptr
  ob_lock :: bool
  ob_serial_counter :: u32
  ob_writable_observers :: int

definition EVL_STAX_INBAND_SPIN :: u32 where [flag_defs]: "EVL_STAX_INBAND_SPIN = 1"

record evl_stax =
  sx_gate :: "32 word"
  sx_flags :: u32
  sx_oob_wait :: evl_wait_queue
  sx_inband_wait :: ptr
  sx_irq_work :: ptr

section \<open>I/O vectors\<close>

record iovec =
  iov_base :: "64 word"
  iov_len :: u64

text \<open>The loop of \<open>evl_iov_flat_length\<close> reads \<open>iov[0]\<close> to \<open>iov[iovlen - 1]\<close>; \<open>size_t\<close> wraps.\<close>

definition evl_iov_flat_length :: "(nat \<Rightarrow> iovec) \<Rightarrow> int \<Rightarrow> u64" where
  "evl_iov_flat_length iov iovlen = foldl (\<lambda>count n. count + iov_len (iov n)) 0 [0..<nat iovlen]"

lemma iov_flat_length_sum:
  "unat (evl_iov_flat_length iov iovlen) = (\<Sum>n<nat iovlen. unat (iov_len (iov n))) mod 2 ^ 64"
proof -
  have "unat (foldl (\<lambda>count n. count + iov_len (iov n)) 0 [0..<m]) = (\<Sum>n<m. unat (iov_len (iov n))) mod 2 ^ 64" for m
    by (induction m) (simp_all add: unat_word_ariths mod_add_left_eq)
  then show ?thesis by (simp add: evl_iov_flat_length_def)
qed

lemma iov_flat_length_negative: "iovlen \<le> 0 \<Longrightarrow> evl_iov_flat_length iov iovlen = 0"
  by (simp add: evl_iov_flat_length_def)

section \<open>Pointers carried in 64 bit values\<close>

text \<open>A pointer has the width of a \<open>long\<close>, 32 or 64 bits; the conversions go through \<open>long\<close>.\<close>

definition evl_ptrval64 :: "'w::len word \<Rightarrow> u64" where
  "evl_ptrval64 p = scast p"

definition evl_valptr64 :: "u64 \<Rightarrow> 'w::len word" where
  "evl_valptr64 v = ucast v"

definition raw_copy_from_user_ptr64 ::
    "('w::len word \<Rightarrow> u64 \<Rightarrow> 's \<Rightarrow> (u64 \<times> u8 list) \<times> 's) \<Rightarrow> u64 \<Rightarrow> u64 \<Rightarrow> 's \<Rightarrow> (u64 \<times> u8 list) \<times> 's" where
  "raw_copy_from_user_ptr64 raw_copy_from_user from_ptr n s = raw_copy_from_user (evl_valptr64 from_ptr) n s"

definition raw_copy_to_user_ptr64 ::
    "('w::len word \<Rightarrow> u8 list \<Rightarrow> u64 \<Rightarrow> 's \<Rightarrow> u64 \<times> 's) \<Rightarrow> u64 \<Rightarrow> u8 list \<Rightarrow> u64 \<Rightarrow> 's \<Rightarrow> u64 \<times> 's" where
  "raw_copy_to_user_ptr64 raw_copy_to_user to src n s = raw_copy_to_user (evl_valptr64 to) src n s"

lemma ptr64_roundtrip:
  "LENGTH('w::len) \<le> 64 \<Longrightarrow> evl_valptr64 (evl_ptrval64 (p :: 'w word)) = p"
  unfolding evl_valptr64_def evl_ptrval64_def
  by (rule bit_word_eqI) (auto simp: bit_simps)

section \<open>Initialisation\<close>

text \<open>The status of the call, after a warning when it failed.\<close>

definition EVL_INIT_CALL :: "(int \<Rightarrow> int \<Rightarrow> 's \<Rightarrow> 's) \<Rightarrow> int \<Rightarrow> ('s \<Rightarrow> int \<times> 's) \<Rightarrow> 's \<Rightarrow> int \<times> 's" where
  "EVL_INIT_CALL warn_init level call s =
     (let (ret, s1) = call s in (ret, if ret \<noteq> 0 then warn_init level ret s1 else s1))"

section \<open>State kept in tasks, address spaces and on interrupt entry\<close>

definition evl_init_thread_state :: "oob_state \<Rightarrow> oob_state" where
  "evl_init_thread_state p = p\<lparr>os_thread := None, os_subscriber := None, os_preempt_count := 0\<rparr>"

definition EVL_MM_PTSYNC_BIT :: nat where [const_defs]: "EVL_MM_PTSYNC_BIT = 0"
definition EVL_MM_ACTIVE_BIT :: nat where [const_defs]: "EVL_MM_ACTIVE_BIT = 30"
definition EVL_MM_INIT_BIT :: nat where [const_defs]: "EVL_MM_INIT_BIT = 31"

record oob_mm_state =
  mm_flags :: u64
  mm_ptrace_sync :: "ptr list"
  mm_ptsync_barrier :: evl_wait_queue

definition irq_enter_pipeline :: "kst \<Rightarrow> kst" where
  "irq_enter_pipeline s = evl_enter_irq s"

definition irq_exit_pipeline :: "(kst \<Rightarrow> kst) \<Rightarrow> kst \<Rightarrow> kst" where
  "irq_exit_pipeline schedule s = evl_exit_irq schedule s"

end
