(* ===== verification/Evl_Net.thy ===== *)
theory Evl_Net
  imports Evl_Services Evl_Crossing
begin

text \<open>
  The out-of-band network stack as its headers define it: sockets and their receive memory account
  (\<open>include/evl/net/socket.h\<close>), ingress filtering and queues (\<open>device.h\<close>, \<open>input.h\<close>), queueing
  disciplines (\<open>qdisc.h\<close>), packet control blocks (\<open>skb.h\<close>), offload descriptors, the IPv4 helpers
  (\<open>ip.h\<close>, \<open>ipv4.h\<close>, \<open>route.h\<close>, \<open>ipv4/arp.h\<close>, \<open>ipv4/udp.h\<close>) and the state EVL adds to the in-band network
  objects (\<open>asm-generic/evl/net.h\<close>, \<open>netdevice.h\<close>). In-band objects are addresses, the functions of the
  .c files and of the in-band stack are arguments.
\<close>

section \<open>Protocols, domains and sockets\<close>

record 's evl_net_proto =
  np_attach :: "ptr \<Rightarrow> ptr \<Rightarrow> int \<Rightarrow> 's \<Rightarrow> int \<times> 's"
  np_release :: "ptr \<Rightarrow> 's \<Rightarrow> 's"
  np_destroy :: "ptr \<Rightarrow> 's \<Rightarrow> 's"
  np_bind :: "ptr \<Rightarrow> ptr \<Rightarrow> int \<Rightarrow> 's \<Rightarrow> int \<times> 's"
  np_connect :: "ptr \<Rightarrow> ptr \<Rightarrow> int \<Rightarrow> int \<Rightarrow> 's \<Rightarrow> int \<times> 's"
  np_shutdown :: "ptr \<Rightarrow> int \<Rightarrow> 's \<Rightarrow> int \<times> 's"
  np_ioctl :: "ptr \<Rightarrow> u32 \<Rightarrow> u64 \<Rightarrow> 's \<Rightarrow> int \<times> 's"
  np_oob_send :: "ptr \<Rightarrow> ptr \<Rightarrow> iovec list \<Rightarrow> 's \<Rightarrow> int \<times> 's"
  np_oob_receive :: "ptr \<Rightarrow> ptr \<Rightarrow> iovec list \<Rightarrow> 's \<Rightarrow> int \<times> 's"
  np_oob_poll :: "ptr \<Rightarrow> oob_poll_wait \<Rightarrow> 's \<Rightarrow> u32 \<times> 's"
  np_get_netif :: "ptr \<Rightarrow> 's \<Rightarrow> ptr option"
  np_handle_offload :: "ptr \<Rightarrow> 's \<Rightarrow> 's"

record evl_socket_domain =
  sd_af_domain :: int
  sd_match :: "int \<Rightarrow> int \<Rightarrow> ptr option"
  sd_next :: ptr

text \<open>The union of \<open>struct evl_socket\<close>: packet interface data, or the data of an IP socket.\<close>

datatype socket_u =
    Packet_u (pkt_real_ifindex: int) (pkt_ifindex: int) (pkt_vlan_id: u16) (pkt_proto_hash: u32)
  | Ip_u (ip_pending_output: "ptr list") (udp_rcv_addr: u32) (udp_rcv_port: u16) (udp_receiver: "ptr option")

record evl_socket =
  sk_proto :: ptr
  sk_efile :: evl_file
  sk_lock :: bool
  sk_net :: ptr
  sk_hash :: ptr
  sk_input :: "ptr list"
  sk_input_wait :: evl_wait_queue
  sk_poll_head :: evl_poll_head
  sk_next_sub :: ptr
  sk_sk :: ptr
  sk_rmem_count :: "32 word"
  sk_rmem_max :: "32 word"
  sk_wmem_count :: "32 word"
  sk_wmem_max :: "32 word"
  sk_wmem_wait :: evl_wait_queue
  sk_wmem_drain :: evl_crossing
  sk_protocol :: int
  sk_refs :: nat
  sk_inband_offload :: evl_work
  sk_u :: socket_u
  sk_oob_lock :: bool

definition evl_socket_f_flags :: "(ptr \<Rightarrow> u32) \<Rightarrow> evl_socket \<Rightarrow> u32" where
  "evl_socket_f_flags f_flags esk = f_flags (ef_filp (sk_efile esk))"

text \<open>The counter is an \<open>int\<close>, which a \<open>size_t\<close> is converted to; both comparisons are signed.\<close>

definition evl_charge_socket_rmem :: "evl_socket \<Rightarrow> u64 \<Rightarrow> bool \<times> evl_socket" where
  "evl_charge_socket_rmem esk len =
     (if sint (sk_rmem_count esk) \<ge> sint (sk_rmem_max esk) then (False, esk)
      else (True, esk\<lparr>sk_rmem_count := sk_rmem_count esk + ucast len\<rparr>))"

text \<open>Whether the core warns, and the socket.\<close>

definition evl_uncharge_socket_rmem :: "evl_socket \<Rightarrow> u64 \<Rightarrow> bool \<times> evl_socket" where
  "evl_uncharge_socket_rmem esk len =
     (let count = sk_rmem_count esk - ucast len in (sint count < 0, esk\<lparr>sk_rmem_count := count\<rparr>))"

text \<open>The union becomes the one of an IP socket; a new socket is zeroed, so it has no UDP binding.\<close>

definition evl_net_init_ip_socket :: "evl_socket \<Rightarrow> evl_socket" where
  "evl_net_init_ip_socket esk =
     esk\<lparr>sk_u := (case sk_u esk of Ip_u _ a p r \<Rightarrow> Ip_u [] a p r | Packet_u _ _ _ _ \<Rightarrow> Ip_u [] 0 0 None)\<rparr>"

section \<open>Packets and devices\<close>

record evl_net_cb =
  cb_handler :: "ptr option"
  cb_tracker :: "ptr option"

text \<open>The control block of a packet is its \<open>cb\<close> area.\<close>

definition EVL_NET_CB :: "(ptr \<Rightarrow> evl_net_cb) \<Rightarrow> ptr \<Rightarrow> evl_net_cb" where
  "EVL_NET_CB cb skb = cb skb"

record evl_net_skb_queue =
  kq_queue :: "ptr list"
  kq_lock :: bool

record evl_net_ebpf_filter =
  bf_rcu :: ptr
  bf_prog :: ptr

definition EVL_NETDEV_POLL_SCHED :: nat where [const_defs]: "EVL_NETDEV_POLL_SCHED = 0"
definition EVL_NETDEV_RXFILTER_BIT :: nat where [const_defs]: "EVL_NETDEV_RXFILTER_BIT = 1"

record evl_netdev_state =
  nd_tx_pages :: ptr
  nd_tx_wait :: evl_wait_queue
  nd_pool_max :: u64
  nd_buf_size :: u64
  nd_poll_head :: evl_poll_head
  nd_rx_handler :: ptr
  nd_rx_flag :: evl_flag
  nd_rx_poll :: "ptr list"
  nd_rx_lock :: bool
  nd_rx_packets :: evl_net_skb_queue
  nd_qdisc :: ptr
  nd_tx_handler :: ptr
  nd_tx_flag :: evl_flag
  nd_filter_lock :: bool
  nd_rx_filter :: "ptr option"
  nd_flags :: u64
  nd_refs :: int

record oob_netdev_state =
  on_estate :: ptr
  on_crossing :: evl_crossing
  on_next :: ptr

record oob_netqueue_state =
  oq_tx_lock :: evl_stax

definition netqueue_init_oob :: "(evl_stax \<Rightarrow> u32 \<Rightarrow> evl_stax) \<Rightarrow> oob_netqueue_state \<Rightarrow> oob_netqueue_state" where
  "netqueue_init_oob init_stax qs = qs\<lparr>oq_tx_lock := init_stax (oq_tx_lock qs) EVL_STAX_INBAND_SPIN\<rparr>"

definition netqueue_destroy_oob :: "(evl_stax \<Rightarrow> evl_stax) \<Rightarrow> oob_netqueue_state \<Rightarrow> oob_netqueue_state" where
  "netqueue_destroy_oob destroy_stax qs = qs\<lparr>oq_tx_lock := destroy_stax (oq_tx_lock qs)\<rparr>"

datatype evl_net_rx_action = EVL_RX_DROP | EVL_RX_ACCEPT | EVL_RX_SKIP | EVL_RX_VLAN

text \<open>The filter a device has installed decides; without one, the VLAN rules do.\<close>

definition evl_net_filter_rx ::
    "(evl_netdev_state \<Rightarrow> ptr \<Rightarrow> evl_net_rx_action) \<Rightarrow> (ptr \<Rightarrow> oob_netdev_state) \<Rightarrow> (ptr \<Rightarrow> evl_netdev_state) \<Rightarrow>
     ptr \<Rightarrow> ptr \<Rightarrow> evl_net_rx_action" where
  "evl_net_filter_rx raw_filter_rx oob_states estates dev skb =
     (let est = estates (on_estate (oob_states dev)) in
      if bit (nd_flags est) EVL_NETDEV_RXFILTER_BIT then raw_filter_rx est skb else EVL_RX_VLAN)"

definition evl_net_real_dev :: "(ptr \<Rightarrow> bool) \<Rightarrow> (ptr \<Rightarrow> ptr) \<Rightarrow> ptr \<Rightarrow> ptr" where
  "evl_net_real_dev is_vlan_dev vlan_dev_real_dev dev =
     (if is_vlan_dev dev then vlan_dev_real_dev dev else dev)"

section \<open>Ingress queues and queueing disciplines\<close>

record 's evl_net_handler =
  nh_ingress :: "ptr \<Rightarrow> 's \<Rightarrow> 's"

record evl_net_rxqueue =
  xq_hkey :: u32
  xq_hash :: ptr
  xq_subscribers :: "ptr list"
  xq_lock :: bool
  xq_next :: ptr

definition evl_net_rxqueue_active :: "evl_net_rxqueue \<Rightarrow> bool" where
  "evl_net_rxqueue_active rxq \<longleftrightarrow> list_empty (xq_subscribers rxq)"

text \<open>The name says the opposite of what the function tells.\<close>

lemma rxqueue_active_means_unsubscribed:
  "evl_net_rxqueue_active rxq \<longleftrightarrow> xq_subscribers rxq = []"
  by (simp add: evl_net_rxqueue_active_def list_prims)

record 's evl_net_qdisc_ops =
  qo_name :: string
  qo_priv_size :: u64
  qo_init :: "ptr \<Rightarrow> 's \<Rightarrow> int \<times> 's"
  qo_destroy :: "ptr \<Rightarrow> 's \<Rightarrow> 's"
  qo_enqueue :: "ptr \<Rightarrow> ptr \<Rightarrow> 's \<Rightarrow> int \<times> 's"
  qo_dequeue :: "ptr \<Rightarrow> 's \<Rightarrow> ptr option \<times> 's"
  qo_next :: ptr

record evl_net_qdisc =
  qd_oob_ops :: ptr
  qd_packet_dropped :: u64

text \<open>The private area starts right after the two words of the structure.\<close>

definition evl_qdisc_priv :: "64 word \<Rightarrow> 64 word" where
  "evl_qdisc_priv qdisc = qdisc + 16"

record evl_net_offload =
  ofl_kvec :: "ptr \<times> u64"
  ofl_count :: u64
  ofl_dest :: ptr
  ofl_destlen :: int
  ofl_next :: ptr

section \<open>IPv4\<close>

record evl_net_ipv4_cookie =
  ic_saddr :: u32
  ic_daddr :: u32
  ic_protocol :: u8
  ic_transhdrlen :: int

definition EVL_NET_FRAGS_HASHBITS :: nat where [const_defs]: "EVL_NET_FRAGS_HASHBITS = 7"

record evl_net_frag_tree =
  ft_end :: u64
  ft_len :: u64
  ft_flags :: int
  ft_frags :: "ptr list"
  ft_hash :: ptr
  ft_tdir :: ptr
  ft_gc_dev :: ptr
  ft_gc :: ptr
  ft_timer :: ptr
  ft_lock :: bool
  ft_key :: ptr

record evl_net_frag_gc =
  fg_queue :: "ptr list"
  fg_lock :: bool

text \<open>The hash table has \<open>2 ^ EVL_NET_FRAGS_HASHBITS\<close> buckets.\<close>

record evl_net_frag_tdir =
  fd_ht :: "ptr list list"
  fd_lock :: ptr
  fd_gc :: evl_net_frag_gc
  fd_timeout :: ktime

record 'k oob_net_state =
  ns_ftdir :: evl_net_frag_tdir
  ns_arp :: "'k evl_cache"
  ns_routes :: "'k evl_cache"
  ns_udp :: "'k evl_cache"

definition evl_net_ipv4_gc :: "(evl_net_frag_tdir \<Rightarrow> evl_net_frag_tdir) \<Rightarrow> 'k oob_net_state \<Rightarrow> 'k oob_net_state" where
  "evl_net_ipv4_gc raw_ipv4_gc net =
     (if fg_queue (fd_gc (ns_ftdir net)) \<noteq> [] then net\<lparr>ns_ftdir := raw_ipv4_gc (ns_ftdir net)\<rparr> else net)"

record evl_net_route =
  rt_entry :: evl_cache_entry
  rt_rt :: ptr
  rt_key :: "u8 list"

text \<open>\<open>rt_dst\<close> is the address of the \<open>dst\<close> member of an in-band route, \<open>dst_dev\<close> its device.\<close>

definition evl_net_put_route :: "(evl_cache_entry \<Rightarrow> 's \<Rightarrow> 's) \<Rightarrow> evl_net_route \<Rightarrow> 's \<Rightarrow> 's" where
  "evl_net_put_route put_cache_entry ert s = put_cache_entry (rt_entry ert) s"

definition evl_net_route_dst :: "(ptr \<Rightarrow> ptr) \<Rightarrow> evl_net_route \<Rightarrow> ptr" where
  "evl_net_route_dst rt_dst ert = rt_dst (rt_rt ert)"

definition evl_net_route_dev :: "(ptr \<Rightarrow> ptr) \<Rightarrow> (ptr \<Rightarrow> ptr) \<Rightarrow> evl_net_route \<Rightarrow> ptr" where
  "evl_net_route_dev rt_dst dst_dev ert = dst_dev (evl_net_route_dst rt_dst ert)"

record evl_net_arp_key =
  ak_dev :: ptr
  ak_addr :: u32

text \<open>The hardware address has \<open>MAX_ADDR_LEN\<close> = 32 bytes, a multiple of the word size.\<close>

record evl_net_arp_entry =
  ae_entry :: evl_cache_entry
  ae_dev_tracker :: ptr
  ae_ha :: "u8 list"
  ae_key :: evl_net_arp_key

definition evl_net_put_arp_entry :: "(evl_cache_entry \<Rightarrow> 's \<Rightarrow> 's) \<Rightarrow> evl_net_arp_entry \<Rightarrow> 's \<Rightarrow> 's" where
  "evl_net_put_arp_entry put_cache_entry earp s = put_cache_entry (ae_entry earp) s"

record evl_net_udp_key =
  uk_dport :: u32
  uk_daddr :: u32

record evl_net_udp_receiver =
  ur_entry :: evl_cache_entry
  ur_queue :: "ptr list"
  ur_wait :: evl_wait_queue
  ur_refs :: nat
  ur_key :: evl_net_udp_key

section \<open>The receive memory account\<close>

datatype rmem_op = Charge u64 | Uncharge u64

text \<open>
  A run of charges and releases on a socket, with the sizes charged so far and not released, and
  whether the core warned. Only what was charged is released: anything else is \<open>None\<close>.
\<close>

fun rmem_run :: "rmem_op list \<Rightarrow> evl_socket \<times> u64 list \<times> bool \<Rightarrow> (evl_socket \<times> u64 list \<times> bool) option" where
  "rmem_run [] st = Some st"
| "rmem_run (Charge n # ps) (esk, held, warned) =
     (let (ok, esk') = evl_charge_socket_rmem esk n
      in rmem_run ps (esk', if ok then n # held else held, warned))"
| "rmem_run (Uncharge n # ps) (esk, held, warned) =
     (if n \<in> set held
      then let (w, esk') = evl_uncharge_socket_rmem esk n in rmem_run ps (esk', remove1 n held, warned \<or> w)
      else None)"

definition held_total :: "u64 list \<Rightarrow> int" where
  "held_total held = (\<Sum>n\<leftarrow>held. uint n)"

text \<open>The account is exact, and above the limit by less than one block at most.\<close>

definition rmem_inv :: "int \<Rightarrow> 32 word \<Rightarrow> evl_socket \<times> u64 list \<times> bool \<Rightarrow> bool" where
  "rmem_inv b m = (\<lambda>(esk, held, warned).
     sk_rmem_max esk = m \<and> sint (sk_rmem_count esk) = held_total held \<and> \<not> warned \<and>
     (\<forall>n \<in> set held. 0 < uint n \<and> uint n \<le> b) \<and> held_total held \<le> max 0 (sint m + b - 1))"

lemma held_total_simps [simp]: "held_total [] = 0" "held_total (n # ns) = uint n + held_total ns"
  by (simp_all add: held_total_def)

lemma held_total_nonneg: "0 \<le> held_total ns"
  by (induction ns) auto

lemma held_total_remove1: "n \<in> set ns \<Longrightarrow> held_total (remove1 n ns) = held_total ns - uint n"
  by (induction ns) auto

lemma sint_add_in_range:
  fixes c :: "32 word" and n :: u64
  assumes "0 \<le> sint c" and "sint c + uint n < 2 ^ 31"
  shows "sint (c + ucast n) = sint c + uint n"
proof -
  have n: "uint n < 2 ^ 31" using assms by simp
  have "signed_take_bit 31 (uint n) = uint n"
    by (rule signed_take_bit_int_eq_self) (use n uint_ge_0 [of n] in linarith)+
  then have "sint (ucast n :: 32 word) = uint n"
    using n by (simp add: sint_uint unsigned_ucast_eq take_bit_int_eq_self)
  moreover have "signed_take_bit 31 (sint c + uint n) = sint c + uint n"
    by (rule signed_take_bit_int_eq_self) (use assms uint_ge_0 [of n] in linarith)+
  ultimately show ?thesis by (simp add: sint_word_ariths)
qed

lemma sint_sub_in_range:
  fixes c :: "32 word" and n :: u64
  assumes "uint n \<le> sint c"
  shows "sint (c - ucast n) = sint c - uint n"
proof -
  have c: "sint c < 2 ^ 31" using sint_range_size [of c] by (simp add: word_size)
  have "signed_take_bit 31 (uint n) = uint n"
    by (rule signed_take_bit_int_eq_self) (use assms c uint_ge_0 [of n] in linarith)+
  then have "sint (ucast n :: 32 word) = uint n"
    using assms c by (simp add: sint_uint unsigned_ucast_eq take_bit_int_eq_self)
  moreover have "signed_take_bit 31 (sint c - uint n) = sint c - uint n"
    by (rule signed_take_bit_int_eq_self) (use assms c uint_ge_0 [of n] in linarith)+
  ultimately show ?thesis by (simp add: sint_word_ariths)
qed

lemma rmem_charge_keeps:
  assumes inv: "rmem_inv b m (esk, held, w)" and n: "0 < uint n" "uint n \<le> b" and m: "sint m + b - 1 < 2 ^ 31"
    and c: "evl_charge_socket_rmem esk n = (ok, esk')"
  shows "rmem_inv b m (esk', if ok then n # held else held, w)"
proof (cases "sint (sk_rmem_count esk) \<ge> sint (sk_rmem_max esk)")
  case True
  with inv c show ?thesis by (simp add: evl_charge_socket_rmem_def)
next
  case False
  with inv have lt: "sint (sk_rmem_count esk) < sint m" and eq: "sint (sk_rmem_count esk) = held_total held"
    by (simp_all add: rmem_inv_def)
  then have "sint (sk_rmem_count esk + ucast n) = held_total held + uint n"
    using n m held_total_nonneg [of held] by (subst sint_add_in_range) auto
  with False inv c lt eq n show ?thesis by (auto simp: evl_charge_socket_rmem_def rmem_inv_def)
qed

lemma rmem_uncharge_keeps:
  assumes inv: "rmem_inv b m (esk, held, w)" and n: "n \<in> set held"
    and c: "evl_uncharge_socket_rmem esk n = (w', esk')"
  shows "rmem_inv b m (esk', remove1 n held, w \<or> w')"
proof -
  have le: "uint n \<le> held_total held"
    using held_total_remove1 [OF n] held_total_nonneg [of "remove1 n held"] by simp
  with inv have "sint (sk_rmem_count esk - ucast n) = held_total held - uint n"
    by (subst sint_sub_in_range) (auto simp: rmem_inv_def)
  with inv c n le show ?thesis
    by (auto simp: evl_uncharge_socket_rmem_def rmem_inv_def held_total_remove1 Let_def
        dest: set_remove1_subset [THEN subsetD] intro: order_trans)
qed

lemma rmem_run_keeps:
  assumes m: "sint m + b - 1 < 2 ^ 31"
  shows "rmem_run ps st = Some st' \<Longrightarrow> rmem_inv b m st \<Longrightarrow>
    (\<forall>n. Charge n \<in> set ps \<longrightarrow> 0 < uint n \<and> uint n \<le> b) \<Longrightarrow> rmem_inv b m st'"
proof (induction ps st rule: rmem_run.induct)
  case (2 n ps esk held warned)
  obtain ok esk1 where c: "evl_charge_socket_rmem esk n = (ok, esk1)" by (metis prod.collapse)
  with 2 rmem_charge_keeps [OF 2(3) _ _ m c] show ?case by simp
next
  case (3 n ps esk held warned)
  obtain w esk1 where c: "evl_uncharge_socket_rmem esk n = (w, esk1)" by (metis prod.collapse)
  with 3 rmem_uncharge_keeps [OF 3(3) _ c] show ?case by (simp split: if_splits)
qed simp

text \<open>C21. The receive account of a socket is exact and bounded: from a socket nothing is charged to, over
  any sequence of charges of blocks of 1 to \<open>b\<close> bytes and releases of blocks which were charged,
  the counter is the sum of the blocks held, it is above \<open>rmem_max\<close> by less than a block at most, no
  release warns, and the next charge is accepted exactly while the sum is below the limit. The limit
  plus a block must fit an \<open>int\<close>.\<close>

theorem socket_rmem_is_exact_and_bounded:
  assumes "sint (sk_rmem_count esk) = 0" and "sint (sk_rmem_max esk) + b - 1 < 2 ^ 31"
    and "\<forall>n. Charge n \<in> set ps \<longrightarrow> 0 < uint n \<and> uint n \<le> b"
    and "rmem_run ps (esk, [], False) = Some (esk', held, warned)"
  shows "sint (sk_rmem_count esk') = held_total held \<and>
    held_total held \<le> max 0 (sint (sk_rmem_max esk) + b - 1) \<and> \<not> warned \<and>
    (fst (evl_charge_socket_rmem esk' n) \<longleftrightarrow> held_total held < sint (sk_rmem_max esk))"
proof -
  have "rmem_inv b (sk_rmem_max esk) (esk, [], False)" using assms(1) by (simp add: rmem_inv_def)
  from rmem_run_keeps [OF assms(2,4) this assms(3)] show ?thesis
    by (auto simp: rmem_inv_def evl_charge_socket_rmem_def)
qed

definition sample_socket :: evl_socket where
  "sample_socket = \<lparr>sk_proto = 0, sk_efile = \<lparr>ef_filp = 0, ef_crossing = evl_init_crossing\<rparr>, sk_lock = False, sk_net = 0,
     sk_hash = 0, sk_input = [], sk_input_wait = EVL_WAIT_INITIALIZER 0 0 ''i'', sk_poll_head = EVL_POLLHEAD_INITIALIZER,
     sk_next_sub = 0, sk_sk = 0, sk_rmem_count = 0, sk_rmem_max = 1000, sk_wmem_count = 0, sk_wmem_max = 1000,
     sk_wmem_wait = EVL_WAIT_INITIALIZER 0 0 ''w'', sk_wmem_drain = evl_init_crossing, sk_protocol = 17, sk_refs = 1,
     sk_inband_offload = EVL_DEFINE_WORK 0 0 0, sk_u = Ip_u [] 0 0 None, sk_oob_lock = False\<rparr>"

theorem socket_rmem_is_exact_and_bounded_witness:
  "map_option (\<lambda>(esk, held, w). (held, w, fst (evl_charge_socket_rmem esk 1)))
     (rmem_run [Charge 900, Charge 1500, Charge 10, Uncharge 900] (sample_socket, [], False)) =
   Some ([1500], False, False)"
proof -
  let ?ps = "[Charge 900, Charge 1500, Charge 10, Uncharge 900]"
  obtain esk' where r: "rmem_run ?ps (sample_socket, [], False) = Some (esk', [1500], False)"
    by (simp add: sample_socket_def evl_charge_socket_rmem_def evl_uncharge_socket_rmem_def Let_def)
  have "\<not> fst (evl_charge_socket_rmem esk' 1)"
    using socket_rmem_is_exact_and_bounded [where b = 1500, OF _ _ _ r, of 1] by (auto simp: sample_socket_def)
  with r show ?thesis by simp
qed

end
