(* ===== verification/Evl_Builds.thy ===== *)
theory Evl_Builds
  imports Timer_Ops Irq_Pipeline Evl_Net
begin

text \<open>
  The builds the configuration of the board does not select, and what they change. Without
  \<open>CONFIG_EVL_RUNSTATS\<close> the counters and accounts of \<open>stat.h\<close> are empty and the hooks of \<open>timer.h\<close> do
  nothing (\<open>ns_\<close>); without \<open>CONFIG_EVL_DEBUG_CORE\<close> the spinlocks of \<open>lock.h\<close> are not checked (\<open>nd_\<close>) and
  the assertions of \<open>assert.h\<close>, whose subsystem selects a configuration switch, do nothing; without
  \<open>CONFIG_IRQ_PIPELINE\<close> the hard operations of \<open>asm-generic/irq_pipeline.h\<close> are those of the only stage
  there is (\<open>np_\<close>). The timer bases and the initializers of \<open>timer.h\<close> complete the timers. Neither
  statistics nor assertions influence what the core does: two runs, with and without, agree on all but
  the counters, and on all but the warning.
\<close>

section \<open>Timer bases and initializers (timer.h)\<close>

record 'q evl_timerbase =
  tb_lock :: bool
  tb_q :: 'q

definition evl_percpu_timers :: "'s evl_clock \<Rightarrow> nat \<Rightarrow> ptr" where
  "evl_percpu_timers clock cpu = ck_timerdata clock cpu"

definition evl_this_cpu_timers :: "nat \<Rightarrow> 's evl_clock \<Rightarrow> ptr" where
  "evl_this_cpu_timers this_cpu clock = ck_timerdata clock this_cpu"

text \<open>Without \<open>CONFIG_SMP\<close> every timer is on the only runqueue.\<close>

definition up_evl_get_timer_rq :: "kst \<Rightarrow> evl_timer \<Rightarrow> ptr" where
  "up_evl_get_timer_rq s t = this_evl_rq s"

text \<open>\<open>init\<close> is \<open>__evl_init_timer\<close>: timer, clock, handler, runqueue, name and flags. A handler is passed to
  the macros as its name in the source and its address: the name becomes the one of the timer.\<close>

type_synonym 's timer_init = "ptr \<Rightarrow> ptr \<Rightarrow> ptr \<Rightarrow> ptr option \<Rightarrow> string \<Rightarrow> u32 \<Rightarrow> 's \<Rightarrow> 's"

definition evl_init_timer_on_rq ::
    "'s timer_init \<Rightarrow> ptr \<Rightarrow> ptr \<Rightarrow> string \<times> ptr \<Rightarrow> ptr option \<Rightarrow> u32 \<Rightarrow> 's \<Rightarrow> 's" where
  "evl_init_timer_on_rq init timer clock handler rq flags s =
     init timer clock (snd handler) rq (fst handler) flags s"

definition evl_init_timer_on_cpu ::
    "kst timer_init \<Rightarrow> ptr \<Rightarrow> ptr \<Rightarrow> nat \<Rightarrow> string \<times> ptr \<Rightarrow> kst \<Rightarrow> kst" where
  "evl_init_timer_on_cpu init evl_mono_clock timer cpu handler s =
     (let rq = evl_cpu_rq s cpu
      in evl_init_timer_on_rq init timer evl_mono_clock handler (Some rq) EVL_TIMER_IGRAVITY s)"

definition evl_init_timer :: "'s timer_init \<Rightarrow> ptr \<Rightarrow> ptr \<Rightarrow> string \<times> ptr \<Rightarrow> 's \<Rightarrow> 's" where
  "evl_init_timer init evl_mono_clock timer handler s =
     evl_init_timer_on_rq init timer evl_mono_clock handler None EVL_TIMER_IGRAVITY s"

section \<open>Without statistics (stat.h, timer.h)\<close>

datatype ns_evl_account = Ns_account

definition ns_evl_get_timestamp :: ktime where "ns_evl_get_timestamp = 0"
definition ns_evl_get_account_total :: "ns_evl_account \<Rightarrow> ktime" where "ns_evl_get_account_total a = 0"
definition ns_evl_reset_account :: "ns_evl_account \<Rightarrow> ns_evl_account" where "ns_evl_reset_account a = a"
definition ns_evl_update_account :: "'rq \<Rightarrow> 'rq" where "ns_evl_update_account rq = rq"
definition ns_evl_set_current_account :: "ptr \<Rightarrow> 'rq \<Rightarrow> ptr option \<times> 'rq" where
  "ns_evl_set_current_account new rq = (None, rq)"
definition ns_evl_close_account :: "ptr \<Rightarrow> 'rq \<Rightarrow> 'rq" where "ns_evl_close_account new rq = rq"
definition ns_evl_get_last_account_switch :: "'rq \<Rightarrow> ktime" where "ns_evl_get_last_account_switch rq = 0"

text \<open>\<open>evl_switch_account\<close> is the same macro in both builds, over the empty ones here.\<close>

definition ns_evl_switch_account :: "ptr \<Rightarrow> 'rq \<Rightarrow> ptr option \<times> 'rq" where
  "ns_evl_switch_account new rq = ns_evl_set_current_account new (ns_evl_update_account rq)"

datatype ns_evl_counter = Ns_counter

definition ns_evl_inc_counter :: "ns_evl_counter \<Rightarrow> int \<times> ns_evl_counter" where "ns_evl_inc_counter c = (0, c)"
definition ns_evl_get_counter :: "ns_evl_counter \<Rightarrow> int" where "ns_evl_get_counter c = 0"
definition ns_evl_set_counter :: "ns_evl_counter \<Rightarrow> u64 \<Rightarrow> ns_evl_counter" where "ns_evl_set_counter c v = c"

text \<open>The hooks of a timer do nothing; the counters of the shared record stay what they are.\<close>

definition ns_evl_reset_timer_stats :: "evl_timer \<Rightarrow> evl_timer" where "ns_evl_reset_timer_stats timer = timer"
definition ns_evl_account_timer_scheduled :: "evl_timer \<Rightarrow> evl_timer" where
  "ns_evl_account_timer_scheduled timer = timer"
definition ns_evl_account_timer_fired :: "evl_timer \<Rightarrow> evl_timer" where "ns_evl_account_timer_fired timer = timer"

definition ns_evl_enqueue_timer ::
    "((ptr \<Rightarrow> ktime) \<Rightarrow> ptr \<Rightarrow> 'q \<Rightarrow> 'q) \<Rightarrow> ptr \<Rightarrow> timers \<times> 'q \<Rightarrow> timers \<times> 'q" where
  "ns_evl_enqueue_timer ins t = (\<lambda>(tms, tq).
     let tq' = ins (evl_tdate tms) t tq;
         tm1 = (tms t)\<lparr>tm_status := tm_status (tms t) AND NOT EVL_TIMER_DEQUEUED\<rparr>
     in (tms(t := ns_evl_account_timer_scheduled tm1), tq'))"

lemmas ns_defs [evl_defs] = ns_evl_reset_timer_stats_def ns_evl_account_timer_scheduled_def
  ns_evl_account_timer_fired_def ns_evl_enqueue_timer_def ns_evl_switch_account_def
  ns_evl_set_current_account_def ns_evl_update_account_def

section \<open>Assertions by configuration (assert.h)\<close>

text \<open>\<open>config\<close> tells which configuration switches are on; a warning marks the state, its value is the
  condition. The text of a warning is left out.\<close>

definition EVL_INFO :: "string \<Rightarrow> string" where "EVL_INFO KERN_INFO = KERN_INFO @ ''EVL: ''"
definition EVL_WARNING :: "string \<Rightarrow> string" where "EVL_WARNING KERN_WARNING = KERN_WARNING @ ''EVL: ''"
definition EVL_ERR :: "string \<Rightarrow> string" where "EVL_ERR KERN_ERR = KERN_ERR @ ''EVL: ''"

definition WARN_ON :: "bool \<Rightarrow> kst \<Rightarrow> bool \<times> kst" where
  "WARN_ON cond s = (cond, if cond then s\<lparr>k_warned := True\<rparr> else s)"

definition EVL_DEBUG :: "(string \<Rightarrow> bool) \<Rightarrow> string \<Rightarrow> bool" where
  "EVL_DEBUG config subsys \<longleftrightarrow> config (''CONFIG_EVL_DEBUG_'' @ subsys)"

definition EVL_ASSERT :: "(string \<Rightarrow> bool) \<Rightarrow> string \<Rightarrow> bool \<Rightarrow> kst \<Rightarrow> bool \<times> kst" where
  "EVL_ASSERT config subsys cond s =
     (let (warned, s') = WARN_ON (EVL_DEBUG config subsys \<and> \<not> cond) s in (\<not> warned, s'))"

definition EVL_WARN :: "(string \<Rightarrow> bool) \<Rightarrow> string \<Rightarrow> bool \<Rightarrow> kst \<Rightarrow> bool \<times> kst" where
  "EVL_WARN config subsys cond s = WARN_ON (EVL_DEBUG config subsys \<and> cond) s"

definition EVL_WARN_ON :: "(string \<Rightarrow> bool) \<Rightarrow> string \<Rightarrow> bool \<Rightarrow> kst \<Rightarrow> bool \<times> kst" where
  "EVL_WARN_ON config subsys cond s = WARN_ON (EVL_DEBUG config subsys \<and> cond) s"

definition EVL_WARN_ON_SMP :: "(string \<Rightarrow> bool) \<Rightarrow> string \<Rightarrow> bool \<Rightarrow> kst \<Rightarrow> bool \<times> kst" where
  "EVL_WARN_ON_SMP config subsys cond s = EVL_WARN_ON config subsys cond s"

definition up_EVL_WARN_ON_SMP :: "(string \<Rightarrow> bool) \<Rightarrow> string \<Rightarrow> bool \<Rightarrow> kst \<Rightarrow> bool \<times> kst" where
  "up_EVL_WARN_ON_SMP config subsys cond s = (False, s)"

text \<open>A lock of a preemption-aware spinlock is in the set of the locks held.\<close>

definition assert_evl_lock :: "ptr \<Rightarrow> lock_st \<Rightarrow> lock_st" where
  "assert_evl_lock l = (\<lambda>(held, s). (held, assert_hard_lock (l \<in> held) s))"

text \<open>Without \<open>CONFIG_SMP\<close> a hard lock is nothing but disabled interrupts.\<close>

definition up_assert_hard_lock :: "bool \<Rightarrow> kst \<Rightarrow> kst" where
  "up_assert_hard_lock locked s = EVL_WARN_ON_ONCE (\<not> k_irqs_off s) s"

definition up_assert_evl_lock :: "ptr \<Rightarrow> lock_st \<Rightarrow> lock_st" where
  "up_assert_evl_lock l = (\<lambda>(held, s). (held, up_assert_hard_lock (l \<in> held) s))"

section \<open>Spinlocks (lock.h)\<close>

text \<open>Initializing a lock leaves it free. Without the checks the three operations are the plain ones.\<close>

definition evl_spin_lock_init :: "ptr \<Rightarrow> lock_st \<Rightarrow> lock_st" where
  "evl_spin_lock_init l = (\<lambda>(held, s). (held - {l}, s))"

definition nd_evl_spin_lock :: "ptr \<Rightarrow> lock_st \<Rightarrow> lock_st option" where
  "nd_evl_spin_lock l st = raw_evl_spin_lock l st"

definition nd_evl_spin_lock_nested :: "ptr \<Rightarrow> int \<Rightarrow> lock_st \<Rightarrow> lock_st option" where
  "nd_evl_spin_lock_nested l subclass st = raw_evl_spin_lock_nested l subclass st"

definition nd_evl_spin_trylock :: "ptr \<Rightarrow> lock_st \<Rightarrow> bool \<times> lock_st" where
  "nd_evl_spin_trylock l st = raw_evl_spin_trylock l st"

text \<open>The lock validator is told about a lock within a section masked at both stages; the functions of the
  kernel are arguments. Without the validator the macro is empty.\<close>

definition might_hard_lock ::
    "('s \<Rightarrow> 'f \<times> 's) \<Rightarrow> ('f \<Rightarrow> 's \<Rightarrow> 's) \<Rightarrow> ('s \<Rightarrow> 's) \<Rightarrow> ('s \<Rightarrow> 's) \<Rightarrow> ('l \<Rightarrow> 's \<Rightarrow> 's) \<Rightarrow> 'l \<Rightarrow> 's \<Rightarrow> 's" where
  "might_hard_lock local_irq_save_full local_irq_restore_full rcu_read_lock rcu_read_unlock might_lock lk s =
     (let (flags, s1) = local_irq_save_full s
      in local_irq_restore_full flags (rcu_read_unlock (might_lock lk (rcu_read_lock s1))))"

definition nl_might_hard_lock :: "'l \<Rightarrow> 's \<Rightarrow> 's" where "nl_might_hard_lock lk s = s"

section \<open>Hard operations without the pipeline (asm-generic/irq_pipeline.h)\<close>

definition np_hard_local_save_flags :: "hart \<Rightarrow> u64" where
  "np_hard_local_save_flags h = np_arch_local_save_flags h"
definition np_hard_local_irq_enable :: "hart \<Rightarrow> hart" where
  "np_hard_local_irq_enable h = np_arch_local_irq_enable h"
definition np_hard_local_irq_disable :: "hart \<Rightarrow> hart" where
  "np_hard_local_irq_disable h = np_arch_local_irq_disable h"
definition np_hard_local_irq_save :: "hart \<Rightarrow> u64 \<times> hart" where
  "np_hard_local_irq_save h = np_arch_local_irq_save h"
definition np_hard_local_irq_restore :: "u64 \<Rightarrow> hart \<Rightarrow> hart" where
  "np_hard_local_irq_restore flags h = np_arch_local_irq_restore flags h"
definition np_hard_irqs_disabled :: "hart \<Rightarrow> bool" where
  "np_hard_irqs_disabled h \<longleftrightarrow> np_arch_irqs_disabled h"
definition np_hard_irqs_disabled_flags :: "u64 \<Rightarrow> bool" where
  "np_hard_irqs_disabled_flags flags \<longleftrightarrow> np_arch_irqs_disabled_flags flags"
definition np_irq_pipeline_nmi_enter :: "hart \<Rightarrow> hart" where "np_irq_pipeline_nmi_enter h = h"
definition np_irq_pipeline_nmi_exit :: "hart \<Rightarrow> hart" where "np_irq_pipeline_nmi_exit h = h"

text \<open>The check of the debug build warns and gives whether it did.\<close>

definition check_hard_irqs_disabled :: "hart \<Rightarrow> kst \<Rightarrow> bool \<times> kst" where
  "check_hard_irqs_disabled h s = WARN_ON (\<not> hard_irqs_disabled h) s"

definition nd_check_inband_stage :: "kst \<Rightarrow> kst" where "nd_check_inband_stage s = s"
definition nd_check_hard_irqs_disabled :: "hart \<Rightarrow> kst \<Rightarrow> int \<times> kst" where
  "nd_check_hard_irqs_disabled h s = (0, s)"

text \<open>On the registers the two builds do the same: hard masking does not depend on the pipeline.\<close>

lemma np_hard_ops_are_hard_ops:
  "np_hard_local_irq_save h = hard_local_irq_save h"
  "np_hard_local_irq_restore flags h = hard_local_irq_restore flags h"
  "np_hard_local_irq_enable h = hard_local_irq_enable h"
  "np_hard_local_irq_disable h = hard_local_irq_disable h"
  "np_hard_local_save_flags h = hard_local_save_flags h"
  "np_hard_irqs_disabled_flags flags = hard_irqs_disabled_flags flags"
  "np_hard_irqs_disabled h = hard_irqs_disabled h"
  by (simp_all add: np_hard_local_irq_save_def np_arch_local_irq_save_def hard_local_irq_save_def
      np_hard_local_irq_restore_def np_arch_local_irq_restore_def hard_local_irq_restore_def
      np_hard_local_irq_enable_def np_arch_local_irq_enable_def hard_local_irq_enable_def
      np_hard_local_irq_disable_def np_arch_local_irq_disable_def hard_local_irq_disable_def
      np_hard_local_save_flags_def np_arch_local_save_flags_def hard_local_save_flags_def
      np_hard_irqs_disabled_flags_def np_arch_irqs_disabled_flags_def hard_irqs_disabled_flags_def
      np_hard_irqs_disabled_def np_arch_irqs_disabled_def hard_irqs_disabled_def
      native_irqs_disabled_def)

section \<open>Devices, and builds without the core or its network\<close>

text \<open>The object an open file stands for (\<open>factory.h\<close>): the file's private data is the address of its
  binding, and \<open>container_of\<close> gives the object around an element.\<close>

definition element_of :: "(ptr \<Rightarrow> ptr) \<Rightarrow> (ptr \<Rightarrow> evl_file_binding) \<Rightarrow> (ptr \<Rightarrow> ptr) \<Rightarrow> ptr \<Rightarrow> ptr" where
  "element_of private_data bindings container_of filp =
     (let fbind = bindings (private_data filp) in container_of (eb_element fbind))"

text \<open>The state of a GPIO line (\<open>devices/gpio.h\<close>) with the core, and without.\<close>

record lineevent_oob_state =
  le_efile :: evl_file
  le_poll_head :: evl_poll_head
  le_wait :: evl_wait_queue
  le_lock :: bool

datatype nc_evl_file = Nc_evl_file

record nc_lineevent_oob_state =
  nc_le_efile :: nc_evl_file

record 'f linehandle_oob_state =
  lh_efile :: 'f

text \<open>Without the core opening a file always succeeds and a file holds nothing (\<open>device.h\<close>); without the
  network its start does (\<open>net.h\<close>); polling (\<open>asm-generic/evl/poll.h\<close>) and queues of a network device
  (\<open>netdevice.h\<close>) are without effect.\<close>

definition nc_evl_open_file :: "nc_evl_file \<Rightarrow> ptr \<Rightarrow> int" where "nc_evl_open_file efilp filp = 0"
definition nc_evl_release_file :: "nc_evl_file \<Rightarrow> nc_evl_file" where "nc_evl_release_file efilp = efilp"

definition nn_evl_net_init :: "'s \<Rightarrow> int \<times> 's" where "nn_evl_net_init s = (0, s)"
definition nn_evl_net_cleanup :: "'s \<Rightarrow> 's" where "nn_evl_net_cleanup s = s"

datatype nc_oob_poll_wait = Nc_oob_poll_wait
datatype nc_oob_poll_queue = Nc_oob_poll_queue

definition nc_init_oob_poll_queue :: "nc_oob_poll_queue \<Rightarrow> nc_oob_poll_queue" where
  "nc_init_oob_poll_queue pwq = pwq"
definition nc_poll_signal_oob :: "nc_oob_poll_queue \<Rightarrow> int \<Rightarrow> 's \<Rightarrow> 's" where "nc_poll_signal_oob pwq events s = s"
definition nc_poll_wait_oob :: "nc_oob_poll_queue \<Rightarrow> nc_oob_poll_wait \<Rightarrow> 's \<Rightarrow> 's" where
  "nc_poll_wait_oob pwq wait s = s"

datatype nn_oob_netdev_state = Nn_oob_netdev_state
datatype nn_oob_netqueue_state = Nn_oob_netqueue_state

definition nn_netqueue_init_oob :: "nn_oob_netqueue_state \<Rightarrow> nn_oob_netqueue_state" where
  "nn_netqueue_init_oob qs = qs"
definition nn_netqueue_destroy_oob :: "nn_oob_netqueue_state \<Rightarrow> nn_oob_netqueue_state" where
  "nn_netqueue_destroy_oob qs = qs"

section \<open>What assertions do\<close>

text \<open>An assertion is its condition and warns when it fails, in a build that checks its subsystem; it holds
  otherwise, and changes nothing, whatever the condition.\<close>

lemma evl_assert_cases:
  "EVL_DEBUG config subsys \<Longrightarrow>
     EVL_ASSERT config subsys cond s = (cond, if cond then s else s\<lparr>k_warned := True\<rparr>)"
  "\<not> EVL_DEBUG config subsys \<Longrightarrow> EVL_ASSERT config subsys cond s = (True, s)"
  by (simp_all add: EVL_ASSERT_def WARN_ON_def)

text \<open>The assertions of the core are those of a build with \<open>CONFIG_EVL_DEBUG_CORE\<close>.\<close>

lemma core_assertions:
  "EVL_DEBUG config ''CORE'' \<Longrightarrow> snd (EVL_WARN_ON config ''CORE'' cond s) = EVL_WARN_ON_ONCE cond s"
  "\<not> EVL_DEBUG config ''CORE'' \<Longrightarrow> snd (EVL_WARN_ON config ''CORE'' cond s) = s"
  by (simp_all add: EVL_WARN_ON_def WARN_ON_def EVL_WARN_ON_ONCE_def)

text \<open>The state without its warning. The checks of the spinlocks leave the rest alone, so that the builds
  with and without them agree on it.\<close>

abbreviation quiet :: "kst \<Rightarrow> kst" where
  "quiet s \<equiv> s\<lparr>k_warned := False\<rparr>"

lemma quiet_check [simp]: "quiet (evl_spin_lock_check irqs_disabled s) = quiet s"
  by (simp add: evl_spin_lock_check_def EVL_WARN_ON_ONCE_def)

lemma quiet_disable_preempt [simp]:
  "quiet (evl_disable_preempt (evl_spin_lock_check irqs_disabled s)) = quiet (evl_disable_preempt s)"
  by (cases s) (simp add: evl_disable_preempt_def evl_spin_lock_check_def EVL_WARN_ON_ONCE_def
      raw_evl_disable_preempt_def evl_preempt_count_def Let_def)

lemma checked_locks_agree:
  "map_option (apsnd quiet) (evl_spin_lock irqs_disabled l (held, s)) =
     map_option (apsnd quiet) (nd_evl_spin_lock l (held, s))"
  "map_option (apsnd quiet) (evl_spin_lock_nested irqs_disabled l n (held, s)) =
     map_option (apsnd quiet) (nd_evl_spin_lock_nested l n (held, s))"
  "apsnd (apsnd quiet) (evl_spin_trylock irqs_disabled l (held, s)) =
     apsnd (apsnd quiet) (nd_evl_spin_trylock l (held, s))"
  by (simp_all add: evl_spin_lock_def nd_evl_spin_lock_def raw_evl_spin_lock_def evl_spin_lock_nested_def
      nd_evl_spin_lock_nested_def raw_evl_spin_lock_nested_def evl_spin_trylock_def nd_evl_spin_trylock_def
      raw_evl_spin_trylock_def Let_def)

section \<open>What statistics do\<close>

text \<open>The operations on the timers of a base, with the two the core uses for statistics only: accounting a
  timer that fired and resetting its counters.\<close>

datatype stat_op = Core timer_op | Fired ptr | Reset ptr

lemma stat_op_exhaust:
  obtains (enq) t where "p = Core (Enq t)" | (deq) t where "p = Core (Deq t)"
  | (update) t where "p = Core (Update t)" | (fired) t where "p = Fired t" | (reset) t where "p = Reset t"
  by (metis stat_op.exhaust timer_op.exhaust)

fun stat_op_ok :: "ptr set \<Rightarrow> timers \<Rightarrow> stat_op \<Rightarrow> bool" where
  "stat_op_ok T tms (Core p) \<longleftrightarrow> timer_op_ok T tms p"
| "stat_op_ok T tms (Fired t) \<longleftrightarrow> t \<in> T"
| "stat_op_ok T tms (Reset t) \<longleftrightarrow> t \<in> T"

text \<open>One operation in the build with statistics, and in the one without.\<close>

fun stat_step :: "((ptr \<Rightarrow> ktime) \<Rightarrow> ptr \<Rightarrow> 'q \<Rightarrow> 'q) \<Rightarrow> (ptr \<Rightarrow> 'q \<Rightarrow> 'q) \<Rightarrow> 's clocks \<Rightarrow>
    stat_op \<Rightarrow> timers \<times> 'q \<Rightarrow> timers \<times> 'q" where
  "stat_step ins rem clocks (Core p) s = timer_step ins rem clocks p s"
| "stat_step ins rem clocks (Fired t) (tms, tq) = (tms(t := evl_account_timer_fired (tms t)), tq)"
| "stat_step ins rem clocks (Reset t) (tms, tq) = (tms(t := evl_reset_timer_stats (tms t)), tq)"

fun ns_stat_step :: "((ptr \<Rightarrow> ktime) \<Rightarrow> ptr \<Rightarrow> 'q \<Rightarrow> 'q) \<Rightarrow> (ptr \<Rightarrow> 'q \<Rightarrow> 'q) \<Rightarrow> 's clocks \<Rightarrow>
    stat_op \<Rightarrow> timers \<times> 'q \<Rightarrow> timers \<times> 'q" where
  "ns_stat_step ins rem clocks (Core (Enq t)) s = ns_evl_enqueue_timer ins t s"
| "ns_stat_step ins rem clocks (Core p) s = timer_step ins rem clocks p s"
| "ns_stat_step ins rem clocks (Fired t) (tms, tq) = (tms(t := ns_evl_account_timer_fired (tms t)), tq)"
| "ns_stat_step ins rem clocks (Reset t) (tms, tq) = (tms(t := ns_evl_reset_timer_stats (tms t)), tq)"

text \<open>A run of a build, \<open>None\<close> when an operation is not one the core may issue.\<close>

fun stat_run :: "(stat_op \<Rightarrow> timers \<times> 'q \<Rightarrow> timers \<times> 'q) \<Rightarrow> ptr set \<Rightarrow> stat_op list \<Rightarrow>
    timers \<times> 'q \<Rightarrow> (timers \<times> 'q) option" where
  "stat_run step T [] s = Some s"
| "stat_run step T (p # ps) s = (if stat_op_ok T (fst s) p then stat_run step T ps (step p s) else None)"

text \<open>What the counters of a timer have to say after a run: how often it was queued, and how often it fired,
  since they were last reset.\<close>

fun queued_since :: "ptr \<Rightarrow> u64 \<Rightarrow> stat_op list \<Rightarrow> u64" where
  "queued_since t n [] = n"
| "queued_since t n (Core (Enq t') # ps) = queued_since t (if t' = t then n + 1 else n) ps"
| "queued_since t n (Reset t' # ps) = queued_since t (if t' = t then 0 else n) ps"
| "queued_since t n (p # ps) = queued_since t n ps"

fun fired_since :: "ptr \<Rightarrow> u64 \<Rightarrow> stat_op list \<Rightarrow> u64" where
  "fired_since t n [] = n"
| "fired_since t n (Fired t' # ps) = fired_since t (if t' = t then n + 1 else n) ps"
| "fired_since t n (Reset t' # ps) = fired_since t (if t' = t then 0 else n) ps"
| "fired_since t n (p # ps) = fired_since t n ps"

text \<open>Timers that differ in their counters at most.\<close>

definition uncounted :: "evl_timer \<Rightarrow> evl_timer" where
  "uncounted timer = timer\<lparr>tm_scheduled := \<lparr>cnt_counter = 0\<rparr>, tm_fired := \<lparr>cnt_counter = 0\<rparr>\<rparr>"

definition same_timers :: "timers \<Rightarrow> timers \<Rightarrow> bool" where
  "same_timers a b \<longleftrightarrow> (\<forall>t. uncounted (a t) = uncounted (b t))"

lemma uncounted_eq_iff:
  "uncounted a = uncounted b \<longleftrightarrow> tm_clock a = tm_clock b \<and> tm_date a = tm_date b \<and> tm_status a = tm_status b \<and>
     tm_interval a = tm_interval b \<and> tm_start_date a = tm_start_date b \<and>
     tm_consumed_ticks a = tm_consumed_ticks b \<and> tm_periodic_ticks a = tm_periodic_ticks b \<and>
     tm_rq a = tm_rq b \<and> tm_base a = tm_base b \<and> tm_handler a = tm_handler b \<and> tm_name a = tm_name b"
  by (cases a; cases b) (simp add: uncounted_def)

lemma same_timers_keys: "same_timers a b \<Longrightarrow> evl_tdate a = evl_tdate b"
  by (auto simp: same_timers_def uncounted_eq_iff evl_tdate_def)

lemma same_timers_ok: "same_timers a b \<Longrightarrow> stat_op_ok T a p = stat_op_ok T b p"
  by (cases p rule: stat_op_exhaust) (simp_all add: same_timers_def uncounted_eq_iff)

lemma same_timers_step:
  assumes "same_timers a b"
  shows "snd (stat_step ins rem clocks p (a, tq)) = snd (ns_stat_step ins rem clocks p (b, tq))"
    and "same_timers (fst (stat_step ins rem clocks p (a, tq))) (fst (ns_stat_step ins rem clocks p (b, tq)))"
proof -
  note defs = timer_ops ns_defs evl_account_timer_fired_def evl_reset_timer_stats_def Let_def
    evl_update_timer_date_def evl_get_timer_gravity_def
  have "snd (stat_step ins rem clocks p (a, tq)) = snd (ns_stat_step ins rem clocks p (b, tq)) \<and>
    same_timers (fst (stat_step ins rem clocks p (a, tq))) (fst (ns_stat_step ins rem clocks p (b, tq)))"
    using assms same_timers_keys [OF assms]
    by (cases p rule: stat_op_exhaust) (auto simp: defs same_timers_def uncounted_eq_iff)
  then show "snd (stat_step ins rem clocks p (a, tq)) = snd (ns_stat_step ins rem clocks p (b, tq))"
    and "same_timers (fst (stat_step ins rem clocks p (a, tq))) (fst (ns_stat_step ins rem clocks p (b, tq)))"
    by simp_all
qed

text \<open>The counters a step leaves: those of the timer it is about change, the others stay.\<close>

lemma counters_step:
  "cnt_counter (tm_scheduled (fst (stat_step ins rem clocks p (tms, tq)) t)) =
     queued_since t (cnt_counter (tm_scheduled (tms t))) [p]"
  "cnt_counter (tm_fired (fst (stat_step ins rem clocks p (tms, tq)) t)) =
     fired_since t (cnt_counter (tm_fired (tms t))) [p]"
  "ns_stat_step ins rem clocks p (tms, tq) = (tms', tq') \<Longrightarrow>
     tm_scheduled (tms' t) = tm_scheduled (tms t) \<and> tm_fired (tms' t) = tm_fired (tms t)"
proof -
  note defs = timer_ops ns_defs evl_account_timer_fired_def evl_reset_timer_stats_def evl_set_counter_def
    Let_def evl_update_timer_date_def
  show "cnt_counter (tm_scheduled (fst (stat_step ins rem clocks p (tms, tq)) t)) =
      queued_since t (cnt_counter (tm_scheduled (tms t))) [p]"
    by (cases p rule: stat_op_exhaust) (auto simp: defs)
  show "cnt_counter (tm_fired (fst (stat_step ins rem clocks p (tms, tq)) t)) =
      fired_since t (cnt_counter (tm_fired (tms t))) [p]"
    by (cases p rule: stat_op_exhaust) (auto simp: defs)
  show "ns_stat_step ins rem clocks p (tms, tq) = (tms', tq') \<Longrightarrow>
      tm_scheduled (tms' t) = tm_scheduled (tms t) \<and> tm_fired (tms' t) = tm_fired (tms t)"
    by (cases p rule: stat_op_exhaust) (auto simp: defs)
qed

lemma since_Cons:
  "queued_since t n (p # ps) = queued_since t (queued_since t n [p]) ps"
  "fired_since t n (p # ps) = fired_since t (fired_since t n [p]) ps"
  by (cases p rule: stat_op_exhaust; simp)+

definition stats_agree :: "stat_op list \<Rightarrow> timers \<Rightarrow> timers \<Rightarrow> timers \<times> 'q \<Rightarrow> timers \<times> 'q \<Rightarrow> bool" where
  "stats_agree ps tms0 ns0 = (\<lambda>(tms, tq) (ns, nq). tq = nq \<and> same_timers tms ns \<and>
     (\<forall>t. cnt_counter (tm_scheduled (tms t)) = queued_since t (cnt_counter (tm_scheduled (tms0 t))) ps \<and>
       cnt_counter (tm_fired (tms t)) = fired_since t (cnt_counter (tm_fired (tms0 t))) ps \<and>
       tm_scheduled (ns t) = tm_scheduled (ns0 t) \<and> tm_fired (ns t) = tm_fired (ns0 t)))"

lemma stat_runs_agree:
  assumes "same_timers tms ns"
  shows "rel_option (stats_agree ps tms ns)
    (stat_run (stat_step ins rem clocks) T ps (tms, tq)) (stat_run (ns_stat_step ins rem clocks) T ps (ns, tq))"
  using assms
proof (induction ps arbitrary: tms ns tq)
  case Nil
  then show ?case by (simp add: stats_agree_def)
next
  case (Cons p ps)
  obtain tms1 q1 where s: "stat_step ins rem clocks p (tms, tq) = (tms1, q1)" by fastforce
  obtain ns1 q2 where n: "ns_stat_step ins rem clocks p (ns, tq) = (ns1, q2)" by fastforce
  have q: "q1 = q2" and same: "same_timers tms1 ns1"
    using same_timers_step [OF Cons.prems, of ins rem clocks p tq] by (simp_all add: s n)
  have "stats_agree (p # ps) tms ns r r'" if "stats_agree ps tms1 ns1 r r'" for r r' :: "timers \<times> 'a"
    using that counters_step(1,2) [of ins rem clocks p tms tq] counters_step(3) [OF n]
    by (auto simp: stats_agree_def s since_Cons [of _ _ p ps])
  then have "rel_option (stats_agree (p # ps) tms ns)
      (stat_run (stat_step ins rem clocks) T ps (tms1, q1)) (stat_run (ns_stat_step ins rem clocks) T ps (ns1, q1))"
    using option.rel_mono_strong [OF Cons.IH [OF same]] by blast
  then show ?case using same_timers_ok [OF Cons.prems] by (simp add: s n q)
qed

text \<open>C19. Statistics are an observer: for either queue (any insertion and removal that see no more of the
  timers than their dates), from the same timers and over any sequence of enqueueings, dequeueings, date updates, expiries
  and resets, the builds with and without \<open>CONFIG_EVL_RUNSTATS\<close> issue the same operations, and end with
  the same queue and with timers that agree on everything but the counters. The counters the one build
  keeps are exact: how often a timer was queued, and how often it fired, since its counters were last
  reset. The other one never touches them.\<close>

theorem timer_statistics_are_an_observer:
  "case (stat_run (stat_step ins rem clocks) T ps (tms, tq), stat_run (ns_stat_step ins rem clocks) T ps (tms, tq)) of
     (Some (a, qa), Some (b, qb)) \<Rightarrow>
       qa = qb \<and> (\<forall>t. uncounted (a t) = uncounted (b t) \<and>
         cnt_counter (tm_scheduled (a t)) = queued_since t (cnt_counter (tm_scheduled (tms t))) ps \<and>
         cnt_counter (tm_fired (a t)) = fired_since t (cnt_counter (tm_fired (tms t))) ps \<and>
         tm_scheduled (b t) = tm_scheduled (tms t) \<and> tm_fired (b t) = tm_fired (tms t))
   | (None, None) \<Rightarrow> True
   | _ \<Rightarrow> False"
proof -
  have "same_timers tms tms" by (simp add: same_timers_def)
  from stat_runs_agree [OF this, of ps ins rem clocks T tq] show ?thesis
    by (cases "stat_run (stat_step ins rem clocks) T ps (tms, tq)";
        cases "stat_run (ns_stat_step ins rem clocks) T ps (tms, tq)")
      (auto simp: stats_agree_def same_timers_def)
qed

text \<open>A run: a timer is queued twice and fires once; a reset clears what was counted.\<close>

lemma statistics_of_a_run:
  "queued_since 7 0 [Core (Enq 7), Core (Deq 7), Fired 7, Core (Enq 7)] = 2"
  "fired_since 7 0 [Core (Enq 7), Core (Deq 7), Fired 7, Core (Enq 7)] = 1"
  "queued_since 7 0 [Core (Enq 7), Core (Deq 7), Reset 7, Core (Enq 7)] = 1"
  by simp_all

end
