(* ===== verification/Evl_Uapi.thy ===== *)
theory Evl_Uapi
  imports Thread_State
begin

text \<open>
  The constants of the interface with user space (\<open>include/uapi/evl\<close>) which are not request codes, the
  open flags of \<open>include/uapi/asm-generic/fcntl.h\<close> they share a word with, and the encoding of the
  \<open>SIGDEBUG\<close> signal. C's octal numbers are written in hexadecimal.
\<close>

section \<open>Open flags\<close>

text \<open>\<open>uapi/asm-generic/fcntl.h\<close>\<close>

definition O_ACCMODE :: "32 word" where [flag_defs]: "O_ACCMODE = 3"
definition O_RDONLY :: "32 word" where [flag_defs]: "O_RDONLY = 0"
definition O_WRONLY :: "32 word" where [flag_defs]: "O_WRONLY = 1"
definition O_RDWR :: "32 word" where [flag_defs]: "O_RDWR = 2"
definition O_CREAT :: "32 word" where [flag_defs]: "O_CREAT = 0x40"
definition O_EXCL :: "32 word" where [flag_defs]: "O_EXCL = 0x80"
definition O_NOCTTY :: "32 word" where [flag_defs]: "O_NOCTTY = 0x100"
definition O_TRUNC :: "32 word" where [flag_defs]: "O_TRUNC = 0x200"
definition O_APPEND :: "32 word" where [flag_defs]: "O_APPEND = 0x400"
definition O_NONBLOCK :: "32 word" where [flag_defs]: "O_NONBLOCK = 0x800"
definition O_DSYNC :: "32 word" where [flag_defs]: "O_DSYNC = 0x1000"
definition FASYNC :: "32 word" where [flag_defs]: "FASYNC = 0x2000"
definition O_DIRECT :: "32 word" where [flag_defs]: "O_DIRECT = 0x4000"
definition O_LARGEFILE :: "32 word" where [flag_defs]: "O_LARGEFILE = 0x8000"
definition O_DIRECTORY :: "32 word" where [flag_defs]: "O_DIRECTORY = 0x10000"
definition O_NOFOLLOW :: "32 word" where [flag_defs]: "O_NOFOLLOW = 0x20000"
definition O_NOATIME :: "32 word" where [flag_defs]: "O_NOATIME = 0x40000"
definition O_CLOEXEC :: "32 word" where [flag_defs]: "O_CLOEXEC = 0x80000"
definition raw_O_SYNC :: "32 word" where [flag_defs]: "raw_O_SYNC = 0x100000"
definition O_SYNC :: "32 word" where [flag_defs]: "O_SYNC = raw_O_SYNC OR O_DSYNC"
definition O_PATH :: "32 word" where [flag_defs]: "O_PATH = 0x200000"
definition raw_O_TMPFILE :: "32 word" where [flag_defs]: "raw_O_TMPFILE = 0x400000"
definition kernel_O_OOB :: "32 word" where [flag_defs]: "kernel_O_OOB = 0x40000000"
definition O_TMPFILE :: "32 word" where [flag_defs]: "O_TMPFILE = raw_O_TMPFILE OR O_DIRECTORY"
definition O_NDELAY :: "32 word" where [flag_defs]: "O_NDELAY = O_NONBLOCK"

text \<open>\<open>fcntl.h, net/socket-abi.h\<close>\<close>

definition O_OOB :: "32 word" where [flag_defs]: "O_OOB = 0x40000000"

definition SOCK_OOB :: "32 word" where [flag_defs]: "SOCK_OOB = O_OOB"

definition AF_OOB :: int where [const_defs]: "AF_OOB = 46"

section \<open>Constants of the core\<close>

text \<open>\<open>sched-abi.h\<close>\<close>

definition EVL_CPU_OOB :: "32 word" where [flag_defs]: "EVL_CPU_OOB = 1"
definition EVL_CPU_ISOL :: "32 word" where [flag_defs]: "EVL_CPU_ISOL = 2"
definition EVL_CPU_OFFLINE :: "32 word" where [flag_defs]: "EVL_CPU_OFFLINE = 4"

definition SCHED_WEAK :: int where [const_defs]: "SCHED_WEAK = 43"
definition SCHED_QUOTA :: int where [const_defs]: "SCHED_QUOTA = 44"
definition SCHED_TP :: int where [const_defs]: "SCHED_TP = 45"
definition EVL_TP_IDLE :: int where [const_defs]: "EVL_TP_IDLE = - 1"

datatype evl_quota_ctlop = evl_quota_add | evl_quota_remove | evl_quota_force_remove | evl_quota_set
  | evl_quota_get

datatype evl_tp_ctlop = evl_tp_install | evl_tp_uninstall | evl_tp_start | evl_tp_stop | evl_tp_get

text \<open>\<open>control-abi.h\<close>\<close>

definition EVL_ABI_BASE :: nat where [const_defs]: "EVL_ABI_BASE = 36"
definition EVL_ABI_LEVEL :: nat where [const_defs]: "EVL_ABI_LEVEL = 37"

text \<open>\<open>syscall-abi.h\<close>\<close>

definition sys_evl_read :: nat where [const_defs]: "sys_evl_read = 0"
definition sys_evl_write :: nat where [const_defs]: "sys_evl_write = 1"
definition sys_evl_ioctl :: nat where [const_defs]: "sys_evl_ioctl = 2"
definition NR_EVL_SYSCALLS :: nat where [const_defs]: "NR_EVL_SYSCALLS = 3"

text \<open>\<open>uapi/asm-generic/dovetail.h\<close>\<close>

definition raw_OOB_SYSCALL_BIT :: "32 word" where [const_defs]: "raw_OOB_SYSCALL_BIT = 0x10000000"
definition PR_OOB_SYSCALL :: "32 word" where [const_defs]: "PR_OOB_SYSCALL = 0x4f4f4243"

text \<open>\<open>monitor-abi.h\<close>\<close>

definition EVL_MONITOR_EVENT :: nat where [const_defs]: "EVL_MONITOR_EVENT = 0"
definition EVL_EVENT_GATED :: nat where [const_defs]: "EVL_EVENT_GATED = 0"
definition EVL_EVENT_COUNT :: nat where [const_defs]: "EVL_EVENT_COUNT = 1"
definition EVL_EVENT_MASK :: nat where [const_defs]: "EVL_EVENT_MASK = 2"
definition EVL_MONITOR_GATE :: nat where [const_defs]: "EVL_MONITOR_GATE = 1"
definition EVL_GATE_PI :: nat where [const_defs]: "EVL_GATE_PI = 0"
definition EVL_GATE_PP :: nat where [const_defs]: "EVL_GATE_PP = 1"

definition EVL_MONITOR_SIGNALED :: "32 word" where [flag_defs]: "EVL_MONITOR_SIGNALED = 1"
definition EVL_MONITOR_BROADCAST :: "32 word" where [flag_defs]: "EVL_MONITOR_BROADCAST = 2"
definition EVL_MONITOR_TARGETED :: "32 word" where [flag_defs]: "EVL_MONITOR_TARGETED = 4"
definition EVL_MONITOR_NOGATE :: "32 word" where [flag_defs]: "EVL_MONITOR_NOGATE = - 1"

text \<open>\<open>poll-abi.h, observable-abi.h\<close>\<close>

definition EVL_POLL_CTLADD :: nat where [const_defs]: "EVL_POLL_CTLADD = 0"
definition EVL_POLL_CTLDEL :: nat where [const_defs]: "EVL_POLL_CTLDEL = 1"
definition EVL_POLL_CTLMOD :: nat where [const_defs]: "EVL_POLL_CTLMOD = 2"

definition EVL_NOTIFY_ALWAYS :: "32 word" where [flag_defs]: "EVL_NOTIFY_ALWAYS = 0"
definition EVL_NOTIFY_ONCHANGE :: "32 word" where [flag_defs]: "EVL_NOTIFY_ONCHANGE = 1"
definition EVL_NOTIFY_MASK :: "32 word" where [flag_defs]: "EVL_NOTIFY_MASK = EVL_NOTIFY_ONCHANGE"

definition EVL_NOTICE_USER :: nat where [const_defs]: "EVL_NOTICE_USER = 64"

text \<open>\<open>devices/gpio.h, devices/hectic.h, devices/latmus.h\<close>\<close>

definition GPIOHANDLE_REQUEST_OOB :: "64 word" where [flag_defs]: "GPIOHANDLE_REQUEST_OOB = 32"

definition HECTIC_OOB_WAIT :: "32 word" where [flag_defs]: "HECTIC_OOB_WAIT = 0x10000"
definition HECTIC_INBAND_WAIT :: "32 word" where [flag_defs]: "HECTIC_INBAND_WAIT = 0"

definition EVL_LAT_IRQ :: nat where [const_defs]: "EVL_LAT_IRQ = 0"
definition EVL_LAT_KERN :: nat where [const_defs]: "EVL_LAT_KERN = 1"
definition EVL_LAT_USER :: nat where [const_defs]: "EVL_LAT_USER = 2"
definition EVL_LAT_SIRQ :: nat where [const_defs]: "EVL_LAT_SIRQ = 3"
definition EVL_LAT_LAST :: nat where [const_defs]: "EVL_LAT_LAST = EVL_LAT_SIRQ"

text \<open>\<open>clock-abi.h\<close>: the identifiers of the clocks are those of Linux, an argument each, negated.\<close>

definition EVL_CLOCK_MONOTONIC :: "int \<Rightarrow> int" where "EVL_CLOCK_MONOTONIC CLOCK_MONOTONIC = - CLOCK_MONOTONIC"
definition EVL_CLOCK_REALTIME :: "int \<Rightarrow> int" where "EVL_CLOCK_REALTIME CLOCK_REALTIME = - CLOCK_REALTIME"

text \<open>\<open>device names\<close>\<close>

definition EVL_CLOCK_MONOTONIC_DEV :: string where [const_defs]: "EVL_CLOCK_MONOTONIC_DEV = ''monotonic''"
definition EVL_CLOCK_REALTIME_DEV :: string where [const_defs]: "EVL_CLOCK_REALTIME_DEV = ''realtime''"
definition EVL_CLOCK_DEV :: string where [const_defs]: "EVL_CLOCK_DEV = ''clock''"
definition EVL_THREAD_DEV :: string where [const_defs]: "EVL_THREAD_DEV = ''thread''"
definition EVL_MONITOR_DEV :: string where [const_defs]: "EVL_MONITOR_DEV = ''monitor''"
definition EVL_POLL_DEV :: string where [const_defs]: "EVL_POLL_DEV = ''poll''"
definition EVL_OBSERVABLE_DEV :: string where [const_defs]: "EVL_OBSERVABLE_DEV = ''observable''"
definition EVL_PROXY_DEV :: string where [const_defs]: "EVL_PROXY_DEV = ''proxy''"
definition EVL_XBUF_DEV :: string where [const_defs]: "EVL_XBUF_DEV = ''xbuf''"
definition EVL_RANDOM_DEV :: string where [const_defs]: "EVL_RANDOM_DEV = ''random''"
definition EVL_NET_DEV :: string where [const_defs]: "EVL_NET_DEV = ''net''"
definition EVL_CONTROL_DEV :: string where [const_defs]: "EVL_CONTROL_DEV = ''/dev/evl/control''"

section \<open>SIGDEBUG\<close>

text \<open>\<open>signal.h\<close>: the code is the integer a \<open>siginfo_t\<close> carries.\<close>

definition sigdebug_code :: "32 word \<Rightarrow> 32 word" where
  "sigdebug_code sival_int = sival_int"

definition sigdebug_cause :: "32 word \<Rightarrow> 32 word" where
  "sigdebug_cause si = sigdebug_code si AND 0xff"

definition sigdebug_marker :: "32 word" where [const_defs]: "sigdebug_marker = 0xfccf0000"

definition sigdebug_marked :: "32 word \<Rightarrow> bool" where
  "sigdebug_marked si \<longleftrightarrow> sigdebug_code si AND 0xffff0000 = sigdebug_marker"

lemma split_code:
  "(push_bit 16 x OR take_bit 8 c) AND mask 8 = take_bit 8 (c :: 32 word)"
  "(push_bit 16 x OR take_bit 8 c) AND push_bit 16 (mask 16) = push_bit 16 (x :: 32 word)"
  by (rule bit_word_eqI, auto simp: bit_simps)+

text \<open>A marked code with any 8 bit cause is told from other signals and gives its cause back.\<close>

lemma sigdebug_roundtrip:
  "sigdebug_cause (sigdebug_marker OR (c AND 0xff)) = c AND 0xff"
  "sigdebug_marked (sigdebug_marker OR (c AND 0xff))"
  using split_code [of "0xfccf" c]
  by (simp_all add: sigdebug_cause_def sigdebug_marked_def sigdebug_code_def const_defs take_bit_eq_mask
      mask_eq_exp_minus_1)

section \<open>The out-of-band open mode\<close>

definition other_open_flags :: "32 word list" where
  "other_open_flags = [O_ACCMODE, O_RDONLY, O_WRONLY, O_RDWR, O_CREAT, O_EXCL, O_NOCTTY, O_TRUNC, O_APPEND, O_NONBLOCK,
     O_DSYNC, FASYNC, O_DIRECT, O_LARGEFILE, O_DIRECTORY, O_NOFOLLOW, O_NOATIME, O_CLOEXEC, raw_O_SYNC, O_SYNC,
     O_PATH, raw_O_TMPFILE, O_TMPFILE, O_NDELAY]"

definition open_mode :: "32 word list \<Rightarrow> 32 word" where
  "open_mode fs = foldr (OR) fs 0"

lemma other_flags_disjoint: "f \<in> set other_open_flags \<Longrightarrow> f AND O_OOB = 0"
  by (auto simp: other_open_flags_def flag_defs)

text \<open>The out-of-band open mode is unambiguous: the header of the core and the generic one agree on
  \<open>O_OOB\<close>, sockets use the same bit, a single one which keeps the flags a positive \<open>int\<close>, and over any
  combination of the other open flags the bit is set exactly when it was asked for, and takes none of
  the others with it.\<close>

lemma oob_open_mode_is_unambiguous:
  assumes "set fs \<subseteq> set other_open_flags"
  shows "kernel_O_OOB = O_OOB \<and> SOCK_OOB = O_OOB \<and> sint O_OOB = 2 ^ 30 \<and> open_mode fs AND O_OOB = 0 \<and>
    open_mode (O_OOB # fs) AND O_OOB = O_OOB \<and> open_mode (O_OOB # fs) AND NOT O_OOB = open_mode fs"
proof -
  have z: "open_mode fs AND O_OOB = 0"
    using assms other_flags_disjoint
    by (induction fs) (auto simp: open_mode_def bit.conj_disj_distrib2)
  have "(O_OOB OR m) AND NOT O_OOB = m" if m: "m AND O_OOB = 0" for m :: "32 word"
  proof (rule bit_word_eqI)
    fix n assume "n < LENGTH(32)"
    moreover have "\<not> bit (m AND O_OOB) n" by (simp add: m)
    ultimately show "bit ((O_OOB OR m) AND NOT O_OOB) n \<longleftrightarrow> bit m n" by (auto simp: bit_simps)
  qed
  with z show ?thesis by (simp add: open_mode_def word_ao_absorbs) (simp add: flag_defs)
qed

lemma oob_open_mode_is_unambiguous_witness:
  "open_mode [O_OOB, O_RDWR, O_NONBLOCK] AND NOT O_OOB = 0x802"
  using oob_open_mode_is_unambiguous [of "[O_RDWR, O_NONBLOCK]"]
  by (simp add: other_open_flags_def open_mode_def flag_defs)

end
