(* ===== verification/Linux_Syscalls.thy ===== *)
theory Linux_Syscalls
  imports Evl_Prelude
begin

text \<open>
  \<open>include/uapi/asm-generic/unistd.h\<close>: the system call table user space programs of the core are
  built against. An entry is its number, its name and its handlers, under the condition of the
  \<open>#if\<close> around it; a build is its word size, whether the compat table is compiled, and the
  \<open>__ARCH_\<close> macros that are defined.
\<close>

datatype cond =
    Always
  | Defined string
  | Undefined string
  | Time32_or_64
  | Any_stat
  | Compat_or_32

datatype sc_def =
    SYSCALL nat string string
  | SC_3264 nat string string string
  | SC_COMP nat string string string
  | SC_COMP_3264 nat string string string string

record build =
  bd_bits :: nat
  bd_compat :: bool
  bd_macros :: "string set"

fun enabled :: "build \<Rightarrow> cond \<Rightarrow> bool" where
  "enabled b Always \<longleftrightarrow> True"
| "enabled b (Defined m) \<longleftrightarrow> m \<in> bd_macros b"
| "enabled b (Undefined m) \<longleftrightarrow> m \<notin> bd_macros b"
| "enabled b Time32_or_64 \<longleftrightarrow> ''__ARCH_WANT_TIME32_SYSCALLS'' \<in> bd_macros b \<or> bd_bits b \<noteq> 32"
| "enabled b Any_stat \<longleftrightarrow> ''__ARCH_WANT_NEW_STAT'' \<in> bd_macros b \<or> ''__ARCH_WANT_STAT64'' \<in> bd_macros b"
| "enabled b Compat_or_32 \<longleftrightarrow> bd_compat b \<or> bd_bits b = 32"

fun sc_nr :: "sc_def \<Rightarrow> nat" where
  "sc_nr (SYSCALL n name s) = n"
| "sc_nr (SC_3264 n name s32 s64) = n"
| "sc_nr (SC_COMP n name s cs) = n"
| "sc_nr (SC_COMP_3264 n name s32 s64 cs) = n"

text \<open>The handler the macros of the header pick.\<close>

definition pick_3264 :: "build \<Rightarrow> string \<Rightarrow> string \<Rightarrow> string" where
  "pick_3264 b s32 s64 = (if bd_bits b = 32 \<or> bd_compat b then s32 else s64)"

fun sc_handler :: "build \<Rightarrow> sc_def \<Rightarrow> string" where
  "sc_handler b (SYSCALL n name s) = s"
| "sc_handler b (SC_3264 n name s32 s64) = pick_3264 b s32 s64"
| "sc_handler b (SC_COMP n name s cs) = (if bd_compat b then cs else s)"
| "sc_handler b (SC_COMP_3264 n name s32 s64 cs) =
     (if bd_compat b then cs else pick_3264 b s32 s64)"

section \<open>The table\<close>

definition syscalls_1 :: "(cond \<times> sc_def) list" where
  "syscalls_1 =
    [(Always, SC_COMP 0 ''__NR_io_setup'' ''sys_io_setup'' ''compat_sys_io_setup''),
     (Always, SYSCALL 1 ''__NR_io_destroy'' ''sys_io_destroy''),
     (Always, SC_COMP 2 ''__NR_io_submit'' ''sys_io_submit'' ''compat_sys_io_submit''),
     (Always, SYSCALL 3 ''__NR_io_cancel'' ''sys_io_cancel''),
     (Time32_or_64, SC_3264 4 ''__NR_io_getevents'' ''sys_io_getevents_time32'' ''sys_io_getevents''),
     (Always, SYSCALL 5 ''__NR_setxattr'' ''sys_setxattr''),
     (Always, SYSCALL 6 ''__NR_lsetxattr'' ''sys_lsetxattr''),
     (Always, SYSCALL 7 ''__NR_fsetxattr'' ''sys_fsetxattr''),
     (Always, SYSCALL 8 ''__NR_getxattr'' ''sys_getxattr''),
     (Always, SYSCALL 9 ''__NR_lgetxattr'' ''sys_lgetxattr''),
     (Always, SYSCALL 10 ''__NR_fgetxattr'' ''sys_fgetxattr''),
     (Always, SYSCALL 11 ''__NR_listxattr'' ''sys_listxattr''),
     (Always, SYSCALL 12 ''__NR_llistxattr'' ''sys_llistxattr''),
     (Always, SYSCALL 13 ''__NR_flistxattr'' ''sys_flistxattr''),
     (Always, SYSCALL 14 ''__NR_removexattr'' ''sys_removexattr''),
     (Always, SYSCALL 15 ''__NR_lremovexattr'' ''sys_lremovexattr''),
     (Always, SYSCALL 16 ''__NR_fremovexattr'' ''sys_fremovexattr''),
     (Always, SYSCALL 17 ''__NR_getcwd'' ''sys_getcwd''),
     (Always, SC_COMP 18 ''__NR_lookup_dcookie'' ''sys_lookup_dcookie'' ''compat_sys_lookup_dcookie''),
     (Always, SYSCALL 19 ''__NR_eventfd2'' ''sys_eventfd2''),
     (Always, SYSCALL 20 ''__NR_epoll_create1'' ''sys_epoll_create1''),
     (Always, SYSCALL 21 ''__NR_epoll_ctl'' ''sys_epoll_ctl''),
     (Always, SC_COMP 22 ''__NR_epoll_pwait'' ''sys_epoll_pwait'' ''compat_sys_epoll_pwait''),
     (Always, SYSCALL 23 ''__NR_dup'' ''sys_dup''),
     (Always, SYSCALL 24 ''__NR_dup3'' ''sys_dup3''),
     (Always, SC_COMP_3264 25 ''__NR3264_fcntl'' ''sys_fcntl64'' ''sys_fcntl'' ''compat_sys_fcntl64''),
     (Always, SYSCALL 26 ''__NR_inotify_init1'' ''sys_inotify_init1''),
     (Always, SYSCALL 27 ''__NR_inotify_add_watch'' ''sys_inotify_add_watch''),
     (Always, SYSCALL 28 ''__NR_inotify_rm_watch'' ''sys_inotify_rm_watch''),
     (Always, SC_COMP 29 ''__NR_ioctl'' ''sys_ioctl'' ''compat_sys_ioctl''),
     (Always, SYSCALL 30 ''__NR_ioprio_set'' ''sys_ioprio_set''),
     (Always, SYSCALL 31 ''__NR_ioprio_get'' ''sys_ioprio_get''),
     (Always, SYSCALL 32 ''__NR_flock'' ''sys_flock''),
     (Always, SYSCALL 33 ''__NR_mknodat'' ''sys_mknodat''),
     (Always, SYSCALL 34 ''__NR_mkdirat'' ''sys_mkdirat''),
     (Always, SYSCALL 35 ''__NR_unlinkat'' ''sys_unlinkat''),
     (Always, SYSCALL 36 ''__NR_symlinkat'' ''sys_symlinkat''),
     (Always, SYSCALL 37 ''__NR_linkat'' ''sys_linkat''),
     ((Defined ''__ARCH_WANT_RENAMEAT''), SYSCALL 38 ''__NR_renameat'' ''sys_renameat''),
     (Always, SYSCALL 39 ''__NR_umount2'' ''sys_umount''),
     (Always, SYSCALL 40 ''__NR_mount'' ''sys_mount''),
     (Always, SYSCALL 41 ''__NR_pivot_root'' ''sys_pivot_root''),
     (Always, SYSCALL 42 ''__NR_nfsservctl'' ''sys_ni_syscall''),
     (Always, SC_COMP_3264 43 ''__NR3264_statfs'' ''sys_statfs64'' ''sys_statfs'' ''compat_sys_statfs64''),
     (Always, SC_COMP_3264 44 ''__NR3264_fstatfs'' ''sys_fstatfs64'' ''sys_fstatfs'' ''compat_sys_fstatfs64''),
     (Always, SC_COMP_3264 45 ''__NR3264_truncate'' ''sys_truncate64'' ''sys_truncate'' ''compat_sys_truncate64''),
     (Always, SC_COMP_3264 46 ''__NR3264_ftruncate'' ''sys_ftruncate64'' ''sys_ftruncate'' ''compat_sys_ftruncate64''),
     (Always, SC_COMP 47 ''__NR_fallocate'' ''sys_fallocate'' ''compat_sys_fallocate''),
     (Always, SYSCALL 48 ''__NR_faccessat'' ''sys_faccessat''),
     (Always, SYSCALL 49 ''__NR_chdir'' ''sys_chdir''),
     (Always, SYSCALL 50 ''__NR_fchdir'' ''sys_fchdir''),
     (Always, SYSCALL 51 ''__NR_chroot'' ''sys_chroot''),
     (Always, SYSCALL 52 ''__NR_fchmod'' ''sys_fchmod''),
     (Always, SYSCALL 53 ''__NR_fchmodat'' ''sys_fchmodat''),
     (Always, SYSCALL 54 ''__NR_fchownat'' ''sys_fchownat''),
     (Always, SYSCALL 55 ''__NR_fchown'' ''sys_fchown''),
     (Always, SYSCALL 56 ''__NR_openat'' ''sys_openat''),
     (Always, SYSCALL 57 ''__NR_close'' ''sys_close''),
     (Always, SYSCALL 58 ''__NR_vhangup'' ''sys_vhangup''),
     (Always, SYSCALL 59 ''__NR_pipe2'' ''sys_pipe2''),
     (Always, SYSCALL 60 ''__NR_quotactl'' ''sys_quotactl''),
     (Always, SYSCALL 61 ''__NR_getdents64'' ''sys_getdents64''),
     (Always, SC_3264 62 ''__NR3264_lseek'' ''sys_llseek'' ''sys_lseek''),
     (Always, SYSCALL 63 ''__NR_read'' ''sys_read''),
     (Always, SYSCALL 64 ''__NR_write'' ''sys_write''),
     (Always, SC_COMP 65 ''__NR_readv'' ''sys_readv'' ''sys_readv'')]"

definition syscalls_2 :: "(cond \<times> sc_def) list" where
  "syscalls_2 =
    [(Always, SC_COMP 66 ''__NR_writev'' ''sys_writev'' ''sys_writev''),
     (Always, SC_COMP 67 ''__NR_pread64'' ''sys_pread64'' ''compat_sys_pread64''),
     (Always, SC_COMP 68 ''__NR_pwrite64'' ''sys_pwrite64'' ''compat_sys_pwrite64''),
     (Always, SC_COMP 69 ''__NR_preadv'' ''sys_preadv'' ''compat_sys_preadv''),
     (Always, SC_COMP 70 ''__NR_pwritev'' ''sys_pwritev'' ''compat_sys_pwritev''),
     (Always, SYSCALL 71 ''__NR3264_sendfile'' ''sys_sendfile64''),
     (Time32_or_64, SC_COMP_3264 72 ''__NR_pselect6'' ''sys_pselect6_time32'' ''sys_pselect6'' ''compat_sys_pselect6_time32''),
     (Time32_or_64, SC_COMP_3264 73 ''__NR_ppoll'' ''sys_ppoll_time32'' ''sys_ppoll'' ''compat_sys_ppoll_time32''),
     (Always, SC_COMP 74 ''__NR_signalfd4'' ''sys_signalfd4'' ''compat_sys_signalfd4''),
     (Always, SYSCALL 75 ''__NR_vmsplice'' ''sys_vmsplice''),
     (Always, SYSCALL 76 ''__NR_splice'' ''sys_splice''),
     (Always, SYSCALL 77 ''__NR_tee'' ''sys_tee''),
     (Always, SYSCALL 78 ''__NR_readlinkat'' ''sys_readlinkat''),
     (Any_stat, SC_3264 79 ''__NR3264_fstatat'' ''sys_fstatat64'' ''sys_newfstatat''),
     (Any_stat, SC_3264 80 ''__NR3264_fstat'' ''sys_fstat64'' ''sys_newfstat''),
     (Always, SYSCALL 81 ''__NR_sync'' ''sys_sync''),
     (Always, SYSCALL 82 ''__NR_fsync'' ''sys_fsync''),
     (Always, SYSCALL 83 ''__NR_fdatasync'' ''sys_fdatasync''),
     ((Defined ''__ARCH_WANT_SYNC_FILE_RANGE2''), SC_COMP 84 ''__NR_sync_file_range2'' ''sys_sync_file_range2'' ''compat_sys_sync_file_range2''),
     ((Undefined ''__ARCH_WANT_SYNC_FILE_RANGE2''), SC_COMP 84 ''__NR_sync_file_range'' ''sys_sync_file_range'' ''compat_sys_sync_file_range''),
     (Always, SYSCALL 85 ''__NR_timerfd_create'' ''sys_timerfd_create''),
     (Time32_or_64, SC_3264 86 ''__NR_timerfd_settime'' ''sys_timerfd_settime32'' ''sys_timerfd_settime''),
     (Time32_or_64, SC_3264 87 ''__NR_timerfd_gettime'' ''sys_timerfd_gettime32'' ''sys_timerfd_gettime''),
     (Time32_or_64, SC_3264 88 ''__NR_utimensat'' ''sys_utimensat_time32'' ''sys_utimensat''),
     (Always, SYSCALL 89 ''__NR_acct'' ''sys_acct''),
     (Always, SYSCALL 90 ''__NR_capget'' ''sys_capget''),
     (Always, SYSCALL 91 ''__NR_capset'' ''sys_capset''),
     (Always, SYSCALL 92 ''__NR_personality'' ''sys_personality''),
     (Always, SYSCALL 93 ''__NR_exit'' ''sys_exit''),
     (Always, SYSCALL 94 ''__NR_exit_group'' ''sys_exit_group''),
     (Always, SC_COMP 95 ''__NR_waitid'' ''sys_waitid'' ''compat_sys_waitid''),
     (Always, SYSCALL 96 ''__NR_set_tid_address'' ''sys_set_tid_address''),
     (Always, SYSCALL 97 ''__NR_unshare'' ''sys_unshare''),
     (Time32_or_64, SC_3264 98 ''__NR_futex'' ''sys_futex_time32'' ''sys_futex''),
     (Always, SC_COMP 99 ''__NR_set_robust_list'' ''sys_set_robust_list'' ''compat_sys_set_robust_list''),
     (Always, SC_COMP 100 ''__NR_get_robust_list'' ''sys_get_robust_list'' ''compat_sys_get_robust_list''),
     (Time32_or_64, SC_3264 101 ''__NR_nanosleep'' ''sys_nanosleep_time32'' ''sys_nanosleep''),
     (Always, SC_COMP 102 ''__NR_getitimer'' ''sys_getitimer'' ''compat_sys_getitimer''),
     (Always, SC_COMP 103 ''__NR_setitimer'' ''sys_setitimer'' ''compat_sys_setitimer''),
     (Always, SC_COMP 104 ''__NR_kexec_load'' ''sys_kexec_load'' ''compat_sys_kexec_load''),
     (Always, SYSCALL 105 ''__NR_init_module'' ''sys_init_module''),
     (Always, SYSCALL 106 ''__NR_delete_module'' ''sys_delete_module''),
     (Always, SC_COMP 107 ''__NR_timer_create'' ''sys_timer_create'' ''compat_sys_timer_create''),
     (Time32_or_64, SC_3264 108 ''__NR_timer_gettime'' ''sys_timer_gettime32'' ''sys_timer_gettime''),
     (Always, SYSCALL 109 ''__NR_timer_getoverrun'' ''sys_timer_getoverrun''),
     (Time32_or_64, SC_3264 110 ''__NR_timer_settime'' ''sys_timer_settime32'' ''sys_timer_settime''),
     (Always, SYSCALL 111 ''__NR_timer_delete'' ''sys_timer_delete''),
     (Time32_or_64, SC_3264 112 ''__NR_clock_settime'' ''sys_clock_settime32'' ''sys_clock_settime''),
     (Time32_or_64, SC_3264 113 ''__NR_clock_gettime'' ''sys_clock_gettime32'' ''sys_clock_gettime''),
     (Time32_or_64, SC_3264 114 ''__NR_clock_getres'' ''sys_clock_getres_time32'' ''sys_clock_getres'')]"

definition syscalls_3 :: "(cond \<times> sc_def) list" where
  "syscalls_3 =
    [(Time32_or_64, SC_3264 115 ''__NR_clock_nanosleep'' ''sys_clock_nanosleep_time32'' ''sys_clock_nanosleep''),
     (Always, SYSCALL 116 ''__NR_syslog'' ''sys_syslog''),
     (Always, SC_COMP 117 ''__NR_ptrace'' ''sys_ptrace'' ''compat_sys_ptrace''),
     (Always, SYSCALL 118 ''__NR_sched_setparam'' ''sys_sched_setparam''),
     (Always, SYSCALL 119 ''__NR_sched_setscheduler'' ''sys_sched_setscheduler''),
     (Always, SYSCALL 120 ''__NR_sched_getscheduler'' ''sys_sched_getscheduler''),
     (Always, SYSCALL 121 ''__NR_sched_getparam'' ''sys_sched_getparam''),
     (Always, SC_COMP 122 ''__NR_sched_setaffinity'' ''sys_sched_setaffinity'' ''compat_sys_sched_setaffinity''),
     (Always, SC_COMP 123 ''__NR_sched_getaffinity'' ''sys_sched_getaffinity'' ''compat_sys_sched_getaffinity''),
     (Always, SYSCALL 124 ''__NR_sched_yield'' ''sys_sched_yield''),
     (Always, SYSCALL 125 ''__NR_sched_get_priority_max'' ''sys_sched_get_priority_max''),
     (Always, SYSCALL 126 ''__NR_sched_get_priority_min'' ''sys_sched_get_priority_min''),
     (Time32_or_64, SC_3264 127 ''__NR_sched_rr_get_interval'' ''sys_sched_rr_get_interval_time32'' ''sys_sched_rr_get_interval''),
     (Always, SYSCALL 128 ''__NR_restart_syscall'' ''sys_restart_syscall''),
     (Always, SYSCALL 129 ''__NR_kill'' ''sys_kill''),
     (Always, SYSCALL 130 ''__NR_tkill'' ''sys_tkill''),
     (Always, SYSCALL 131 ''__NR_tgkill'' ''sys_tgkill''),
     (Always, SC_COMP 132 ''__NR_sigaltstack'' ''sys_sigaltstack'' ''compat_sys_sigaltstack''),
     (Always, SC_COMP 133 ''__NR_rt_sigsuspend'' ''sys_rt_sigsuspend'' ''compat_sys_rt_sigsuspend''),
     (Always, SC_COMP 134 ''__NR_rt_sigaction'' ''sys_rt_sigaction'' ''compat_sys_rt_sigaction''),
     (Always, SC_COMP 135 ''__NR_rt_sigprocmask'' ''sys_rt_sigprocmask'' ''compat_sys_rt_sigprocmask''),
     (Always, SC_COMP 136 ''__NR_rt_sigpending'' ''sys_rt_sigpending'' ''compat_sys_rt_sigpending''),
     (Time32_or_64, SC_COMP_3264 137 ''__NR_rt_sigtimedwait'' ''sys_rt_sigtimedwait_time32'' ''sys_rt_sigtimedwait'' ''compat_sys_rt_sigtimedwait_time32''),
     (Always, SC_COMP 138 ''__NR_rt_sigqueueinfo'' ''sys_rt_sigqueueinfo'' ''compat_sys_rt_sigqueueinfo''),
     (Always, SC_COMP 139 ''__NR_rt_sigreturn'' ''sys_rt_sigreturn'' ''compat_sys_rt_sigreturn''),
     (Always, SYSCALL 140 ''__NR_setpriority'' ''sys_setpriority''),
     (Always, SYSCALL 141 ''__NR_getpriority'' ''sys_getpriority''),
     (Always, SYSCALL 142 ''__NR_reboot'' ''sys_reboot''),
     (Always, SYSCALL 143 ''__NR_setregid'' ''sys_setregid''),
     (Always, SYSCALL 144 ''__NR_setgid'' ''sys_setgid''),
     (Always, SYSCALL 145 ''__NR_setreuid'' ''sys_setreuid''),
     (Always, SYSCALL 146 ''__NR_setuid'' ''sys_setuid''),
     (Always, SYSCALL 147 ''__NR_setresuid'' ''sys_setresuid''),
     (Always, SYSCALL 148 ''__NR_getresuid'' ''sys_getresuid''),
     (Always, SYSCALL 149 ''__NR_setresgid'' ''sys_setresgid''),
     (Always, SYSCALL 150 ''__NR_getresgid'' ''sys_getresgid''),
     (Always, SYSCALL 151 ''__NR_setfsuid'' ''sys_setfsuid''),
     (Always, SYSCALL 152 ''__NR_setfsgid'' ''sys_setfsgid''),
     (Always, SC_COMP 153 ''__NR_times'' ''sys_times'' ''compat_sys_times''),
     (Always, SYSCALL 154 ''__NR_setpgid'' ''sys_setpgid''),
     (Always, SYSCALL 155 ''__NR_getpgid'' ''sys_getpgid''),
     (Always, SYSCALL 156 ''__NR_getsid'' ''sys_getsid''),
     (Always, SYSCALL 157 ''__NR_setsid'' ''sys_setsid''),
     (Always, SYSCALL 158 ''__NR_getgroups'' ''sys_getgroups''),
     (Always, SYSCALL 159 ''__NR_setgroups'' ''sys_setgroups''),
     (Always, SYSCALL 160 ''__NR_uname'' ''sys_newuname''),
     (Always, SYSCALL 161 ''__NR_sethostname'' ''sys_sethostname''),
     (Always, SYSCALL 162 ''__NR_setdomainname'' ''sys_setdomainname''),
     ((Defined ''__ARCH_WANT_SET_GET_RLIMIT''), SC_COMP 163 ''__NR_getrlimit'' ''sys_getrlimit'' ''compat_sys_getrlimit''),
     ((Defined ''__ARCH_WANT_SET_GET_RLIMIT''), SC_COMP 164 ''__NR_setrlimit'' ''sys_setrlimit'' ''compat_sys_setrlimit''),
     (Always, SC_COMP 165 ''__NR_getrusage'' ''sys_getrusage'' ''compat_sys_getrusage''),
     (Always, SYSCALL 166 ''__NR_umask'' ''sys_umask''),
     (Always, SYSCALL 167 ''__NR_prctl'' ''sys_prctl''),
     (Always, SYSCALL 168 ''__NR_getcpu'' ''sys_getcpu''),
     (Time32_or_64, SC_COMP 169 ''__NR_gettimeofday'' ''sys_gettimeofday'' ''compat_sys_gettimeofday''),
     (Time32_or_64, SC_COMP 170 ''__NR_settimeofday'' ''sys_settimeofday'' ''compat_sys_settimeofday''),
     (Time32_or_64, SC_3264 171 ''__NR_adjtimex'' ''sys_adjtimex_time32'' ''sys_adjtimex''),
     (Always, SYSCALL 172 ''__NR_getpid'' ''sys_getpid''),
     (Always, SYSCALL 173 ''__NR_getppid'' ''sys_getppid''),
     (Always, SYSCALL 174 ''__NR_getuid'' ''sys_getuid'')]"

definition syscalls_4 :: "(cond \<times> sc_def) list" where
  "syscalls_4 =
    [(Always, SYSCALL 175 ''__NR_geteuid'' ''sys_geteuid''),
     (Always, SYSCALL 176 ''__NR_getgid'' ''sys_getgid''),
     (Always, SYSCALL 177 ''__NR_getegid'' ''sys_getegid''),
     (Always, SYSCALL 178 ''__NR_gettid'' ''sys_gettid''),
     (Always, SC_COMP 179 ''__NR_sysinfo'' ''sys_sysinfo'' ''compat_sys_sysinfo''),
     (Always, SC_COMP 180 ''__NR_mq_open'' ''sys_mq_open'' ''compat_sys_mq_open''),
     (Always, SYSCALL 181 ''__NR_mq_unlink'' ''sys_mq_unlink''),
     (Time32_or_64, SC_3264 182 ''__NR_mq_timedsend'' ''sys_mq_timedsend_time32'' ''sys_mq_timedsend''),
     (Time32_or_64, SC_3264 183 ''__NR_mq_timedreceive'' ''sys_mq_timedreceive_time32'' ''sys_mq_timedreceive''),
     (Always, SC_COMP 184 ''__NR_mq_notify'' ''sys_mq_notify'' ''compat_sys_mq_notify''),
     (Always, SC_COMP 185 ''__NR_mq_getsetattr'' ''sys_mq_getsetattr'' ''compat_sys_mq_getsetattr''),
     (Always, SYSCALL 186 ''__NR_msgget'' ''sys_msgget''),
     (Always, SC_COMP 187 ''__NR_msgctl'' ''sys_msgctl'' ''compat_sys_msgctl''),
     (Always, SC_COMP 188 ''__NR_msgrcv'' ''sys_msgrcv'' ''compat_sys_msgrcv''),
     (Always, SC_COMP 189 ''__NR_msgsnd'' ''sys_msgsnd'' ''compat_sys_msgsnd''),
     (Always, SYSCALL 190 ''__NR_semget'' ''sys_semget''),
     (Always, SC_COMP 191 ''__NR_semctl'' ''sys_semctl'' ''compat_sys_semctl''),
     (Time32_or_64, SC_3264 192 ''__NR_semtimedop'' ''sys_semtimedop_time32'' ''sys_semtimedop''),
     (Always, SYSCALL 193 ''__NR_semop'' ''sys_semop''),
     (Always, SYSCALL 194 ''__NR_shmget'' ''sys_shmget''),
     (Always, SC_COMP 195 ''__NR_shmctl'' ''sys_shmctl'' ''compat_sys_shmctl''),
     (Always, SC_COMP 196 ''__NR_shmat'' ''sys_shmat'' ''compat_sys_shmat''),
     (Always, SYSCALL 197 ''__NR_shmdt'' ''sys_shmdt''),
     (Always, SYSCALL 198 ''__NR_socket'' ''sys_socket''),
     (Always, SYSCALL 199 ''__NR_socketpair'' ''sys_socketpair''),
     (Always, SYSCALL 200 ''__NR_bind'' ''sys_bind''),
     (Always, SYSCALL 201 ''__NR_listen'' ''sys_listen''),
     (Always, SYSCALL 202 ''__NR_accept'' ''sys_accept''),
     (Always, SYSCALL 203 ''__NR_connect'' ''sys_connect''),
     (Always, SYSCALL 204 ''__NR_getsockname'' ''sys_getsockname''),
     (Always, SYSCALL 205 ''__NR_getpeername'' ''sys_getpeername''),
     (Always, SYSCALL 206 ''__NR_sendto'' ''sys_sendto''),
     (Always, SC_COMP 207 ''__NR_recvfrom'' ''sys_recvfrom'' ''compat_sys_recvfrom''),
     (Always, SC_COMP 208 ''__NR_setsockopt'' ''sys_setsockopt'' ''sys_setsockopt''),
     (Always, SC_COMP 209 ''__NR_getsockopt'' ''sys_getsockopt'' ''sys_getsockopt''),
     (Always, SYSCALL 210 ''__NR_shutdown'' ''sys_shutdown''),
     (Always, SC_COMP 211 ''__NR_sendmsg'' ''sys_sendmsg'' ''compat_sys_sendmsg''),
     (Always, SC_COMP 212 ''__NR_recvmsg'' ''sys_recvmsg'' ''compat_sys_recvmsg''),
     (Always, SC_COMP 213 ''__NR_readahead'' ''sys_readahead'' ''compat_sys_readahead''),
     (Always, SYSCALL 214 ''__NR_brk'' ''sys_brk''),
     (Always, SYSCALL 215 ''__NR_munmap'' ''sys_munmap''),
     (Always, SYSCALL 216 ''__NR_mremap'' ''sys_mremap''),
     (Always, SYSCALL 217 ''__NR_add_key'' ''sys_add_key''),
     (Always, SYSCALL 218 ''__NR_request_key'' ''sys_request_key''),
     (Always, SC_COMP 219 ''__NR_keyctl'' ''sys_keyctl'' ''compat_sys_keyctl''),
     (Always, SYSCALL 220 ''__NR_clone'' ''sys_clone''),
     (Always, SC_COMP 221 ''__NR_execve'' ''sys_execve'' ''compat_sys_execve''),
     (Always, SC_3264 222 ''__NR3264_mmap'' ''sys_mmap2'' ''sys_mmap''),
     (Always, SC_COMP 223 ''__NR3264_fadvise64'' ''sys_fadvise64_64'' ''compat_sys_fadvise64_64''),
     ((Undefined ''__ARCH_NOMMU''), SYSCALL 224 ''__NR_swapon'' ''sys_swapon''),
     ((Undefined ''__ARCH_NOMMU''), SYSCALL 225 ''__NR_swapoff'' ''sys_swapoff''),
     ((Undefined ''__ARCH_NOMMU''), SYSCALL 226 ''__NR_mprotect'' ''sys_mprotect''),
     ((Undefined ''__ARCH_NOMMU''), SYSCALL 227 ''__NR_msync'' ''sys_msync''),
     ((Undefined ''__ARCH_NOMMU''), SYSCALL 228 ''__NR_mlock'' ''sys_mlock''),
     ((Undefined ''__ARCH_NOMMU''), SYSCALL 229 ''__NR_munlock'' ''sys_munlock''),
     ((Undefined ''__ARCH_NOMMU''), SYSCALL 230 ''__NR_mlockall'' ''sys_mlockall''),
     ((Undefined ''__ARCH_NOMMU''), SYSCALL 231 ''__NR_munlockall'' ''sys_munlockall''),
     ((Undefined ''__ARCH_NOMMU''), SYSCALL 232 ''__NR_mincore'' ''sys_mincore''),
     ((Undefined ''__ARCH_NOMMU''), SYSCALL 233 ''__NR_madvise'' ''sys_madvise''),
     ((Undefined ''__ARCH_NOMMU''), SYSCALL 234 ''__NR_remap_file_pages'' ''sys_remap_file_pages''),
     ((Undefined ''__ARCH_NOMMU''), SYSCALL 235 ''__NR_mbind'' ''sys_mbind''),
     ((Undefined ''__ARCH_NOMMU''), SYSCALL 236 ''__NR_get_mempolicy'' ''sys_get_mempolicy''),
     ((Undefined ''__ARCH_NOMMU''), SYSCALL 237 ''__NR_set_mempolicy'' ''sys_set_mempolicy''),
     ((Undefined ''__ARCH_NOMMU''), SYSCALL 238 ''__NR_migrate_pages'' ''sys_migrate_pages''),
     ((Undefined ''__ARCH_NOMMU''), SYSCALL 239 ''__NR_move_pages'' ''sys_move_pages'')]"

definition syscalls_5 :: "(cond \<times> sc_def) list" where
  "syscalls_5 =
    [(Always, SC_COMP 240 ''__NR_rt_tgsigqueueinfo'' ''sys_rt_tgsigqueueinfo'' ''compat_sys_rt_tgsigqueueinfo''),
     (Always, SYSCALL 241 ''__NR_perf_event_open'' ''sys_perf_event_open''),
     (Always, SYSCALL 242 ''__NR_accept4'' ''sys_accept4''),
     (Time32_or_64, SC_COMP_3264 243 ''__NR_recvmmsg'' ''sys_recvmmsg_time32'' ''sys_recvmmsg'' ''compat_sys_recvmmsg_time32''),
     (Time32_or_64, SC_COMP 260 ''__NR_wait4'' ''sys_wait4'' ''compat_sys_wait4''),
     (Always, SYSCALL 261 ''__NR_prlimit64'' ''sys_prlimit64''),
     (Always, SYSCALL 262 ''__NR_fanotify_init'' ''sys_fanotify_init''),
     (Always, SYSCALL 263 ''__NR_fanotify_mark'' ''sys_fanotify_mark''),
     (Always, SYSCALL 264 ''__NR_name_to_handle_at'' ''sys_name_to_handle_at''),
     (Always, SYSCALL 265 ''__NR_open_by_handle_at'' ''sys_open_by_handle_at''),
     (Time32_or_64, SC_3264 266 ''__NR_clock_adjtime'' ''sys_clock_adjtime32'' ''sys_clock_adjtime''),
     (Always, SYSCALL 267 ''__NR_syncfs'' ''sys_syncfs''),
     (Always, SYSCALL 268 ''__NR_setns'' ''sys_setns''),
     (Always, SC_COMP 269 ''__NR_sendmmsg'' ''sys_sendmmsg'' ''compat_sys_sendmmsg''),
     (Always, SYSCALL 270 ''__NR_process_vm_readv'' ''sys_process_vm_readv''),
     (Always, SYSCALL 271 ''__NR_process_vm_writev'' ''sys_process_vm_writev''),
     (Always, SYSCALL 272 ''__NR_kcmp'' ''sys_kcmp''),
     (Always, SYSCALL 273 ''__NR_finit_module'' ''sys_finit_module''),
     (Always, SYSCALL 274 ''__NR_sched_setattr'' ''sys_sched_setattr''),
     (Always, SYSCALL 275 ''__NR_sched_getattr'' ''sys_sched_getattr''),
     (Always, SYSCALL 276 ''__NR_renameat2'' ''sys_renameat2''),
     (Always, SYSCALL 277 ''__NR_seccomp'' ''sys_seccomp''),
     (Always, SYSCALL 278 ''__NR_getrandom'' ''sys_getrandom''),
     (Always, SYSCALL 279 ''__NR_memfd_create'' ''sys_memfd_create''),
     (Always, SYSCALL 280 ''__NR_bpf'' ''sys_bpf''),
     (Always, SC_COMP 281 ''__NR_execveat'' ''sys_execveat'' ''compat_sys_execveat''),
     (Always, SYSCALL 282 ''__NR_userfaultfd'' ''sys_userfaultfd''),
     (Always, SYSCALL 283 ''__NR_membarrier'' ''sys_membarrier''),
     (Always, SYSCALL 284 ''__NR_mlock2'' ''sys_mlock2''),
     (Always, SYSCALL 285 ''__NR_copy_file_range'' ''sys_copy_file_range''),
     (Always, SC_COMP 286 ''__NR_preadv2'' ''sys_preadv2'' ''compat_sys_preadv2''),
     (Always, SC_COMP 287 ''__NR_pwritev2'' ''sys_pwritev2'' ''compat_sys_pwritev2''),
     (Always, SYSCALL 288 ''__NR_pkey_mprotect'' ''sys_pkey_mprotect''),
     (Always, SYSCALL 289 ''__NR_pkey_alloc'' ''sys_pkey_alloc''),
     (Always, SYSCALL 290 ''__NR_pkey_free'' ''sys_pkey_free''),
     (Always, SYSCALL 291 ''__NR_statx'' ''sys_statx''),
     (Time32_or_64, SC_COMP_3264 292 ''__NR_io_pgetevents'' ''sys_io_pgetevents_time32'' ''sys_io_pgetevents'' ''compat_sys_io_pgetevents''),
     (Always, SYSCALL 293 ''__NR_rseq'' ''sys_rseq''),
     (Always, SYSCALL 294 ''__NR_kexec_file_load'' ''sys_kexec_file_load''),
     (Compat_or_32, SYSCALL 403 ''__NR_clock_gettime64'' ''sys_clock_gettime''),
     (Compat_or_32, SYSCALL 404 ''__NR_clock_settime64'' ''sys_clock_settime''),
     (Compat_or_32, SYSCALL 405 ''__NR_clock_adjtime64'' ''sys_clock_adjtime''),
     (Compat_or_32, SYSCALL 406 ''__NR_clock_getres_time64'' ''sys_clock_getres''),
     (Compat_or_32, SYSCALL 407 ''__NR_clock_nanosleep_time64'' ''sys_clock_nanosleep''),
     (Compat_or_32, SYSCALL 408 ''__NR_timer_gettime64'' ''sys_timer_gettime''),
     (Compat_or_32, SYSCALL 409 ''__NR_timer_settime64'' ''sys_timer_settime''),
     (Compat_or_32, SYSCALL 410 ''__NR_timerfd_gettime64'' ''sys_timerfd_gettime''),
     (Compat_or_32, SYSCALL 411 ''__NR_timerfd_settime64'' ''sys_timerfd_settime''),
     (Compat_or_32, SYSCALL 412 ''__NR_utimensat_time64'' ''sys_utimensat''),
     (Compat_or_32, SC_COMP 413 ''__NR_pselect6_time64'' ''sys_pselect6'' ''compat_sys_pselect6_time64''),
     (Compat_or_32, SC_COMP 414 ''__NR_ppoll_time64'' ''sys_ppoll'' ''compat_sys_ppoll_time64''),
     (Compat_or_32, SC_COMP 416 ''__NR_io_pgetevents_time64'' ''sys_io_pgetevents'' ''compat_sys_io_pgetevents_time64''),
     (Compat_or_32, SC_COMP 417 ''__NR_recvmmsg_time64'' ''sys_recvmmsg'' ''compat_sys_recvmmsg_time64''),
     (Compat_or_32, SYSCALL 418 ''__NR_mq_timedsend_time64'' ''sys_mq_timedsend''),
     (Compat_or_32, SYSCALL 419 ''__NR_mq_timedreceive_time64'' ''sys_mq_timedreceive''),
     (Compat_or_32, SYSCALL 420 ''__NR_semtimedop_time64'' ''sys_semtimedop''),
     (Compat_or_32, SC_COMP 421 ''__NR_rt_sigtimedwait_time64'' ''sys_rt_sigtimedwait'' ''compat_sys_rt_sigtimedwait_time64''),
     (Compat_or_32, SYSCALL 422 ''__NR_futex_time64'' ''sys_futex''),
     (Compat_or_32, SYSCALL 423 ''__NR_sched_rr_get_interval_time64'' ''sys_sched_rr_get_interval'')]"

definition syscalls_6 :: "(cond \<times> sc_def) list" where
  "syscalls_6 =
    [(Always, SYSCALL 424 ''__NR_pidfd_send_signal'' ''sys_pidfd_send_signal''),
     (Always, SYSCALL 425 ''__NR_io_uring_setup'' ''sys_io_uring_setup''),
     (Always, SYSCALL 426 ''__NR_io_uring_enter'' ''sys_io_uring_enter''),
     (Always, SYSCALL 427 ''__NR_io_uring_register'' ''sys_io_uring_register''),
     (Always, SYSCALL 428 ''__NR_open_tree'' ''sys_open_tree''),
     (Always, SYSCALL 429 ''__NR_move_mount'' ''sys_move_mount''),
     (Always, SYSCALL 430 ''__NR_fsopen'' ''sys_fsopen''),
     (Always, SYSCALL 431 ''__NR_fsconfig'' ''sys_fsconfig''),
     (Always, SYSCALL 432 ''__NR_fsmount'' ''sys_fsmount''),
     (Always, SYSCALL 433 ''__NR_fspick'' ''sys_fspick''),
     (Always, SYSCALL 434 ''__NR_pidfd_open'' ''sys_pidfd_open''),
     ((Defined ''__ARCH_WANT_SYS_CLONE3''), SYSCALL 435 ''__NR_clone3'' ''sys_clone3''),
     (Always, SYSCALL 436 ''__NR_close_range'' ''sys_close_range''),
     (Always, SYSCALL 437 ''__NR_openat2'' ''sys_openat2''),
     (Always, SYSCALL 438 ''__NR_pidfd_getfd'' ''sys_pidfd_getfd''),
     (Always, SYSCALL 439 ''__NR_faccessat2'' ''sys_faccessat2''),
     (Always, SYSCALL 440 ''__NR_process_madvise'' ''sys_process_madvise''),
     (Always, SC_COMP 441 ''__NR_epoll_pwait2'' ''sys_epoll_pwait2'' ''compat_sys_epoll_pwait2''),
     (Always, SYSCALL 442 ''__NR_mount_setattr'' ''sys_mount_setattr''),
     (Always, SYSCALL 443 ''__NR_quotactl_fd'' ''sys_quotactl_fd''),
     (Always, SYSCALL 444 ''__NR_landlock_create_ruleset'' ''sys_landlock_create_ruleset''),
     (Always, SYSCALL 445 ''__NR_landlock_add_rule'' ''sys_landlock_add_rule''),
     (Always, SYSCALL 446 ''__NR_landlock_restrict_self'' ''sys_landlock_restrict_self''),
     ((Defined ''__ARCH_WANT_MEMFD_SECRET''), SYSCALL 447 ''__NR_memfd_secret'' ''sys_memfd_secret''),
     (Always, SYSCALL 448 ''__NR_process_mrelease'' ''sys_process_mrelease''),
     (Always, SYSCALL 449 ''__NR_futex_waitv'' ''sys_futex_waitv''),
     (Always, SYSCALL 450 ''__NR_set_mempolicy_home_node'' ''sys_set_mempolicy_home_node''),
     (Always, SYSCALL 451 ''__NR_cachestat'' ''sys_cachestat''),
     (Always, SYSCALL 452 ''__NR_fchmodat2'' ''sys_fchmodat2'')]"

definition NR_arch_specific_syscall :: nat where "NR_arch_specific_syscall = 244"
definition NR_syscalls :: nat where "NR_syscalls = 453"

definition syscalls :: "(cond \<times> sc_def) list" where
  "syscalls = syscalls_1 @ syscalls_2 @ syscalls_3 @ syscalls_4 @ syscalls_5 @ syscalls_6"

definition syscall_table :: "build \<Rightarrow> (nat \<times> string) list" where
  "syscall_table b = map (\<lambda>(c, d). (sc_nr d, sc_handler b d)) (filter (\<lambda>(c, d). enabled b c) syscalls)"

text \<open>Under which name user space reaches a number that differs between the word sizes.\<close>

definition NR_3264_names :: "build \<Rightarrow> (string \<times> string) list" where
  "NR_3264_names b =
     (if bd_bits b = 64 \<and> \<not> bd_compat b then
        [(''__NR_fcntl'', ''__NR3264_fcntl''), (''__NR_statfs'', ''__NR3264_statfs''),
         (''__NR_fstatfs'', ''__NR3264_fstatfs''), (''__NR_truncate'', ''__NR3264_truncate''),
         (''__NR_ftruncate'', ''__NR3264_ftruncate''), (''__NR_lseek'', ''__NR3264_lseek''),
         (''__NR_sendfile'', ''__NR3264_sendfile'')] @
        (if enabled b Any_stat
         then [(''__NR_newfstatat'', ''__NR3264_fstatat''), (''__NR_fstat'', ''__NR3264_fstat'')] else []) @
        [(''__NR_mmap'', ''__NR3264_mmap''), (''__NR_fadvise64'', ''__NR3264_fadvise64'')] @
        (if enabled b (Defined ''__NR3264_stat'')
         then [(''__NR_stat'', ''__NR3264_stat''), (''__NR_lstat'', ''__NR3264_lstat'')] else [])
      else
        [(''__NR_fcntl64'', ''__NR3264_fcntl''), (''__NR_statfs64'', ''__NR3264_statfs''),
         (''__NR_fstatfs64'', ''__NR3264_fstatfs''), (''__NR_truncate64'', ''__NR3264_truncate''),
         (''__NR_ftruncate64'', ''__NR3264_ftruncate''), (''__NR_llseek'', ''__NR3264_lseek''),
         (''__NR_sendfile64'', ''__NR3264_sendfile'')] @
        (if enabled b Any_stat
         then [(''__NR_fstatat64'', ''__NR3264_fstatat''), (''__NR_fstat64'', ''__NR3264_fstat'')] else []) @
        [(''__NR_mmap2'', ''__NR3264_mmap''), (''__NR_fadvise64_64'', ''__NR3264_fadvise64'')] @
        (if enabled b (Defined ''__NR3264_stat'')
         then [(''__NR_stat64'', ''__NR3264_stat''), (''__NR_lstat64'', ''__NR3264_lstat'')] else []))"

section \<open>One handler per number\<close>

text \<open>The order of the table: by number, two entries with the same number being the two sides of one
  \<open>#ifdef\<close>.\<close>

fun before :: "cond \<times> nat \<Rightarrow> cond \<times> nat \<Rightarrow> bool" where
  "before (c, n) (c', n') \<longleftrightarrow> n < n' \<or> n = n' \<and> (case (c, c') of (Defined m, Undefined m') \<Rightarrow> m = m' | _ \<Rightarrow> False)"

lemma before_transp: "transp before"
  by (rule transpI) (auto split: cond.splits)

lemma before_enabled: "before (c, n) (c', n') \<Longrightarrow> enabled b c \<Longrightarrow> enabled b c' \<Longrightarrow> n < n'"
  by (auto split: cond.splits)

text \<open>The conditions and numbers of the table, without the texts.\<close>

definition nrs :: "(cond \<times> sc_def) list \<Rightarrow> (cond \<times> nat) list" where
  "nrs = map (\<lambda>(c, d). (c, sc_nr d))"

lemma nrs_1: "nrs syscalls_1 =
    [(Always, 0), (Always, 1), (Always, 2), (Always, 3), (Time32_or_64, 4), (Always, 5), (Always, 6),
     (Always, 7), (Always, 8), (Always, 9), (Always, 10), (Always, 11), (Always, 12), (Always, 13),
     (Always, 14), (Always, 15), (Always, 16), (Always, 17), (Always, 18), (Always, 19),
     (Always, 20), (Always, 21), (Always, 22), (Always, 23), (Always, 24), (Always, 25),
     (Always, 26), (Always, 27), (Always, 28), (Always, 29), (Always, 30), (Always, 31),
     (Always, 32), (Always, 33), (Always, 34), (Always, 35), (Always, 36), (Always, 37),
     ((Defined ''__ARCH_WANT_RENAMEAT''), 38), (Always, 39), (Always, 40), (Always, 41),
     (Always, 42), (Always, 43), (Always, 44), (Always, 45), (Always, 46), (Always, 47),
     (Always, 48), (Always, 49), (Always, 50), (Always, 51), (Always, 52), (Always, 53),
     (Always, 54), (Always, 55), (Always, 56), (Always, 57), (Always, 58), (Always, 59),
     (Always, 60), (Always, 61), (Always, 62), (Always, 63), (Always, 64), (Always, 65)]"
  by (simp add: nrs_def syscalls_1_def)

lemma nrs_2: "nrs syscalls_2 =
    [(Always, 66), (Always, 67), (Always, 68), (Always, 69), (Always, 70), (Always, 71),
     (Time32_or_64, 72), (Time32_or_64, 73), (Always, 74), (Always, 75), (Always, 76), (Always, 77),
     (Always, 78), (Any_stat, 79), (Any_stat, 80), (Always, 81), (Always, 82), (Always, 83),
     ((Defined ''__ARCH_WANT_SYNC_FILE_RANGE2''), 84),
     ((Undefined ''__ARCH_WANT_SYNC_FILE_RANGE2''), 84), (Always, 85), (Time32_or_64, 86),
     (Time32_or_64, 87), (Time32_or_64, 88), (Always, 89), (Always, 90), (Always, 91), (Always, 92),
     (Always, 93), (Always, 94), (Always, 95), (Always, 96), (Always, 97), (Time32_or_64, 98),
     (Always, 99), (Always, 100), (Time32_or_64, 101), (Always, 102), (Always, 103), (Always, 104),
     (Always, 105), (Always, 106), (Always, 107), (Time32_or_64, 108), (Always, 109),
     (Time32_or_64, 110), (Always, 111), (Time32_or_64, 112), (Time32_or_64, 113),
     (Time32_or_64, 114)]"
  by (simp add: nrs_def syscalls_2_def)

lemma nrs_3: "nrs syscalls_3 =
    [(Time32_or_64, 115), (Always, 116), (Always, 117), (Always, 118), (Always, 119), (Always, 120),
     (Always, 121), (Always, 122), (Always, 123), (Always, 124), (Always, 125), (Always, 126),
     (Time32_or_64, 127), (Always, 128), (Always, 129), (Always, 130), (Always, 131), (Always, 132),
     (Always, 133), (Always, 134), (Always, 135), (Always, 136), (Time32_or_64, 137), (Always, 138),
     (Always, 139), (Always, 140), (Always, 141), (Always, 142), (Always, 143), (Always, 144),
     (Always, 145), (Always, 146), (Always, 147), (Always, 148), (Always, 149), (Always, 150),
     (Always, 151), (Always, 152), (Always, 153), (Always, 154), (Always, 155), (Always, 156),
     (Always, 157), (Always, 158), (Always, 159), (Always, 160), (Always, 161), (Always, 162),
     ((Defined ''__ARCH_WANT_SET_GET_RLIMIT''), 163),
     ((Defined ''__ARCH_WANT_SET_GET_RLIMIT''), 164), (Always, 165), (Always, 166), (Always, 167),
     (Always, 168), (Time32_or_64, 169), (Time32_or_64, 170), (Time32_or_64, 171), (Always, 172),
     (Always, 173), (Always, 174)]"
  by (simp add: nrs_def syscalls_3_def)

lemma nrs_4: "nrs syscalls_4 =
    [(Always, 175), (Always, 176), (Always, 177), (Always, 178), (Always, 179), (Always, 180),
     (Always, 181), (Time32_or_64, 182), (Time32_or_64, 183), (Always, 184), (Always, 185),
     (Always, 186), (Always, 187), (Always, 188), (Always, 189), (Always, 190), (Always, 191),
     (Time32_or_64, 192), (Always, 193), (Always, 194), (Always, 195), (Always, 196), (Always, 197),
     (Always, 198), (Always, 199), (Always, 200), (Always, 201), (Always, 202), (Always, 203),
     (Always, 204), (Always, 205), (Always, 206), (Always, 207), (Always, 208), (Always, 209),
     (Always, 210), (Always, 211), (Always, 212), (Always, 213), (Always, 214), (Always, 215),
     (Always, 216), (Always, 217), (Always, 218), (Always, 219), (Always, 220), (Always, 221),
     (Always, 222), (Always, 223), ((Undefined ''__ARCH_NOMMU''), 224),
     ((Undefined ''__ARCH_NOMMU''), 225), ((Undefined ''__ARCH_NOMMU''), 226),
     ((Undefined ''__ARCH_NOMMU''), 227), ((Undefined ''__ARCH_NOMMU''), 228),
     ((Undefined ''__ARCH_NOMMU''), 229), ((Undefined ''__ARCH_NOMMU''), 230),
     ((Undefined ''__ARCH_NOMMU''), 231), ((Undefined ''__ARCH_NOMMU''), 232),
     ((Undefined ''__ARCH_NOMMU''), 233), ((Undefined ''__ARCH_NOMMU''), 234),
     ((Undefined ''__ARCH_NOMMU''), 235), ((Undefined ''__ARCH_NOMMU''), 236),
     ((Undefined ''__ARCH_NOMMU''), 237), ((Undefined ''__ARCH_NOMMU''), 238),
     ((Undefined ''__ARCH_NOMMU''), 239)]"
  by (simp add: nrs_def syscalls_4_def)

lemma nrs_5: "nrs syscalls_5 =
    [(Always, 240), (Always, 241), (Always, 242), (Time32_or_64, 243), (Time32_or_64, 260),
     (Always, 261), (Always, 262), (Always, 263), (Always, 264), (Always, 265), (Time32_or_64, 266),
     (Always, 267), (Always, 268), (Always, 269), (Always, 270), (Always, 271), (Always, 272),
     (Always, 273), (Always, 274), (Always, 275), (Always, 276), (Always, 277), (Always, 278),
     (Always, 279), (Always, 280), (Always, 281), (Always, 282), (Always, 283), (Always, 284),
     (Always, 285), (Always, 286), (Always, 287), (Always, 288), (Always, 289), (Always, 290),
     (Always, 291), (Time32_or_64, 292), (Always, 293), (Always, 294), (Compat_or_32, 403),
     (Compat_or_32, 404), (Compat_or_32, 405), (Compat_or_32, 406), (Compat_or_32, 407),
     (Compat_or_32, 408), (Compat_or_32, 409), (Compat_or_32, 410), (Compat_or_32, 411),
     (Compat_or_32, 412), (Compat_or_32, 413), (Compat_or_32, 414), (Compat_or_32, 416),
     (Compat_or_32, 417), (Compat_or_32, 418), (Compat_or_32, 419), (Compat_or_32, 420),
     (Compat_or_32, 421), (Compat_or_32, 422), (Compat_or_32, 423)]"
  by (simp add: nrs_def syscalls_5_def)

lemma nrs_6: "nrs syscalls_6 =
    [(Always, 424), (Always, 425), (Always, 426), (Always, 427), (Always, 428), (Always, 429),
     (Always, 430), (Always, 431), (Always, 432), (Always, 433), (Always, 434),
     ((Defined ''__ARCH_WANT_SYS_CLONE3''), 435), (Always, 436), (Always, 437), (Always, 438),
     (Always, 439), (Always, 440), (Always, 441), (Always, 442), (Always, 443), (Always, 444),
     (Always, 445), (Always, 446), ((Defined ''__ARCH_WANT_MEMFD_SECRET''), 447), (Always, 448),
     (Always, 449), (Always, 450), (Always, 451), (Always, 452)]"
  by (simp add: nrs_def syscalls_6_def)

lemmas nrs_all = nrs_1 nrs_2 nrs_3 nrs_4 nrs_5 nrs_6

lemma ascends:
  "successively before (nrs syscalls_1)" "successively before (nrs syscalls_2)" "successively before (nrs syscalls_3)"
  "successively before (nrs syscalls_4)" "successively before (nrs syscalls_5)" "successively before (nrs syscalls_6)"
  by (simp_all add: nrs_all)

lemma chunk_ends:
  "hd (nrs syscalls_2) = (Always, 66)" "hd (nrs syscalls_3) = (Time32_or_64, 115)" "hd (nrs syscalls_4) = (Always, 175)"
  "hd (nrs syscalls_5) = (Always, 240)" "hd (nrs syscalls_6) = (Always, 424)"
  "last (nrs syscalls_1) = (Always, 65)" "last (nrs syscalls_2) = (Time32_or_64, 114)"
  "last (nrs syscalls_3) = (Always, 174)" "last (nrs syscalls_4) = (Undefined ''__ARCH_NOMMU'', 239)"
  "last (nrs syscalls_5) = (Compat_or_32, 423)"
  by (simp_all add: nrs_all)

lemma chunks_nonempty:
  "nrs syscalls_1 \<noteq> []" "nrs syscalls_2 \<noteq> []" "nrs syscalls_3 \<noteq> []"
  "nrs syscalls_4 \<noteq> []" "nrs syscalls_5 \<noteq> []" "nrs syscalls_6 \<noteq> []"
  by (simp_all add: nrs_all)

lemma table_ascends: "successively before (nrs syscalls)"
proof -
  have "nrs syscalls = nrs syscalls_1 @ nrs syscalls_2 @ nrs syscalls_3 @ nrs syscalls_4 @ nrs syscalls_5 @ nrs syscalls_6"
    by (simp add: syscalls_def nrs_def)
  then show ?thesis
    by (simp add: successively_append_iff ascends chunk_ends chunks_nonempty hd_append)
qed

lemma table_nrs: "map fst (syscall_table b) = map snd (filter (\<lambda>(c, n). enabled b c) (nrs syscalls))"
  by (simp add: syscall_table_def nrs_def filter_map comp_def case_prod_unfold)

lemma enabled_ascends: "sorted_wrt (<) (map fst (syscall_table b))"
proof -
  have "sorted_wrt before (filter (\<lambda>(c, n). enabled b c) (nrs syscalls))"
    using table_ascends before_transp by (simp add: successively_conv_sorted_wrt sorted_wrt_filter)
  then have "sorted_wrt (\<lambda>x y. snd x < snd y) (filter (\<lambda>(c, n). enabled b c) (nrs syscalls))"
    by (rule sorted_wrt_mono_rel [rotated]) (auto dest: before_enabled)
  then show ?thesis by (simp add: table_nrs sorted_wrt_map)
qed

text \<open>The numbers in use: the architecture's own ones and those the generic table leaves out are free.\<close>

definition nr_in_use :: "nat \<Rightarrow> bool" where
  "nr_in_use n \<longleftrightarrow> n < NR_syscalls \<and> \<not> (NR_arch_specific_syscall \<le> n \<and> n < NR_arch_specific_syscall + 16) \<and>
     \<not> (295 \<le> n \<and> n \<le> 402)"

lemma chunks_in_use:
  "list_all (nr_in_use \<circ> snd) (nrs syscalls_1)" "list_all (nr_in_use \<circ> snd) (nrs syscalls_2)"
  "list_all (nr_in_use \<circ> snd) (nrs syscalls_3)" "list_all (nr_in_use \<circ> snd) (nrs syscalls_4)"
  "list_all (nr_in_use \<circ> snd) (nrs syscalls_5)" "list_all (nr_in_use \<circ> snd) (nrs syscalls_6)"
  by (simp_all add: nrs_all nr_in_use_def NR_syscalls_def NR_arch_specific_syscall_def)

lemma table_nrs_in_use: "list_all nr_in_use (map fst (syscall_table b))"
proof -
  have "list_all (nr_in_use \<circ> snd) (nrs syscalls)"
    using chunks_in_use by (simp add: syscalls_def nrs_def)
  then show ?thesis by (auto simp: table_nrs list_all_iff)
qed

text \<open>The entries under one condition, with their handlers in a build.\<close>

definition guarded :: "cond \<Rightarrow> build \<Rightarrow> (cond \<times> sc_def) list \<Rightarrow> (nat \<times> string) list" where
  "guarded c b ds = map (\<lambda>(c', d). (sc_nr d, sc_handler b d)) (filter (\<lambda>(c', d). c' = c) ds)"

lemma time64_1:
  "guarded Compat_or_32 b syscalls_1 =
    []"
  if "\<not> bd_compat b" and "bd_bits b = 32"
  using that by (simp add: guarded_def syscalls_1_def pick_3264_def)

lemma time64_2:
  "guarded Compat_or_32 b syscalls_2 =
    []"
  if "\<not> bd_compat b" and "bd_bits b = 32"
  using that by (simp add: guarded_def syscalls_2_def pick_3264_def)

lemma time64_3:
  "guarded Compat_or_32 b syscalls_3 =
    []"
  if "\<not> bd_compat b" and "bd_bits b = 32"
  using that by (simp add: guarded_def syscalls_3_def pick_3264_def)

lemma time64_4:
  "guarded Compat_or_32 b syscalls_4 =
    []"
  if "\<not> bd_compat b" and "bd_bits b = 32"
  using that by (simp add: guarded_def syscalls_4_def pick_3264_def)

lemma time64_5:
  "guarded Compat_or_32 b syscalls_5 =
    [(403, ''sys_clock_gettime''), (404, ''sys_clock_settime''), (405, ''sys_clock_adjtime''),
     (406, ''sys_clock_getres''), (407, ''sys_clock_nanosleep''), (408, ''sys_timer_gettime''),
     (409, ''sys_timer_settime''), (410, ''sys_timerfd_gettime''), (411, ''sys_timerfd_settime''),
     (412, ''sys_utimensat''), (413, ''sys_pselect6''), (414, ''sys_ppoll''),
     (416, ''sys_io_pgetevents''), (417, ''sys_recvmmsg''), (418, ''sys_mq_timedsend''),
     (419, ''sys_mq_timedreceive''), (420, ''sys_semtimedop''), (421, ''sys_rt_sigtimedwait''),
     (422, ''sys_futex''), (423, ''sys_sched_rr_get_interval'')]"
  if "\<not> bd_compat b" and "bd_bits b = 32"
  using that by (simp add: guarded_def syscalls_5_def pick_3264_def)

lemma time64_6:
  "guarded Compat_or_32 b syscalls_6 =
    []"
  if "\<not> bd_compat b" and "bd_bits b = 32"
  using that by (simp add: guarded_def syscalls_6_def pick_3264_def)

lemma classic_1:
  "guarded Time32_or_64 b syscalls_1 =
    [(4, ''sys_io_getevents'')]"
  if "\<not> bd_compat b" and "bd_bits b = 64"
  using that by (simp add: guarded_def syscalls_1_def pick_3264_def)

lemma classic_2:
  "guarded Time32_or_64 b syscalls_2 =
    [(72, ''sys_pselect6''), (73, ''sys_ppoll''), (86, ''sys_timerfd_settime''),
     (87, ''sys_timerfd_gettime''), (88, ''sys_utimensat''), (98, ''sys_futex''),
     (101, ''sys_nanosleep''), (108, ''sys_timer_gettime''), (110, ''sys_timer_settime''),
     (112, ''sys_clock_settime''), (113, ''sys_clock_gettime''), (114, ''sys_clock_getres'')]"
  if "\<not> bd_compat b" and "bd_bits b = 64"
  using that by (simp add: guarded_def syscalls_2_def pick_3264_def)

lemma classic_3:
  "guarded Time32_or_64 b syscalls_3 =
    [(115, ''sys_clock_nanosleep''), (127, ''sys_sched_rr_get_interval''), (137, ''sys_rt_sigtimedwait''),
     (169, ''sys_gettimeofday''), (170, ''sys_settimeofday''), (171, ''sys_adjtimex'')]"
  if "\<not> bd_compat b" and "bd_bits b = 64"
  using that by (simp add: guarded_def syscalls_3_def pick_3264_def)

lemma classic_4:
  "guarded Time32_or_64 b syscalls_4 =
    [(182, ''sys_mq_timedsend''), (183, ''sys_mq_timedreceive''), (192, ''sys_semtimedop'')]"
  if "\<not> bd_compat b" and "bd_bits b = 64"
  using that by (simp add: guarded_def syscalls_4_def pick_3264_def)

lemma classic_5:
  "guarded Time32_or_64 b syscalls_5 =
    [(243, ''sys_recvmmsg''), (260, ''sys_wait4''), (266, ''sys_clock_adjtime''),
     (292, ''sys_io_pgetevents'')]"
  if "\<not> bd_compat b" and "bd_bits b = 64"
  using that by (simp add: guarded_def syscalls_5_def pick_3264_def)

lemma classic_6:
  "guarded Time32_or_64 b syscalls_6 =
    []"
  if "\<not> bd_compat b" and "bd_bits b = 64"
  using that by (simp add: guarded_def syscalls_6_def pick_3264_def)

lemma guarded_append: "guarded c b (xs @ ys) = guarded c b xs @ guarded c b ys"
  by (simp add: guarded_def)

lemma guarded_in_table: "enabled b c \<Longrightarrow> x \<in> set (guarded c b syscalls) \<Longrightarrow> x \<in> set (syscall_table b)"
  by (auto simp: guarded_def syscall_table_def)

lemma time64_range:
  "list_all (\<lambda>(c, n). 403 \<le> n \<and> n \<le> 423 \<longrightarrow> c = Compat_or_32) (nrs syscalls)"
proof -
  have "list_all (\<lambda>(c, n). 403 \<le> n \<and> n \<le> 423 \<longrightarrow> c = Compat_or_32) (nrs ds)"
    if "ds \<in> {syscalls_1, syscalls_2, syscalls_3, syscalls_4, syscalls_5, syscalls_6}" for ds
    using that by (auto simp: nrs_all)
  then show ?thesis by (simp add: syscalls_def nrs_def)
qed

lemma time64_guarded:
  assumes "(n, h) \<in> set (syscall_table b)" and "403 \<le> n" and "n \<le> 423"
  shows "(n, h) \<in> set (guarded Compat_or_32 b syscalls)"
proof -
  from assms(1) obtain c d where cd: "(c, d) \<in> set syscalls" "n = sc_nr d" "h = sc_handler b d"
    by (auto simp: syscall_table_def)
  then have "(c, n) \<in> set (nrs syscalls)" by (force simp: nrs_def)
  with time64_range assms(2,3) have "c = Compat_or_32" by (auto simp: list_all_iff)
  with cd show ?thesis by (force simp: guarded_def)
qed

lemma classic_below: "\<not> bd_compat b \<Longrightarrow> bd_bits b = 64 \<Longrightarrow> list_all (\<lambda>(n, h). n < 295) (guarded Time32_or_64 b syscalls)"
  by (simp add: syscalls_def guarded_append classic_1 classic_2 classic_3 classic_4 classic_5 classic_6)

lemma time64_among_classic:
  "\<not> bd_compat b \<Longrightarrow> bd_bits b = 32 \<Longrightarrow> \<not> bd_compat b' \<Longrightarrow> bd_bits b' = 64 \<Longrightarrow>
   list_all (\<lambda>h. h \<in> set (map snd (guarded Time32_or_64 b' syscalls))) (map snd (guarded Compat_or_32 b syscalls))"
  by (simp add: syscalls_def guarded_append time64_1 time64_2 time64_3 time64_4 time64_5 time64_6
      classic_1 classic_2 classic_3 classic_4 classic_5 classic_6)

section \<open>What the table promises\<close>

text \<open>C40. Every build of the table gives a system call number one handler: the numbers of the compiled
  entries ascend strictly, stay below \<open>__NR_syscalls\<close>, and leave free the 16 numbers of the architecture
  and the ones from 295 to 402 the comment reserves.\<close>

theorem syscall_numbers_are_unambiguous:
  "sorted_wrt (<) (map fst (syscall_table b)) \<and> distinct (map fst (syscall_table b)) \<and>
   list_all (\<lambda>n. n < NR_syscalls \<and> \<not> (NR_arch_specific_syscall \<le> n \<and> n < NR_arch_specific_syscall + 16) \<and>
     \<not> (295 \<le> n \<and> n \<le> 402)) (map fst (syscall_table b))"
  using enabled_ascends [of b] strict_sorted_iff [of "map fst (syscall_table b)"] table_nrs_in_use [of b]
  unfolding nr_in_use_def by blast

text \<open>A 32-bit program reaches the same code with its calls for 64-bit time as a 64-bit program
  with the classic ones: in a native 32-bit build the handler of every number from 403 to 423 is the
  handler a native 64-bit build gives to a number below 295.\<close>

lemma time64_calls_share_handlers:
  assumes "\<not> bd_compat b" and "bd_bits b = 32" and "\<not> bd_compat b'" and "bd_bits b' = 64"
    and "(n, h) \<in> set (syscall_table b)" and "403 \<le> n" and "n \<le> 423"
  shows "\<exists>m < 295. (m, h) \<in> set (syscall_table b')"
proof -
  from time64_guarded [OF assms(5-7)] have "h \<in> set (map snd (guarded Compat_or_32 b syscalls))" by force
  with time64_among_classic [OF assms(1-4)] have "h \<in> set (map snd (guarded Time32_or_64 b' syscalls))"
    unfolding list_all_iff by blast
  then obtain m where m: "(m, h) \<in> set (guarded Time32_or_64 b' syscalls)" by auto
  with classic_below [OF assms(3,4)] have "m < 295" by (auto simp: list_all_iff)
  moreover have "enabled b' Time32_or_64" using assms(4) by simp
  ultimately show ?thesis using guarded_in_table [OF _ m] by blast
qed

end
