(* ===== verification/C_Layout.thy ===== *)
theory C_Layout
  imports Evl_Prelude
begin

text \<open>
  How the C compiler lays out the structures the core exchanges with user space: sizes, alignments
  and member offsets under natural alignment, for a given pointer size. The bit-fields that share a
  \<open>__u32\<close> are one member.
\<close>

datatype c_type =
    C_char
  | C_u8
  | C_short
  | C_u16
  | C_u32
  | C_s32
  | C_u64
  | C_s64
  | C_int
  | C_enum
  | C_long
  | C_ulong
  | C_ptr
  | C_bits "(string \<times> nat) list"
  | C_array c_type nat
  | C_struct "(string \<times> c_type) list"
  | C_union "(string \<times> c_type) list"

definition align_up :: "nat \<Rightarrow> nat \<Rightarrow> nat" where
  "align_up n a = (n + a - 1) div a * a"

text \<open>The first argument is the size of a pointer, which is that of a \<open>long\<close>. \<open>c_end\<close> is where the last member ends.\<close>

fun c_alignof :: "nat \<Rightarrow> c_type \<Rightarrow> nat" and c_alignof_all :: "nat \<Rightarrow> (string \<times> c_type) list \<Rightarrow> nat" where
  "c_alignof p C_char = 1"
| "c_alignof p C_u8 = 1"
| "c_alignof p C_short = 2"
| "c_alignof p C_u16 = 2"
| "c_alignof p C_u32 = 4"
| "c_alignof p C_s32 = 4"
| "c_alignof p C_u64 = 8"
| "c_alignof p C_s64 = 8"
| "c_alignof p C_int = 4"
| "c_alignof p C_enum = 4"
| "c_alignof p C_long = p"
| "c_alignof p C_ulong = p"
| "c_alignof p C_ptr = p"
| "c_alignof p (C_bits fs) = 4"
| "c_alignof p (C_array t n) = c_alignof p t"
| "c_alignof p (C_struct ms) = c_alignof_all p ms"
| "c_alignof p (C_union ms) = c_alignof_all p ms"
| "c_alignof_all p [] = 1"
| "c_alignof_all p ((n, t) # ms) = max (c_alignof p t) (c_alignof_all p ms)"

fun c_sizeof :: "nat \<Rightarrow> c_type \<Rightarrow> nat"
  and c_end :: "nat \<Rightarrow> nat \<Rightarrow> (string \<times> c_type) list \<Rightarrow> nat"
  and c_widest :: "nat \<Rightarrow> (string \<times> c_type) list \<Rightarrow> nat" where
  "c_sizeof p C_char = 1"
| "c_sizeof p C_u8 = 1"
| "c_sizeof p C_short = 2"
| "c_sizeof p C_u16 = 2"
| "c_sizeof p C_u32 = 4"
| "c_sizeof p C_s32 = 4"
| "c_sizeof p C_u64 = 8"
| "c_sizeof p C_s64 = 8"
| "c_sizeof p C_int = 4"
| "c_sizeof p C_enum = 4"
| "c_sizeof p C_long = p"
| "c_sizeof p C_ulong = p"
| "c_sizeof p C_ptr = p"
| "c_sizeof p (C_bits fs) = 4"
| "c_sizeof p (C_array t n) = n * c_sizeof p t"
| "c_sizeof p (C_struct ms) = align_up (c_end p 0 ms) (c_alignof_all p ms)"
| "c_sizeof p (C_union ms) = align_up (c_widest p ms) (c_alignof_all p ms)"
| "c_end p off [] = off"
| "c_end p off ((n, t) # ms) = c_end p (align_up off (c_alignof p t) + c_sizeof p t) ms"
| "c_widest p [] = 0"
| "c_widest p ((n, t) # ms) = max (c_sizeof p t) (c_widest p ms)"

text \<open>The offset and the width of each scalar of a type that starts at \<open>off\<close>, in declaration order.\<close>

fun c_scalars :: "nat \<Rightarrow> nat \<Rightarrow> c_type \<Rightarrow> (nat \<times> nat) list"
  and c_scalars_struct :: "nat \<Rightarrow> nat \<Rightarrow> nat \<Rightarrow> (string \<times> c_type) list \<Rightarrow> (nat \<times> nat) list"
  and c_scalars_union :: "nat \<Rightarrow> nat \<Rightarrow> (string \<times> c_type) list \<Rightarrow> (nat \<times> nat) list" where
  "c_scalars p off (C_array t n) = concat (map (\<lambda>i. c_scalars p (off + i * c_sizeof p t) t) [0..<n])"
| "c_scalars p off (C_struct ms) = c_scalars_struct p off 0 ms"
| "c_scalars p off (C_union ms) = c_scalars_union p off ms"
| "c_scalars p off t = [(off, c_sizeof p t)]"
| "c_scalars_struct p base off [] = []"
| "c_scalars_struct p base off ((n, t) # ms) =
     (let o' = align_up off (c_alignof p t)
      in c_scalars p (base + o') t @ c_scalars_struct p base (o' + c_sizeof p t) ms)"
| "c_scalars_union p off [] = []"
| "c_scalars_union p off ((n, t) # ms) = c_scalars p off t @ c_scalars_union p off ms"

text \<open>The offset of a member of a structure.\<close>

fun c_offset_from :: "nat \<Rightarrow> nat \<Rightarrow> (string \<times> c_type) list \<Rightarrow> string \<Rightarrow> nat option" where
  "c_offset_from p off [] m = None"
| "c_offset_from p off ((n, t) # ms) m =
     (let o' = align_up off (c_alignof p t)
      in if n = m then Some o' else c_offset_from p (o' + c_sizeof p t) ms m)"

fun c_offsetof :: "nat \<Rightarrow> c_type \<Rightarrow> string \<Rightarrow> nat option" where
  "c_offsetof p (C_struct ms) m = c_offset_from p 0 ms m"
| "c_offsetof p t m = None"

text \<open>The offset of a member reached through a path of structure and union members; an anonymous
  member has the empty name.\<close>

fun c_path :: "nat \<Rightarrow> c_type \<Rightarrow> string list \<Rightarrow> (nat \<times> c_type) option" where
  "c_path p t [] = Some (0, t)"
| "c_path p (C_struct ms) (m # ns) =
     (case (c_offsetof p (C_struct ms) m, map_of ms m) of
        (Some o', Some t) \<Rightarrow> map_option (\<lambda>(i, t'). (o' + i, t')) (c_path p t ns)
      | _ \<Rightarrow> None)"
| "c_path p (C_union ms) (m # ns) = (case map_of ms m of Some t \<Rightarrow> c_path p t ns | None \<Rightarrow> None)"
| "c_path p t (m # ns) = None"

text \<open>A rounded offset is aligned, and not below the original one.\<close>

lemma align_up_dvd: "a dvd align_up n a"
  by (simp add: align_up_def)

lemma align_up_ge: "0 < a \<Longrightarrow> n \<le> align_up n a"
proof -
  assume a: "0 < a"
  have "(n + a - 1) mod a < a" using a by simp
  moreover have "(n + a - 1) div a * a + (n + a - 1) mod a = n + a - 1" by simp
  ultimately show ?thesis unfolding align_up_def using a by linarith
qed

lemma c_alignof_pos: "0 < p \<Longrightarrow> 0 < c_alignof p t" "0 < p \<Longrightarrow> 0 < c_alignof_all p ms"
  by (induction p t and p ms rule: c_alignof_c_alignof_all.induct) auto

lemma c_sizeof_aligned: "0 < p \<Longrightarrow> c_alignof p t dvd c_sizeof p t"
  by (induction t) (auto simp: align_up_dvd dvd_mult)

text \<open>The layout a user space program and the core have to agree on.\<close>

definition c_layout :: "nat \<Rightarrow> c_type \<Rightarrow> nat \<times> nat \<times> (nat \<times> nat) list" where
  "c_layout p t = (c_sizeof p t, c_alignof p t, c_scalars p 0 t)"

section \<open>What a layout guarantees\<close>

text \<open>A declaration the compiler takes and that reads without ambiguity: the members of a structure or
  union have different names, at every level, and the bit-fields that share a word fit it.\<close>

fun c_declarable :: "c_type \<Rightarrow> bool" and c_declarable_all :: "(string \<times> c_type) list \<Rightarrow> bool" where
  "c_declarable (C_bits fs) = (distinct (map fst fs) \<and> (\<Sum>(n, w)\<leftarrow>fs. w) \<le> 32)"
| "c_declarable (C_array t n) = c_declarable t"
| "c_declarable (C_struct ms) = (distinct (map fst ms) \<and> c_declarable_all ms)"
| "c_declarable (C_union ms) = (distinct (map fst ms) \<and> c_declarable_all ms)"
| "c_declarable t = True"
| "c_declarable_all [] = True"
| "c_declarable_all ((n, t) # ms) = (c_declarable t \<and> c_declarable_all ms)"

text \<open>A type without a byte that no member owns: every member starts where the one before ends, and the
  last one ends the structure; the members of a union have the size of the union.\<close>

fun c_packed :: "nat \<Rightarrow> c_type \<Rightarrow> bool"
  and c_packed_from :: "nat \<Rightarrow> nat \<Rightarrow> (string \<times> c_type) list \<Rightarrow> bool"
  and c_packed_at :: "nat \<Rightarrow> nat \<Rightarrow> (string \<times> c_type) list \<Rightarrow> bool" where
  "c_packed p (C_array t n) = (n = 0 \<or> c_packed p t)"
| "c_packed p (C_struct ms) = (c_packed_from p 0 ms \<and> c_end p 0 ms = c_sizeof p (C_struct ms))"
| "c_packed p (C_union ms) = c_packed_at p (c_sizeof p (C_union ms)) ms"
| "c_packed p t = True"
| "c_packed_from p off [] = True"
| "c_packed_from p off ((n, t) # ms) =
     (c_packed p t \<and> align_up off (c_alignof p t) = off \<and> c_packed_from p (off + c_sizeof p t) ms)"
| "c_packed_at p s [] = True"
| "c_packed_at p s ((n, t) # ms) = (c_packed p t \<and> c_sizeof p t = s \<and> c_packed_at p s ms)"

text \<open>Two paths that part at a structure, not at a union: their members coexist.\<close>

fun c_coexist :: "c_type \<Rightarrow> string list \<Rightarrow> string list \<Rightarrow> bool" where
  "c_coexist (C_struct ms) (a # as) (b # bs) =
     (if a = b then (case map_of ms a of Some t \<Rightarrow> c_coexist t as bs | None \<Rightarrow> False) else True)"
| "c_coexist (C_union ms) (a # as) (b # bs) =
     (if a = b then (case map_of ms a of Some t \<Rightarrow> c_coexist t as bs | None \<Rightarrow> False) else False)"
| "c_coexist t as bs = False"

text \<open>With pointers of 4 or 8 bytes an alignment is 1, 2, 4 or 8, so that the larger of two is a
  multiple of the smaller.\<close>

abbreviation ptr_size :: "nat \<Rightarrow> bool" where
  "ptr_size p \<equiv> p = 4 \<or> p = 8"

lemma c_alignof_cases:
  "ptr_size p \<Longrightarrow> c_alignof p t \<in> {1, 2, 4, 8}"
  "ptr_size p \<Longrightarrow> c_alignof_all p ms \<in> {1, 2, 4, 8}"
proof (induction p t and p ms rule: c_alignof_c_alignof_all.induct)
  case (19 p n t ms)
  then have "c_alignof p t \<in> {1, 2, 4, 8}" "c_alignof_all p ms \<in> {1, 2, 4, 8}" by blast+
  then show ?case by (auto simp: max_def)
qed auto

lemma alignments_divide:
  "a \<in> {1, 2, 4, 8} \<Longrightarrow> b \<in> {1, 2, 4, 8} \<Longrightarrow> a \<le> b \<Longrightarrow> a dvd (b :: nat)"
  by auto

lemma member_align_le: "(n, t) \<in> set ms \<Longrightarrow> c_alignof p t \<le> c_alignof_all p ms"
  by (induction ms) auto

lemma member_align_dvd:
  assumes "ptr_size p" "(n, t) \<in> set ms"
  shows "c_alignof p t dvd c_alignof_all p ms"
  using alignments_divide [OF c_alignof_cases(1) [OF assms(1)] c_alignof_cases(2) [OF assms(1)]
      member_align_le [OF assms(2)]] .

lemma c_end_ge: "0 < p \<Longrightarrow> off \<le> c_end p off ms"
proof (induction ms arbitrary: off)
  case (Cons m ms)
  obtain n t where m: "m = (n, t)" by (cases m)
  have "off \<le> align_up off (c_alignof p t)" using align_up_ge c_alignof_pos(1) Cons.prems by blast
  then show ?case using Cons.IH [OF Cons.prems, of "align_up off (c_alignof p t) + c_sizeof p t"] m by simp
qed simp

text \<open>A member is aligned, does not start before the members declared before it end, and ends within
  the structure.\<close>

lemma c_offset_from_bounds:
  assumes "0 < p"
  shows "c_offset_from p off ms m = Some o' \<Longrightarrow> map_of ms m = Some t \<Longrightarrow>
    c_alignof p t dvd o' \<and> off \<le> o' \<and> o' + c_sizeof p t \<le> c_end p off ms"
proof (induction ms arbitrary: off)
  case (Cons x ms)
  obtain n u where x: "x = (n, u)" by (cases x)
  let ?o = "align_up off (c_alignof p u)"
  have ge: "off \<le> ?o" using align_up_ge c_alignof_pos(1) [OF assms] by blast
  show ?case
  proof (cases "n = m")
    case True
    then have "o' = ?o" "t = u" using Cons.prems x by (auto simp: Let_def)
    then show ?thesis using x ge align_up_dvd c_end_ge [OF assms, of "?o + c_sizeof p u" ms] by simp
  next
    case False
    then have "c_alignof p t dvd o' \<and> ?o + c_sizeof p u \<le> o' \<and>
        o' + c_sizeof p t \<le> c_end p (?o + c_sizeof p u) ms"
      using Cons x by (simp add: Let_def)
    then show ?thesis using x ge by simp
  qed
qed simp

text \<open>Two members of a structure do not overlap.\<close>

lemma c_offset_from_disjoint:
  assumes "0 < p" "a \<noteq> b"
  shows "c_offset_from p off ms a = Some oa \<Longrightarrow> map_of ms a = Some ta \<Longrightarrow>
    c_offset_from p off ms b = Some ob \<Longrightarrow> map_of ms b = Some tb \<Longrightarrow>
    oa + c_sizeof p ta \<le> ob \<or> ob + c_sizeof p tb \<le> oa"
proof (induction ms arbitrary: off)
  case (Cons x ms)
  obtain n u where x: "x = (n, u)" by (cases x)
  let ?o = "align_up off (c_alignof p u) + c_sizeof p u"
  consider "n = a" | "n = b" | "n \<noteq> a" "n \<noteq> b" by blast
  then show ?case
  proof cases
    case 1
    then have "oa + c_sizeof p ta = ?o" "c_offset_from p ?o ms b = Some ob" "map_of ms b = Some tb"
      using Cons.prems x assms by (auto simp: Let_def)
    then show ?thesis using c_offset_from_bounds [OF assms(1)] by metis
  next
    case 2
    then have "ob + c_sizeof p tb = ?o" "c_offset_from p ?o ms a = Some oa" "map_of ms a = Some ta"
      using Cons.prems x assms by (auto simp: Let_def)
    then show ?thesis using c_offset_from_bounds [OF assms(1)] by metis
  next
    case 3
    then show ?thesis using Cons x by (simp add: Let_def)
  qed
qed simp

lemma c_widest_ge: "map_of ms m = Some t \<Longrightarrow> c_sizeof p t \<le> c_widest p ms"
  by (induction ms) (auto split: if_splits)

lemma c_struct_size_ge: "0 < p \<Longrightarrow> c_end p 0 ms \<le> c_sizeof p (C_struct ms)"
  using align_up_ge c_alignof_pos(2) by simp

lemma c_union_size_ge: "0 < p \<Longrightarrow> c_widest p ms \<le> c_sizeof p (C_union ms)"
  using align_up_ge c_alignof_pos(2) by simp

text \<open>The steps of a path: into a member of a structure, or of a union.\<close>

lemma c_path_struct_step:
  assumes "0 < p" "c_path p (C_struct ms) (m # ns) = Some (o', t')"
  obtains off t i where "c_offset_from p 0 ms m = Some off" "map_of ms m = Some t"
    "c_path p t ns = Some (i, t')" "o' = off + i" "c_alignof p t dvd off"
    "off + c_sizeof p t \<le> c_sizeof p (C_struct ms)"
proof -
  obtain off t i where s: "c_offset_from p 0 ms m = Some off" "map_of ms m = Some t"
      "c_path p t ns = Some (i, t')" "o' = off + i"
    using assms(2) by (auto split: option.splits)
  show thesis
    using that [OF s] c_offset_from_bounds [OF assms(1) s(1,2)] c_struct_size_ge [OF assms(1), of ms]
    by linarith
qed

text \<open>Whatever a path reaches is aligned and inside the object it starts from.\<close>

lemma c_path_in_object:
  assumes p: "ptr_size p"
  shows "c_path p t ns = Some (o', t') \<Longrightarrow>
    c_alignof p t' dvd c_alignof p t \<and> c_alignof p t' dvd o' \<and> o' + c_sizeof p t' \<le> c_sizeof p t"
proof (induction ns arbitrary: t o')
  case (Cons m ns)
  have pos: "0 < p" using p by auto
  show ?case
  proof (cases t)
    case (C_struct ms)
    obtain off u i where s: "c_offset_from p 0 ms m = Some off" "map_of ms m = Some u"
        "c_path p u ns = Some (i, t')" "o' = off + i" "c_alignof p u dvd off"
        "off + c_sizeof p u \<le> c_sizeof p (C_struct ms)"
      using c_path_struct_step [OF pos] Cons.prems C_struct by metis
    have IH: "c_alignof p t' dvd c_alignof p u" "c_alignof p t' dvd i" "i + c_sizeof p t' \<le> c_sizeof p u"
      using Cons.IH [OF s(3)] by auto
    have "c_alignof p u dvd c_alignof p t"
      using member_align_dvd [OF p map_of_SomeD [OF s(2)]] C_struct by simp
    then have "c_alignof p t' dvd c_alignof p t" using IH(1) dvd_trans by blast
    moreover have "c_alignof p t' dvd o'" using s(4,5) IH(1,2) dvd_trans dvd_add by metis
    moreover have "o' + c_sizeof p t' \<le> c_sizeof p (C_struct ms)" using s(4,6) IH(3) by linarith
    ultimately show ?thesis unfolding C_struct by blast
  next
    case (C_union ms)
    then obtain u where s: "map_of ms m = Some u" "c_path p u ns = Some (o', t')"
      using Cons.prems by (auto split: option.splits)
    have IH: "c_alignof p t' dvd c_alignof p u" "c_alignof p t' dvd o'" "o' + c_sizeof p t' \<le> c_sizeof p u"
      using Cons.IH [OF s(2)] by auto
    have "c_alignof p u dvd c_alignof p t"
      using member_align_dvd [OF p map_of_SomeD [OF s(1)]] C_union by simp
    then show ?thesis
      using IH dvd_trans c_widest_ge [OF s(1), of p] c_union_size_ge [OF pos, of ms] C_union by fastforce
  qed (use Cons.prems in auto)
qed simp

text \<open>Members that coexist do not overlap, at whatever depth they are.\<close>

lemma c_coexist_disjoint:
  assumes p: "ptr_size p"
  shows "c_coexist t as bs \<Longrightarrow> c_path p t as = Some (oa, ta) \<Longrightarrow> c_path p t bs = Some (ob, tb) \<Longrightarrow>
    oa + c_sizeof p ta \<le> ob \<or> ob + c_sizeof p tb \<le> oa"
proof (induction t as bs arbitrary: oa ob rule: c_coexist.induct)
  case (1 ms a as b bs)
  have pos: "0 < p" using p by auto
  obtain o1 t1 i where a: "c_offset_from p 0 ms a = Some o1" "map_of ms a = Some t1"
      "c_path p t1 as = Some (i, ta)" "oa = o1 + i"
    using c_path_struct_step [OF pos 1(3)] by metis
  obtain o2 t2 j where b: "c_offset_from p 0 ms b = Some o2" "map_of ms b = Some t2"
      "c_path p t2 bs = Some (j, tb)" "ob = o2 + j"
    using c_path_struct_step [OF pos 1(4)] by metis
  show ?case
  proof (cases "a = b")
    case True
    then have "i + c_sizeof p ta \<le> j \<or> j + c_sizeof p tb \<le> i"
      using 1(1) [of t1 i j] 1(2) a b by auto
    then show ?thesis using True a b by auto
  next
    case False
    show ?thesis
      using c_offset_from_disjoint [OF pos False a(1,2) b(1,2)] a(4) b(4)
        c_path_in_object [OF p a(3)] c_path_in_object [OF p b(3)] by linarith
  qed
next
  case (2 ms a as b bs)
  then show ?case by (auto split: if_splits option.splits)
qed auto

section \<open>Bytes and members\<close>

text \<open>Byte \<open>i\<close> of an object belongs to a scalar, whichever members of its unions are in use.\<close>

fun c_covers :: "nat \<Rightarrow> c_type \<Rightarrow> nat \<Rightarrow> bool"
  and c_covers_from :: "nat \<Rightarrow> nat \<Rightarrow> (string \<times> c_type) list \<Rightarrow> nat \<Rightarrow> bool"
  and c_covers_all :: "nat \<Rightarrow> (string \<times> c_type) list \<Rightarrow> nat \<Rightarrow> bool" where
  "c_covers p (C_array t n) i = (i < n * c_sizeof p t \<and> c_covers p t (i mod c_sizeof p t))"
| "c_covers p (C_struct ms) i = c_covers_from p 0 ms i"
| "c_covers p (C_union ms) i = c_covers_all p ms i"
| "c_covers p t i = (i < c_sizeof p t)"
| "c_covers_from p off [] i = False"
| "c_covers_from p off ((n, t) # ms) i =
     (let o' = align_up off (c_alignof p t)
      in o' \<le> i \<and> i < o' + c_sizeof p t \<and> c_covers p t (i - o') \<or> c_covers_from p (o' + c_sizeof p t) ms i)"
| "c_covers_all p [] i = True"
| "c_covers_all p ((n, t) # ms) i = (i < c_sizeof p t \<and> c_covers p t i \<and> c_covers_all p ms i)"

lemma c_covers_from_range:
  assumes "0 < p"
  shows "c_covers_from p off ms i \<Longrightarrow> off \<le> i \<and> i < c_end p off ms"
proof (induction ms arbitrary: off)
  case (Cons m ms)
  obtain n t where m: "m = (n, t)" by (cases m)
  let ?o = "align_up off (c_alignof p t)"
  have "off \<le> ?o" using align_up_ge c_alignof_pos(1) [OF assms] by blast
  moreover have "?o + c_sizeof p t \<le> c_end p (?o + c_sizeof p t) ms" by (rule c_end_ge [OF assms])
  ultimately show ?case
    using Cons.prems Cons.IH [of "?o + c_sizeof p t"] by (auto simp: m Let_def)
qed simp

lemma packed_from_step:
  assumes p: "0 < p" and t: "c_packed p t \<longleftrightarrow> (\<forall>i < c_sizeof p t. c_covers p t i)"
    and ms: "c_packed_from p (off + c_sizeof p t) ms \<longleftrightarrow>
      (\<forall>i. off + c_sizeof p t \<le> i \<and> i < c_end p (off + c_sizeof p t) ms \<longrightarrow> c_covers_from p (off + c_sizeof p t) ms i)"
  shows "c_packed_from p off ((n, t) # ms) \<longleftrightarrow>
    (\<forall>i. off \<le> i \<and> i < c_end p off ((n, t) # ms) \<longrightarrow> c_covers_from p off ((n, t) # ms) i)"
proof (cases "align_up off (c_alignof p t) = off")
  case True
  let ?m = "off + c_sizeof p t"
  have m: "?m \<le> c_end p ?m ms" by (rule c_end_ge [OF p])
  have rest: "c_covers_from p ?m ms i \<Longrightarrow> ?m \<le> i" for i using c_covers_from_range [OF p] by blast
  have split: "(\<forall>i. off \<le> i \<and> i < e \<longrightarrow> off \<le> i \<and> i < ?m \<and> P (i - off) \<or> B i) \<longleftrightarrow>
      (\<forall>j < c_sizeof p t. P j) \<and> (\<forall>i. ?m \<le> i \<and> i < e \<longrightarrow> B i)"
    if "?m \<le> e" "\<And>i. B i \<Longrightarrow> ?m \<le> i" for e P B
  proof (intro iffI conjI allI impI)
    fix j assume "\<forall>i. off \<le> i \<and> i < e \<longrightarrow> off \<le> i \<and> i < ?m \<and> P (i - off) \<or> B i" "j < c_sizeof p t"
    with that(1) have "P (off + j - off) \<or> B (off + j)" by (metis add_less_cancel_left le_add1 less_le_trans)
    with that(2) [of "off + j"] \<open>j < c_sizeof p t\<close> show "P j" by auto
  next
    fix i assume "\<forall>i. off \<le> i \<and> i < e \<longrightarrow> off \<le> i \<and> i < ?m \<and> P (i - off) \<or> B i" "?m \<le> i \<and> i < e"
    then show "B i" by (metis add_leD1 not_le)
  next
    fix i assume "(\<forall>j < c_sizeof p t. P j) \<and> (\<forall>i. ?m \<le> i \<and> i < e \<longrightarrow> B i)" "off \<le> i \<and> i < e"
    then show "off \<le> i \<and> i < ?m \<and> P (i - off) \<or> B i" by (cases "i < ?m") auto
  qed
  show ?thesis
    unfolding c_packed_from.simps t ms c_end.simps c_covers_from.simps Let_def True
    by (subst split [OF m rest]) simp_all
next
  case False
  let ?o = "align_up off (c_alignof p t)"
  have o: "off < ?o" using False align_up_ge [of "c_alignof p t" off] c_alignof_pos(1) [OF p] by (simp add: le_neq_implies_less)
  have "\<not> c_covers_from p off ((n, t) # ms) off"
    using o c_covers_from_range [OF p, of "?o + c_sizeof p t" ms off] by (auto simp: Let_def)
  moreover have "off < c_end p off ((n, t) # ms)"
    using o c_end_ge [OF p, of "?o + c_sizeof p t" ms] by simp
  ultimately show ?thesis using False by auto
qed

text \<open>A type is packed exactly when every byte belongs to a member.\<close>

lemma c_packed_iff_covered:
  "0 < p \<Longrightarrow> c_packed p t \<longleftrightarrow> (\<forall>i < c_sizeof p t. c_covers p t i)"
  "0 < p \<Longrightarrow> c_packed_from p off ms \<longleftrightarrow> (\<forall>i. off \<le> i \<and> i < c_end p off ms \<longrightarrow> c_covers_from p off ms i)"
  "0 < p \<Longrightarrow> (\<forall>(n, t) \<in> set ms. c_sizeof p t \<le> sz) \<Longrightarrow> c_packed_at p sz ms \<longleftrightarrow> (\<forall>i < sz. c_covers_all p ms i)"
proof (induction p t and p off ms and p sz ms rule: c_packed_c_packed_from_c_packed_at.induct)
  case (1 p t n)
  have "(\<forall>i < n * c_sizeof p t. c_covers p t (i mod c_sizeof p t)) \<longleftrightarrow> n = 0 \<or> (\<forall>i < c_sizeof p t. c_covers p t i)"
  proof (cases "n = 0")
    case False
    have "i < c_sizeof p t \<Longrightarrow> i < n * c_sizeof p t" for i
      using False by (cases n) auto
    moreover have "i < n * c_sizeof p t \<Longrightarrow> i mod c_sizeof p t < c_sizeof p t" for i
      by (cases "c_sizeof p t") auto
    ultimately show ?thesis using False by (metis mod_less)
  qed simp
  with 1 show ?case by simp
next
  case (2 p ms)
  have le: "c_end p 0 ms \<le> c_sizeof p (C_struct ms)" by (rule c_struct_size_ge [OF 2(2)])
  have "\<not> c_covers_from p 0 ms (c_end p 0 ms)" using c_covers_from_range [OF 2(2)] by blast
  then show ?case
    using 2 le unfolding c_packed.simps c_covers.simps by (metis le0 le_neq_implies_less)
next
  case (3 p ms)
  have "\<forall>(n, t) \<in> set ms. c_sizeof p t \<le> c_sizeof p (C_union ms)"
  proof clarify
    fix n t assume "(n, t) \<in> set ms"
    then have "c_sizeof p t \<le> c_widest p ms" by (induction ms) auto
    with c_union_size_ge [OF 3(2), of ms] show "c_sizeof p t \<le> c_sizeof p (C_union ms)" by linarith
  qed
  with 3 show ?case unfolding c_packed.simps c_covers.simps by blast
next
  case (6 p off n t ms)
  then show ?case using packed_from_step [OF 6(3) 6(1)] by simp
next
  case (8 p sz n t ms)
  have t: "c_packed p t \<longleftrightarrow> (\<forall>i < c_sizeof p t. c_covers p t i)" and le: "c_sizeof p t \<le> sz"
    and ms: "c_packed_at p sz ms \<longleftrightarrow> (\<forall>i < sz. c_covers_all p ms i)"
    using 8 by auto
  have "c_sizeof p t = sz" if "\<forall>i < sz. i < c_sizeof p t"
    using that le by (metis le_neq_implies_less less_irrefl)
  then show ?case unfolding c_packed_at.simps c_covers_all.simps t ms using le by blast
qed auto

section \<open>Types that do not depend on the size of a pointer\<close>

text \<open>No \<open>long\<close> and no pointer at any level, except as members of the unions \<open>U\<close>.\<close>

fun c_fixed :: "c_type list \<Rightarrow> c_type \<Rightarrow> bool" and c_fixed_all :: "c_type list \<Rightarrow> (string \<times> c_type) list \<Rightarrow> bool" where
  "c_fixed U C_long = False"
| "c_fixed U C_ulong = False"
| "c_fixed U C_ptr = False"
| "c_fixed U (C_array t n) = c_fixed U t"
| "c_fixed U (C_struct ms) = c_fixed_all U ms"
| "c_fixed U (C_union ms) = (C_union ms \<in> set U \<or> c_fixed_all U ms)"
| "c_fixed U t = True"
| "c_fixed_all U [] = True"
| "c_fixed_all U ((n, t) # ms) = (c_fixed U t \<and> c_fixed_all U ms)"

text \<open>A union whose pointers hide behind members that are at least as wide.\<close>

definition hides_pointers :: "c_type list \<Rightarrow> c_type \<Rightarrow> bool" where
  "hides_pointers U u \<longleftrightarrow> (\<exists>ms. u = C_union ms \<and> list_all (\<lambda>(n, t). t = C_ptr \<or> c_fixed U t) ms) \<and>
     c_sizeof 4 u = c_sizeof 8 u \<and> c_alignof 4 u = c_alignof 8 u"

lemma c_fixed_same:
  assumes "list_all (hides_pointers U) U"
  shows "c_fixed U t \<Longrightarrow> c_sizeof 4 t = c_sizeof 8 t \<and> c_alignof 4 t = c_alignof 8 t"
    and "c_fixed_all U ms \<Longrightarrow> c_alignof_all 4 ms = c_alignof_all 8 ms \<and> c_widest 4 ms = c_widest 8 ms \<and>
      (\<forall>off. c_end 4 off ms = c_end 8 off ms)"
proof (induction t and ms rule: c_declarable_c_declarable_all.induct)
  case (4 ms)
  show ?case
  proof (cases "C_union ms \<in> set U")
    case True
    with assms show ?thesis by (auto simp: list_all_iff hides_pointers_def)
  next
    case False
    with 4 show ?thesis by simp
  qed
qed auto

lemma c_offset_from_same:
  assumes "list_all (hides_pointers U) U"
  shows "c_fixed_all U ms \<Longrightarrow> c_offset_from 4 off ms m = c_offset_from 8 off ms m"
proof (induction ms arbitrary: off)
  case (Cons x ms)
  obtain n t where x: "x = (n, t)" by (cases x)
  with Cons c_fixed_same(1) [OF assms, of t] show ?case by (simp add: Let_def)
qed simp

lemma c_fixed_member: "c_fixed_all U ms \<Longrightarrow> map_of ms m = Some t \<Longrightarrow> c_fixed U t"
  by (induction ms) (auto split: if_splits)

lemma c_path_ptr: "c_path p C_ptr ns = Some (o', t') \<longleftrightarrow> ns = [] \<and> o' = 0 \<and> t' = C_ptr"
  by (cases ns) auto

text \<open>A path leads to the same place for both sizes of a pointer, and to something as wide, unless it ends at
  a pointer of one of the unions.\<close>

lemma c_path_same:
  assumes U: "list_all (hides_pointers U) U"
  shows "c_fixed U t \<Longrightarrow> c_path 4 t ns = c_path 8 t ns \<and>
    (\<forall>o' t'. c_path 8 t ns = Some (o', t') \<longrightarrow> c_sizeof 4 t' = c_sizeof 8 t' \<or>
       t' = C_ptr \<and> ns \<noteq> [] \<and> (\<exists>u \<in> set U. c_path 8 t (butlast ns) = Some (o', u)))"
proof (induction ns arbitrary: t)
  case Nil
  then show ?case using c_fixed_same(1) [OF U] by simp
next
  case (Cons m ns)
  show ?case
  proof (cases t)
    case (C_struct ms)
    with Cons.prems have fixed: "c_fixed_all U ms" by simp
    show ?thesis
    proof (cases "map_of ms m")
      case None
      then show ?thesis by (simp add: C_struct split: option.split)
    next
      case (Some u)
      note IH = Cons.IH [OF c_fixed_member [OF fixed Some]]
      show ?thesis
        using IH by (cases "ns = []") (auto simp: C_struct Some c_offset_from_same [OF U fixed] split: option.split)
    qed
  next
    case (C_union ms)
    show ?thesis
    proof (cases "map_of ms m")
      case None
      then show ?thesis by (simp add: C_union)
    next
      case (Some u)
      show ?thesis
      proof (cases "c_fixed U u")
        case True
        from Cons.IH [OF this] show ?thesis by (cases "ns = []") (auto simp: C_union Some)
      next
        case False
        then have "\<not> c_fixed_all U ms" using c_fixed_member Some by blast
        with Cons.prems C_union have "C_union ms \<in> set U" by simp
        moreover from this U have "\<forall>(n, t) \<in> set ms. t = C_ptr \<or> c_fixed U t"
          by (fastforce simp: list_all_iff hides_pointers_def)
        with False map_of_SomeD [OF Some] have "u = C_ptr" by auto
        ultimately show ?thesis by (auto simp: C_union Some c_path_ptr) (cases ns; simp)+
      qed
    qed
  qed simp_all
qed

end
