(* ===== verification/Linux_Layout.thy ===== *)
theory Linux_Layout
  imports C_Layout
begin

text \<open>
  The structures of \<open>include/uapi/asm-generic\<close> the kernel exchanges with user space besides the core's
  own: \<open>posix_types.h\<close>, \<open>int-ll64.h\<close>, \<open>siginfo.h\<close>, \<open>signal.h\<close>, \<open>stat.h\<close>, \<open>statfs.h\<close>, \<open>ipcbuf.h\<close>, \<open>msgbuf.h\<close>,
  \<open>sembuf.h\<close>, \<open>shmbuf.h\<close>, \<open>termbits.h\<close>, \<open>termios.h\<close>, \<open>poll.h\<close>, \<open>fcntl.h\<close> and \<open>ucontext.h\<close>, with the default of each
  \<open>__ARCH_\<close> macro. What depends on \<open>__BITS_PER_LONG\<close> depends on the pointer size \<open>p\<close>, in bytes.
\<close>

section \<open>Types\<close>

definition BITS_PER_LONG :: "nat \<Rightarrow> nat" where "BITS_PER_LONG p = 8 * p"

definition int_s8 :: c_type where "int_s8 = C_char"
definition int_u8 :: c_type where "int_u8 = C_u8"
definition int_s16 :: c_type where "int_s16 = C_short"
definition int_u16 :: c_type where "int_u16 = C_u16"
definition int_s32 :: c_type where "int_s32 = C_s32"
definition int_u32 :: c_type where "int_u32 = C_u32"
definition int_s64 :: c_type where "int_s64 = C_s64"
definition int_u64 :: c_type where "int_u64 = C_u64"

definition kernel_long_t :: c_type where "kernel_long_t = C_long"
definition kernel_ulong_t :: c_type where "kernel_ulong_t = C_ulong"
definition kernel_ino_t :: c_type where "kernel_ino_t = kernel_ulong_t"
definition kernel_mode_t :: c_type where "kernel_mode_t = C_u32"
definition kernel_pid_t :: c_type where "kernel_pid_t = C_int"
definition kernel_ipc_pid_t :: c_type where "kernel_ipc_pid_t = C_int"
definition kernel_uid_t :: c_type where "kernel_uid_t = C_u32"
definition kernel_gid_t :: c_type where "kernel_gid_t = C_u32"
definition kernel_suseconds_t :: c_type where "kernel_suseconds_t = kernel_long_t"
definition kernel_daddr_t :: c_type where "kernel_daddr_t = C_int"
definition kernel_uid32_t :: c_type where "kernel_uid32_t = C_u32"
definition kernel_gid32_t :: c_type where "kernel_gid32_t = C_u32"
definition kernel_old_uid_t :: c_type where "kernel_old_uid_t = kernel_uid_t"
definition kernel_old_gid_t :: c_type where "kernel_old_gid_t = kernel_gid_t"
definition kernel_old_dev_t :: c_type where "kernel_old_dev_t = C_u32"
definition kernel_size_t :: "nat \<Rightarrow> c_type" where
  "kernel_size_t p = (if BITS_PER_LONG p \<noteq> 64 then C_u32 else kernel_ulong_t)"
definition kernel_ssize_t :: "nat \<Rightarrow> c_type" where
  "kernel_ssize_t p = (if BITS_PER_LONG p \<noteq> 64 then C_int else kernel_long_t)"
definition kernel_ptrdiff_t :: "nat \<Rightarrow> c_type" where
  "kernel_ptrdiff_t p = (if BITS_PER_LONG p \<noteq> 64 then C_int else kernel_long_t)"
definition kernel_fsid_t :: c_type where "kernel_fsid_t = C_struct [(''val'', C_array C_int 2)]"
definition kernel_off_t :: c_type where "kernel_off_t = kernel_long_t"
definition kernel_loff_t :: c_type where "kernel_loff_t = C_s64"
definition kernel_old_time_t :: c_type where "kernel_old_time_t = kernel_long_t"
definition kernel_time_t :: c_type where "kernel_time_t = kernel_long_t"
definition kernel_time64_t :: c_type where "kernel_time64_t = C_s64"
definition kernel_clock_t :: c_type where "kernel_clock_t = kernel_long_t"
definition kernel_timer_t :: c_type where "kernel_timer_t = C_int"
definition kernel_clockid_t :: c_type where "kernel_clockid_t = C_int"
definition kernel_caddr_t :: c_type where "kernel_caddr_t = C_ptr"
definition kernel_uid16_t :: c_type where "kernel_uid16_t = C_u16"
definition kernel_gid16_t :: c_type where "kernel_gid16_t = C_u16"

lemmas kernel_types = int_s8_def int_u8_def int_s16_def int_u16_def int_s32_def int_u32_def int_s64_def int_u64_def
  kernel_long_t_def kernel_ulong_t_def kernel_ino_t_def kernel_mode_t_def kernel_pid_t_def kernel_uid_t_def
  kernel_gid_t_def kernel_uid32_t_def kernel_gid32_t_def kernel_size_t_def kernel_fsid_t_def kernel_off_t_def
  kernel_loff_t_def kernel_clock_t_def kernel_timer_t_def BITS_PER_LONG_def

section \<open>Signal information\<close>

definition sigval :: c_type where
  "sigval = C_union [(''sival_int'', C_int), (''sival_ptr'', C_ptr)]"

definition SI_MAX_SIZE :: nat where "SI_MAX_SIZE = 128"
definition ARCH_SI_BAND_T :: c_type where "ARCH_SI_BAND_T = C_long"
definition ARCH_SI_CLOCK_T :: c_type where "ARCH_SI_CLOCK_T = kernel_clock_t"

definition ADDR_BND_PKEY_PAD :: "nat \<Rightarrow> nat" where
  "ADDR_BND_PKEY_PAD p = (if c_alignof p C_ptr < c_sizeof p C_short then c_sizeof p C_short else c_alignof p C_ptr)"

definition sifields_kill :: c_type where
  "sifields_kill = C_struct [(''_pid'', kernel_pid_t), (''_uid'', kernel_uid32_t)]"

definition sifields_timer :: c_type where
  "sifields_timer = C_struct
     [(''_tid'', kernel_timer_t), (''_overrun'', C_int), (''_sigval'', sigval), (''_sys_private'', C_int)]"

definition sifields_rt :: c_type where
  "sifields_rt = C_struct [(''_pid'', kernel_pid_t), (''_uid'', kernel_uid32_t), (''_sigval'', sigval)]"

definition sifields_sigchld :: c_type where
  "sifields_sigchld = C_struct
     [(''_pid'', kernel_pid_t), (''_uid'', kernel_uid32_t), (''_status'', C_int),
      (''_utime'', ARCH_SI_CLOCK_T), (''_stime'', ARCH_SI_CLOCK_T)]"

definition sifields_sigfault :: "nat \<Rightarrow> c_type" where
  "sifields_sigfault p = C_struct
     [(''_addr'', C_ptr),
      ([], C_union
        [(''_trapno'', C_int),
         (''_addr_lsb'', C_short),
         (''_addr_bnd'', C_struct
            [(''_dummy_bnd'', C_array C_char (ADDR_BND_PKEY_PAD p)), (''_lower'', C_ptr), (''_upper'', C_ptr)]),
         (''_addr_pkey'', C_struct [(''_dummy_pkey'', C_array C_char (ADDR_BND_PKEY_PAD p)), (''_pkey'', C_u32)]),
         (''_perf'', C_struct [(''_data'', C_ulong), (''_type'', C_u32), (''_flags'', C_u32)])])]"

definition sifields_sigpoll :: c_type where
  "sifields_sigpoll = C_struct [(''_band'', ARCH_SI_BAND_T), (''_fd'', C_int)]"

definition sifields_sigsys :: c_type where
  "sifields_sigsys = C_struct [(''_call_addr'', C_ptr), (''_syscall'', C_int), (''_arch'', C_u32)]"

definition sifields :: "nat \<Rightarrow> c_type" where
  "sifields p = C_union
     [(''_kill'', sifields_kill), (''_timer'', sifields_timer), (''_rt'', sifields_rt),
      (''_sigchld'', sifields_sigchld), (''_sigfault'', sifields_sigfault p), (''_sigpoll'', sifields_sigpoll),
      (''_sigsys'', sifields_sigsys)]"

definition siginfo_body :: "nat \<Rightarrow> bool \<Rightarrow> c_type" where
  "siginfo_body p swapped = C_struct
     (if \<not> swapped
      then [(''si_signo'', C_int), (''si_errno'', C_int), (''si_code'', C_int), (''_sifields'', sifields p)]
      else [(''si_signo'', C_int), (''si_code'', C_int), (''si_errno'', C_int), (''_sifields'', sifields p)])"

definition siginfo :: "nat \<Rightarrow> bool \<Rightarrow> c_type" where
  "siginfo p swapped = C_struct
     [([], C_union [([], siginfo_body p swapped), (''_si_pad'', C_array C_int (SI_MAX_SIZE div c_sizeof p C_int))])]"

text \<open>The macros that give access to the members.\<close>

definition si_macros :: "(string \<times> string list) list" where
  "si_macros =
    [(''si_pid'', [''_kill'', ''_pid'']), (''si_uid'', [''_kill'', ''_uid'']),
     (''si_tid'', [''_timer'', ''_tid'']), (''si_overrun'', [''_timer'', ''_overrun'']),
     (''si_sys_private'', [''_timer'', ''_sys_private'']), (''si_status'', [''_sigchld'', ''_status'']),
     (''si_utime'', [''_sigchld'', ''_utime'']), (''si_stime'', [''_sigchld'', ''_stime'']),
     (''si_value'', [''_rt'', ''_sigval'']), (''si_int'', [''_rt'', ''_sigval'', ''sival_int'']),
     (''si_ptr'', [''_rt'', ''_sigval'', ''sival_ptr'']), (''si_addr'', [''_sigfault'', ''_addr'']),
     (''si_trapno'', [''_sigfault'', [], ''_trapno'']), (''si_addr_lsb'', [''_sigfault'', [], ''_addr_lsb'']),
     (''si_lower'', [''_sigfault'', [], ''_addr_bnd'', ''_lower'']),
     (''si_upper'', [''_sigfault'', [], ''_addr_bnd'', ''_upper'']),
     (''si_pkey'', [''_sigfault'', [], ''_addr_pkey'', ''_pkey'']),
     (''si_perf_data'', [''_sigfault'', [], ''_perf'', ''_data'']),
     (''si_perf_type'', [''_sigfault'', [], ''_perf'', ''_type'']),
     (''si_perf_flags'', [''_sigfault'', [], ''_perf'', ''_flags'']),
     (''si_band'', [''_sigpoll'', ''_band'']), (''si_fd'', [''_sigpoll'', ''_fd'']),
     (''si_call_addr'', [''_sigsys'', ''_call_addr'']), (''si_syscall'', [''_sigsys'', ''_syscall'']),
     (''si_arch'', [''_sigsys'', ''_arch''])]"

definition si_offset :: "nat \<Rightarrow> bool \<Rightarrow> string \<Rightarrow> nat option" where
  "si_offset p swapped m =
     (case map_of si_macros m of
        None \<Rightarrow> None
      | Some path \<Rightarrow> map_option fst (c_path p (siginfo p swapped) ([] # [] # ''_sifields'' # path)))"

section \<open>Signal events, sets, actions and stacks\<close>

definition ARCH_SIGEV_PREAMBLE_SIZE :: "nat \<Rightarrow> nat" where
  "ARCH_SIGEV_PREAMBLE_SIZE p = c_sizeof p C_int * 2 + c_sizeof p sigval"

definition SIGEV_MAX_SIZE :: nat where "SIGEV_MAX_SIZE = 64"

definition SIGEV_PAD_SIZE :: "nat \<Rightarrow> nat" where
  "SIGEV_PAD_SIZE p = (SIGEV_MAX_SIZE - ARCH_SIGEV_PREAMBLE_SIZE p) div c_sizeof p C_int"

definition sigevent :: "nat \<Rightarrow> c_type" where
  "sigevent p = C_struct
     [(''sigev_value'', sigval), (''sigev_signo'', C_int), (''sigev_notify'', C_int),
      (''_sigev_un'', C_union
        [(''_pad'', C_array C_int (SIGEV_PAD_SIZE p)), (''_tid'', C_int),
         (''_sigev_thread'', C_struct [(''_function'', C_ptr), (''_attribute'', C_ptr)])])]"

text \<open>The macros that name the members of its union, with their paths.\<close>

definition sigev_macros :: "(string \<times> string list) list" where
  "sigev_macros =
    [(''sigev_notify_function'', [''_sigev_un'', ''_sigev_thread'', ''_function'']),
     (''sigev_notify_attributes'', [''_sigev_un'', ''_sigev_thread'', ''_attribute'']),
     (''sigev_notify_thread_id'', [''_sigev_un'', ''_tid''])]"

definition NSIG :: nat where "NSIG = 64"
definition NSIG_BPW :: "nat \<Rightarrow> nat" where "NSIG_BPW p = BITS_PER_LONG p"
definition NSIG_WORDS :: "nat \<Rightarrow> nat" where "NSIG_WORDS p = NSIG div NSIG_BPW p"

definition sigset :: "nat \<Rightarrow> c_type" where
  "sigset p = C_struct [(''sig'', C_array C_ulong (NSIG_WORDS p))]"

definition old_sigset :: c_type where "old_sigset = C_ulong"

definition sigaction :: "nat \<Rightarrow> bool \<Rightarrow> c_type" where
  "sigaction p has_restorer = C_struct
     ([(''sa_handler'', C_ptr), (''sa_flags'', C_ulong)] @
      (if has_restorer then [(''sa_restorer'', C_ptr)] else []) @ [(''sa_mask'', sigset p)])"

definition sigaltstack :: "nat \<Rightarrow> c_type" where
  "sigaltstack p = C_struct [(''ss_sp'', C_ptr), (''ss_flags'', C_int), (''ss_size'', kernel_size_t p)]"

text \<open>\<open>struct sigcontext\<close> is the architecture's.\<close>

definition ucontext :: "nat \<Rightarrow> c_type \<Rightarrow> c_type" where
  "ucontext p sigcontext = C_struct
     [(''uc_flags'', C_ulong), (''uc_link'', C_ptr), (''uc_stack'', sigaltstack p), (''uc_mcontext'', sigcontext),
      (''uc_sigmask'', sigset p)]"

section \<open>Files\<close>

definition stat :: c_type where
  "stat = C_struct
     [(''st_dev'', C_ulong),
      (''st_ino'', C_ulong),
      (''st_mode'', C_u32),
      (''st_nlink'', C_u32),
      (''st_uid'', C_u32),
      (''st_gid'', C_u32),
      (''st_rdev'', C_ulong),
      (''__pad1'', C_ulong),
      (''st_size'', C_long),
      (''st_blksize'', C_int),
      (''__pad2'', C_int),
      (''st_blocks'', C_long),
      (''st_atime'', C_long),
      (''st_atime_nsec'', C_ulong),
      (''st_mtime'', C_long),
      (''st_mtime_nsec'', C_ulong),
      (''st_ctime'', C_long),
      (''st_ctime_nsec'', C_ulong),
      (''__unused4'', C_u32),
      (''__unused5'', C_u32)]"

definition stat64 :: c_type where
  "stat64 = C_struct
     [(''st_dev'', C_u64),
      (''st_ino'', C_u64),
      (''st_mode'', C_u32),
      (''st_nlink'', C_u32),
      (''st_uid'', C_u32),
      (''st_gid'', C_u32),
      (''st_rdev'', C_u64),
      (''__pad1'', C_u64),
      (''st_size'', C_s64),
      (''st_blksize'', C_int),
      (''__pad2'', C_int),
      (''st_blocks'', C_s64),
      (''st_atime'', C_int),
      (''st_atime_nsec'', C_u32),
      (''st_mtime'', C_int),
      (''st_mtime_nsec'', C_u32),
      (''st_ctime'', C_int),
      (''st_ctime_nsec'', C_u32),
      (''__unused4'', C_u32),
      (''__unused5'', C_u32)]"

definition statfs_word :: "nat \<Rightarrow> c_type" where
  "statfs_word p = (if BITS_PER_LONG p = 64 then kernel_long_t else int_u32)"

definition statfs :: "nat \<Rightarrow> c_type" where
  "statfs p = C_struct
     [(''f_type'', statfs_word p),
      (''f_bsize'', statfs_word p),
      (''f_blocks'', statfs_word p),
      (''f_bfree'', statfs_word p),
      (''f_bavail'', statfs_word p),
      (''f_files'', statfs_word p),
      (''f_ffree'', statfs_word p),
      (''f_fsid'', kernel_fsid_t),
      (''f_namelen'', statfs_word p),
      (''f_frsize'', statfs_word p),
      (''f_flags'', statfs_word p),
      (''f_spare'', C_array (statfs_word p) 4)]"

definition statfs64 :: "nat \<Rightarrow> c_type" where
  "statfs64 p = C_struct
     [(''f_type'', statfs_word p),
      (''f_bsize'', statfs_word p),
      (''f_blocks'', int_u64),
      (''f_bfree'', int_u64),
      (''f_bavail'', int_u64),
      (''f_files'', int_u64),
      (''f_ffree'', int_u64),
      (''f_fsid'', kernel_fsid_t),
      (''f_namelen'', statfs_word p),
      (''f_frsize'', statfs_word p),
      (''f_flags'', statfs_word p),
      (''f_spare'', C_array (statfs_word p) 4)]"

definition compat_statfs64 :: c_type where
  "compat_statfs64 = C_struct
     [(''f_type'', int_u32),
      (''f_bsize'', int_u32),
      (''f_blocks'', int_u64),
      (''f_bfree'', int_u64),
      (''f_bavail'', int_u64),
      (''f_files'', int_u64),
      (''f_ffree'', int_u64),
      (''f_fsid'', kernel_fsid_t),
      (''f_namelen'', int_u32),
      (''f_frsize'', int_u32),
      (''f_flags'', int_u32),
      (''f_spare'', C_array int_u32 4)]"

definition pollfd :: c_type where
  "pollfd = C_struct [(''fd'', C_int), (''events'', C_short), (''revents'', C_short)]"

definition f_owner_ex :: c_type where
  "f_owner_ex = C_struct [(''type'', C_int), (''pid'', kernel_pid_t)]"

definition flock :: c_type where
  "flock = C_struct
     [(''l_type'', C_short),
      (''l_whence'', C_short),
      (''l_start'', kernel_off_t),
      (''l_len'', kernel_off_t),
      (''l_pid'', kernel_pid_t)]"

definition flock64 :: c_type where
  "flock64 = C_struct
     [(''l_type'', C_short),
      (''l_whence'', C_short),
      (''l_start'', kernel_loff_t),
      (''l_len'', kernel_loff_t),
      (''l_pid'', kernel_pid_t)]"

section \<open>System V IPC\<close>

text \<open>\<open>__kernel_key_t\<close> is an \<open>int\<close> of \<open>linux/posix_types.h\<close>.\<close>

definition ipc64_perm :: "nat \<Rightarrow> c_type" where
  "ipc64_perm p = C_struct
     [(''key'', C_int),
      (''uid'', kernel_uid32_t),
      (''gid'', kernel_gid32_t),
      (''cuid'', kernel_uid32_t),
      (''cgid'', kernel_gid32_t),
      (''mode'', kernel_mode_t),
      (''__pad1'', C_array C_u8 (4 - c_sizeof p kernel_mode_t)),
      (''seq'', C_u16),
      (''__pad2'', C_u16),
      (''__unused1'', kernel_ulong_t),
      (''__unused2'', kernel_ulong_t)]"

definition msqid64_ds :: "nat \<Rightarrow> c_type" where
  "msqid64_ds p = C_struct
     ([(''msg_perm'', ipc64_perm p)] @
      (if BITS_PER_LONG p = 64
       then [(''msg_stime'', C_long), (''msg_rtime'', C_long), (''msg_ctime'', C_long)]
       else [(''msg_stime'', C_ulong), (''msg_stime_high'', C_ulong),
             (''msg_rtime'', C_ulong), (''msg_rtime_high'', C_ulong),
             (''msg_ctime'', C_ulong), (''msg_ctime_high'', C_ulong)]) @
      [(''msg_cbytes'', C_ulong),
       (''msg_qnum'', C_ulong),
       (''msg_qbytes'', C_ulong),
       (''msg_lspid'', kernel_pid_t),
       (''msg_lrpid'', kernel_pid_t),
       (''__unused4'', C_ulong),
       (''__unused5'', C_ulong)])"

definition semid64_ds :: "nat \<Rightarrow> c_type" where
  "semid64_ds p = C_struct
     ([(''sem_perm'', ipc64_perm p)] @
      (if BITS_PER_LONG p = 64
       then [(''sem_otime'', C_long), (''sem_ctime'', C_long)]
       else [(''sem_otime'', C_ulong), (''sem_otime_high'', C_ulong),
             (''sem_ctime'', C_ulong), (''sem_ctime_high'', C_ulong)]) @
      [(''sem_nsems'', C_ulong),
       (''__unused3'', C_ulong),
       (''__unused4'', C_ulong)])"

definition shmid64_ds :: "nat \<Rightarrow> c_type" where
  "shmid64_ds p = C_struct
     ([(''shm_perm'', ipc64_perm p),
       (''shm_segsz'', kernel_size_t p)] @
      (if BITS_PER_LONG p = 64
       then [(''shm_atime'', C_long), (''shm_dtime'', C_long), (''shm_ctime'', C_long)]
       else [(''shm_atime'', C_ulong), (''shm_atime_high'', C_ulong),
             (''shm_dtime'', C_ulong), (''shm_dtime_high'', C_ulong),
             (''shm_ctime'', C_ulong), (''shm_ctime_high'', C_ulong)]) @
      [(''shm_cpid'', kernel_pid_t),
       (''shm_lpid'', kernel_pid_t),
       (''shm_nattch'', C_ulong),
       (''__unused4'', C_ulong),
       (''__unused5'', C_ulong)])"

definition shminfo64 :: c_type where
  "shminfo64 = C_struct
     [(''shmmax'', C_ulong),
      (''shmmin'', C_ulong),
      (''shmmni'', C_ulong),
      (''shmseg'', C_ulong),
      (''shmall'', C_ulong),
      (''__unused1'', C_ulong),
      (''__unused2'', C_ulong),
      (''__unused3'', C_ulong),
      (''__unused4'', C_ulong)]"

section \<open>Terminals\<close>

definition cc_t :: c_type where "cc_t = C_u8"
definition speed_t :: c_type where "speed_t = C_u32"
definition tcflag_t :: c_type where "tcflag_t = C_u32"
definition NCCS :: nat where "NCCS = 19"
definition NCC :: nat where "NCC = 8"

definition termios :: c_type where
  "termios = C_struct
     [(''c_iflag'', tcflag_t),
      (''c_oflag'', tcflag_t),
      (''c_cflag'', tcflag_t),
      (''c_lflag'', tcflag_t),
      (''c_line'', cc_t),
      (''c_cc'', C_array cc_t NCCS)]"

definition termios2 :: c_type where
  "termios2 = C_struct
     [(''c_iflag'', tcflag_t),
      (''c_oflag'', tcflag_t),
      (''c_cflag'', tcflag_t),
      (''c_lflag'', tcflag_t),
      (''c_line'', cc_t),
      (''c_cc'', C_array cc_t NCCS),
      (''c_ispeed'', speed_t),
      (''c_ospeed'', speed_t)]"

definition ktermios :: c_type where
  "ktermios = C_struct
     [(''c_iflag'', tcflag_t),
      (''c_oflag'', tcflag_t),
      (''c_cflag'', tcflag_t),
      (''c_lflag'', tcflag_t),
      (''c_line'', cc_t),
      (''c_cc'', C_array cc_t NCCS),
      (''c_ispeed'', speed_t),
      (''c_ospeed'', speed_t)]"

definition winsize :: c_type where
  "winsize = C_struct [(''ws_row'', C_u16), (''ws_col'', C_u16), (''ws_xpixel'', C_u16), (''ws_ypixel'', C_u16)]"

definition termio :: c_type where
  "termio = C_struct
     [(''c_iflag'', C_u16),
      (''c_oflag'', C_u16),
      (''c_cflag'', C_u16),
      (''c_lflag'', C_u16),
      (''c_line'', C_u8),
      (''c_cc'', C_array C_u8 NCC)]"

section \<open>Layouts\<close>

lemmas siginfo_defs = sigval_def SI_MAX_SIZE_def ARCH_SI_BAND_T_def ARCH_SI_CLOCK_T_def ADDR_BND_PKEY_PAD_def
  sifields_kill_def sifields_timer_def sifields_rt_def sifields_sigchld_def sifields_sigfault_def
  sifields_sigpoll_def sifields_sigsys_def sifields_def siginfo_body_def siginfo_def

lemmas sigevent_defs = sigval_def ARCH_SIGEV_PREAMBLE_SIZE_def SIGEV_MAX_SIZE_def SIGEV_PAD_SIZE_def sigevent_def

text \<open>The union of the fields, for either pointer size.\<close>

lemma sifields_sizes:
  "c_sizeof 4 (sifields 4) = 20" "c_alignof 4 (sifields 4) = 4"
  "c_sizeof 8 (sifields 8) = 32" "c_alignof 8 (sifields 8) = 8"
  by (simp_all add: siginfo_defs kernel_types align_up_def)

lemma siginfo_sizes:
  "c_sizeof 4 (siginfo 4 sw) = 128" "c_alignof 4 (siginfo 4 sw) = 4" "c_sizeof 4 (siginfo_body 4 sw) = 32"
  "c_sizeof 8 (siginfo 8 sw) = 128" "c_alignof 8 (siginfo 8 sw) = 8" "c_sizeof 8 (siginfo_body 8 sw) = 48"
  by (cases sw; simp add: siginfo_def siginfo_body_def SI_MAX_SIZE_def align_up_def sifields_sizes)+

lemma sigevent_sizes: "c_sizeof 4 (sigevent 4) = 64" "c_sizeof 8 (sigevent 8) = 64"
  by (simp_all add: sigevent_defs align_up_def)

lemma sigev_members:
  "map (\<lambda>(n, path). c_path 4 (sigevent 4) path) sigev_macros = [Some (12, C_ptr), Some (16, C_ptr), Some (12, C_int)]"
  "map (\<lambda>(n, path). c_path 8 (sigevent 8) path) sigev_macros = [Some (16, C_ptr), Some (24, C_ptr), Some (16, C_int)]"
  by (simp_all add: sigev_macros_def sigevent_defs align_up_def)

lemma siginfo_body_path:
  "c_path 4 (siginfo_body 4 sw) (''_sifields'' # path) = map_option (\<lambda>(i, t). (12 + i, t)) (c_path 4 (sifields 4) path)"
  "c_path 8 (siginfo_body 8 sw) (''_sifields'' # path) = map_option (\<lambda>(i, t). (16 + i, t)) (c_path 8 (sifields 8) path)"
  by (cases sw; simp add: siginfo_body_def align_up_def sifields_sizes)+

lemma siginfo_path:
  "c_path p (siginfo p sw) ([] # [] # path) = c_path p (siginfo_body p sw) path"
  by (cases "c_path p (siginfo_body p sw) path") (simp_all add: siginfo_def align_up_def case_prod_beta)

text \<open>Every macro reaches a member of the union, and none goes beyond its end.\<close>

definition ends_by :: "nat \<Rightarrow> nat \<Rightarrow> (nat \<times> c_type) option \<Rightarrow> bool" where
  "ends_by p n r = (case r of None \<Rightarrow> False | Some (i, t) \<Rightarrow> i + c_sizeof p t \<le> n)"

lemma si_macros_in_fields:
  "list_all (\<lambda>(m, path). ends_by 4 20 (c_path 4 (sifields 4) path)) si_macros"
  "list_all (\<lambda>(m, path). ends_by 8 32 (c_path 8 (sifields 8) path)) si_macros"
  by code_simp+

lemma si_landmarks:
  "map_option fst (c_path 4 (sifields 4) [''_timer'', ''_sigval'']) = Some 8"
  "map_option fst (c_path 8 (sifields 8) [''_timer'', ''_sigval'']) = Some 8"
  "map_option fst (c_path 4 (sifields 4) [''_rt'', ''_sigval'']) = Some 8"
  "map_option fst (c_path 8 (sifields 8) [''_rt'', ''_sigval'']) = Some 8"
  "map_option fst (c_path 4 (sifields 4) [''_sigfault'', [], ''_addr_lsb'']) = Some 4"
  "map_option fst (c_path 8 (sifields 8) [''_sigfault'', [], ''_addr_lsb'']) = Some 8"
  "map_option fst (c_path 4 (sifields 4) [''_sigfault'', [], ''_addr_bnd'', ''_lower'']) = Some 8"
  "map_option fst (c_path 8 (sifields 8) [''_sigfault'', [], ''_addr_bnd'', ''_lower'']) = Some 16"
  by code_simp+

lemma sigset_bits: "p = 4 \<or> p = 8 \<Longrightarrow> 8 * c_sizeof p (sigset p) = NSIG"
  by (auto simp: sigset_def NSIG_WORDS_def NSIG_BPW_def NSIG_def BITS_PER_LONG_def align_up_def)

definition path_offset :: "nat \<Rightarrow> string list \<Rightarrow> nat" where
  "path_offset p path = fst (the (c_path p (sifields p) path))"

text \<open>C38. The signal information a program receives has the size its padding announces, 128 bytes, for
  either pointer size and either order of the first members, and the alignment of a pointer, so that the
  32-bit structure stays 32-bit aligned as the header demands; every access macro reaches a member inside
  of the union, which itself ends before the padding does; the value of a POSIX timer is where the one of
  a queued signal is; the bounds of a failed check do not overlap the address granularity; a signal event
  takes 64 bytes and a signal set one bit per signal.\<close>

theorem siginfo_layout_is_fixed:
  assumes "p = 4 \<or> p = 8"
  shows "c_sizeof p (siginfo p sw) = SI_MAX_SIZE \<and> c_alignof p (siginfo p sw) = p \<and>
    c_sizeof p (siginfo_body p sw) \<le> SI_MAX_SIZE \<and>
    list_all (\<lambda>(m, path). ends_by p (c_sizeof p (sifields p)) (c_path p (sifields p) path)) si_macros \<and>
    path_offset p [''_timer'', ''_sigval''] = path_offset p [''_rt'', ''_sigval''] \<and>
    path_offset p [''_sigfault'', [], ''_addr_lsb''] + c_sizeof p C_short
      \<le> path_offset p [''_sigfault'', [], ''_addr_bnd'', ''_lower''] \<and>
    c_sizeof p (sigevent p) = SIGEV_MAX_SIZE \<and> 8 * c_sizeof p (sigset p) = NSIG"
  using assms si_macros_in_fields si_landmarks sigset_bits [OF assms]
  by (auto simp: siginfo_sizes sifields_sizes sigevent_sizes SI_MAX_SIZE_def SIGEV_MAX_SIZE_def path_offset_def)

theorem siginfo_layout_is_fixed_witness:
  "c_sizeof 4 (siginfo 4 False) = 128 \<and> c_sizeof 8 (siginfo 8 True) = 128 \<and>
   c_sizeof 4 (sigevent 4) = c_sizeof 8 (sigevent 8)"
  using siginfo_layout_is_fixed [of 4 False] siginfo_layout_is_fixed [of 8 True]
  by (simp add: SI_MAX_SIZE_def SIGEV_MAX_SIZE_def)

text \<open>
  Against the comment of \<open>stat.h\<close>, \<open>struct stat\<close> on 64-bit is not laid out as \<open>stat64\<close>: they agree up to
  the number of blocks, the times of \<open>stat64\<close> are half as wide. The two \<open>flock\<close> structures agree there.
\<close>

lemma stat64_layout:
  "take 12 (c_scalars 8 0 stat) = take 12 (c_scalars 8 0 stat64) \<and> c_sizeof 8 stat = 128 \<and> c_sizeof 8 stat64 = 104 \<and>
   c_offsetof 8 stat ''st_mtime'' = Some 88 \<and> c_offsetof 8 stat64 ''st_mtime'' = Some 80 \<and>
   c_layout 8 flock = c_layout 8 flock64"
  by (intro conjI; code_simp)

text \<open>A 32-bit program finds the upper half of an IPC time right behind its lower half.\<close>

lemma ipc_high_halves:
  "c_offsetof 4 (msqid64_ds 4) ''msg_stime'' = Some 36 \<and> c_offsetof 4 (msqid64_ds 4) ''msg_stime_high'' = Some 40 \<and>
   c_offsetof 4 (semid64_ds 4) ''sem_otime'' = Some 36 \<and> c_offsetof 4 (semid64_ds 4) ''sem_otime_high'' = Some 40 \<and>
   c_offsetof 4 (shmid64_ds 4) ''shm_atime'' = Some 40 \<and> c_offsetof 4 (shmid64_ds 4) ''shm_atime_high'' = Some 44"
  by (intro conjI; code_simp)

end
