(* ===== verification/Evl_Abi.thy ===== *)
theory Evl_Abi
  imports C_Layout Thread_State
begin

text \<open>
  The interface with user space, \<open>include/uapi/evl\<close>: the structures exchanged through the ioctl
  requests, and the requests, built by the macros of \<open>include/uapi/asm-generic/ioctl.h\<close>. A structure
  \<open>foo\<close> is the \<open>c_type\<close> named \<open>abi_foo\<close>. Nested anonymous unions and structures keep their member
  names.
\<close>

named_theorems abi_defs "structures and requests of the user interface"

section \<open>Structures\<close>

text \<open>\<open>types.h\<close>\<close>

definition abi_evl_timespec :: c_type where [abi_defs]:
  "abi_evl_timespec = C_struct
    [(''tv_sec'', C_s64), (''tv_nsec'', C_s64)]"

definition abi_evl_itimerspec :: c_type where [abi_defs]:
  "abi_evl_itimerspec = C_struct
    [(''it_interval'', abi_evl_timespec), (''it_value'', abi_evl_timespec)]"

definition abi_evl_value :: c_type where [abi_defs]:
  "abi_evl_value = C_union
    [(''val'', C_s32), (''lval'', C_s64), (''ptr'', C_ptr)]"

text \<open>\<open>factory-abi.h\<close>\<close>

definition abi_evl_element_ids :: c_type where [abi_defs]:
  "abi_evl_element_ids = C_struct
    [(''minor'', C_u32), (''fundle'', C_u32), (''state_offset'', C_u32)]"

definition abi_evl_clone_req :: c_type where [abi_defs]:
  "abi_evl_clone_req = C_struct
    [(''name_ptr'', C_u64), (''attrs_ptr'', C_u64), (''clone_flags'', C_u32),
     (''eids'', abi_evl_element_ids), (''efd'', C_u32)]"

text \<open>\<open>clock-abi.h\<close>\<close>

definition abi_evl_timerfd_setreq :: c_type where [abi_defs]:
  "abi_evl_timerfd_setreq = C_struct
    [(''value_ptr'', C_u64), (''ovalue_ptr'', C_u64)]"

text \<open>\<open>sched-abi.h\<close>\<close>

definition abi_evl_rr_param :: c_type where [abi_defs]:
  "abi_evl_rr_param = C_struct
    [(''__sched_rr_quantum'', abi_evl_timespec)]"

definition abi_evl_quota_param :: c_type where [abi_defs]:
  "abi_evl_quota_param = C_struct
    [(''__sched_group'', C_int)]"

definition abi_evl_quota_ctlparam :: c_type where [abi_defs]:
  "abi_evl_quota_ctlparam = C_struct
    [(''op'', C_enum),
     (''u'', C_union [(''remove'', C_struct [(''tgid'', C_int)]),
         (''set'', C_struct [(''tgid'', C_int),
             (''quota'', C_int),
             (''quota_peak'', C_int)]),
         (''get'', C_struct [(''tgid'', C_int)])])]"

definition abi_evl_quota_ctlinfo :: c_type where [abi_defs]:
  "abi_evl_quota_ctlinfo = C_struct
    [(''tgid'', C_int), (''quota'', C_int), (''quota_peak'', C_int), (''quota_sum'', C_int)]"

definition abi_evl_tp_param :: c_type where [abi_defs]:
  "abi_evl_tp_param = C_struct
    [(''__sched_partition'', C_int)]"

definition abi_evl_tp_window :: c_type where [abi_defs]:
  "abi_evl_tp_window = C_struct
    [(''offset'', abi_evl_timespec), (''duration'', abi_evl_timespec), (''ptid'', C_int)]"

definition abi_evl_tp_ctlparam :: c_type where [abi_defs]:
  "abi_evl_tp_ctlparam = C_struct
    [(''op'', C_enum), (''nr_windows'', C_int), (''windows'', C_array abi_evl_tp_window 0)]"

definition abi_evl_tp_ctlinfo :: c_type where [abi_defs]:
  "abi_evl_tp_ctlinfo = C_struct
    [(''nr_windows'', C_int), (''windows'', C_array abi_evl_tp_window 0)]"

definition abi_evl_sched_attrs :: c_type where [abi_defs]:
  "abi_evl_sched_attrs = C_struct
    [(''sched_policy'', C_int),
     (''sched_priority'', C_int),
     (''sched_u'', C_union [(''rr'', abi_evl_rr_param),
         (''quota'', abi_evl_quota_param),
         (''tp'', abi_evl_tp_param)])]"

definition abi_evl_sched_ctlparam :: c_type where [abi_defs]:
  "abi_evl_sched_ctlparam = C_union
    [(''quota'', abi_evl_quota_ctlparam), (''tp'', abi_evl_tp_ctlparam)]"

definition abi_evl_sched_ctlinfo :: c_type where [abi_defs]:
  "abi_evl_sched_ctlinfo = C_union
    [(''quota'', abi_evl_quota_ctlinfo), (''tp'', abi_evl_tp_ctlinfo)]"

definition abi_evl_sched_ctlreq :: c_type where [abi_defs]:
  "abi_evl_sched_ctlreq = C_struct
    [(''policy'', C_int), (''cpu'', C_int), (''param_ptr'', C_u64), (''info_ptr'', C_u64)]"

text \<open>\<open>thread-abi.h\<close>\<close>

definition abi_evl_user_window :: c_type where [abi_defs]:
  "abi_evl_user_window = C_struct
    [(''state'', C_u32), (''info'', C_u32), (''pp_pending'', C_u32)]"

definition abi_evl_thread_state :: c_type where [abi_defs]:
  "abi_evl_thread_state = C_struct
    [(''eattrs'', abi_evl_sched_attrs), (''cpu'', C_u32), (''state'', C_u32),
     (''isw'', C_u32), (''csw'', C_u32), (''sc'', C_u32), (''rwa'', C_u32),
     (''xtime'', C_u64)]"

text \<open>\<open>monitor-abi.h\<close>\<close>

definition abi_evl_monitor_attrs :: c_type where [abi_defs]:
  "abi_evl_monitor_attrs = C_struct
    [(''clockfd'', C_u32), (''type+protocol'', C_bits [(''type'', 2), (''protocol'', 4)]),
     (''initval'', C_u32)]"

definition abi_evl_monitor_state :: c_type where [abi_defs]:
  "abi_evl_monitor_state = C_struct
    [(''flags'', C_u32),
     (''u'', C_union [(''gate'', C_struct [(''owner'', C_u32),
             (''ceiling'', C_u32),
             (''recursive+nesting'', C_bits [(''recursive'', 1), (''nesting'', 31)])]),
         (''event'', C_struct [(''value'', C_u32),
             (''pollrefs'', C_u32),
             (''gate_offset'', C_u32)])])]"

definition abi_evl_monitor_waitreq :: c_type where [abi_defs]:
  "abi_evl_monitor_waitreq = C_struct
    [(''timeout_ptr'', C_u64), (''gatefd'', C_s32), (''status'', C_s32), (''value'', C_s32)]"

definition abi_evl_monitor_unwaitreq :: c_type where [abi_defs]:
  "abi_evl_monitor_unwaitreq = C_struct
    [(''gatefd'', C_s32)]"

definition abi_evl_monitor_trywaitreq :: c_type where [abi_defs]:
  "abi_evl_monitor_trywaitreq = C_struct
    [(''value'', C_s32)]"

definition abi_evl_monitor_binding :: c_type where [abi_defs]:
  "abi_evl_monitor_binding = C_struct
    [(''type+protocol'', C_bits [(''type'', 2), (''protocol'', 4)]),
     (''eids'', abi_evl_element_ids)]"

text \<open>\<open>poll-abi.h\<close>\<close>

definition abi_evl_poll_ctlreq :: c_type where [abi_defs]:
  "abi_evl_poll_ctlreq = C_struct
    [(''action'', C_u32), (''fd'', C_u32), (''events'', C_u32), (''pollval'', abi_evl_value)]"

definition abi_evl_poll_event :: c_type where [abi_defs]:
  "abi_evl_poll_event = C_struct
    [(''fd'', C_u32), (''events'', C_u32), (''pollval'', abi_evl_value)]"

definition abi_evl_poll_waitreq :: c_type where [abi_defs]:
  "abi_evl_poll_waitreq = C_struct
    [(''timeout_ptr'', C_u64), (''pollset_ptr'', C_u64), (''nrset'', C_int)]"

text \<open>\<open>observable-abi.h\<close>\<close>

definition abi_evl_notice :: c_type where [abi_defs]:
  "abi_evl_notice = C_struct
    [(''tag'', C_u32), (''event'', abi_evl_value)]"

definition abi_evl_subscription :: c_type where [abi_defs]:
  "abi_evl_subscription = C_struct
    [(''backlog_count'', C_u32), (''flags'', C_u32)]"

definition abi_evl_notification :: c_type where [abi_defs]:
  "abi_evl_notification = C_struct
    [(''tag'', C_u32), (''serial'', C_u32), (''issuer'', C_s32), (''event'', abi_evl_value),
     (''date'', abi_evl_timespec)]"

text \<open>\<open>proxy-abi.h\<close>\<close>

definition abi_evl_proxy_attrs :: c_type where [abi_defs]:
  "abi_evl_proxy_attrs = C_struct
    [(''fd'', C_u32), (''bufsz'', C_u32), (''granularity'', C_u32)]"

text \<open>\<open>xbuf-abi.h\<close>\<close>

definition abi_evl_xbuf_attrs :: c_type where [abi_defs]:
  "abi_evl_xbuf_attrs = C_struct
    [(''i_bufsz'', C_u32), (''o_bufsz'', C_u32)]"

text \<open>\<open>control-abi.h\<close>\<close>

definition abi_evl_core_info :: c_type where [abi_defs]:
  "abi_evl_core_info = C_struct
    [(''abi_base'', C_u32), (''abi_current'', C_u32), (''fpu_features'', C_u32),
     (''shm_size'', C_u64)]"

definition abi_evl_cpu_state :: c_type where [abi_defs]:
  "abi_evl_cpu_state = C_struct
    [(''cpu'', C_u32), (''state_ptr'', C_u64)]"

text \<open>\<open>net/socket-abi.h\<close>\<close>

definition abi_user_oob_msghdr :: c_type where [abi_defs]:
  "abi_user_oob_msghdr = C_struct
    [(''name_ptr'', C_u64), (''iov_ptr'', C_u64), (''ctl_ptr'', C_u64), (''namelen'', C_u32),
     (''iovlen'', C_u32), (''ctllen'', C_u32), (''count'', C_s32), (''flags'', C_u32),
     (''timeout'', abi_evl_timespec), (''timestamp'', abi_evl_timespec)]"

definition abi_evl_netdev_activation :: c_type where [abi_defs]:
  "abi_evl_netdev_activation = C_struct
    [(''poolsz'', C_u64), (''bufsz'', C_u64)]"

text \<open>\<open>net/net-abi.h\<close>\<close>

definition abi_evl_net_devfd :: c_type where [abi_defs]:
  "abi_evl_net_devfd = C_struct
    [(''name_ptr'', C_u64), (''fd'', C_u32)]"

text \<open>\<open>devices/hectic.h\<close>\<close>

definition abi_hectic_task_index :: c_type where [abi_defs]:
  "abi_hectic_task_index = C_struct
    [(''index'', C_u32), (''flags'', C_u32)]"

definition abi_hectic_switch_req :: c_type where [abi_defs]:
  "abi_hectic_switch_req = C_struct
    [(''from'', C_u32), (''to'', C_u32)]"

definition abi_hectic_error :: c_type where [abi_defs]:
  "abi_hectic_error = C_struct
    [(''last_switch'', abi_hectic_switch_req), (''fp_val'', C_u32)]"

text \<open>\<open>devices/latmus.h\<close>\<close>

definition abi_latmus_setup :: c_type where [abi_defs]:
  "abi_latmus_setup = C_struct
    [(''type'', C_u32),
     (''period'', C_u64),
     (''priority'', C_s32),
     (''cpu'', C_u32),
     (''u'', C_union [(''tune'', C_struct [(''verbosity'', C_u32)]),
         (''measure'', C_struct [(''xfd'', C_u32),
             (''hcells'', C_u32)])])]"

definition abi_latmus_measurement :: c_type where [abi_defs]:
  "abi_latmus_measurement = C_struct
    [(''sum_lat'', C_s64), (''min_lat'', C_s32), (''max_lat'', C_s32), (''overruns'', C_u32),
     (''samples'', C_u32)]"

definition abi_latmus_measurement_result :: c_type where [abi_defs]:
  "abi_latmus_measurement_result = C_struct
    [(''last_ptr'', C_u64), (''histogram_ptr'', C_u64), (''len'', C_u32)]"

definition abi_latmus_result :: c_type where [abi_defs]:
  "abi_latmus_result = C_struct
    [(''data_ptr'', C_u64), (''len'', C_u32)]"

text \<open>\<open>devices/spidev.h\<close>\<close>

definition abi_spi_ioc_oob_setup :: c_type where [abi_defs]:
  "abi_spi_ioc_oob_setup = C_struct
    [(''frame_len'', C_u32), (''speed_hz'', C_u32), (''bits_per_word'', C_u8),
     (''iobuf_len'', C_u32), (''tx_offset'', C_u32), (''rx_offset'', C_u32)]"

definition evl_abi_structs :: "c_type list" where
  "evl_abi_structs = [abi_evl_timespec, abi_evl_itimerspec, abi_evl_value, abi_evl_element_ids,
     abi_evl_clone_req, abi_evl_timerfd_setreq, abi_evl_rr_param, abi_evl_quota_param,
     abi_evl_quota_ctlparam, abi_evl_quota_ctlinfo, abi_evl_tp_param, abi_evl_tp_window,
     abi_evl_tp_ctlparam, abi_evl_tp_ctlinfo, abi_evl_sched_attrs, abi_evl_sched_ctlparam,
     abi_evl_sched_ctlinfo, abi_evl_sched_ctlreq, abi_evl_user_window,
     abi_evl_thread_state, abi_evl_monitor_attrs, abi_evl_monitor_state,
     abi_evl_monitor_waitreq, abi_evl_monitor_unwaitreq, abi_evl_monitor_trywaitreq,
     abi_evl_monitor_binding, abi_evl_poll_ctlreq, abi_evl_poll_event,
     abi_evl_poll_waitreq, abi_evl_notice, abi_evl_subscription, abi_evl_notification,
     abi_evl_proxy_attrs, abi_evl_xbuf_attrs, abi_evl_core_info, abi_evl_cpu_state,
     abi_user_oob_msghdr, abi_evl_netdev_activation, abi_evl_net_devfd,
     abi_hectic_task_index, abi_hectic_switch_req, abi_hectic_error, abi_latmus_setup,
     abi_latmus_measurement, abi_latmus_measurement_result, abi_latmus_result,
     abi_spi_ioc_oob_setup]"

section \<open>Members by their short name\<close>

text \<open>The macros that name the members of the union of \<open>struct evl_sched_attrs\<close>, with their paths.\<close>

definition sched_rr_quantum :: "string list" where
  "sched_rr_quantum = [''sched_u'', ''rr'', ''__sched_rr_quantum'']"
definition sched_quota_group :: "string list" where
  "sched_quota_group = [''sched_u'', ''quota'', ''__sched_group'']"
definition sched_tp_partition :: "string list" where
  "sched_tp_partition = [''sched_u'', ''tp'', ''__sched_partition'']"

text \<open>They reach members of the type they are meant for, at the start of the union.\<close>

lemma sched_members:
  "c_path 8 abi_evl_sched_attrs sched_rr_quantum = Some (8, abi_evl_timespec)"
  "c_path 8 abi_evl_sched_attrs sched_quota_group = Some (8, C_int)"
  "c_path 8 abi_evl_sched_attrs sched_tp_partition = Some (8, C_int)"
  by (simp_all add: sched_rr_quantum_def sched_quota_group_def sched_tp_partition_def abi_defs align_up_def)

section \<open>The window array of the temporal partitioning requests\<close>

definition evl_tp_paramlen :: "nat \<Rightarrow> nat" where
  "evl_tp_paramlen nr_windows = c_sizeof 8 abi_evl_tp_ctlparam + nr_windows * c_sizeof 8 abi_evl_tp_window"

definition evl_tp_infolen :: "nat \<Rightarrow> nat" where
  "evl_tp_infolen nr_windows = c_sizeof 8 abi_evl_tp_ctlinfo + nr_windows * c_sizeof 8 abi_evl_tp_window"

text \<open>\<open>&param->windows[i]\<close>, from the start of the buffer.\<close>

definition tp_window_at :: "c_type \<Rightarrow> nat \<Rightarrow> nat option" where
  "tp_window_at t i = map_option (\<lambda>off. off + i * c_sizeof 8 abi_evl_tp_window) (c_offsetof 8 t ''windows'')"

section \<open>Layout\<close>

text \<open>The structures that hold a value: its pointer has 4 or 8 bytes.\<close>

definition abi_with_values :: "c_type list" where
  "abi_with_values = [abi_evl_value, abi_evl_poll_ctlreq, abi_evl_poll_event, abi_evl_notice, abi_evl_notification]"

lemma abi_fixed: "list_all (c_fixed [abi_evl_value]) evl_abi_structs" "list_all (hides_pointers [abi_evl_value]) [abi_evl_value]"
  by (simp_all add: evl_abi_structs_def abi_defs hides_pointers_def align_up_def)

lemma abi_layouts: "filter (\<lambda>t. c_layout 4 t \<noteq> c_layout 8 t) evl_abi_structs = abi_with_values"
  by (simp add: evl_abi_structs_def abi_with_values_def abi_defs c_layout_def align_up_def Let_def)

text \<open>C36. The structures exchanged with user space have the members of a 32 bit program where those of a 64 bit
  one are: each structure has the same size and alignment whether a pointer has 4 bytes or 8, a path of
  members leads to the same offset and type, and what it reaches has the same width, except for the
  pointer of a \<open>union evl_value\<close>, which lies at the start of this union, where a 32 bit program writes
  the lower half only; the structures whose layout differs by the width of such a pointer are exactly the
  listed ones, which hold a value.\<close>

theorem abi_layout_ignores_pointer_size:
  assumes "t \<in> set evl_abi_structs"
  shows "c_sizeof 4 t = c_sizeof 8 t \<and> c_alignof 4 t = c_alignof 8 t \<and> c_path 4 t ns = c_path 8 t ns \<and>
    (c_path 8 t ns = Some (off, u) \<longrightarrow> c_sizeof 4 u = c_sizeof 8 u \<or>
       u = C_ptr \<and> ns \<noteq> [] \<and> c_path 8 t (butlast ns) = Some (off, abi_evl_value)) \<and>
    (c_layout 4 t = c_layout 8 t \<longleftrightarrow> t \<notin> set abi_with_values)"
proof -
  have t: "c_fixed [abi_evl_value] t" using abi_fixed(1) assms by (simp add: list_all_iff)
  have "c_layout 4 t = c_layout 8 t \<longleftrightarrow> t \<notin> set abi_with_values"
    using assms by (simp flip: abi_layouts)
  then show ?thesis
    using c_fixed_same(1) [OF abi_fixed(2) t] c_path_same [OF abi_fixed(2) t, of ns] by auto
qed

text \<open>The value of a poll event, as a pointer and as an integer.\<close>

theorem abi_layout_ignores_pointer_size_witness:
  "c_path 4 abi_evl_poll_event [''pollval'', ''ptr''] = Some (8, C_ptr) \<and>
   c_path 4 abi_evl_poll_event [''pollval'', ''lval''] = Some (8, C_s64) \<and>
   c_layout 4 abi_evl_poll_event \<noteq> c_layout 8 abi_evl_poll_event"
proof -
  have t: "abi_evl_poll_event \<in> set evl_abi_structs" by (simp add: evl_abi_structs_def)
  have "c_path 8 abi_evl_poll_event [''pollval'', ''ptr''] = Some (8, C_ptr)"
    "c_path 8 abi_evl_poll_event [''pollval'', ''lval''] = Some (8, C_s64)"
    "abi_evl_poll_event \<in> set abi_with_values"
    by (simp_all add: abi_evl_poll_event_def abi_evl_value_def align_up_def abi_with_values_def)
  then show ?thesis
    using abi_layout_ignores_pointer_size [OF t, of "[''pollval'', ''ptr'']" 8 C_ptr]
      abi_layout_ignores_pointer_size [OF t, of "[''pollval'', ''lval'']" 8 C_s64] by simp
qed

text \<open>The structures with bytes that belong to no member, between two members, after the last one, or
  beside the shorter members of a union: what the core copies to user space holds these bytes too, so
  that a request filled member by member has to be cleared first.\<close>

definition abi_with_gaps :: "c_type list" where
  "abi_with_gaps = [abi_evl_value, abi_evl_clone_req, abi_evl_quota_ctlparam, abi_evl_tp_window,
     abi_evl_tp_ctlinfo, abi_evl_sched_attrs, abi_evl_sched_ctlparam, abi_evl_sched_ctlinfo,
     abi_evl_thread_state, abi_evl_monitor_waitreq, abi_evl_poll_ctlreq, abi_evl_poll_event,
     abi_evl_poll_waitreq, abi_evl_notice, abi_evl_notification, abi_evl_core_info,
     abi_evl_cpu_state, abi_user_oob_msghdr, abi_evl_net_devfd, abi_latmus_setup,
     abi_latmus_measurement_result, abi_latmus_result, abi_spi_ioc_oob_setup]"

lemma abi_declarable: "list_all c_declarable evl_abi_structs"
  by (simp add: evl_abi_structs_def abi_defs)

lemma abi_gaps: "ptr_size p \<Longrightarrow> filter (\<lambda>t. \<not> c_packed p t) evl_abi_structs = abi_with_gaps"
  by (erule disjE) (simp_all add: evl_abi_structs_def abi_with_gaps_def abi_defs align_up_def)



text \<open>The buffers user space sizes with \<open>evl_tp_paramlen\<close> and \<open>evl_tp_infolen\<close> hold exactly the windows
  they announce: each of the \<open>n\<close> windows is reached through the flexible array member at a multiple of
  its alignment, lies inside the buffer, and the last one ends where the buffer does.\<close>

lemma tp_buffers_fit_exactly:
  assumes "i < n"
  shows "(\<exists>off. tp_window_at abi_evl_tp_ctlparam i = Some off \<and> c_alignof 8 abi_evl_tp_window dvd off \<and>
      off + c_sizeof 8 abi_evl_tp_window \<le> evl_tp_paramlen n \<and>
      (i = n - 1 \<longrightarrow> off + c_sizeof 8 abi_evl_tp_window = evl_tp_paramlen n)) \<and>
    (\<exists>off. tp_window_at abi_evl_tp_ctlinfo i = Some off \<and> c_alignof 8 abi_evl_tp_window dvd off \<and>
      off + c_sizeof 8 abi_evl_tp_window \<le> evl_tp_infolen n \<and>
      (i = n - 1 \<longrightarrow> off + c_sizeof 8 abi_evl_tp_window = evl_tp_infolen n))"
  using assms
  by (auto simp: tp_window_at_def evl_tp_paramlen_def evl_tp_infolen_def abi_defs align_up_def Let_def)

lemma tp_buffers_fit_exactly_witness:
  "tp_window_at abi_evl_tp_ctlparam 2 = Some 88 \<and> evl_tp_paramlen 3 = 128"
  using tp_buffers_fit_exactly [of 2 3]
  by (auto simp: tp_window_at_def evl_tp_paramlen_def abi_defs align_up_def Let_def)

end
