(* ===== verification/Evl_Ioctl.thy ===== *)
theory Evl_Ioctl
  imports Evl_Abi
begin

text \<open>
  The ioctl encoding of \<open>include/uapi/asm-generic/ioctl.h\<close> and the requests of \<open>include/uapi/evl\<close> built
  with it. A name with a leading underscore starts with \<open>raw_\<close>: \<open>_IOWR\<close> is \<open>raw_IOWR\<close>, whose last argument is
  the type of the request's argument.
\<close>

section \<open>Encoding and decoding\<close>

definition raw_IOC_NRBITS :: nat where [const_defs]: "raw_IOC_NRBITS = 8"
definition raw_IOC_TYPEBITS :: nat where [const_defs]: "raw_IOC_TYPEBITS = 8"
definition raw_IOC_SIZEBITS :: nat where [const_defs]: "raw_IOC_SIZEBITS = 14"
definition raw_IOC_DIRBITS :: nat where [const_defs]: "raw_IOC_DIRBITS = 2"

definition raw_IOC_NRMASK :: u32 where [const_defs]: "raw_IOC_NRMASK = push_bit raw_IOC_NRBITS 1 - 1"
definition raw_IOC_TYPEMASK :: u32 where [const_defs]: "raw_IOC_TYPEMASK = push_bit raw_IOC_TYPEBITS 1 - 1"
definition raw_IOC_SIZEMASK :: u32 where [const_defs]: "raw_IOC_SIZEMASK = push_bit raw_IOC_SIZEBITS 1 - 1"
definition raw_IOC_DIRMASK :: u32 where [const_defs]: "raw_IOC_DIRMASK = push_bit raw_IOC_DIRBITS 1 - 1"

definition raw_IOC_NRSHIFT :: nat where [const_defs]: "raw_IOC_NRSHIFT = 0"
definition raw_IOC_TYPESHIFT :: nat where [const_defs]: "raw_IOC_TYPESHIFT = raw_IOC_NRSHIFT + raw_IOC_NRBITS"
definition raw_IOC_SIZESHIFT :: nat where [const_defs]: "raw_IOC_SIZESHIFT = raw_IOC_TYPESHIFT + raw_IOC_TYPEBITS"
definition raw_IOC_DIRSHIFT :: nat where [const_defs]: "raw_IOC_DIRSHIFT = raw_IOC_SIZESHIFT + raw_IOC_SIZEBITS"

definition raw_IOC_NONE :: u32 where [const_defs]: "raw_IOC_NONE = 0"
definition raw_IOC_WRITE :: u32 where [const_defs]: "raw_IOC_WRITE = 1"
definition raw_IOC_READ :: u32 where [const_defs]: "raw_IOC_READ = 2"

definition raw_IOC :: "u32 \<Rightarrow> u32 \<Rightarrow> u32 \<Rightarrow> u32 \<Rightarrow> u32" where
  "raw_IOC dir type nr len =
     (push_bit raw_IOC_DIRSHIFT dir) OR (push_bit raw_IOC_TYPESHIFT type) OR
     (push_bit raw_IOC_NRSHIFT nr) OR (push_bit raw_IOC_SIZESHIFT len)"

definition raw_IOC_TYPECHECK :: "c_type \<Rightarrow> u32" where
  "raw_IOC_TYPECHECK t = of_nat (c_sizeof 8 t)"

definition raw_IO :: "u32 \<Rightarrow> u32 \<Rightarrow> u32" where
  "raw_IO type nr = raw_IOC raw_IOC_NONE type nr 0"

definition raw_IOR :: "u32 \<Rightarrow> u32 \<Rightarrow> c_type \<Rightarrow> u32" where
  "raw_IOR type nr t = raw_IOC raw_IOC_READ type nr (raw_IOC_TYPECHECK t)"

definition raw_IOW :: "u32 \<Rightarrow> u32 \<Rightarrow> c_type \<Rightarrow> u32" where
  "raw_IOW type nr t = raw_IOC raw_IOC_WRITE type nr (raw_IOC_TYPECHECK t)"

definition raw_IOWR :: "u32 \<Rightarrow> u32 \<Rightarrow> c_type \<Rightarrow> u32" where
  "raw_IOWR type nr t = raw_IOC (raw_IOC_READ OR raw_IOC_WRITE) type nr (raw_IOC_TYPECHECK t)"

text \<open>The old variants, on a type of any size; in user space \<open>_IOC_TYPECHECK\<close> is \<open>sizeof\<close> as well.\<close>

definition raw_IOR_BAD :: "u32 \<Rightarrow> u32 \<Rightarrow> c_type \<Rightarrow> u32" where
  "raw_IOR_BAD type nr t = raw_IOC raw_IOC_READ type nr (of_nat (c_sizeof 8 t))"

definition raw_IOW_BAD :: "u32 \<Rightarrow> u32 \<Rightarrow> c_type \<Rightarrow> u32" where
  "raw_IOW_BAD type nr t = raw_IOC raw_IOC_WRITE type nr (of_nat (c_sizeof 8 t))"

definition raw_IOWR_BAD :: "u32 \<Rightarrow> u32 \<Rightarrow> c_type \<Rightarrow> u32" where
  "raw_IOWR_BAD type nr t = raw_IOC (raw_IOC_READ OR raw_IOC_WRITE) type nr (of_nat (c_sizeof 8 t))"

definition raw_IOC_DIR :: "u32 \<Rightarrow> u32" where
  "raw_IOC_DIR nr = drop_bit raw_IOC_DIRSHIFT nr AND raw_IOC_DIRMASK"

definition raw_IOC_TYPE :: "u32 \<Rightarrow> u32" where
  "raw_IOC_TYPE nr = drop_bit raw_IOC_TYPESHIFT nr AND raw_IOC_TYPEMASK"

definition raw_IOC_NR :: "u32 \<Rightarrow> u32" where
  "raw_IOC_NR nr = drop_bit raw_IOC_NRSHIFT nr AND raw_IOC_NRMASK"

definition raw_IOC_SIZE :: "u32 \<Rightarrow> u32" where
  "raw_IOC_SIZE nr = drop_bit raw_IOC_SIZESHIFT nr AND raw_IOC_SIZEMASK"

definition IOC_IN :: u32 where [const_defs]: "IOC_IN = push_bit raw_IOC_DIRSHIFT raw_IOC_WRITE"
definition IOC_OUT :: u32 where [const_defs]: "IOC_OUT = push_bit raw_IOC_DIRSHIFT raw_IOC_READ"
definition IOC_INOUT :: u32 where [const_defs]:
  "IOC_INOUT = push_bit raw_IOC_DIRSHIFT (raw_IOC_WRITE OR raw_IOC_READ)"
definition IOCSIZE_MASK :: u32 where [const_defs]: "IOCSIZE_MASK = push_bit raw_IOC_SIZESHIFT raw_IOC_SIZEMASK"
definition IOCSIZE_SHIFT :: nat where [const_defs]: "IOCSIZE_SHIFT = raw_IOC_SIZESHIFT"

section \<open>The requests\<close>

text \<open>\<open>factory-abi.h\<close>\<close>

definition EVL_FACTORY_IOCBASE :: u32 where [abi_defs]: "EVL_FACTORY_IOCBASE = 102"
definition EVL_IOC_CLONE :: u32 where [abi_defs]:
  "EVL_IOC_CLONE = raw_IOWR EVL_FACTORY_IOCBASE 0 abi_evl_clone_req"

text \<open>\<open>clock-abi.h\<close>\<close>

definition EVL_CLOCK_IOCBASE :: u32 where [abi_defs]: "EVL_CLOCK_IOCBASE = 99"
definition EVL_CLKIOC_SLEEP :: u32 where [abi_defs]:
  "EVL_CLKIOC_SLEEP = raw_IOW EVL_CLOCK_IOCBASE 0 abi_evl_timespec"
definition EVL_CLKIOC_GET_RES :: u32 where [abi_defs]:
  "EVL_CLKIOC_GET_RES = raw_IOR EVL_CLOCK_IOCBASE 1 abi_evl_timespec"
definition EVL_CLKIOC_GET_TIME :: u32 where [abi_defs]:
  "EVL_CLKIOC_GET_TIME = raw_IOR EVL_CLOCK_IOCBASE 2 abi_evl_timespec"
definition EVL_CLKIOC_SET_TIME :: u32 where [abi_defs]:
  "EVL_CLKIOC_SET_TIME = raw_IOW EVL_CLOCK_IOCBASE 3 abi_evl_timespec"
definition EVL_CLKIOC_NEW_TIMER :: u32 where [abi_defs]:
  "EVL_CLKIOC_NEW_TIMER = raw_IO EVL_CLOCK_IOCBASE 5"
definition EVL_TIMERFD_IOCBASE :: u32 where [abi_defs]: "EVL_TIMERFD_IOCBASE = 116"
definition EVL_TFDIOC_SET :: u32 where [abi_defs]:
  "EVL_TFDIOC_SET = raw_IOWR EVL_TIMERFD_IOCBASE 0 abi_evl_timerfd_setreq"
definition EVL_TFDIOC_GET :: u32 where [abi_defs]:
  "EVL_TFDIOC_GET = raw_IOR EVL_TIMERFD_IOCBASE 1 abi_evl_itimerspec"

text \<open>\<open>thread-abi.h\<close>\<close>

definition EVL_THREAD_IOCBASE :: u32 where [abi_defs]: "EVL_THREAD_IOCBASE = 84"
definition EVL_THRIOC_SIGNAL :: u32 where [abi_defs]:
  "EVL_THRIOC_SIGNAL = raw_IOW EVL_THREAD_IOCBASE 0 C_u32"
definition EVL_THRIOC_SET_SCHEDPARAM :: u32 where [abi_defs]:
  "EVL_THRIOC_SET_SCHEDPARAM = raw_IOW EVL_THREAD_IOCBASE 1 abi_evl_sched_attrs"
definition EVL_THRIOC_GET_SCHEDPARAM :: u32 where [abi_defs]:
  "EVL_THRIOC_GET_SCHEDPARAM = raw_IOR EVL_THREAD_IOCBASE 2 abi_evl_sched_attrs"
definition EVL_THRIOC_JOIN :: u32 where [abi_defs]:
  "EVL_THRIOC_JOIN = raw_IO EVL_THREAD_IOCBASE 3"
definition EVL_THRIOC_GET_STATE :: u32 where [abi_defs]:
  "EVL_THRIOC_GET_STATE = raw_IOR EVL_THREAD_IOCBASE 4 abi_evl_thread_state"
definition EVL_THRIOC_SWITCH_OOB :: u32 where [abi_defs]:
  "EVL_THRIOC_SWITCH_OOB = raw_IO EVL_THREAD_IOCBASE 5"
definition EVL_THRIOC_SWITCH_INBAND :: u32 where [abi_defs]:
  "EVL_THRIOC_SWITCH_INBAND = raw_IO EVL_THREAD_IOCBASE 6"
definition EVL_THRIOC_DETACH_SELF :: u32 where [abi_defs]:
  "EVL_THRIOC_DETACH_SELF = raw_IO EVL_THREAD_IOCBASE 7"
definition EVL_THRIOC_SET_MODE :: u32 where [abi_defs]:
  "EVL_THRIOC_SET_MODE = raw_IOWR EVL_THREAD_IOCBASE 8 C_u32"
definition EVL_THRIOC_CLEAR_MODE :: u32 where [abi_defs]:
  "EVL_THRIOC_CLEAR_MODE = raw_IOWR EVL_THREAD_IOCBASE 9 C_u32"
definition EVL_THRIOC_UNBLOCK :: u32 where [abi_defs]:
  "EVL_THRIOC_UNBLOCK = raw_IO EVL_THREAD_IOCBASE 10"
definition EVL_THRIOC_DEMOTE :: u32 where [abi_defs]:
  "EVL_THRIOC_DEMOTE = raw_IO EVL_THREAD_IOCBASE 11"
definition EVL_THRIOC_YIELD :: u32 where [abi_defs]:
  "EVL_THRIOC_YIELD = raw_IO EVL_THREAD_IOCBASE 12"

text \<open>\<open>monitor-abi.h\<close>\<close>

definition EVL_MONITOR_IOCBASE :: u32 where [abi_defs]: "EVL_MONITOR_IOCBASE = 109"
definition EVL_MONIOC_ENTER :: u32 where [abi_defs]:
  "EVL_MONIOC_ENTER = raw_IOW EVL_MONITOR_IOCBASE 0 abi_evl_timespec"
definition EVL_MONIOC_TRYENTER :: u32 where [abi_defs]:
  "EVL_MONIOC_TRYENTER = raw_IO EVL_MONITOR_IOCBASE 1"
definition EVL_MONIOC_EXIT :: u32 where [abi_defs]:
  "EVL_MONIOC_EXIT = raw_IO EVL_MONITOR_IOCBASE 2"
definition EVL_MONIOC_WAIT :: u32 where [abi_defs]:
  "EVL_MONIOC_WAIT = raw_IOWR EVL_MONITOR_IOCBASE 3 abi_evl_monitor_waitreq"
definition EVL_MONIOC_UNWAIT :: u32 where [abi_defs]:
  "EVL_MONIOC_UNWAIT = raw_IOWR EVL_MONITOR_IOCBASE 4 abi_evl_monitor_unwaitreq"
definition EVL_MONIOC_BIND :: u32 where [abi_defs]:
  "EVL_MONIOC_BIND = raw_IOR EVL_MONITOR_IOCBASE 5 abi_evl_monitor_binding"
definition EVL_MONIOC_SIGNAL :: u32 where [abi_defs]:
  "EVL_MONIOC_SIGNAL = raw_IOW EVL_MONITOR_IOCBASE 6 C_s32"
definition EVL_MONIOC_BROADCAST :: u32 where [abi_defs]:
  "EVL_MONIOC_BROADCAST = raw_IOW EVL_MONITOR_IOCBASE 7 C_s32"
definition EVL_MONIOC_WAIT_EXACT :: u32 where [abi_defs]:
  "EVL_MONIOC_WAIT_EXACT = raw_IOWR EVL_MONITOR_IOCBASE 8 abi_evl_monitor_waitreq"
definition EVL_MONIOC_TRYWAIT :: u32 where [abi_defs]:
  "EVL_MONIOC_TRYWAIT = raw_IOWR EVL_MONITOR_IOCBASE 9 abi_evl_monitor_trywaitreq"
definition EVL_MONIOC_TRYWAIT_EXACT :: u32 where [abi_defs]:
  "EVL_MONIOC_TRYWAIT_EXACT = raw_IOWR EVL_MONITOR_IOCBASE 10 abi_evl_monitor_trywaitreq"

text \<open>\<open>poll-abi.h\<close>\<close>

definition EVL_POLL_IOCBASE :: u32 where [abi_defs]: "EVL_POLL_IOCBASE = 112"
definition EVL_POLIOC_CTL :: u32 where [abi_defs]:
  "EVL_POLIOC_CTL = raw_IOW EVL_POLL_IOCBASE 0 abi_evl_poll_ctlreq"
definition EVL_POLIOC_WAIT :: u32 where [abi_defs]:
  "EVL_POLIOC_WAIT = raw_IOWR EVL_POLL_IOCBASE 1 abi_evl_poll_waitreq"

text \<open>\<open>observable-abi.h\<close>\<close>

definition EVL_OBSERVABLE_IOCBASE :: u32 where [abi_defs]: "EVL_OBSERVABLE_IOCBASE = 111"
definition EVL_OBSIOC_SUBSCRIBE :: u32 where [abi_defs]:
  "EVL_OBSIOC_SUBSCRIBE = raw_IOW EVL_OBSERVABLE_IOCBASE 0 abi_evl_subscription"
definition EVL_OBSIOC_UNSUBSCRIBE :: u32 where [abi_defs]:
  "EVL_OBSIOC_UNSUBSCRIBE = raw_IO EVL_OBSERVABLE_IOCBASE 1"

text \<open>\<open>control-abi.h\<close>\<close>

definition EVL_CONTROL_IOCBASE :: u32 where [abi_defs]: "EVL_CONTROL_IOCBASE = 67"
definition EVL_CTLIOC_GET_COREINFO :: u32 where [abi_defs]:
  "EVL_CTLIOC_GET_COREINFO = raw_IOR EVL_CONTROL_IOCBASE 0 abi_evl_core_info"
definition EVL_CTLIOC_SCHEDCTL :: u32 where [abi_defs]:
  "EVL_CTLIOC_SCHEDCTL = raw_IOWR EVL_CONTROL_IOCBASE 1 abi_evl_sched_ctlreq"
definition EVL_CTLIOC_GET_CPUSTATE :: u32 where [abi_defs]:
  "EVL_CTLIOC_GET_CPUSTATE = raw_IOR EVL_CONTROL_IOCBASE 2 abi_evl_cpu_state"

text \<open>\<open>random-abi.h\<close>\<close>

definition EVL_RANDOM_IOCBASE :: u32 where [abi_defs]: "EVL_RANDOM_IOCBASE = 114"
definition EVL_RNGIOC_U8 :: u32 where [abi_defs]:
  "EVL_RNGIOC_U8 = raw_IOR EVL_RANDOM_IOCBASE 0 C_u8"
definition EVL_RNGIOC_U16 :: u32 where [abi_defs]:
  "EVL_RNGIOC_U16 = raw_IOR EVL_RANDOM_IOCBASE 1 C_u16"
definition EVL_RNGIOC_U32 :: u32 where [abi_defs]:
  "EVL_RNGIOC_U32 = raw_IOR EVL_RANDOM_IOCBASE 2 C_u32"

text \<open>\<open>trace.h\<close>\<close>

definition EVL_TRACE_IOCBASE :: u32 where [abi_defs]: "EVL_TRACE_IOCBASE = 79"
definition EVL_TRCIOC_SNAPSHOT :: u32 where [abi_defs]:
  "EVL_TRCIOC_SNAPSHOT = raw_IO EVL_TRACE_IOCBASE 0"

text \<open>\<open>net/socket-abi.h\<close>\<close>

definition EVL_SOCKET_IOCBASE :: u32 where [abi_defs]: "EVL_SOCKET_IOCBASE = 0xee"
definition EVL_SOCKIOC_ACTIVATE :: u32 where [abi_defs]:
  "EVL_SOCKIOC_ACTIVATE = raw_IOW EVL_SOCKET_IOCBASE 2 abi_evl_netdev_activation"
definition EVL_SOCKIOC_DEACTIVATE :: u32 where [abi_defs]:
  "EVL_SOCKIOC_DEACTIVATE = raw_IO EVL_SOCKET_IOCBASE 3"
definition EVL_SOCKIOC_SENDMSG :: u32 where [abi_defs]:
  "EVL_SOCKIOC_SENDMSG = raw_IOW EVL_SOCKET_IOCBASE 4 abi_user_oob_msghdr"
definition EVL_SOCKIOC_RECVMSG :: u32 where [abi_defs]:
  "EVL_SOCKIOC_RECVMSG = raw_IOWR EVL_SOCKET_IOCBASE 5 abi_user_oob_msghdr"
definition EVL_SOCKIOC_SETRECVSZ :: u32 where [abi_defs]:
  "EVL_SOCKIOC_SETRECVSZ = raw_IOW EVL_SOCKET_IOCBASE 6 C_int"
definition EVL_SOCKIOC_SETSENDSZ :: u32 where [abi_defs]:
  "EVL_SOCKIOC_SETSENDSZ = raw_IOW EVL_SOCKET_IOCBASE 7 C_int"

text \<open>\<open>net/device-abi.h\<close>\<close>

definition EVL_NETDEV_IOCBASE :: u32 where [abi_defs]: "EVL_NETDEV_IOCBASE = 0xef"
definition EVL_NDEVIOC_SETRXEBPF :: u32 where [abi_defs]:
  "EVL_NDEVIOC_SETRXEBPF = raw_IOW EVL_NETDEV_IOCBASE 0 C_s32"

text \<open>\<open>net/net-abi.h\<close>\<close>

definition EVL_NET_IOCBASE :: u32 where [abi_defs]: "EVL_NET_IOCBASE = 0xf0"
definition EVL_NET_GETDEVFD :: u32 where [abi_defs]:
  "EVL_NET_GETDEVFD = raw_IOWR EVL_NETDEV_IOCBASE 0 abi_evl_net_devfd"

text \<open>\<open>devices/hectic.h\<close>\<close>

definition EVL_HECTIC_IOCBASE :: u32 where [abi_defs]: "EVL_HECTIC_IOCBASE = 72"
definition EVL_HECIOC_SET_TASKS_COUNT :: u32 where [abi_defs]:
  "EVL_HECIOC_SET_TASKS_COUNT = raw_IOW EVL_HECTIC_IOCBASE 0 C_u32"
definition EVL_HECIOC_SET_CPU :: u32 where [abi_defs]:
  "EVL_HECIOC_SET_CPU = raw_IOW EVL_HECTIC_IOCBASE 1 C_u32"
definition EVL_HECIOC_REGISTER_UTASK :: u32 where [abi_defs]:
  "EVL_HECIOC_REGISTER_UTASK = raw_IOW EVL_HECTIC_IOCBASE 2 abi_hectic_task_index"
definition EVL_HECIOC_CREATE_KTASK :: u32 where [abi_defs]:
  "EVL_HECIOC_CREATE_KTASK = raw_IOWR EVL_HECTIC_IOCBASE 3 abi_hectic_task_index"
definition EVL_HECIOC_PEND :: u32 where [abi_defs]:
  "EVL_HECIOC_PEND = raw_IOR EVL_HECTIC_IOCBASE 4 abi_hectic_task_index"
definition EVL_HECIOC_SWITCH_TO :: u32 where [abi_defs]:
  "EVL_HECIOC_SWITCH_TO = raw_IOR EVL_HECTIC_IOCBASE 5 abi_hectic_switch_req"
definition EVL_HECIOC_GET_SWITCHES_COUNT :: u32 where [abi_defs]:
  "EVL_HECIOC_GET_SWITCHES_COUNT = raw_IOR EVL_HECTIC_IOCBASE 6 C_u32"
definition EVL_HECIOC_GET_LAST_ERROR :: u32 where [abi_defs]:
  "EVL_HECIOC_GET_LAST_ERROR = raw_IOR EVL_HECTIC_IOCBASE 7 abi_hectic_error"
definition EVL_HECIOC_SET_PAUSE :: u32 where [abi_defs]:
  "EVL_HECIOC_SET_PAUSE = raw_IOW EVL_HECTIC_IOCBASE 8 C_u32"
definition EVL_HECIOC_LOCK_STAX :: u32 where [abi_defs]:
  "EVL_HECIOC_LOCK_STAX = raw_IO EVL_HECTIC_IOCBASE 9"
definition EVL_HECIOC_UNLOCK_STAX :: u32 where [abi_defs]:
  "EVL_HECIOC_UNLOCK_STAX = raw_IO EVL_HECTIC_IOCBASE 10"

text \<open>\<open>devices/latmus.h\<close>\<close>

definition EVL_LATMUS_IOCBASE :: u32 where [abi_defs]: "EVL_LATMUS_IOCBASE = 76"
definition EVL_LATIOC_TUNE :: u32 where [abi_defs]:
  "EVL_LATIOC_TUNE = raw_IOWR EVL_LATMUS_IOCBASE 0 abi_latmus_setup"
definition EVL_LATIOC_MEASURE :: u32 where [abi_defs]:
  "EVL_LATIOC_MEASURE = raw_IOWR EVL_LATMUS_IOCBASE 1 abi_latmus_setup"
definition EVL_LATIOC_RUN :: u32 where [abi_defs]:
  "EVL_LATIOC_RUN = raw_IOR EVL_LATMUS_IOCBASE 2 abi_latmus_result"
definition EVL_LATIOC_PULSE :: u32 where [abi_defs]:
  "EVL_LATIOC_PULSE = raw_IOW EVL_LATMUS_IOCBASE 3 C_u64"
definition EVL_LATIOC_RESET :: u32 where [abi_defs]:
  "EVL_LATIOC_RESET = raw_IO EVL_LATMUS_IOCBASE 4"

text \<open>\<open>devices/spidev.h\<close>: the requests extend those of the SPI devices of Linux, whose magic number is an
  argument.\<close>

definition SPI_IOC_ENABLE_OOB_MODE :: "u32 \<Rightarrow> u32" where
  "SPI_IOC_ENABLE_OOB_MODE SPI_IOC_MAGIC = raw_IOWR SPI_IOC_MAGIC 50 abi_spi_ioc_oob_setup"
definition SPI_IOC_DISABLE_OOB_MODE :: "u32 \<Rightarrow> u32" where
  "SPI_IOC_DISABLE_OOB_MODE SPI_IOC_MAGIC = raw_IO SPI_IOC_MAGIC 51"
definition SPI_IOC_RUN_OOB_XFER :: "u32 \<Rightarrow> u32" where
  "SPI_IOC_RUN_OOB_XFER SPI_IOC_MAGIC = raw_IO SPI_IOC_MAGIC 52"

definition evl_ioctls :: "u32 list" where
  "evl_ioctls =
    [EVL_IOC_CLONE, EVL_CLKIOC_SLEEP, EVL_CLKIOC_GET_RES, EVL_CLKIOC_GET_TIME,
     EVL_CLKIOC_SET_TIME, EVL_CLKIOC_NEW_TIMER, EVL_TFDIOC_SET, EVL_TFDIOC_GET,
     EVL_THRIOC_SIGNAL, EVL_THRIOC_SET_SCHEDPARAM, EVL_THRIOC_GET_SCHEDPARAM, EVL_THRIOC_JOIN,
     EVL_THRIOC_GET_STATE, EVL_THRIOC_SWITCH_OOB, EVL_THRIOC_SWITCH_INBAND,
     EVL_THRIOC_DETACH_SELF, EVL_THRIOC_SET_MODE, EVL_THRIOC_CLEAR_MODE, EVL_THRIOC_UNBLOCK,
     EVL_THRIOC_DEMOTE, EVL_THRIOC_YIELD, EVL_MONIOC_ENTER, EVL_MONIOC_TRYENTER,
     EVL_MONIOC_EXIT, EVL_MONIOC_WAIT, EVL_MONIOC_UNWAIT, EVL_MONIOC_BIND, EVL_MONIOC_SIGNAL,
     EVL_MONIOC_BROADCAST, EVL_MONIOC_WAIT_EXACT, EVL_MONIOC_TRYWAIT, EVL_MONIOC_TRYWAIT_EXACT,
     EVL_POLIOC_CTL, EVL_POLIOC_WAIT, EVL_OBSIOC_SUBSCRIBE, EVL_OBSIOC_UNSUBSCRIBE,
     EVL_CTLIOC_GET_COREINFO, EVL_CTLIOC_SCHEDCTL, EVL_CTLIOC_GET_CPUSTATE, EVL_RNGIOC_U8,
     EVL_RNGIOC_U16, EVL_RNGIOC_U32, EVL_TRCIOC_SNAPSHOT, EVL_SOCKIOC_ACTIVATE,
     EVL_SOCKIOC_DEACTIVATE, EVL_SOCKIOC_SENDMSG, EVL_SOCKIOC_RECVMSG, EVL_SOCKIOC_SETRECVSZ,
     EVL_SOCKIOC_SETSENDSZ, EVL_NDEVIOC_SETRXEBPF, EVL_NET_GETDEVFD, EVL_HECIOC_SET_TASKS_COUNT,
     EVL_HECIOC_SET_CPU, EVL_HECIOC_REGISTER_UTASK, EVL_HECIOC_CREATE_KTASK, EVL_HECIOC_PEND,
     EVL_HECIOC_SWITCH_TO, EVL_HECIOC_GET_SWITCHES_COUNT, EVL_HECIOC_GET_LAST_ERROR,
     EVL_HECIOC_SET_PAUSE, EVL_HECIOC_LOCK_STAX, EVL_HECIOC_UNLOCK_STAX, EVL_LATIOC_TUNE,
     EVL_LATIOC_MEASURE, EVL_LATIOC_RUN, EVL_LATIOC_PULSE, EVL_LATIOC_RESET]"

section \<open>Round trip and uniqueness\<close>

lemma below_exp_bits: "(w :: u32) < 2 ^ n \<Longrightarrow> bit w i \<Longrightarrow> i < n"
  by (metis bit_take_bit_iff less_mask_eq take_bit_eq_mask)

lemma ioc_masks:
  "raw_IOC_NRMASK = mask 8" "raw_IOC_TYPEMASK = mask 8" "raw_IOC_SIZEMASK = mask 14" "raw_IOC_DIRMASK = mask 2"
  by (simp_all add: const_defs mask_eq_exp_minus_1)

lemma ioc_shifts: "raw_IOC_NRSHIFT = 0" "raw_IOC_TYPESHIFT = 8" "raw_IOC_SIZESHIFT = 16" "raw_IOC_DIRSHIFT = 30"
  by (simp_all add: const_defs)

lemmas ioc_decoders = raw_IOC_DIR_def raw_IOC_TYPE_def raw_IOC_NR_def raw_IOC_SIZE_def raw_IOC_def ioc_shifts
  ioc_masks

text \<open>C35. The ioctl encoding is a bijection between its fields and the 32 bit requests: the decoders give
  back a direction below 4, a type and a number below 256 and a size below 16 kB, and encoding the
  decoded fields of any request gives the request back.\<close>

theorem ioctl_encoding_is_bijective:
  assumes "dir < 4" and "type < 256" and "nr < 256" and "len < 2 ^ 14"
  shows "raw_IOC_DIR (raw_IOC dir type nr len) = dir \<and> raw_IOC_TYPE (raw_IOC dir type nr len) = type \<and>
    raw_IOC_NR (raw_IOC dir type nr len) = nr \<and> raw_IOC_SIZE (raw_IOC dir type nr len) = len \<and>
    raw_IOC (raw_IOC_DIR req) (raw_IOC_TYPE req) (raw_IOC_NR req) (raw_IOC_SIZE req) = req"
proof -
  note lt = below_exp_bits [where n = 2 and w = dir] below_exp_bits [where n = 8 and w = type]
    below_exp_bits [where n = 8 and w = nr] below_exp_bits [where n = 14 and w = len]
  have "raw_IOC_DIR (raw_IOC dir type nr len) = dir"
    by (rule bit_word_eqI) (use assms lt in \<open>force simp: ioc_decoders bit_simps\<close>)
  moreover have "raw_IOC_TYPE (raw_IOC dir type nr len) = type"
    by (rule bit_word_eqI) (use assms lt in \<open>force simp: ioc_decoders bit_simps\<close>)
  moreover have "raw_IOC_NR (raw_IOC dir type nr len) = nr"
    by (rule bit_word_eqI) (use assms lt in \<open>force simp: ioc_decoders bit_simps\<close>)
  moreover have "raw_IOC_SIZE (raw_IOC dir type nr len) = len"
    by (rule bit_word_eqI) (use assms lt in \<open>force simp: ioc_decoders bit_simps\<close>)
  moreover have "raw_IOC (raw_IOC_DIR req) (raw_IOC_TYPE req) (raw_IOC_NR req) (raw_IOC_SIZE req) = req"
  proof (rule bit_word_eqI)
    fix n
    show "bit (raw_IOC (raw_IOC_DIR req) (raw_IOC_TYPE req) (raw_IOC_NR req) (raw_IOC_SIZE req)) n \<longleftrightarrow> bit req n"
      if "n < LENGTH(32)"
      using that by (cases "n < 16"; cases "n < 30") (auto simp: ioc_decoders bit_simps)
  qed
  ultimately show ?thesis by blast
qed

theorem ioctl_encoding_is_bijective_witness:
  "raw_IOC_SIZE (raw_IOC 3 0x66 0 40) = 40"
  using ioctl_encoding_is_bijective [of 3 "0x66" 0 40 0] by simp

lemmas ioc_eval = raw_IO_def raw_IOR_def raw_IOW_def raw_IOWR_def raw_IOC_def raw_IOC_TYPECHECK_def const_defs abi_defs

text \<open>Whatever the magic number, the SPI requests have the numbers 50 to 52.\<close>

lemma nr_of_ioc: "nr < 256 \<Longrightarrow> raw_IOC_NR (raw_IOC dir type nr len) = nr"
  by (rule bit_word_eqI)
    (use below_exp_bits [where n = 8 and w = nr] in \<open>force simp: ioc_decoders bit_simps\<close>)

lemma spi_request_numbers:
  "map raw_IOC_NR [SPI_IOC_ENABLE_OOB_MODE m, SPI_IOC_DISABLE_OOB_MODE m, SPI_IOC_RUN_OOB_XFER m] = [50, 51, 52]"
  by (simp add: SPI_IOC_ENABLE_OOB_MODE_def SPI_IOC_DISABLE_OOB_MODE_def SPI_IOC_RUN_OOB_XFER_def
      raw_IO_def raw_IOWR_def nr_of_ioc)

text \<open>The pairs of requests with the same key, in the order of the list.\<close>

fun key_clashes :: "('k \<times> 'r) list \<Rightarrow> ('r \<times> 'r) list" where
  "key_clashes [] = []"
| "key_clashes ((k, r) # rs) = map (\<lambda>q. (r, snd q)) (filter (\<lambda>q. fst q = k) rs) @ key_clashes rs"

text \<open>The type and the number of a request.\<close>

definition ioc_key :: "u32 \<Rightarrow> u32 \<times> u32" where
  "ioc_key r = (raw_IOC_TYPE r, raw_IOC_NR r)"

lemmas ioc_decode_eval = ioc_key_def raw_IOC_TYPE_def raw_IOC_NR_def ioc_eval

lemma ioctl_codes:
  "evl_ioctls =
    [0xc0286600, 0x40106300, 0x80106301, 0x80106302, 0x40106303, 0x6305, 0xc0107400, 0x80207401,
     0x40045400, 0x40185401, 0x80185402, 0x5403, 0x80385404, 0x5405, 0x5406, 0x5407, 0xc0045408,
     0xc0045409, 0x540a, 0x540b, 0x540c, 0x40106d00, 0x6d01, 0x6d02, 0xc0186d03, 0xc0046d04,
     0x80106d05, 0x40046d06, 0x40046d07, 0xc0186d08, 0xc0046d09, 0xc0046d0a, 0x40187000,
     0xc0187001, 0x40086f00, 0x6f01, 0x80184300, 0xc0184301, 0x80104302, 0x80017200, 0x80027201,
     0x80047202, 0x4f00, 0x4010ee02, 0xee03, 0x4050ee04, 0xc050ee05, 0x4004ee06, 0x4004ee07,
     0x4004ef00, 0xc010ef00, 0x40044800, 0x40044801, 0x40084802, 0xc0084803, 0x80084804,
     0x80084805, 0x80044806, 0x800c4807, 0x40044808, 0x4809, 0x480a, 0xc0204c00, 0xc0204c01,
     0x80104c02, 0x40084c03, 0x4c04]"
  by (simp add: evl_ioctls_def ioc_eval align_up_def)

lemma ioctl_clash_codes:
  "key_clashes (map (\<lambda>r. (ioc_key r, r)) evl_ioctls) = [(0x4004ef00, 0xc010ef00)]"
  unfolding ioctl_codes by (simp add: ioc_key_def raw_IOC_TYPE_def raw_IOC_NR_def const_defs)

text \<open>C39. No two requests of the interface are the same. Their types and numbers alone tell them apart,
  but for one pair: \<open>EVL_NET_GETDEVFD\<close> is encoded with the base of the network devices instead of the
  \<open>EVL_NET_IOCBASE\<close> of its own header, and differs from \<open>EVL_NDEVIOC_SETRXEBPF\<close> in its direction and
  argument size only.\<close>

theorem ioctl_requests_are_distinct:
  "distinct evl_ioctls \<and>
   key_clashes (map (\<lambda>r. (ioc_key r, r)) evl_ioctls) = [(EVL_NDEVIOC_SETRXEBPF, EVL_NET_GETDEVFD)]"
proof
  show "distinct evl_ioctls" unfolding ioctl_codes by simp
  show "key_clashes (map (\<lambda>r. (ioc_key r, r)) evl_ioctls) = [(EVL_NDEVIOC_SETRXEBPF, EVL_NET_GETDEVFD)]"
    unfolding ioctl_clash_codes by (simp add: ioc_eval align_up_def)
qed

end
