(* ===== verification/Linux_Tables.thy ===== *)
theory Linux_Tables
  imports Linux_Layout Evl_Ioctl
begin

text \<open>
  The constants of \<open>include/uapi/asm-generic\<close>, a table for each group of a header, as pairs of a name and
  its value: \<open>errno-base.h\<close>, \<open>errno.h\<close>, \<open>signal.h\<close>, \<open>signal-defs.h\<close>, \<open>siginfo.h\<close>, \<open>socket.h\<close>, \<open>sockios.h\<close>, \<open>ioctls.h\<close>,
  \<open>termbits.h\<close>, \<open>termbits-common.h\<close>, \<open>termios.h\<close>, \<open>fcntl.h\<close>, \<open>mman.h\<close>, \<open>mman-common.h\<close>, \<open>poll.h\<close>, \<open>resource.h\<close>,
  \<open>hugetlb_encode.h\<close>, \<open>param.h\<close>, \<open>setup.h\<close>. A name the architecture may override has its generic value;
  an alias has the value of the name it stands for. \<open>struct serial_iso7816\<close> is of \<open>linux/serial.h\<close>.
\<close>

unbundle bit_operations_syntax

section \<open>Error numbers\<close>

definition errno_base :: "(string \<times> int) list" where
  "errno_base =
    [(''EPERM'', 1), (''ENOENT'', 2), (''ESRCH'', 3), (''EINTR'', 4), (''EIO'', 5), (''ENXIO'', 6),
     (''E2BIG'', 7), (''ENOEXEC'', 8), (''EBADF'', 9), (''ECHILD'', 10), (''EAGAIN'', 11),
     (''ENOMEM'', 12), (''EACCES'', 13), (''EFAULT'', 14), (''ENOTBLK'', 15), (''EBUSY'', 16),
     (''EEXIST'', 17), (''EXDEV'', 18), (''ENODEV'', 19), (''ENOTDIR'', 20), (''EISDIR'', 21),
     (''EINVAL'', 22), (''ENFILE'', 23), (''EMFILE'', 24), (''ENOTTY'', 25), (''ETXTBSY'', 26),
     (''EFBIG'', 27), (''ENOSPC'', 28), (''ESPIPE'', 29), (''EROFS'', 30), (''EMLINK'', 31),
     (''EPIPE'', 32), (''EDOM'', 33), (''ERANGE'', 34)]"

definition errno_more :: "(string \<times> int) list" where
  "errno_more =
    [(''EDEADLK'', 35), (''ENAMETOOLONG'', 36), (''ENOLCK'', 37), (''ENOSYS'', 38), (''ENOTEMPTY'', 39),
     (''ELOOP'', 40), (''EWOULDBLOCK'', 11), (''ENOMSG'', 42), (''EIDRM'', 43), (''ECHRNG'', 44),
     (''EL2NSYNC'', 45), (''EL3HLT'', 46), (''EL3RST'', 47), (''ELNRNG'', 48), (''EUNATCH'', 49),
     (''ENOCSI'', 50), (''EL2HLT'', 51), (''EBADE'', 52), (''EBADR'', 53), (''EXFULL'', 54),
     (''ENOANO'', 55), (''EBADRQC'', 56), (''EBADSLT'', 57), (''EDEADLOCK'', 35), (''EBFONT'', 59),
     (''ENOSTR'', 60), (''ENODATA'', 61), (''ETIME'', 62), (''ENOSR'', 63), (''ENONET'', 64),
     (''ENOPKG'', 65), (''EREMOTE'', 66), (''ENOLINK'', 67), (''EADV'', 68), (''ESRMNT'', 69),
     (''ECOMM'', 70), (''EPROTO'', 71), (''EMULTIHOP'', 72), (''EDOTDOT'', 73), (''EBADMSG'', 74),
     (''EOVERFLOW'', 75), (''ENOTUNIQ'', 76), (''EBADFD'', 77), (''EREMCHG'', 78), (''ELIBACC'', 79),
     (''ELIBBAD'', 80), (''ELIBSCN'', 81), (''ELIBMAX'', 82), (''ELIBEXEC'', 83), (''EILSEQ'', 84),
     (''ERESTART'', 85), (''ESTRPIPE'', 86), (''EUSERS'', 87), (''ENOTSOCK'', 88),
     (''EDESTADDRREQ'', 89), (''EMSGSIZE'', 90), (''EPROTOTYPE'', 91), (''ENOPROTOOPT'', 92),
     (''EPROTONOSUPPORT'', 93), (''ESOCKTNOSUPPORT'', 94), (''EOPNOTSUPP'', 95), (''EPFNOSUPPORT'', 96),
     (''EAFNOSUPPORT'', 97), (''EADDRINUSE'', 98), (''EADDRNOTAVAIL'', 99), (''ENETDOWN'', 100),
     (''ENETUNREACH'', 101), (''ENETRESET'', 102), (''ECONNABORTED'', 103), (''ECONNRESET'', 104),
     (''ENOBUFS'', 105), (''EISCONN'', 106), (''ENOTCONN'', 107), (''ESHUTDOWN'', 108),
     (''ETOOMANYREFS'', 109), (''ETIMEDOUT'', 110), (''ECONNREFUSED'', 111), (''EHOSTDOWN'', 112),
     (''EHOSTUNREACH'', 113), (''EALREADY'', 114), (''EINPROGRESS'', 115), (''ESTALE'', 116),
     (''EUCLEAN'', 117), (''ENOTNAM'', 118), (''ENAVAIL'', 119), (''EISNAM'', 120),
     (''EREMOTEIO'', 121), (''EDQUOT'', 122), (''ENOMEDIUM'', 123), (''EMEDIUMTYPE'', 124),
     (''ECANCELED'', 125), (''ENOKEY'', 126), (''EKEYEXPIRED'', 127), (''EKEYREVOKED'', 128),
     (''EKEYREJECTED'', 129), (''EOWNERDEAD'', 130), (''ENOTRECOVERABLE'', 131), (''ERFKILL'', 132),
     (''EHWPOISON'', 133)]"

section \<open>Signals\<close>

definition signals :: "(string \<times> int) list" where
  "signals =
    [(''SIGHUP'', 1), (''SIGINT'', 2), (''SIGQUIT'', 3), (''SIGILL'', 4), (''SIGTRAP'', 5),
     (''SIGABRT'', 6), (''SIGIOT'', 6), (''SIGBUS'', 7), (''SIGFPE'', 8), (''SIGKILL'', 9),
     (''SIGUSR1'', 10), (''SIGSEGV'', 11), (''SIGUSR2'', 12), (''SIGPIPE'', 13), (''SIGALRM'', 14),
     (''SIGTERM'', 15), (''SIGSTKFLT'', 16), (''SIGCHLD'', 17), (''SIGCONT'', 18), (''SIGSTOP'', 19),
     (''SIGTSTP'', 20), (''SIGTTIN'', 21), (''SIGTTOU'', 22), (''SIGURG'', 23), (''SIGXCPU'', 24),
     (''SIGXFSZ'', 25), (''SIGVTALRM'', 26), (''SIGPROF'', 27), (''SIGWINCH'', 28), (''SIGIO'', 29),
     (''SIGPOLL'', 29), (''SIGPWR'', 30), (''SIGSYS'', 31), (''SIGUNUSED'', 31)]"

text \<open>The signal of the core is one of the table (\<open>uapi/evl/signal.h\<close>).\<close>

definition SIGDEBUG :: "int option" where "SIGDEBUG = map_of signals ''SIGXCPU''"

definition signal_limits :: "(string \<times> int) list" where
  "signal_limits =
    [(''SIGRTMIN'', 32), (''SIGRTMAX'', 64), (''MINSIGSTKSZ'', 2048), (''SIGSTKSZ'', 8192)]"

definition sa_flags :: "(string \<times> u32) list" where
  "sa_flags =
    [(''SA_NOCLDSTOP'', 0x00000001), (''SA_NOCLDWAIT'', 0x00000002), (''SA_SIGINFO'', 0x00000004),
     (''SA_UNSUPPORTED'', 0x00000400), (''SA_EXPOSE_TAGBITS'', 0x00000800),
     (''SA_ONSTACK'', 0x08000000), (''SA_RESTART'', 0x10000000), (''SA_NODEFER'', 0x40000000),
     (''SA_RESETHAND'', 0x80000000), (''SA_NOMASK'', 0x40000000), (''SA_ONESHOT'', 0x80000000)]"

definition sig_how :: "(string \<times> int) list" where
  "sig_how =
    [(''SIG_BLOCK'', 0), (''SIG_UNBLOCK'', 1), (''SIG_SETMASK'', 2)]"

definition sig_handlers :: "(string \<times> int) list" where
  "sig_handlers =
    [(''SIG_DFL'', 0), (''SIG_IGN'', 1), (''SIG_ERR'', -1)]"

section \<open>Signal codes\<close>

definition si_codes :: "(string \<times> int) list" where
  "si_codes =
    [(''SI_USER'', 0), (''SI_KERNEL'', 0x80), (''SI_QUEUE'', -1), (''SI_TIMER'', -2),
     (''SI_MESGQ'', -3), (''SI_ASYNCIO'', -4), (''SI_SIGIO'', -5), (''SI_TKILL'', -6),
     (''SI_DETHREAD'', -7), (''SI_ASYNCNL'', -60)]"

text \<open>Who has sent the signal, by its code.\<close>

definition SI_FROMUSER :: "int \<Rightarrow> bool" where "SI_FROMUSER si_code \<longleftrightarrow> si_code \<le> 0"
definition SI_FROMKERNEL :: "int \<Rightarrow> bool" where "SI_FROMKERNEL si_code \<longleftrightarrow> si_code > 0"

definition NSIGILL :: int where [const_defs]: "NSIGILL = 11"
definition NSIGFPE :: int where [const_defs]: "NSIGFPE = 15"
definition NSIGSEGV :: int where [const_defs]: "NSIGSEGV = 10"
definition NSIGBUS :: int where [const_defs]: "NSIGBUS = 5"
definition NSIGTRAP :: int where [const_defs]: "NSIGTRAP = 6"
definition NSIGCHLD :: int where [const_defs]: "NSIGCHLD = 6"
definition NSIGPOLL :: int where [const_defs]: "NSIGPOLL = 6"
definition NSIGSYS :: int where [const_defs]: "NSIGSYS = 2"
definition NSIGEMT :: int where [const_defs]: "NSIGEMT = 1"

definition TRAP_PERF_FLAG_ASYNC :: u32 where "TRAP_PERF_FLAG_ASYNC = push_bit 0 1"

definition ill_codes :: "(string \<times> int) list" where
  "ill_codes =
    [(''ILL_ILLOPC'', 1), (''ILL_ILLOPN'', 2), (''ILL_ILLADR'', 3), (''ILL_ILLTRP'', 4),
     (''ILL_PRVOPC'', 5), (''ILL_PRVREG'', 6), (''ILL_COPROC'', 7), (''ILL_BADSTK'', 8),
     (''ILL_BADIADDR'', 9), (''__ILL_BREAK'', 10), (''__ILL_BNDMOD'', 11)]"

definition fpe_codes :: "(string \<times> int) list" where
  "fpe_codes =
    [(''FPE_INTDIV'', 1), (''FPE_INTOVF'', 2), (''FPE_FLTDIV'', 3), (''FPE_FLTOVF'', 4),
     (''FPE_FLTUND'', 5), (''FPE_FLTRES'', 6), (''FPE_FLTINV'', 7), (''FPE_FLTSUB'', 8),
     (''__FPE_DECOVF'', 9), (''__FPE_DECDIV'', 10), (''__FPE_DECERR'', 11), (''__FPE_INVASC'', 12),
     (''__FPE_INVDEC'', 13), (''FPE_FLTUNK'', 14), (''FPE_CONDTRAP'', 15)]"

definition segv_codes :: "bool \<Rightarrow> (string \<times> int) list" where
  "segv_codes ia64 =
    [(''SEGV_MAPERR'', 1), (''SEGV_ACCERR'', 2), (''SEGV_BNDERR'', 3), (if ia64 then ''__SEGV_PSTKOVF'' else ''SEGV_PKUERR'', 4),
     (''SEGV_ACCADI'', 5), (''SEGV_ADIDERR'', 6), (''SEGV_ADIPERR'', 7), (''SEGV_MTEAERR'', 8),
     (''SEGV_MTESERR'', 9), (''SEGV_CPERR'', 10)]"

definition bus_codes :: "(string \<times> int) list" where
  "bus_codes =
    [(''BUS_ADRALN'', 1), (''BUS_ADRERR'', 2), (''BUS_OBJERR'', 3), (''BUS_MCEERR_AR'', 4),
     (''BUS_MCEERR_AO'', 5)]"

definition trap_codes :: "(string \<times> int) list" where
  "trap_codes =
    [(''TRAP_BRKPT'', 1), (''TRAP_TRACE'', 2), (''TRAP_BRANCH'', 3), (''TRAP_HWBKPT'', 4),
     (''TRAP_UNK'', 5), (''TRAP_PERF'', 6)]"

definition chld_codes :: "(string \<times> int) list" where
  "chld_codes =
    [(''CLD_EXITED'', 1), (''CLD_KILLED'', 2), (''CLD_DUMPED'', 3), (''CLD_TRAPPED'', 4),
     (''CLD_STOPPED'', 5), (''CLD_CONTINUED'', 6)]"

definition poll_codes :: "(string \<times> int) list" where
  "poll_codes =
    [(''POLL_IN'', 1), (''POLL_OUT'', 2), (''POLL_MSG'', 3), (''POLL_ERR'', 4), (''POLL_PRI'', 5),
     (''POLL_HUP'', 6)]"

definition sys_codes :: "(string \<times> int) list" where
  "sys_codes =
    [(''SYS_SECCOMP'', 1), (''SYS_USER_DISPATCH'', 2)]"

definition emt_codes :: "(string \<times> int) list" where
  "emt_codes =
    [(''EMT_TAGOVF'', 1)]"

definition sigev_codes :: "(string \<times> int) list" where
  "sigev_codes =
    [(''SIGEV_SIGNAL'', 0), (''SIGEV_NONE'', 1), (''SIGEV_THREAD'', 2), (''SIGEV_THREAD_ID'', 4)]"

section \<open>Sockets\<close>

definition so_options :: "(string \<times> int) list" where
  "so_options =
    [(''SOL_SOCKET'', 1), (''SO_DEBUG'', 1), (''SO_REUSEADDR'', 2), (''SO_TYPE'', 3), (''SO_ERROR'', 4),
     (''SO_DONTROUTE'', 5), (''SO_BROADCAST'', 6), (''SO_SNDBUF'', 7), (''SO_RCVBUF'', 8),
     (''SO_SNDBUFFORCE'', 32), (''SO_RCVBUFFORCE'', 33), (''SO_KEEPALIVE'', 9), (''SO_OOBINLINE'', 10),
     (''SO_NO_CHECK'', 11), (''SO_PRIORITY'', 12), (''SO_LINGER'', 13), (''SO_BSDCOMPAT'', 14),
     (''SO_REUSEPORT'', 15), (''SO_PASSCRED'', 16), (''SO_PEERCRED'', 17), (''SO_RCVLOWAT'', 18),
     (''SO_SNDLOWAT'', 19), (''SO_RCVTIMEO_OLD'', 20), (''SO_SNDTIMEO_OLD'', 21),
     (''SO_SECURITY_AUTHENTICATION'', 22), (''SO_SECURITY_ENCRYPTION_TRANSPORT'', 23),
     (''SO_SECURITY_ENCRYPTION_NETWORK'', 24), (''SO_BINDTODEVICE'', 25), (''SO_ATTACH_FILTER'', 26),
     (''SO_DETACH_FILTER'', 27), (''SO_GET_FILTER'', 26), (''SO_PEERNAME'', 28),
     (''SO_ACCEPTCONN'', 30), (''SO_PEERSEC'', 31), (''SO_PASSSEC'', 34), (''SO_MARK'', 36),
     (''SO_PROTOCOL'', 38), (''SO_DOMAIN'', 39), (''SO_RXQ_OVFL'', 40), (''SO_WIFI_STATUS'', 41),
     (''SCM_WIFI_STATUS'', 41), (''SO_PEEK_OFF'', 42), (''SO_NOFCS'', 43), (''SO_LOCK_FILTER'', 44),
     (''SO_SELECT_ERR_QUEUE'', 45), (''SO_BUSY_POLL'', 46), (''SO_MAX_PACING_RATE'', 47),
     (''SO_BPF_EXTENSIONS'', 48), (''SO_INCOMING_CPU'', 49), (''SO_ATTACH_BPF'', 50),
     (''SO_DETACH_BPF'', 27), (''SO_ATTACH_REUSEPORT_CBPF'', 51), (''SO_ATTACH_REUSEPORT_EBPF'', 52),
     (''SO_CNX_ADVICE'', 53), (''SCM_TIMESTAMPING_OPT_STATS'', 54), (''SO_MEMINFO'', 55),
     (''SO_INCOMING_NAPI_ID'', 56), (''SO_COOKIE'', 57), (''SCM_TIMESTAMPING_PKTINFO'', 58),
     (''SO_PEERGROUPS'', 59), (''SO_ZEROCOPY'', 60), (''SO_TXTIME'', 61), (''SCM_TXTIME'', 61),
     (''SO_BINDTOIFINDEX'', 62), (''SO_TIMESTAMP_OLD'', 29), (''SO_TIMESTAMPNS_OLD'', 35),
     (''SO_TIMESTAMPING_OLD'', 37), (''SO_TIMESTAMP_NEW'', 63), (''SO_TIMESTAMPNS_NEW'', 64),
     (''SO_TIMESTAMPING_NEW'', 65), (''SO_RCVTIMEO_NEW'', 66), (''SO_SNDTIMEO_NEW'', 67),
     (''SO_DETACH_REUSEPORT_BPF'', 68), (''SO_PREFER_BUSY_POLL'', 69), (''SO_BUSY_POLL_BUDGET'', 70),
     (''SO_NETNS_COOKIE'', 71), (''SO_BUF_LOCK'', 72), (''SO_RESERVE_MEM'', 73), (''SO_TXREHASH'', 74),
     (''SO_RCVMARK'', 75), (''SO_PASSPIDFD'', 76), (''SO_PEERPIDFD'', 77)]"

text \<open>The options with two time formats: which one a program gets by the plain name, from the word size
  and the size of its \<open>time_t\<close>. \<open>x32\<close> stands for \<open>__x86_64__\<close> with \<open>__ILP32__\<close>.\<close>

definition so_time_option :: "nat \<Rightarrow> bool \<Rightarrow> nat \<Rightarrow> int \<Rightarrow> int \<Rightarrow> int" where
  "so_time_option p x32 sizeof_time_t old new =
     (if BITS_PER_LONG p = 64 \<or> x32 then old
      else if sizeof_time_t = c_sizeof p kernel_long_t then old else new)"

definition SO_TIMESTAMP :: "nat \<Rightarrow> bool \<Rightarrow> nat \<Rightarrow> int" where
  "SO_TIMESTAMP p x32 sz = so_time_option p x32 sz 29 63"
definition SO_TIMESTAMPNS :: "nat \<Rightarrow> bool \<Rightarrow> nat \<Rightarrow> int" where
  "SO_TIMESTAMPNS p x32 sz = so_time_option p x32 sz 35 64"
definition SO_TIMESTAMPING :: "nat \<Rightarrow> bool \<Rightarrow> nat \<Rightarrow> int" where
  "SO_TIMESTAMPING p x32 sz = so_time_option p x32 sz 37 65"
definition SO_RCVTIMEO :: "nat \<Rightarrow> bool \<Rightarrow> nat \<Rightarrow> int" where
  "SO_RCVTIMEO p x32 sz = so_time_option p x32 sz 20 66"
definition SO_SNDTIMEO :: "nat \<Rightarrow> bool \<Rightarrow> nat \<Rightarrow> int" where
  "SO_SNDTIMEO p x32 sz = so_time_option p x32 sz 21 67"
definition SCM_TIMESTAMP :: "nat \<Rightarrow> bool \<Rightarrow> nat \<Rightarrow> int" where "SCM_TIMESTAMP = SO_TIMESTAMP"
definition SCM_TIMESTAMPNS :: "nat \<Rightarrow> bool \<Rightarrow> nat \<Rightarrow> int" where "SCM_TIMESTAMPNS = SO_TIMESTAMPNS"
definition SCM_TIMESTAMPING :: "nat \<Rightarrow> bool \<Rightarrow> nat \<Rightarrow> int" where "SCM_TIMESTAMPING = SO_TIMESTAMPING"

definition sock_ioctls :: "(string \<times> u32) list" where
  "sock_ioctls =
    [(''FIOSETOWN'', 0x8901), (''SIOCSPGRP'', 0x8902), (''FIOGETOWN'', 0x8903), (''SIOCGPGRP'', 0x8904),
     (''SIOCATMARK'', 0x8905), (''SIOCGSTAMP_OLD'', 0x8906), (''SIOCGSTAMPNS_OLD'', 0x8907)]"

section \<open>Terminals\<close>

definition tty_ioctls :: "c_type \<Rightarrow> (string \<times> u32) list" where
  "tty_ioctls serial_iso7816 =
    [(''TCGETS'', 0x5401), (''TCSETS'', 0x5402), (''TCSETSW'', 0x5403), (''TCSETSF'', 0x5404),
     (''TCGETA'', 0x5405), (''TCSETA'', 0x5406), (''TCSETAW'', 0x5407), (''TCSETAF'', 0x5408),
     (''TCSBRK'', 0x5409), (''TCXONC'', 0x540A), (''TCFLSH'', 0x540B), (''TIOCEXCL'', 0x540C),
     (''TIOCNXCL'', 0x540D), (''TIOCSCTTY'', 0x540E), (''TIOCGPGRP'', 0x540F), (''TIOCSPGRP'', 0x5410),
     (''TIOCOUTQ'', 0x5411), (''TIOCSTI'', 0x5412), (''TIOCGWINSZ'', 0x5413), (''TIOCSWINSZ'', 0x5414),
     (''TIOCMGET'', 0x5415), (''TIOCMBIS'', 0x5416), (''TIOCMBIC'', 0x5417), (''TIOCMSET'', 0x5418),
     (''TIOCGSOFTCAR'', 0x5419), (''TIOCSSOFTCAR'', 0x541A), (''FIONREAD'', 0x541B),
     (''TIOCINQ'', 0x541B), (''TIOCLINUX'', 0x541C), (''TIOCCONS'', 0x541D), (''TIOCGSERIAL'', 0x541E),
     (''TIOCSSERIAL'', 0x541F), (''TIOCPKT'', 0x5420), (''FIONBIO'', 0x5421), (''TIOCNOTTY'', 0x5422),
     (''TIOCSETD'', 0x5423), (''TIOCGETD'', 0x5424), (''TCSBRKP'', 0x5425), (''TIOCSBRK'', 0x5427),
     (''TIOCCBRK'', 0x5428), (''TIOCGSID'', 0x5429), (''TCGETS2'', raw_IOR 0x54 0x2A termios2),
     (''TCSETS2'', raw_IOW 0x54 0x2B termios2), (''TCSETSW2'', raw_IOW 0x54 0x2C termios2),
     (''TCSETSF2'', raw_IOW 0x54 0x2D termios2), (''TIOCGRS485'', 0x542E), (''TIOCSRS485'', 0x542F),
     (''TIOCGPTN'', raw_IOR 0x54 0x30 C_u32), (''TIOCSPTLCK'', raw_IOW 0x54 0x31 C_int),
     (''TIOCGDEV'', raw_IOR 0x54 0x32 C_u32), (''TCGETX'', 0x5432), (''TCSETX'', 0x5433),
     (''TCSETXF'', 0x5434), (''TCSETXW'', 0x5435), (''TIOCSIG'', raw_IOW 0x54 0x36 C_int),
     (''TIOCVHANGUP'', 0x5437), (''TIOCGPKT'', raw_IOR 0x54 0x38 C_int),
     (''TIOCGPTLCK'', raw_IOR 0x54 0x39 C_int), (''TIOCGEXCL'', raw_IOR 0x54 0x40 C_int),
     (''TIOCGPTPEER'', raw_IO 0x54 0x41), (''TIOCGISO7816'', raw_IOR 0x54 0x42 serial_iso7816),
     (''TIOCSISO7816'', raw_IOWR 0x54 0x43 serial_iso7816), (''FIONCLEX'', 0x5450),
     (''FIOCLEX'', 0x5451), (''FIOASYNC'', 0x5452), (''TIOCSERCONFIG'', 0x5453),
     (''TIOCSERGWILD'', 0x5454), (''TIOCSERSWILD'', 0x5455), (''TIOCGLCKTRMIOS'', 0x5456),
     (''TIOCSLCKTRMIOS'', 0x5457), (''TIOCSERGSTRUCT'', 0x5458), (''TIOCSERGETLSR'', 0x5459),
     (''TIOCSERGETMULTI'', 0x545A), (''TIOCSERSETMULTI'', 0x545B), (''TIOCMIWAIT'', 0x545C),
     (''TIOCGICOUNT'', 0x545D), (''FIOQSIZE'', 0x5460)]"

definition tty_pkt_flags :: "(string \<times> u32) list" where
  "tty_pkt_flags =
    [(''TIOCPKT_DATA'', 0), (''TIOCPKT_FLUSHREAD'', 1), (''TIOCPKT_FLUSHWRITE'', 2),
     (''TIOCPKT_STOP'', 4), (''TIOCPKT_START'', 8), (''TIOCPKT_NOSTOP'', 16), (''TIOCPKT_DOSTOP'', 32),
     (''TIOCPKT_IOCTL'', 64)]"

definition TIOCSER_TEMT :: u32 where "TIOCSER_TEMT = 0x01"

definition tty_cc :: "(string \<times> int) list" where
  "tty_cc =
    [(''VINTR'', 0), (''VQUIT'', 1), (''VERASE'', 2), (''VKILL'', 3), (''VEOF'', 4), (''VTIME'', 5),
     (''VMIN'', 6), (''VSWTC'', 7), (''VSTART'', 8), (''VSTOP'', 9), (''VSUSP'', 10), (''VEOL'', 11),
     (''VREPRINT'', 12), (''VDISCARD'', 13), (''VWERASE'', 14), (''VLNEXT'', 15), (''VEOL2'', 16)]"

definition tty_iflags :: "(string \<times> u32) list" where
  "tty_iflags =
    [(''IUCLC'', 0x0200), (''IXON'', 0x0400), (''IXOFF'', 0x1000), (''IMAXBEL'', 0x2000),
     (''IUTF8'', 0x4000)]"

definition tty_iflags_common :: "(string \<times> u32) list" where
  "tty_iflags_common =
    [(''IGNBRK'', 0x001), (''BRKINT'', 0x002), (''IGNPAR'', 0x004), (''PARMRK'', 0x008),
     (''INPCK'', 0x010), (''ISTRIP'', 0x020), (''INLCR'', 0x040), (''IGNCR'', 0x080),
     (''ICRNL'', 0x100), (''IXANY'', 0x800)]"

definition tty_oflags :: "(string \<times> u32) list" where
  "tty_oflags =
    [(''OLCUC'', 0x00002), (''ONLCR'', 0x00004), (''NLDLY'', 0x00100), (''NL0'', 0x00000),
     (''NL1'', 0x00100), (''CRDLY'', 0x00600), (''CR0'', 0x00000), (''CR1'', 0x00200),
     (''CR2'', 0x00400), (''CR3'', 0x00600), (''TABDLY'', 0x01800), (''TAB0'', 0x00000),
     (''TAB1'', 0x00800), (''TAB2'', 0x01000), (''TAB3'', 0x01800), (''XTABS'', 0x01800),
     (''BSDLY'', 0x02000), (''BS0'', 0x00000), (''BS1'', 0x02000), (''VTDLY'', 0x04000),
     (''VT0'', 0x00000), (''VT1'', 0x04000), (''FFDLY'', 0x08000), (''FF0'', 0x00000),
     (''FF1'', 0x08000)]"

definition tty_oflags_common :: "(string \<times> u32) list" where
  "tty_oflags_common =
    [(''OPOST'', 0x01), (''OCRNL'', 0x08), (''ONOCR'', 0x10), (''ONLRET'', 0x20), (''OFILL'', 0x40),
     (''OFDEL'', 0x80)]"

definition tty_cflags :: "(string \<times> u32) list" where
  "tty_cflags =
    [(''CBAUD'', 0x0000100f), (''CSIZE'', 0x00000030), (''CS5'', 0x00000000), (''CS6'', 0x00000010),
     (''CS7'', 0x00000020), (''CS8'', 0x00000030), (''CSTOPB'', 0x00000040), (''CREAD'', 0x00000080),
     (''PARENB'', 0x00000100), (''PARODD'', 0x00000200), (''HUPCL'', 0x00000400),
     (''CLOCAL'', 0x00000800), (''CBAUDEX'', 0x00001000), (''BOTHER'', 0x00001000)]"

definition tty_speeds_ext :: "(string \<times> u32) list" where
  "tty_speeds_ext =
    [(''B57600'', 0x00001001), (''B115200'', 0x00001002), (''B230400'', 0x00001003),
     (''B460800'', 0x00001004), (''B500000'', 0x00001005), (''B576000'', 0x00001006),
     (''B921600'', 0x00001007), (''B1000000'', 0x00001008), (''B1152000'', 0x00001009),
     (''B1500000'', 0x0000100a), (''B2000000'', 0x0000100b), (''B2500000'', 0x0000100c),
     (''B3000000'', 0x0000100d), (''B3500000'', 0x0000100e), (''B4000000'', 0x0000100f)]"

definition tty_speeds :: "(string \<times> u32) list" where
  "tty_speeds =
    [(''B0'', 0x00000000), (''B50'', 0x00000001), (''B75'', 0x00000002), (''B110'', 0x00000003),
     (''B134'', 0x00000004), (''B150'', 0x00000005), (''B200'', 0x00000006), (''B300'', 0x00000007),
     (''B600'', 0x00000008), (''B1200'', 0x00000009), (''B1800'', 0x0000000a), (''B2400'', 0x0000000b),
     (''B4800'', 0x0000000c), (''B9600'', 0x0000000d), (''B19200'', 0x0000000e),
     (''B38400'', 0x0000000f)]"

definition tty_cflags_common :: "(string \<times> u32) list" where
  "tty_cflags_common =
    [(''ADDRB'', 0x20000000), (''CMSPAR'', 0x40000000), (''CRTSCTS'', 0x80000000)]"

definition EXTA :: u32 where "EXTA = 0x0e"
definition EXTB :: u32 where "EXTB = 0x0f"
definition CBAUD :: u32 where [flag_defs]: "CBAUD = 0x0000100f"
definition CIBAUD :: u32 where [flag_defs]: "CIBAUD = 0x100f0000"
definition IBSHIFT :: nat where [flag_defs]: "IBSHIFT = 16"

definition tty_lflags :: "(string \<times> u32) list" where
  "tty_lflags =
    [(''ISIG'', 0x00001), (''ICANON'', 0x00002), (''XCASE'', 0x00004), (''ECHO'', 0x00008),
     (''ECHOE'', 0x00010), (''ECHOK'', 0x00020), (''ECHONL'', 0x00040), (''NOFLSH'', 0x00080),
     (''TOSTOP'', 0x00100), (''ECHOCTL'', 0x00200), (''ECHOPRT'', 0x00400), (''ECHOKE'', 0x00800),
     (''FLUSHO'', 0x01000), (''PENDIN'', 0x04000), (''IEXTEN'', 0x08000), (''EXTPROC'', 0x10000)]"

definition tty_set :: "(string \<times> int) list" where
  "tty_set =
    [(''TCSANOW'', 0), (''TCSADRAIN'', 1), (''TCSAFLUSH'', 2)]"

definition tty_flow :: "(string \<times> int) list" where
  "tty_flow =
    [(''TCOOFF'', 0), (''TCOON'', 1), (''TCIOFF'', 2), (''TCION'', 3)]"

definition tty_flush :: "(string \<times> int) list" where
  "tty_flush =
    [(''TCIFLUSH'', 0), (''TCOFLUSH'', 1), (''TCIOFLUSH'', 2)]"

definition tty_modem :: "(string \<times> u32) list" where
  "tty_modem =
    [(''TIOCM_LE'', 0x001), (''TIOCM_DTR'', 0x002), (''TIOCM_RTS'', 0x004), (''TIOCM_ST'', 0x008),
     (''TIOCM_SR'', 0x010), (''TIOCM_CTS'', 0x020), (''TIOCM_CAR'', 0x040), (''TIOCM_RNG'', 0x080),
     (''TIOCM_DSR'', 0x100), (''TIOCM_CD'', 0x040), (''TIOCM_RI'', 0x080), (''TIOCM_OUT1'', 0x2000),
     (''TIOCM_OUT2'', 0x4000), (''TIOCM_LOOP'', 0x8000)]"

section \<open>File control\<close>

definition fcntl_cmds :: "(string \<times> int) list" where
  "fcntl_cmds =
    [(''F_DUPFD'', 0), (''F_GETFD'', 1), (''F_SETFD'', 2), (''F_GETFL'', 3), (''F_SETFL'', 4),
     (''F_GETLK'', 5), (''F_SETLK'', 6), (''F_SETLKW'', 7), (''F_SETOWN'', 8), (''F_GETOWN'', 9),
     (''F_SETSIG'', 10), (''F_GETSIG'', 11)]"

definition fcntl_lock64_cmds :: "(string \<times> int) list" where
  "fcntl_lock64_cmds =
    [(''F_GETLK64'', 12), (''F_SETLK64'', 13), (''F_SETLKW64'', 14)]"

definition fcntl_more_cmds :: "(string \<times> int) list" where
  "fcntl_more_cmds =
    [(''F_SETOWN_EX'', 15), (''F_GETOWN_EX'', 16), (''F_GETOWNER_UIDS'', 17)]"

definition fcntl_ofd_cmds :: "(string \<times> int) list" where
  "fcntl_ofd_cmds =
    [(''F_OFD_GETLK'', 36), (''F_OFD_SETLK'', 37), (''F_OFD_SETLKW'', 38)]"

definition F_LINUX_SPECIFIC_BASE :: int where "F_LINUX_SPECIFIC_BASE = 1024"
definition FD_CLOEXEC :: int where "FD_CLOEXEC = 1"

text \<open>The commands a build has: the 64-bit lock commands are for 32-bit programs and the kernel.\<close>

definition fcntl_table :: "nat \<Rightarrow> bool \<Rightarrow> (string \<times> int) list" where
  "fcntl_table p in_kernel = fcntl_cmds @
     (if BITS_PER_LONG p = 32 \<or> in_kernel then fcntl_lock64_cmds else []) @ fcntl_more_cmds @ fcntl_ofd_cmds"

definition fcntl_owners :: "(string \<times> int) list" where
  "fcntl_owners =
    [(''F_OWNER_TID'', 0), (''F_OWNER_PID'', 1), (''F_OWNER_PGRP'', 2)]"

definition fcntl_locks :: "(string \<times> int) list" where
  "fcntl_locks =
    [(''F_RDLCK'', 0), (''F_WRLCK'', 1), (''F_UNLCK'', 2), (''F_EXLCK'', 4), (''F_SHLCK'', 8)]"

definition flock_ops :: "(string \<times> u32) list" where
  "flock_ops =
    [(''LOCK_SH'', 1), (''LOCK_EX'', 2), (''LOCK_NB'', 4), (''LOCK_UN'', 8), (''LOCK_MAND'', 32),
     (''LOCK_READ'', 64), (''LOCK_WRITE'', 128), (''LOCK_RW'', 192)]"

section \<open>Memory mappings\<close>

definition mmap_prot :: "(string \<times> u32) list" where
  "mmap_prot =
    [(''PROT_READ'', 0x1), (''PROT_WRITE'', 0x2), (''PROT_EXEC'', 0x4), (''PROT_SEM'', 0x8),
     (''PROT_NONE'', 0x0), (''PROT_GROWSDOWN'', 0x01000000), (''PROT_GROWSUP'', 0x02000000)]"

definition mmap_flags_common :: "(string \<times> u32) list" where
  "mmap_flags_common =
    [(''MAP_TYPE'', 0x0f), (''MAP_FIXED'', 0x10), (''MAP_ANONYMOUS'', 0x20),
     (''MAP_POPULATE'', 0x008000), (''MAP_NONBLOCK'', 0x010000), (''MAP_STACK'', 0x020000),
     (''MAP_HUGETLB'', 0x040000), (''MAP_SYNC'', 0x080000), (''MAP_FIXED_NOREPLACE'', 0x100000),
     (''MAP_UNINITIALIZED'', 0x4000000)]"

definition mmap_flags :: "(string \<times> u32) list" where
  "mmap_flags =
    [(''MAP_GROWSDOWN'', 0x0100), (''MAP_DENYWRITE'', 0x0800), (''MAP_EXECUTABLE'', 0x1000),
     (''MAP_LOCKED'', 0x2000), (''MAP_NORESERVE'', 0x4000)]"

definition MAP_FILE :: u32 where "MAP_FILE = 0"

definition mlock_flags :: "(string \<times> u32) list" where
  "mlock_flags =
    [(''MCL_CURRENT'', 1), (''MCL_FUTURE'', 2), (''MCL_ONFAULT'', 4)]"

definition MLOCK_ONFAULT :: u32 where "MLOCK_ONFAULT = 0x01"

definition msync_flags :: "(string \<times> u32) list" where
  "msync_flags =
    [(''MS_ASYNC'', 1), (''MS_INVALIDATE'', 2), (''MS_SYNC'', 4)]"

definition madv_codes :: "(string \<times> int) list" where
  "madv_codes =
    [(''MADV_NORMAL'', 0), (''MADV_RANDOM'', 1), (''MADV_SEQUENTIAL'', 2), (''MADV_WILLNEED'', 3),
     (''MADV_DONTNEED'', 4), (''MADV_FREE'', 8), (''MADV_REMOVE'', 9), (''MADV_DONTFORK'', 10),
     (''MADV_DOFORK'', 11), (''MADV_HWPOISON'', 100), (''MADV_SOFT_OFFLINE'', 101),
     (''MADV_MERGEABLE'', 12), (''MADV_UNMERGEABLE'', 13), (''MADV_HUGEPAGE'', 14),
     (''MADV_NOHUGEPAGE'', 15), (''MADV_DONTDUMP'', 16), (''MADV_DODUMP'', 17),
     (''MADV_WIPEONFORK'', 18), (''MADV_KEEPONFORK'', 19), (''MADV_COLD'', 20), (''MADV_PAGEOUT'', 21),
     (''MADV_POPULATE_READ'', 22), (''MADV_POPULATE_WRITE'', 23), (''MADV_DONTNEED_LOCKED'', 24),
     (''MADV_COLLAPSE'', 25)]"

definition pkey_flags :: "(string \<times> u32) list" where
  "pkey_flags =
    [(''PKEY_DISABLE_ACCESS'', 0x1), (''PKEY_DISABLE_WRITE'', 0x2), (''PKEY_ACCESS_MASK'', 3)]"

section \<open>Polling, limits, huge pages\<close>

definition poll_events :: "(string \<times> u32) list" where
  "poll_events =
    [(''POLLIN'', 0x0001), (''POLLPRI'', 0x0002), (''POLLOUT'', 0x0004), (''POLLERR'', 0x0008),
     (''POLLHUP'', 0x0010), (''POLLNVAL'', 0x0020), (''POLLRDNORM'', 0x0040), (''POLLRDBAND'', 0x0080),
     (''POLLWRNORM'', 0x0100), (''POLLWRBAND'', 0x0200), (''POLLMSG'', 0x0400),
     (''POLLREMOVE'', 0x1000), (''POLLRDHUP'', 0x2000), (''POLLFREE'', 0x4000),
     (''POLL_BUSY_LOOP'', 0x8000)]"

definition rlimits :: "(string \<times> int) list" where
  "rlimits =
    [(''RLIMIT_CPU'', 0), (''RLIMIT_FSIZE'', 1), (''RLIMIT_DATA'', 2), (''RLIMIT_STACK'', 3),
     (''RLIMIT_CORE'', 4), (''RLIMIT_RSS'', 5), (''RLIMIT_NPROC'', 6), (''RLIMIT_NOFILE'', 7),
     (''RLIMIT_MEMLOCK'', 8), (''RLIMIT_AS'', 9), (''RLIMIT_LOCKS'', 10), (''RLIMIT_SIGPENDING'', 11),
     (''RLIMIT_MSGQUEUE'', 12), (''RLIMIT_NICE'', 13), (''RLIMIT_RTPRIO'', 14), (''RLIMIT_RTTIME'', 15)]"

definition RLIM_NLIMITS :: int where "RLIM_NLIMITS = 16"
definition RLIM_INFINITY :: u64 where "RLIM_INFINITY = NOT 0"

definition HUGETLB_FLAG_ENCODE_SHIFT :: nat where [flag_defs]: "HUGETLB_FLAG_ENCODE_SHIFT = 26"
definition HUGETLB_FLAG_ENCODE_MASK :: u32 where [flag_defs]: "HUGETLB_FLAG_ENCODE_MASK = 0x3f"

definition hugetlb_codes :: "(string \<times> u32) list" where
  "hugetlb_codes =
    [(''HUGETLB_FLAG_ENCODE_16KB'', push_bit HUGETLB_FLAG_ENCODE_SHIFT 14),
     (''HUGETLB_FLAG_ENCODE_64KB'', push_bit HUGETLB_FLAG_ENCODE_SHIFT 16),
     (''HUGETLB_FLAG_ENCODE_512KB'', push_bit HUGETLB_FLAG_ENCODE_SHIFT 19),
     (''HUGETLB_FLAG_ENCODE_1MB'', push_bit HUGETLB_FLAG_ENCODE_SHIFT 20),
     (''HUGETLB_FLAG_ENCODE_2MB'', push_bit HUGETLB_FLAG_ENCODE_SHIFT 21),
     (''HUGETLB_FLAG_ENCODE_8MB'', push_bit HUGETLB_FLAG_ENCODE_SHIFT 23),
     (''HUGETLB_FLAG_ENCODE_16MB'', push_bit HUGETLB_FLAG_ENCODE_SHIFT 24),
     (''HUGETLB_FLAG_ENCODE_32MB'', push_bit HUGETLB_FLAG_ENCODE_SHIFT 25),
     (''HUGETLB_FLAG_ENCODE_256MB'', push_bit HUGETLB_FLAG_ENCODE_SHIFT 28),
     (''HUGETLB_FLAG_ENCODE_512MB'', push_bit HUGETLB_FLAG_ENCODE_SHIFT 29),
     (''HUGETLB_FLAG_ENCODE_1GB'', push_bit HUGETLB_FLAG_ENCODE_SHIFT 30),
     (''HUGETLB_FLAG_ENCODE_2GB'', push_bit HUGETLB_FLAG_ENCODE_SHIFT 31),
     (''HUGETLB_FLAG_ENCODE_16GB'', push_bit HUGETLB_FLAG_ENCODE_SHIFT 34)]"

section \<open>Other parameters\<close>

definition HZ :: int where "HZ = 100"
definition EXEC_PAGESIZE :: int where "EXEC_PAGESIZE = 4096"
definition NOGROUP :: int where "NOGROUP = -1"
definition MAXHOSTNAMELEN :: int where "MAXHOSTNAMELEN = 64"
definition COMMAND_LINE_SIZE :: int where "COMMAND_LINE_SIZE = 512"

section \<open>What the tables promise\<close>

text \<open>The numbers of errors: the base ones in order, then the others, 41 and 58 unused.\<close>

lemma errno_base_numbers: "map snd errno_base = [1..34]"
  by (simp add: errno_base_def upto.simps)

lemma errno_numbers:
  "distinct (map snd (filter (\<lambda>(n, e). n \<notin> {''EWOULDBLOCK'', ''EDEADLOCK''}) (errno_base @ errno_more)))"
  by code_simp

text \<open>The numbers the core returns are the ones of the tables.\<close>

lemma core_errnos_listed:
  "map (map_of (errno_base @ errno_more)) [''ENXIO'', ''EAGAIN'', ''ENOMEM'', ''EINVAL'', ''EOPNOTSUPP''] =
   map Some [ENXIO, EAGAIN, ENOMEM, EINVAL, EOPNOTSUPP]"
  by code_simp

text \<open>The codes of a signal that the kernel raises are numbered from 1 to the count the header
  announces for the signal, with nothing in between left out, for each of the nine signals that have
  their own codes and for either variant of the memory fault codes; all of them are told apart from
  what a process sends, and of the general codes only \<open>SI_KERNEL\<close> comes from the kernel.\<close>

lemma si_codes_fill_their_ranges:
  "map snd ill_codes = [1..NSIGILL] \<and> map snd fpe_codes = [1..NSIGFPE] \<and> map snd (segv_codes ia64) = [1..NSIGSEGV] \<and>
   map snd bus_codes = [1..NSIGBUS] \<and> map snd trap_codes = [1..NSIGTRAP] \<and> map snd chld_codes = [1..NSIGCHLD] \<and>
   map snd poll_codes = [1..NSIGPOLL] \<and> map snd sys_codes = [1..NSIGSYS] \<and> map snd emt_codes = [1..NSIGEMT] \<and>
   list_all (\<lambda>(n, c). SI_FROMKERNEL c \<and> \<not> SI_FROMUSER c)
     (ill_codes @ fpe_codes @ segv_codes ia64 @ bus_codes @ trap_codes @ chld_codes @ poll_codes @ sys_codes @ emt_codes) \<and>
   map fst (filter (\<lambda>(n, c). SI_FROMKERNEL c) si_codes) = [''SI_KERNEL''] \<and> distinct (map snd si_codes)"
  by (simp add: ill_codes_def fpe_codes_def segv_codes_def bus_codes_def trap_codes_def chld_codes_def
      poll_codes_def sys_codes_def emt_codes_def si_codes_def const_defs upto.simps SI_FROMKERNEL_def SI_FROMUSER_def)

text \<open>A terminal keeps its output speed in the bits \<open>CBAUD\<close> of the control modes and its input speed,
  shifted, in \<open>CIBAUD\<close>.\<close>

definition is_speed :: "u32 \<Rightarrow> bool" where
  "is_speed b \<longleftrightarrow> b \<in> set (map snd (tty_speeds @ tty_speeds_ext))"

lemma speeds_in_field:
  "list_all (\<lambda>(n, b). b AND CBAUD = b \<and> push_bit IBSHIFT b AND CBAUD = 0 \<and> b AND CIBAUD = 0 \<and>
     push_bit IBSHIFT b AND CIBAUD = push_bit IBSHIFT b \<and> drop_bit IBSHIFT (push_bit IBSHIFT b) = b)
     (tty_speeds @ tty_speeds_ext)"
  by (simp add: tty_speeds_def tty_speeds_ext_def flag_defs)

lemma speed_in_field:
  assumes "is_speed b"
  shows "b AND CBAUD = b" "push_bit IBSHIFT b AND CBAUD = 0" "b AND CIBAUD = 0"
    "push_bit IBSHIFT b AND CIBAUD = push_bit IBSHIFT b" "drop_bit IBSHIFT (push_bit IBSHIFT b) = b"
  using assms speeds_in_field by (auto simp: is_speed_def list_all_iff)

lemma clear_disjoint:
  fixes x :: "'a :: len word"
  assumes "x AND m = 0"
  shows "x AND NOT m = x"
proof -
  have "x = x AND (m OR NOT m)" by simp
  also have "\<dots> = (x AND m) OR (x AND NOT m)" by (rule bit.conj_disj_distrib)
  finally show ?thesis using assms by simp
qed

lemma clear_covered: "b AND m = b \<Longrightarrow> b AND NOT m = (0 :: 'a :: len word)"
  by (metis and.assoc bit.conj_cancel_right bit.conj_zero_right)

lemma modes_outside_speeds:
  "list_all (\<lambda>(n, m). m AND (CBAUD OR CIBAUD) = 0)
     (filter (\<lambda>(n, m). n \<notin> {''CBAUD'', ''CBAUDEX'', ''BOTHER''}) tty_cflags @ tty_cflags_common)"
  by (simp add: tty_cflags_def tty_cflags_common_def flag_defs)

text \<open>The two speeds of a terminal and its other control modes do not disturb each other: with any
  modes outside of the speed fields, what \<open>CBAUD\<close> and \<open>CIBAUD\<close> read back is what was put in, for each
  pair of speeds of the tables; the codes of different speeds differ; and each mode of the tables is
  outside of the fields.\<close>

lemma tty_speeds_roundtrip:
  assumes "is_speed out" and "is_speed inp" and "modes AND (CBAUD OR CIBAUD) = 0"
  shows "let c = modes OR out OR push_bit IBSHIFT inp in
    c AND CBAUD = out \<and> drop_bit IBSHIFT (c AND CIBAUD) = inp \<and> c AND NOT (CBAUD OR CIBAUD) = modes \<and>
    distinct (map snd (tty_speeds @ tty_speeds_ext)) \<and>
    list_all (\<lambda>(n, m). m AND (CBAUD OR CIBAUD) = 0)
      (filter (\<lambda>(n, m). n \<notin> {''CBAUD'', ''CBAUDEX'', ''BOTHER''}) tty_cflags @ tty_cflags_common)"
proof -
  have m: "modes AND CBAUD = 0" "modes AND CIBAUD = 0"
    using arg_cong [OF assms(3), of "\<lambda>x. x AND CBAUD"] arg_cong [OF assms(3), of "\<lambda>x. x AND CIBAUD"]
    by (simp_all add: and.assoc flag_defs)
  have "modes AND NOT (CBAUD OR CIBAUD) = modes" by (rule clear_disjoint [OF assms(3)])
  moreover have "out AND NOT (CBAUD OR CIBAUD) = 0" "push_bit IBSHIFT inp AND NOT (CBAUD OR CIBAUD) = 0"
    using speed_in_field [OF assms(1)] speed_in_field [OF assms(2)]
    by (intro clear_covered; simp add: bit.conj_disj_distrib)+
  moreover have "distinct (map snd (tty_speeds @ tty_speeds_ext))"
    by (simp add: tty_speeds_def tty_speeds_ext_def)
  moreover have "(modes OR out OR push_bit IBSHIFT inp) AND CIBAUD = push_bit IBSHIFT inp"
    "(modes OR out OR push_bit IBSHIFT inp) AND CBAUD = out"
    using m speed_in_field [OF assms(1)] speed_in_field [OF assms(2)] by (simp_all add: bit.conj_disj_distrib2)
  ultimately show ?thesis
    using speed_in_field(5) [OF assms(2)] modes_outside_speeds
    unfolding Let_def by (simp add: bit.conj_disj_distrib2 del: drop_bit_and)
qed

lemma tty_speeds_roundtrip_witness:
  "(let c = 0x80000000 OR 0x1002 OR push_bit IBSHIFT 0xd in (c AND CBAUD, drop_bit IBSHIFT (c AND CIBAUD))) = (0x1002, 0xd :: u32)"
proof -
  have "is_speed 0x1002" "is_speed 0xd"
    by (simp_all add: is_speed_def tty_speeds_def tty_speeds_ext_def)
  moreover have "(0x80000000 :: u32) AND (CBAUD OR CIBAUD) = 0" by (simp add: flag_defs)
  ultimately show ?thesis using tty_speeds_roundtrip [of "0x1002" "0xd" "0x80000000"] by (simp add: Let_def)
qed

text \<open>
  A huge page size takes the bits 26 to 31 of the mapping flags, which hold its binary logarithm; of the
  other flags \<open>MAP_UNINITIALIZED\<close> alone lies in these bits, although \<open>mman.h\<close> says that they are reserved.
\<close>

lemma hugetlb_field:
  "map (\<lambda>(n, v). unat (drop_bit HUGETLB_FLAG_ENCODE_SHIFT v AND HUGETLB_FLAG_ENCODE_MASK)) hugetlb_codes =
     [14, 16, 19, 20, 21, 23, 24, 25, 28, 29, 30, 31, 34]"
  by (simp add: hugetlb_codes_def flag_defs)

lemma mmap_flags_in_hugetlb_field:
  "map fst (filter (\<lambda>(n, v). v AND push_bit HUGETLB_FLAG_ENCODE_SHIFT HUGETLB_FLAG_ENCODE_MASK \<noteq> 0)
     (mmap_flags_common @ mmap_flags)) = [''MAP_UNINITIALIZED'']"
  by (simp add: mmap_flags_common_def mmap_flags_def flag_defs)

text \<open>The commands of \<open>fcntl\<close> and the events of \<open>poll\<close> are told apart.\<close>

lemma fcntl_commands_distinct: "distinct (map snd (fcntl_table p k))"
  by (cases "BITS_PER_LONG p = 32 \<or> k")
    (simp_all add: fcntl_table_def fcntl_cmds_def fcntl_lock64_cmds_def fcntl_more_cmds_def fcntl_ofd_cmds_def)

lemma poll_events_disjoint:
  "sorted_wrt (\<lambda>x y. snd x AND snd y = 0) poll_events"
  by (simp add: poll_events_def)

lemma SIGDEBUG_is_xcpu: "SIGDEBUG = Some 24"
  by (simp add: SIGDEBUG_def signals_def)

end
