(* ===== verification/Spec2Isabelle.thy ===== *)
theory Spec2Isabelle
  imports Sched_Mlq Sched_Policy Sched_Sections Flag_Waiters Evl_Crossing Irq_Stages Irq_Builds Irq_Trace Evl_Memory
    Evl_Factory Evl_Builds Evl_Uapi Linux_Syscalls Linux_Tables
begin

text \<open>
  A model of the EVL real-time core (Xenomai 4) as this repository overlays it on the SpacemiT K1
  kernel: the headers under \<open>src/kernel-overlay/include\<close>, the RISC-V interrupt pipeline glue under
  \<open>arch/riscv/include/asm\<close> and the interrupt controller driver \<open>drivers/irqchip/irq-riscv-intc.c\<close>.

  THE PROGRAM. The kernel runs two stages: the in-band one (Linux) and the out-of-band one (EVL),
  which hardware interrupts reach first. The pipeline glue (\<open>irqflags.h\<close>, \<open>irq_pipeline.h\<close>) masks the
  in-band stage with a stall bit in software and keeps the \<open>SR_IE\<close> bit for hard masking. The core has
  per-CPU runqueues of threads in scheduling classes (\<open>evl/sched.h\<close>, \<open>evl/sched/\<close>), timers queued by
  date on per-CPU bases (\<open>evl/timer.h\<close>, \<open>clock.h\<close>), wait queues (\<open>evl/wait.h\<close>) on which flags,
  semaphores and mutexes are built, spinlocks which also hold off rescheduling (\<open>evl/lock.h\<close>),
  crossings and files, a heap, elements with references (\<open>evl/factory.h\<close>), an out-of-band network
  stack, and an ioctl interface with user space (\<open>uapi/evl\<close>). The repository holds the headers of the
  core: what the core's .c files define is an argument of the definitions that use it.

  CONVENTIONS. The modelled build is \<open>configs/k1_evl_defconfig\<close>: riscv64, SMP, quota and TP
  classes, statistics, core assertions; where a header has two builds both are modelled: \<open>mlq\<close> and
  \<open>lin_\<close> for the scalable and the linear runnable queue, \<open>rb_\<close> for the timer queue with a tree,
  \<open>up_\<close> for \<open>!CONFIG_SMP\<close>, \<open>np_\<close> for \<open>!CONFIG_IRQ_PIPELINE\<close>, \<open>ns_\<close> without statistics, \<open>nd_\<close> without
  \<open>CONFIG_EVL_DEBUG_CORE\<close> (and the debug build of the pipeline),
  \<open>nl_\<close> without the lock validator, \<open>nc_\<close> and \<open>nn_\<close> without the core and its network. A C name with leading underscores
  starts with \<open>raw_\<close>. \<open>MAX_RT_PRIO\<close> is the argument \<open>mrp\<close>. Bit sets and wrapping integers are words
  of their width; a signed integer which counts is an \<open>int\<close>; an object reached by pointer is an address
  into a store; a list head, a tree root or a hash bucket is the list of its elements, so that the link
  members of an element (\<open>rq_next\<close>, \<open>index_node\<close>, \<open>hash\<close>) are its place in those lists and not fields of its
  record; a spin on a held lock is \<open>None\<close>; hard
  spinlocks are booleans. Fields of a record carry a prefix of their structure.

  THE THEORIES.
  \<^item> \<open>Evl_Prelude\<close>: machine types, error numbers, \<open>linux/list.h\<close>, descending lists, single-bit masks;
    the collections \<open>flag_defs\<close>, \<open>const_defs\<close> and \<open>evl_defs\<close>.
  \<^item> \<open>Evl_List\<close>: \<open>evl/list.h\<close>, the ordered insertions and their effect on a descending list.
  \<^item> \<open>Sched_Queue\<close>, \<open>Sched_Mlq\<close>: \<open>sched/queue.h\<close>. The locale \<open>sched_queue\<close> is the contract of a runnable
    queue (an invariant, the list of threads in picking order, what an insertion at either end and a
    deletion do to it) and \<open>sched_queue_pick\<close> adds picking; both builds interpret them, so their
    equivalence is two instances of one lemma.
  \<^item> \<open>Evl_Clock\<close>, \<open>Evl_Timer\<close>, \<open>Timer_Ops\<close>: \<open>clock.h\<close>, \<open>timeout.h\<close>, \<open>tick.h\<close>, \<open>timer.h\<close>. The locale
    \<open>timer_queue\<close> is the contract of a timer queue, \<open>timer_base\<close> proves the operations on a base over
    it; the linear and the tree queue interpret them. The tree's insertion is in \<open>timer.c\<close>: an argument,
    assumed to keep the sequence ordered (\<open>rb_insertion\<close>, with an instance).
  \<^item> \<open>Evl_Stat\<close>: \<open>stat.h\<close>, execution time accounting.
  \<^item> \<open>Thread_State\<close>, \<open>Sched_Types\<close>, \<open>Sched_Core\<close>, \<open>Sched_Class\<close>: the status bits of \<open>thread-abi.h\<close>, the
    structures of \<open>sched.h\<close>, \<open>thread.h\<close> and the class headers, the state \<open>kst\<close> of the core seen from one
    CPU, rescheduling requests, preemption and interrupt nesting (\<open>irq.h\<close>), pinning, assertions, and the
    dispatch to the classes. \<open>Sched_Samples\<close> has concrete states; \<open>Sched_Order\<close>, \<open>Sched_Props\<close> and
    \<open>Sched_Pin\<close> the properties. \<open>Sched_Smp\<close> puts the operations of several CPUs together: a step relation
    of requests, scheduler calls, preemption-disabled sections, interrupts and rescheduling IPIs, each CPU
    with its preemption count and stage, and its invariant. \<open>Sched_Sections\<close>
    nests preemption-disabled sections, spinlocks, with and without disabling interrupts, and interrupts
    in each other, as trees. \<open>Sched_Policy\<close> states the FIFO scheduling policy, with a queue of threads for
    every CPU and priority, and refines it to the operations on the runqueues.
  \<^item> \<open>Thread_Ops\<close>: the operations of \<open>thread.h\<close> and \<open>monitor.h\<close>, with a step relation for CPUs that lock
    pairs of threads. \<open>Evl_Wait\<close>: \<open>wait.h\<close>; the waiting loop may not end and is a
    \<open>partial_function\<close>, with the traces of operations it performs and the exact condition under which it returns.
  \<^item> \<open>Evl_Sync\<close>, \<open>Sync_Props\<close>: \<open>flag.h\<close>, \<open>sem.h\<close>, \<open>mutex.h\<close>, \<open>lock.h\<close>. \<open>Flag_Waiters\<close> puts waiting and flags
    together: the waiting macro is cut at its sleeps, and threads that wait, raise, pulse, flush, clear
    and time out on one flag interleave.
  \<^item> \<open>Evl_Crossing\<close>: \<open>crossing.h\<close>, \<open>file.h\<close>, with a step relation of the interleavings, its invariant and
    the measure that bounds every run. \<open>Evl_Memory\<close>: \<open>memory.h\<close>. \<open>Evl_Factory\<close>: \<open>factory.h\<close>, \<open>cache.h\<close>.
  \<^item> \<open>Irq_Pipeline\<close>, \<open>Irq_Props\<close>: the pipeline glue of both architectures' headers; the locale
    \<open>irq_flags_ops\<close> is the contract of a save/restore pair, interpreted on the native operations.
    \<open>Riscv_Intc\<close>: the interrupt controller driver. \<open>Irq_Stages\<close>: hard sections, in-band sections and the
    masks of the driver together, as a refinement of three independent gates. \<open>Irq_Builds\<close>: programs of the
    in-band stage in the builds with and without the pipeline. \<open>Irq_Trace\<close>: the tracepoints of \<open>trace/events/irq.h\<close>,
    what a probe stores and the text it prints.
  \<^item> \<open>Evl_Services\<close>: \<open>control.h\<close>, \<open>work.h\<close>, \<open>poll_head.h\<close>, \<open>poll.h\<close>, \<open>observable.h\<close>, \<open>stax.h\<close>, \<open>uio.h\<close>, \<open>uaccess.h\<close>,
    \<open>init.h\<close>, \<open>asm-generic/evl\<close>. \<open>Evl_Net\<close>: \<open>evl/net\<close>, with the receive account of a socket.
  \<^item> \<open>Evl_Builds\<close>: what the other configurations leave of \<open>stat.h\<close>, \<open>timer.h\<close>, \<open>assert.h\<close>, \<open>lock.h\<close> and the
    pipeline; two runs with and without statistics are related step by step, and so are the checked and
    the plain spinlocks.
  \<^item> \<open>C_Layout\<close>, \<open>Evl_Abi\<close>, \<open>Evl_Ioctl\<close>, \<open>Evl_Uapi\<close>: how C lays out structures and why members are aligned
    and do not overlap, which bytes belong to no member, what depends on the size of a pointer; the structures and the
    requests of \<open>uapi/evl\<close>, the ioctl encoding, the constants and the open flags.
  \<^item> \<open>Linux_Layout\<close>, \<open>Linux_Tables\<close>, \<open>Linux_Syscalls\<close>: the generic Linux interface of \<open>uapi/asm-generic\<close> the
    programs of the core are built against: structures by pointer size, tables of constants, and the
    system call table for every selection of word size, compat and \<open>__ARCH_\<close> macros.

  WHAT IS SHOWN. The two builds of the runnable queue and of the timer queue are interchangeable;
  FIFO runqueues stay ordered under any sequence of core operations on FIFO threads, and implement the
  FIFO policy, while other classes add and delete threads of their own to the same queues (quota has no
  queue of its own) and nothing is assumed of their handlers; rescheduling requests are
  seen once and held off by interrupt sections and spinlocks, and one sent to another CPU is never
  lost over all interleavings, on either stage and inside of preemption-disabled sections too,
  \<open>__evl_schedule\<close> being assumed to serve its runqueue and send the IPIs with preemption enabled and to
  leave the request waiting otherwise (\<open>clears_requests\<close>), and \<open>run_oob_call\<close> to run it out-of-band
  (\<open>escalates\<close>, both with an instance); however sections, spinlocks
  and interrupts nest, no thread is switched away from inside of one, hard interrupts and held locks
  come back as they were, no request is lost and the
  outermost exit serves it, \<open>__evl_schedule\<close> being assumed to leave a section alone
  (\<open>honors_sections\<close>, with an instance); no thread sleeps on a raised flag and a raise releases
  exactly one waiter, the functions of \<open>wait.c\<close> being assumed to link and unlink threads
  (\<open>waitq_contract\<close>, with an instance); two-lock acquisition cannot deadlock and crossings are
  safe and live, over all interleavings; waiting returns exactly for its reasons; execution time
  and receive memory are conserved; statistics and assertions do not influence the core; hard and
  in-band interrupt sections nest in each other and with the masks of the driver, and in-band code
  cannot tell a pipelined kernel from another unless it restores masked flags with interrupts
  enabled; a line of the trace identifies its event; the user interface is unambiguous and well
  formed, its members lie at the same place for both pointer sizes and are as wide except for the pointer of
  a value, the bytes no member owns are where they are listed, every build of the system call table gives a number
  one handler, and the signal information has its announced size for both pointer sizes. Where the
  code does less than it should the theorem says what it does: a failed \<open>evl_spin_trylock\<close> keeps
  preemption disabled, the Andes handlers lose the upper half of the register, \<open>evl_shared_offset\<close>
  turns negative beyond 2 GB.

  BOUNDS. The step counts in \<open>crossing_is_safe_and_live\<close> and \<open>double_lock_never_deadlocks\<close> come from
  measures that each step lowers; no definition uses fuel. Runs of operations are lists of any
  length.

  NOT MODELLED. The placeholders of \<open>include/dovetail\<close>, which are empty types and functions for builds
  without a core; the initializer \<open>EVL_KMUTEX_INITIALIZER\<close>, which names members the structures do not have;
  \<open>int-l64.h\<close>, which \<open>types.h\<close> does not use; weak memory ordering (barriers have no
  effect on the sequential state), lock validator keys, kernel messages, and the shell scripts that
  build and flash images. Prototypes of functions of the core's .c files have no body in the
  repository.
\<close>

end
